(* ===== verification/Prelude.thy ===== *)
theory Prelude
  imports Complex_Main "HOL-Library.Product_Lexorder"
begin

text \<open>
  What every component of the model shares.

  A Python method of this code base reads and mutates one database session and may raise, and
  the mutations made before a \<open>raise\<close> stay in the session for whoever catches the exception.
  An operation is therefore a function from the session state to a result (an exception or a
  value) \<^emph>\<open>and\<close> the session state it leaves behind, in both cases.  The combinators below are
  sequencing, \<open>raise\<close>, \<open>try\<close>/\<open>except\<close> and the \<open>for\<close> loop of that language; \<open>hoare\<close> is the
  matching program logic, with one postcondition for a normal return and one for an exception,
  and its rules are collected in \<open>hoare_rules\<close>.
\<close>

named_theorems op_defs \<open>definitions of the operation combinators\<close>
named_theorems hoare_rules \<open>rules of the program logic for operations\<close>

section \<open>Operations on a state, with exceptions\<close>

type_synonym ('s, 'e, 'a) op = "'s \<Rightarrow> ('e + 'a) \<times> 's"

definition ret :: "'a \<Rightarrow> ('s, 'e, 'a) op" where
  [op_defs]: "ret x = (\<lambda>s. (Inr x, s))"

definition raise :: "'e \<Rightarrow> ('s, 'e, 'a) op" where
  [op_defs]: "raise e = (\<lambda>s. (Inl e, s))"

definition bind :: "('s, 'e, 'a) op \<Rightarrow> ('a \<Rightarrow> ('s, 'e, 'b) op) \<Rightarrow> ('s, 'e, 'b) op" where
  [op_defs]: "bind m f = (\<lambda>s. case m s of (Inl e, t) \<Rightarrow> (Inl e, t) | (Inr x, t) \<Rightarrow> f x t)"

definition reads :: "('s \<Rightarrow> 'a) \<Rightarrow> ('s, 'e, 'a) op" where
  [op_defs]: "reads f = (\<lambda>s. (Inr (f s), s))"

definition fetch :: "('s \<Rightarrow> 'e + 'a) \<Rightarrow> ('s, 'e, 'a) op" where
  [op_defs]: "fetch f = (\<lambda>s. (f s, s))"

definition modify :: "('s \<Rightarrow> 's) \<Rightarrow> ('s, 'e, unit) op" where
  [op_defs]: "modify g = (\<lambda>s. (Inr (), g s))"

definition raise_if :: "bool \<Rightarrow> 'e \<Rightarrow> ('s, 'e, unit) op" where
  [op_defs]: "raise_if b e = (if b then raise e else ret ())"

definition try_except :: "('s, 'e, 'a) op \<Rightarrow> ('e \<Rightarrow> ('s, 'e, 'a) op) \<Rightarrow> ('s, 'e, 'a) op" where
  [op_defs]: "try_except m h = (\<lambda>s. case m s of (Inl e, t) \<Rightarrow> h e t | (Inr x, t) \<Rightarrow> (Inr x, t))"

primrec for_loop :: "('x \<Rightarrow> 'a \<Rightarrow> ('s, 'e, 'a) op) \<Rightarrow> 'x list \<Rightarrow> 'a \<Rightarrow> ('s, 'e, 'a) op" where
  "for_loop body [] a = ret a"
| "for_loop body (x # xs) a = bind (body x a) (for_loop body xs)"

text \<open>Evaluation applies an operation to a state before it looks at its body.\<close>

lemma op_code [code]:
  "ret x s = (Inr x, s)"
  "raise e s = (Inl e, s)"
  "bind m f s = (case m s of (Inl e, t) \<Rightarrow> (Inl e, t) | (Inr y, t) \<Rightarrow> f y t)"
  "reads h s = (Inr (h s), s)"
  "fetch k s = (k s, s)"
  "modify g s = (Inr (), g s)"
  "raise_if b e s = (if b then (Inl e, s) else (Inr (), s))"
  "try_except m h' s = (case m s of (Inl e, t) \<Rightarrow> h' e t | (Inr y, t) \<Rightarrow> (Inr y, t))"
  by (simp_all add: op_defs)

lemma for_loop_code [code]:
  "for_loop body [] a s = (Inr a, s)"
  "for_loop body (x # xs) a s =
     (case body x a s of (Inl e, t) \<Rightarrow> (Inl e, t) | (Inr y, t) \<Rightarrow> for_loop body xs y t)"
  by (simp_all add: op_defs)

lemma ret_app [simp]: "ret x s = (Inr x, s)"
  by (simp add: ret_def)

lemma raise_app [simp]: "raise e s = (Inl e, s)"
  by (simp add: raise_def)

lemma reads_app [simp]: "reads f s = (Inr (f s), s)"
  by (simp add: reads_def)

lemma fetch_app [simp]: "fetch f s = (f s, s)"
  by (simp add: fetch_def)

lemma modify_app [simp]: "modify g s = (Inr (), g s)"
  by (simp add: modify_def)

lemma raise_if_app [simp]: "raise_if b e s = (if b then Inl e else Inr (), s)"
  by (simp add: raise_if_def)

lemma bind_ok: "m s = (Inr x, t) \<Longrightarrow> bind m f s = f x t"
  by (simp add: bind_def)

lemma bind_error: "m s = (Inl e, t) \<Longrightarrow> bind m f s = (Inl e, t)"
  by (simp add: bind_def)

lemma bind_simps [simp]:
  "bind (ret x) f s = f x s"
  "bind (raise e) g s = (Inl e, s)"
  "bind (reads h) k s = k (h s) s"
  "bind (modify u) l s = l () (u s)"
  "bind (Pair (Inr x)) f s = f x s"
  "bind (Pair (Inl e)) g s = (Inl e, s)"
  by (simp_all add: bind_def)

lemma bind_fetch [simp]:
  "bind (fetch f) g s = (case f s of Inl e \<Rightarrow> (Inl e, s) | Inr x \<Rightarrow> g x s)"
  by (simp add: bind_def split: sum.split)

lemma bind_raise_if [simp]: "bind (raise_if b e) g s = (if b then (Inl e, s) else g () s)"
  by (simp add: bind_def)

lemma bind_Inr_iff:
  "bind m f s = (Inr y, u) \<longleftrightarrow> (\<exists>x t. m s = (Inr x, t) \<and> f x t = (Inr y, u))"
  by (auto simp: bind_def split: prod.splits sum.splits)

lemma bind_InrE:
  assumes "bind m f s = (Inr y, u)"
  obtains x t where "m s = (Inr x, t)" and "f x t = (Inr y, u)"
  using assms by (auto simp: bind_Inr_iff)

lemma bind_assoc: "bind (bind m f) g s = bind m (\<lambda>x. bind (f x) g) s"
  by (auto simp: bind_def split: prod.splits sum.splits)

lemma try_except_app:
  "try_except m h s = (case m s of (Inl e, t) \<Rightarrow> h e t | (Inr x, t) \<Rightarrow> (Inr x, t))"
  by (simp add: try_except_def)

lemma for_loop_append:
  "for_loop body (xs @ ys) a s = bind (for_loop body xs a) (for_loop body ys) s"
  by (induction xs arbitrary: a s) (auto simp: bind_def split: prod.splits sum.splits)

lemma for_loop_collect:
  assumes "\<And>x. x \<in> set xs \<Longrightarrow> m x s = (Inr (h x), s)"
  shows "for_loop (\<lambda>x acc. bind (m x) (\<lambda>y. ret (acc @ [y]))) xs acc s = (Inr (acc @ map h xs), s)"
  using assms by (induction xs arbitrary: acc) (simp_all add: bind_def)

lemma bind_collect:
  assumes "\<And>x. x \<in> set xs \<Longrightarrow> m x s = (Inr (h x), s)"
  shows "bind (for_loop (\<lambda>x acc. bind (m x) (\<lambda>y. ret (acc @ [y]))) xs []) k s = k (map h xs) s"
proof -
  have "for_loop (\<lambda>x acc. bind (m x) (\<lambda>y. ret (acc @ [y]))) xs [] s = (Inr ([] @ map h xs), s)"
    by (rule for_loop_collect) (rule assms)
  then show ?thesis by (simp add: bind_def)
qed

lemma for_loop_pure:
  "(\<And>x a. x \<in> set xs \<Longrightarrow> body x a s = (Inr (f x a), s)) \<Longrightarrow>
   for_loop body xs a s = (Inr (fold f xs a), s)"
  by (induction xs arbitrary: a) (simp_all add: bind_def)

section \<open>Program logic\<close>

definition hoare ::
  "('s \<Rightarrow> bool) \<Rightarrow> ('s, 'e, 'a) op \<Rightarrow> ('a \<Rightarrow> 's \<Rightarrow> bool) \<Rightarrow> ('e \<Rightarrow> 's \<Rightarrow> bool) \<Rightarrow> bool" where
  "hoare P m Q E \<longleftrightarrow>
     (\<forall>s. P s \<longrightarrow> (case m s of (Inl e, t) \<Rightarrow> E e t | (Inr x, t) \<Rightarrow> Q x t))"

definition preserves :: "('s \<Rightarrow> bool) \<Rightarrow> ('s, 'e, 'a) op \<Rightarrow> bool" where
  "preserves I m \<longleftrightarrow> hoare I m (\<lambda>_. I) (\<lambda>_. I)"

lemma hoareI:
  assumes "\<And>s x t. P s \<Longrightarrow> m s = (Inr x, t) \<Longrightarrow> Q x t"
    and "\<And>s e t. P s \<Longrightarrow> m s = (Inl e, t) \<Longrightarrow> E e t"
  shows "hoare P m Q E"
  using assms by (auto simp: hoare_def split: prod.split sum.split)

lemma hoare_ok: "hoare P m Q E \<Longrightarrow> P s \<Longrightarrow> m s = (Inr x, t) \<Longrightarrow> Q x t"
  by (force simp: hoare_def)

lemma hoare_error: "hoare P m Q E \<Longrightarrow> P s \<Longrightarrow> m s = (Inl e, t) \<Longrightarrow> E e t"
  by (force simp: hoare_def)

text \<open>The exceptional postcondition \<open>False\<close>: the operation returns.\<close>

lemma hoare_returns: "hoare P m Q (\<lambda>_ _. False) \<Longrightarrow> P s \<Longrightarrow> \<exists>x t. m s = (Inr x, t) \<and> Q x t"
  by (cases "m s"; cases "fst (m s)") (auto simp: hoare_def split: prod.splits dest!: spec [of _ s])

lemma hoare_weaken:
  "hoare P' m Q' E' \<Longrightarrow> (\<And>s. P s \<Longrightarrow> P' s) \<Longrightarrow> (\<And>x s. Q' x s \<Longrightarrow> Q x s) \<Longrightarrow>
   (\<And>e s. E' e s \<Longrightarrow> E e s) \<Longrightarrow> hoare P m Q E"
  by (fastforce simp: hoare_def split: prod.splits sum.splits)

lemma hoare_pre: "hoare P' m Q E \<Longrightarrow> (\<And>s. P s \<Longrightarrow> P' s) \<Longrightarrow> hoare P m Q E"
  by (rule hoare_weaken)

lemma hoare_ret: "(\<And>s. P s \<Longrightarrow> Q x s) \<Longrightarrow> hoare P (ret x) Q E"
  by (simp add: hoare_def)

lemma hoare_raise: "(\<And>s. P s \<Longrightarrow> E e s) \<Longrightarrow> hoare P (raise e) Q E"
  by (simp add: hoare_def)

lemma hoare_reads: "(\<And>s. P s \<Longrightarrow> Q (f s) s) \<Longrightarrow> hoare P (reads f) Q E"
  by (simp add: hoare_def)

lemma hoare_modify: "(\<And>s. P s \<Longrightarrow> Q () (g s)) \<Longrightarrow> hoare P (modify g) Q E"
  by (simp add: hoare_def)

lemma hoare_fetch:
  "(\<And>s x. P s \<Longrightarrow> f s = Inr x \<Longrightarrow> Q x s) \<Longrightarrow> (\<And>s e. P s \<Longrightarrow> f s = Inl e \<Longrightarrow> E e s) \<Longrightarrow>
   hoare P (fetch f) Q E"
  by (auto simp: hoare_def split: sum.split)

lemma hoare_raise_if:
  "(\<And>s. P s \<Longrightarrow> b \<Longrightarrow> E e s) \<Longrightarrow> (\<And>s. P s \<Longrightarrow> \<not> b \<Longrightarrow> Q () s) \<Longrightarrow> hoare P (raise_if b e) Q E"
  by (simp add: hoare_def)

lemma hoare_bind:
  "hoare P m R E \<Longrightarrow> (\<And>x. hoare (R x) (f x) Q E) \<Longrightarrow> hoare P (bind m f) Q E"
  by (fastforce simp: hoare_def bind_def split: prod.splits sum.splits)

lemma hoare_try:
  "hoare P m Q F \<Longrightarrow> (\<And>e. hoare (F e) (h e) Q E) \<Longrightarrow> hoare P (try_except m h) Q E"
  by (fastforce simp: hoare_def try_except_def split: prod.splits sum.splits)

lemma hoare_for_loop:
  assumes step: "\<And>x a. x \<in> set xs \<Longrightarrow> hoare (I a) (body x a) I E"
  shows "hoare (I a) (for_loop body xs a) I E"
  using step
proof (induction xs arbitrary: a)
  case Nil
  show ?case unfolding for_loop.simps by (rule hoare_ret)
next
  case (Cons x xs)
  show ?case unfolding for_loop.simps
    using Cons by (intro hoare_bind [where R = I]) (auto simp: list.set)
qed

lemma hoare_for_loop_rest:
  assumes step: "\<And>x xs a. hoare (I (x # xs) a) (body x a) (I xs) E"
  shows "hoare (I xs a) (for_loop body xs a) (I []) E"
proof (induction xs arbitrary: a)
  case Nil
  show ?case unfolding for_loop.simps by (rule hoare_ret)
next
  case (Cons x xs)
  show ?case unfolding for_loop.simps
    by (rule hoare_bind [OF step]) (rule Cons.IH)
qed

lemma hoare_if:
  "(b \<Longrightarrow> hoare P m Q E) \<Longrightarrow> (\<not> b \<Longrightarrow> hoare P m' Q E) \<Longrightarrow> hoare P (if b then m else m') Q E"
  by simp

lemma hoare_case_option:
  "(x = None \<Longrightarrow> hoare P m Q E) \<Longrightarrow> (\<And>y. x = Some y \<Longrightarrow> hoare P (f y) Q E) \<Longrightarrow>
   hoare P (case x of None \<Rightarrow> m | Some y \<Rightarrow> f y) Q E"
  by (cases x) auto

subsection \<open>Preservation of an invariant on every path\<close>

lemma preservesI:
  "(\<And>s. I s \<Longrightarrow> I (snd (m s))) \<Longrightarrow> preserves I m"
  unfolding preserves_def hoare_def by (metis (mono_tags, lifting) case_prod_unfold sum.case_eq_if)

lemma preservesD: "preserves I m \<Longrightarrow> I s \<Longrightarrow> I (snd (m s))"
  unfolding preserves_def hoare_def by (cases "m s"; cases "fst (m s)") force+

lemma preserves_ret [hoare_rules]: "preserves I (ret x)"
  by (simp add: preserves_def hoare_ret)

lemma preserves_raise [hoare_rules]: "preserves I (raise e)"
  by (simp add: preserves_def hoare_raise)

lemma preserves_reads [hoare_rules]: "preserves I (reads f)"
  by (simp add: preserves_def hoare_reads)

lemma preserves_fetch [hoare_rules]: "preserves I (fetch f)"
  by (simp add: preserves_def hoare_fetch)

lemma preserves_raise_if [hoare_rules]: "preserves I (raise_if b e)"
  by (simp add: preserves_def hoare_raise_if)

lemma preserves_modify: "(\<And>s. I s \<Longrightarrow> I (g s)) \<Longrightarrow> preserves I (modify g)"
  by (simp add: preserves_def hoare_modify)

lemma preserves_bind [hoare_rules]:
  "preserves I m \<Longrightarrow> (\<And>x. preserves I (f x)) \<Longrightarrow> preserves I (bind m f)"
  unfolding preserves_def by (rule hoare_bind)

lemma preserves_try [hoare_rules]:
  "preserves I m \<Longrightarrow> (\<And>e. preserves I (h e)) \<Longrightarrow> preserves I (try_except m h)"
  unfolding preserves_def by (rule hoare_try)

lemma preserves_for_loop [hoare_rules]:
  "(\<And>x a. x \<in> set xs \<Longrightarrow> preserves I (body x a)) \<Longrightarrow> preserves I (for_loop body xs a)"
  unfolding preserves_def by (rule hoare_for_loop [where I = "\<lambda>_. I"])

lemma preserves_if [hoare_rules]:
  "(b \<Longrightarrow> preserves I m) \<Longrightarrow> (\<not> b \<Longrightarrow> preserves I m') \<Longrightarrow> preserves I (if b then m else m')"
  by simp

lemma preserves_case_option [hoare_rules]:
  "(x = None \<Longrightarrow> preserves I m) \<Longrightarrow> (\<And>y. x = Some y \<Longrightarrow> preserves I (f y)) \<Longrightarrow>
   preserves I (case x of None \<Rightarrow> m | Some y \<Rightarrow> f y)"
  by (cases x) auto

lemma preserves_case_prod [hoare_rules]:
  "(\<And>x y. p = (x, y) \<Longrightarrow> preserves I (f x y)) \<Longrightarrow> preserves I (case p of (x, y) \<Rightarrow> f x y)"
  by (cases p) auto

lemma preserves_conj:
  "preserves I m \<Longrightarrow> preserves J m \<Longrightarrow> preserves (\<lambda>s. I s \<and> J s) m"
  by (rule preservesI) (simp add: preservesD)

lemma preserves_ok: "preserves I m \<Longrightarrow> I s \<Longrightarrow> m s = (r, t) \<Longrightarrow> I t"
  using preservesD [of I m s] by simp

section \<open>Python sorting and searching\<close>

text \<open>A Python \<open>set\<close> of the elements of a list is walked in an order the language leaves open:
  an operation that walks one takes the order as a parameter \<open>so\<close>, about which it may assume
  \<open>set_order so\<close>.\<close>

definition set_order :: "('a list \<Rightarrow> 'a list) \<Rightarrow> bool" where
  "set_order so \<longleftrightarrow> (\<forall>xs. set (so xs) = set xs \<and> distinct (so xs))"

lemma set_order_remdups: "set_order remdups"
  by (simp add: set_order_def)


text \<open>
  \<open>list.sort(key)\<close> is stable, as is \<open>sort_key\<close>; \<open>reverse=True\<close> keeps the original order of
  equal elements too, so it sorts by the negated key.  \<open>min(xs, key)\<close> returns the \<^emph>\<open>first\<close>
  least element, \<open>max(xs, key)\<close> the first greatest, and both raise on an empty list
  (\<open>None\<close> here).
\<close>

fun py_min_by :: "('a \<Rightarrow> 'k::linorder) \<Rightarrow> 'a list \<Rightarrow> 'a option" where
  "py_min_by k [] = None"
| "py_min_by k (x # xs) =
     (case py_min_by k xs of None \<Rightarrow> Some x | Some y \<Rightarrow> if k x \<le> k y then Some x else Some y)"

fun py_max_by :: "('a \<Rightarrow> 'k::linorder) \<Rightarrow> 'a list \<Rightarrow> 'a option" where
  "py_max_by k [] = None"
| "py_max_by k (x # xs) =
     (case py_max_by k xs of None \<Rightarrow> Some x | Some y \<Rightarrow> if k y \<le> k x then Some x else Some y)"

lemma py_min_by_eq_None [simp]: "py_min_by k xs = None \<longleftrightarrow> xs = []"
  by (cases xs) (auto split: option.splits)

lemma py_max_by_eq_None [simp]: "py_max_by k xs = None \<longleftrightarrow> xs = []"
  by (cases xs) (auto split: option.splits)

lemma py_min_by_Some:
  "py_min_by k xs = Some y \<Longrightarrow> y \<in> set xs \<and> (\<forall>x \<in> set xs. k y \<le> k x)"
  by (induction xs arbitrary: y) (fastforce split: option.splits if_splits)+

lemma py_max_by_Some:
  "py_max_by k xs = Some y \<Longrightarrow> y \<in> set xs \<and> (\<forall>x \<in> set xs. k x \<le> k y)"
  by (induction xs arbitrary: y) (fastforce split: option.splits if_splits)+

lemma sort_key_take_least:
  assumes "x \<in> set (take n (sort_key k xs))" and "y \<in> set (drop n (sort_key k xs))"
  shows "k x \<le> k y"
proof -
  have "sorted (map k (take n (sort_key k xs)) @ map k (drop n (sort_key k xs)))"
    unfolding map_append [symmetric] append_take_drop_id by (rule sorted_sort_key)
  then show ?thesis using assms by (auto simp: sorted_append)
qed

lemma map_insort_key: "map f (insort_key (\<lambda>c. k (f c)) x xs) = insort_key k (f x) (map f xs)"
  by (induction xs) auto
lemma map_sort_key: "map f (sort_key (\<lambda>c. k (f c)) xs) = sort_key k (map f xs)"
  by (induction xs) (auto simp: map_insort_key)
lemma insort_key_cong: "(\<And>y. y \<in> set (x # xs) \<Longrightarrow> k y = k' y) \<Longrightarrow> insort_key k x xs = insort_key k' x xs"
  by (induction xs) auto
lemma sort_key_cong: "(\<And>y. y \<in> set xs \<Longrightarrow> k y = k' y) \<Longrightarrow> sort_key k xs = sort_key k' xs"
proof (induction xs)
  case (Cons x xs)
  have "insort_key k x (sort_key k xs) = insort_key k' x (sort_key k xs)"
    by (rule insort_key_cong) (use Cons.prems in auto)
  with Cons show ?case by simp
qed simp
lemma find_SomeD: "find P xs = Some x \<Longrightarrow> x \<in> set xs \<and> P x"
  by (auto simp: find_Some_iff)

lemma find_key_unique:
  assumes "distinct (map k xs)" and "x \<in> set xs"
  shows "find (\<lambda>y. k y = k x) xs = Some x"
  using assms by (induction xs) (auto simp: rev_image_eqI)

section \<open>Dictionaries filled in a loop\<close>

text \<open>The keys of a dictionary in insertion order, and the dictionary that
  \<open>d.setdefault(f(x), []).append(x)\<close> builds from a list.\<close>

definition first_occurrences :: "'a list \<Rightarrow> 'a list" where
  "first_occurrences xs = rev (remdups (rev xs))"

definition group_by :: "('a \<Rightarrow> 'k) \<Rightarrow> 'a list \<Rightarrow> ('k \<times> 'a list) list" where
  "group_by f xs = map (\<lambda>k. (k, filter (\<lambda>x. f x = k) xs)) (first_occurrences (map f xs))"

lemma first_occurrences_set [simp]: "set (first_occurrences xs) = set xs"
  by (simp add: first_occurrences_def)

lemma first_occurrences_distinct [simp]: "distinct (first_occurrences xs)"
  by (simp add: first_occurrences_def)

text \<open>Grouping rearranges: every function of the elements sums to the same over the groups.\<close>

lemma sum_group_by:
  fixes g :: "'a \<Rightarrow> int"
  shows "sum_list (map (\<lambda>(k, ys). sum_list (map g ys)) (group_by f xs)) = sum_list (map g xs)"
proof -
  have "sum_list (map (\<lambda>k. sum_list (map g (filter (\<lambda>x. f x = k) xs))) ks) = sum_list (map g (filter (\<lambda>x. f x \<in> set ks) xs))"
    if "distinct ks" for ks
    using that
  proof (induction ks)
    case (Cons k ks)
    have "sum_list (map g (filter (\<lambda>x. f x = k) xs)) + sum_list (map g (filter (\<lambda>x. f x \<in> set ks) xs)) =
        sum_list (map g (filter (\<lambda>x. f x \<in> set (k # ks)) xs))"
      using Cons.prems by (induction xs) auto
    with Cons show ?case by simp
  qed simp
  from this [OF first_occurrences_distinct [of "map f xs"]] show ?thesis
    by (simp add: group_by_def comp_def cong: filter_cong)
qed

section \<open>Sums over lists\<close>

lemma sum_list_nonneg_map: "(\<And>x. x \<in> set xs \<Longrightarrow> 0 \<le> f x) \<Longrightarrow> (0::int) \<le> sum_list (map f xs)"
  by (induction xs) auto

lemma sum_list_map_filter_le:
  fixes f :: "'a \<Rightarrow> int"
  assumes "\<And>x. x \<in> set xs \<Longrightarrow> 0 \<le> f x"
  shows "sum_list (map f (filter P xs)) \<le> sum_list (map f xs)"
  using assms by (induction xs) (auto intro: add_increasing)

lemma member_le_sum_list_map:
  fixes f :: "'a \<Rightarrow> int"
  assumes "\<And>x. x \<in> set xs \<Longrightarrow> 0 \<le> f x" and "y \<in> set xs"
  shows "f y \<le> sum_list (map f xs)"
  using assms by (induction xs) (auto intro!: sum_list_nonneg_map intro: add_increasing)

end
