(* ===== verification/PyNumber.thy ===== *)
theory PyNumber
  imports Prelude "HOL-Library.Log_Nat" "HOL-Library.Code_Target_Numeral"
begin

text \<open>
  Python's numbers.  A \<open>float\<close> is an IEEE 754 binary64 value and a \<open>Decimal\<close> a decimal number
  rounded to 28 significant digits; both are held as the rational number they denote, and every
  operation of the source is the exact operation followed by one rounding to nearest, ties to
  even (\<open>round_sig\<close>).  Infinities and NaN are not represented: no expression of the modelled code
  leaves the range of finite doubles on the quantities it handles.  The rounding is executable,
  and it is proved monotone, odd, and exact on the representable numbers.
\<close>

section \<open>Rounding to nearest, ties to even\<close>

definition rhe :: "rat \<Rightarrow> int" where
  "rhe q = (let n = \<lfloor>q\<rfloor>; r = q - of_int n in
     if r < 1/2 then n else if 1/2 < r then n + 1 else if even n then n else n + 1)"

lemma rhe_of_int [simp]: "rhe (of_int n) = n"
  by (simp add: rhe_def)

lemma rhe_bounds: "\<lfloor>q\<rfloor> \<le> rhe q" "rhe q \<le> \<lfloor>q\<rfloor> + 1"
  by (auto simp: rhe_def Let_def)

lemma rhe_mono: "p \<le> q \<Longrightarrow> rhe p \<le> rhe q"
proof -
  assume pq: "p \<le> q"
  then have fl: "\<lfloor>p\<rfloor> \<le> \<lfloor>q\<rfloor>" by (rule floor_mono)
  show "rhe p \<le> rhe q"
  proof (cases "\<lfloor>p\<rfloor> = \<lfloor>q\<rfloor>")
    case True
    with pq show ?thesis by (auto simp: rhe_def Let_def)
  next
    case False
    with fl have "\<lfloor>p\<rfloor> + 1 \<le> \<lfloor>q\<rfloor>" by linarith
    with rhe_bounds(2) [of p] rhe_bounds(1) [of q] show ?thesis by linarith
  qed
qed

lemma rhe_le_of_int: "q \<le> of_int n \<Longrightarrow> rhe q \<le> n"
  using rhe_mono [of q "of_int n"] by simp

lemma of_int_le_rhe: "of_int n \<le> q \<Longrightarrow> n \<le> rhe q"
  using rhe_mono [of "of_int n" q] by simp

section \<open>The exponent of a rational\<close>

text \<open>\<open>ilog b q\<close> is the integer \<open>k\<close> with \<open>b ^ k \<le> q < b ^ (k + 1)\<close>.\<close>

definition ilog :: "nat \<Rightarrow> rat \<Rightarrow> int" where
  "ilog b q = (case quotient_of q of (n, d) \<Rightarrow>
     let k = int (floorlog b (nat n)) - int (floorlog b (nat d)) in
     if of_nat b powi k \<le> q then k else k - 1)"

lemma powi_nat_bounds:
  assumes "1 < b" and "0 < n"
  shows "of_nat b powi (int (floorlog b n) - 1) \<le> (of_nat n :: rat)"
    and "(of_nat n :: rat) < of_nat b powi int (floorlog b n)"
proof -
  have bounds: "b ^ (floorlog b n - 1) \<le> n \<and> n < b ^ floorlog b n"
    using floorlog_bounds [of n b] assms by simp
  have pos: "0 < floorlog b n" using assms floorlog_eq_zero_iff [of b n] by auto
  have e: "int (floorlog b n) - 1 = int (floorlog b n - 1)" using pos by simp
  have "(of_nat (b ^ (floorlog b n - 1)) :: rat) \<le> of_nat n"
    using bounds by (simp only: of_nat_le_iff)
  then show "of_nat b powi (int (floorlog b n) - 1) \<le> (of_nat n :: rat)"
    unfolding e by simp
  have "(of_nat n :: rat) < of_nat (b ^ floorlog b n)"
    using bounds by (simp only: of_nat_less_iff)
  then show "(of_nat n :: rat) < of_nat b powi int (floorlog b n)"
    by simp
qed

lemma ilog_bounds:
  assumes b: "1 < b" and q: "0 < q"
  shows "of_nat b powi ilog b q \<le> q" and "q < of_nat b powi (ilog b q + 1)"
proof -
  obtain n d where nd: "quotient_of q = (n, d)" by fastforce
  have d: "0 < d" using quotient_of_denom_pos [OF nd] .
  have q_eq: "q = of_int n / of_int d" using quotient_of_div [OF nd] .
  have n: "0 < n" using q d q_eq by (simp add: zero_less_divide_iff)
  define N where "N = int (floorlog b (nat n))"
  define D where "D = int (floorlog b (nat d))"
  have B: "(0::rat) < of_nat b" "(of_nat b :: rat) \<noteq> 0" using b by auto
  have nB: "of_nat b powi (N - 1) \<le> (of_int n :: rat)" "(of_int n :: rat) < of_nat b powi N"
    using powi_nat_bounds [OF b, of "nat n"] n by (simp_all add: N_def)
  have dB: "of_nat b powi (D - 1) \<le> (of_int d :: rat)" "(of_int d :: rat) < of_nat b powi D"
    using powi_nat_bounds [OF b, of "nat d"] d by (simp_all add: D_def)
  have low: "of_nat b powi (N - D - 1) \<le> q"
  proof -
    have "of_nat b powi (N - D - 1) * of_int d \<le> (of_nat b :: rat) powi (N - D - 1) * of_nat b powi D"
      using dB(2) B by (intro mult_left_mono) (auto simp: less_imp_le)
    also have "\<dots> = (of_nat b :: rat) powi (N - 1)"
      using B by (simp flip: power_int_add)
    finally show ?thesis using nB(1) d unfolding q_eq by (simp add: pos_le_divide_eq)
  qed
  have up: "q < of_nat b powi (N - D + 1)"
  proof -
    have "(of_nat b :: rat) powi N = of_nat b powi (N - D + 1) * of_nat b powi (D - 1)"
      using B by (simp flip: power_int_add)
    also have "\<dots> \<le> of_nat b powi (N - D + 1) * of_int d"
      using dB(1) B by (intro mult_left_mono) (auto simp: less_imp_le)
    finally show ?thesis using nB(2) d unfolding q_eq by (simp add: pos_divide_less_eq)
  qed
  have il: "ilog b q = (if of_nat b powi (N - D) \<le> q then N - D else N - D - 1)"
    by (simp add: ilog_def nd N_def D_def Let_def)
  show "of_nat b powi ilog b q \<le> q" "q < of_nat b powi (ilog b q + 1)"
    using low up by (auto simp: il)
qed

lemma powi_strict: "1 < b \<Longrightarrow> (of_nat b :: rat) powi i < of_nat b powi j \<longleftrightarrow> i < j"
  using power_int_strict_increasing [of i j "of_nat b :: rat"]
    power_int_increasing [of j i "of_nat b :: rat"]
  by (metis linorder_not_less nat_less_le of_nat_1 of_nat_less_iff order_less_imp_le)

lemma powi_mono_iff: "1 < b \<Longrightarrow> (of_nat b :: rat) powi i \<le> of_nat b powi j \<longleftrightarrow> i \<le> j"
  using powi_strict [of b j i] by (simp add: linorder_not_less [symmetric])

lemma ilog_mono: "1 < b \<Longrightarrow> 0 < p \<Longrightarrow> p \<le> q \<Longrightarrow> ilog b p \<le> ilog b q"
  using ilog_bounds [of b p] ilog_bounds [of b q] powi_strict [of b "ilog b p" "ilog b q + 1"]
  by simp

section \<open>Rounding to a number of significant digits\<close>

definition round_pos :: "nat \<Rightarrow> nat \<Rightarrow> int \<Rightarrow> rat \<Rightarrow> rat" where
  "round_pos b p emin q =
     (let e = max emin (ilog b q - int p + 1) in of_int (rhe (q / of_nat b powi e)) * of_nat b powi e)"

definition round_sig :: "nat \<Rightarrow> nat \<Rightarrow> int \<Rightarrow> rat \<Rightarrow> rat" where
  "round_sig b p emin q =
     (if q = 0 then 0 else if 0 < q then round_pos b p emin q else - round_pos b p emin (- q))"

text \<open>Evaluation computes with integers, once numerator and denominator are known.\<close>

definition rhe_div :: "int \<Rightarrow> int \<Rightarrow> int" where
  "rhe_div n d = (let f = n div d; r = 2 * (n mod d) in
     if r < d then f else if d < r then f + 1 else if even f then f else f + 1)"

definition ilog_div :: "nat \<Rightarrow> int \<Rightarrow> int \<Rightarrow> int" where
  "ilog_div b n d = (let k = int (floorlog b (nat n)) - int (floorlog b (nat d)) in
     if (if 0 \<le> k then int b ^ nat k * d \<le> n else d \<le> n * int b ^ nat (- k)) then k else k - 1)"

definition round_div :: "nat \<Rightarrow> nat \<Rightarrow> int \<Rightarrow> int \<Rightarrow> int \<Rightarrow> rat" where
  "round_div b p emin n d = (let e = max emin (ilog_div b n d - int p + 1) in
     if 0 \<le> e then of_int (rhe_div n (d * int b ^ nat e) * int b ^ nat e)
     else of_int (rhe_div (n * int b ^ nat (- e)) d) / of_int (int b ^ nat (- e)))"

definition round_frac :: "nat \<Rightarrow> nat \<Rightarrow> int \<Rightarrow> int \<Rightarrow> int \<Rightarrow> rat" where
  "round_frac b p emin n d = (if b = 0 then round_sig b p emin (of_int n / of_int d)
     else if n = 0 then 0 else if 0 < n then round_div b p emin n d else - round_div b p emin (- n) d)"

lemma rhe_div_eq: "0 < d \<Longrightarrow> rhe (of_int n / of_int d) = rhe_div n d"
proof -
  assume d: "0 < d"
  have "(of_int n :: rat) = of_int (n div d) * of_int d + of_int (n mod d)"
    by (metis div_mult_mod_eq of_int_add of_int_mult)
  then have rest: "(of_int n / of_int d :: rat) - of_int (n div d) = of_int (n mod d) / of_int d"
    using d by (simp add: add_divide_distrib)
  have cmp: "(of_int x / of_int d < (1/2 :: rat)) = (2 * x < d)"
    "((1/2 :: rat) < of_int x / of_int d) = (d < 2 * x)" for x
  proof -
    have "(of_int x / of_int d < (1/2 :: rat)) = (of_int (2 * x) < (of_int d :: rat))"
      "((1/2 :: rat) < of_int x / of_int d) = ((of_int d :: rat) < of_int (2 * x))"
      using d by (simp_all add: field_simps)
    then show "(of_int x / of_int d < (1/2 :: rat)) = (2 * x < d)"
      "((1/2 :: rat) < of_int x / of_int d) = (d < 2 * x)"
      by (simp_all only: of_int_less_iff)
  qed
  show ?thesis unfolding rhe_def rhe_div_def Let_def floor_divide_of_int_eq rest cmp ..
qed

lemma powi_le_div:
  assumes "0 < b" and "0 < d"
  shows "(of_nat b powi k \<le> (of_int n / of_int d :: rat)) =
    (if 0 \<le> k then int b ^ nat k * d \<le> n else d \<le> n * int b ^ nat (- k))"
proof (cases "0 \<le> k")
  case True
  have "(of_nat b powi k \<le> (of_int n / of_int d :: rat)) = ((of_int (int b ^ nat k * d) :: rat) \<le> of_int n)"
    using assms True by (simp add: power_int_def field_simps)
  then show ?thesis using True by (simp only: of_int_le_iff if_True)
next
  case False
  have "(of_nat b powi k \<le> (of_int n / of_int d :: rat)) = ((of_int d :: rat) \<le> of_int (n * int b ^ nat (- k)))"
    using assms False by (simp add: power_int_def field_simps)
  then show ?thesis using False by (simp only: of_int_le_iff if_False)
qed

lemma ilog_div_eq: "0 < b \<Longrightarrow> quotient_of q = (n, d) \<Longrightarrow> ilog b q = ilog_div b n d"
  using quotient_of_div [of q n d] quotient_of_denom_pos [of q n d]
  by (simp add: ilog_def ilog_div_def powi_le_div Let_def)

lemma round_div_eq:
  assumes b: "0 < b" and q: "quotient_of q = (n, d)"
  shows "round_pos b p emin q = round_div b p emin n d"
proof -
  define e where "e = max emin (ilog_div b n d - int p + 1)"
  have d: "0 < d" and qd: "q = of_int n / of_int d"
    using quotient_of_denom_pos [OF q] quotient_of_div [OF q] by simp_all
  have B: "0 < int b ^ m" for m using b by simp
  show ?thesis
  proof (cases "0 \<le> e")
    case True
    then have "q / of_nat b powi e = of_int n / of_int (d * int b ^ nat e)"
      by (simp add: qd power_int_def)
    then have "rhe (q / of_nat b powi e) = rhe_div n (d * int b ^ nat e)"
      by (simp only: rhe_div_eq [OF mult_pos_pos [OF d B]])
    then show ?thesis using True
      by (simp add: round_pos_def round_div_def ilog_div_eq [OF b q] e_def [symmetric] power_int_def)
  next
    case False
    then have "q / of_nat b powi e = of_int (n * int b ^ nat (- e)) / of_int d"
      using b by (simp add: qd power_int_def field_simps)
    then have "rhe (q / of_nat b powi e) = rhe_div (n * int b ^ nat (- e)) d"
      by (simp only: rhe_div_eq [OF d])
    then show ?thesis using False
      by (simp add: round_pos_def round_div_def ilog_div_eq [OF b q] e_def [symmetric] power_int_def
          divide_inverse power_inverse)
  qed
qed

lemma round_sig_code [code]:
  "round_sig b p emin q = (case quotient_of q of (n, d) \<Rightarrow> round_frac b p emin n d)"
proof -
  obtain n d where nd: "quotient_of q = (n, d)" by (cases "quotient_of q")
  have q: "q = of_int n / of_int d" "0 < d"
    using quotient_of_div [OF nd] quotient_of_denom_pos [OF nd] by simp_all
  have "quotient_of (- q) = (- n, d)" by (simp add: rat_uminus_code nd)
  then show ?thesis
    unfolding nd using round_div_eq [OF _ nd, of b] round_div_eq [of b "- q" "- n" d] q(2)
    by (auto simp: round_sig_def round_frac_def q(1) zero_less_divide_iff)
qed

lemma round_pos_le_power:
  assumes b: "1 < b" and q: "q \<le> of_nat b powi k"
    and k: "max emin (ilog b q - int p + 1) \<le> k"
  shows "round_pos b p emin q \<le> of_nat b powi k"
proof -
  define e where "e = max emin (ilog b q - int p + 1)"
  have B: "(0::rat) < of_nat b powi e" using b by simp
  have "e \<le> k" using k by (simp add: e_def)
  then have split: "of_nat b powi k = (of_int (int b ^ nat (k - e)) :: rat) * of_nat b powi e"
    using b by (simp add: power_int_add [symmetric] flip: power_int_of_nat)
  have "q / of_nat b powi e \<le> of_int (int b ^ nat (k - e))"
    using q B unfolding split by (simp add: pos_divide_le_eq)
  then have "rhe (q / of_nat b powi e) \<le> int b ^ nat (k - e)" by (rule rhe_le_of_int)
  then have "(of_int (rhe (q / of_nat b powi e)) :: rat) \<le> of_int (int b ^ nat (k - e))"
    by (simp only: of_int_le_iff)
  then show ?thesis
    using B unfolding split round_pos_def Let_def e_def [symmetric]
    by (intro mult_right_mono) auto
qed

lemma round_pos_ge_power:
  assumes b: "1 < b" and q: "of_nat b powi k \<le> q"
    and k: "max emin (ilog b q - int p + 1) \<le> k"
  shows "of_nat b powi k \<le> round_pos b p emin q"
proof -
  define e where "e = max emin (ilog b q - int p + 1)"
  have B: "(0::rat) < of_nat b powi e" using b by simp
  have "e \<le> k" using k by (simp add: e_def)
  then have split: "of_nat b powi k = (of_int (int b ^ nat (k - e)) :: rat) * of_nat b powi e"
    using b by (simp add: power_int_add [symmetric] flip: power_int_of_nat)
  have "of_int (int b ^ nat (k - e)) \<le> q / of_nat b powi e"
    using q B unfolding split by (simp add: pos_le_divide_eq)
  then have "int b ^ nat (k - e) \<le> rhe (q / of_nat b powi e)" by (rule of_int_le_rhe)
  then have "of_int (int b ^ nat (k - e)) \<le> (of_int (rhe (q / of_nat b powi e)) :: rat)"
    by (simp only: of_int_le_iff)
  then show ?thesis
    using B unfolding split round_pos_def Let_def e_def [symmetric]
    by (intro mult_right_mono) auto
qed

lemma round_pos_nonneg: "0 < q \<Longrightarrow> 0 \<le> round_pos b p emin q"
  by (auto simp: round_pos_def Let_def intro!: mult_nonneg_nonneg of_int_le_rhe [where n = 0, simplified])

lemma round_pos_mono:
  assumes b: "1 < b" and p: "0 < p" and x: "0 < x" and xy: "x \<le> y"
  shows "round_pos b p emin x \<le> round_pos b p emin y"
proof -
  let ?e = "\<lambda>q. max emin (ilog b q - int p + 1)"
  have il: "ilog b x \<le> ilog b y" by (rule ilog_mono [OF b x xy])
  show ?thesis
  proof (cases "?e x = ?e y")
    case True
    have "rhe (x / of_nat b powi ?e x) \<le> rhe (y / of_nat b powi ?e x)"
      using xy b by (intro rhe_mono divide_right_mono) auto
    then show ?thesis using True b by (simp add: round_pos_def Let_def mult_right_mono)
  next
    case False
    with il have lt: "?e x < ?e y" by linarith
    then have ey: "?e y = ilog b y - int p + 1" and xe: "ilog b x + 1 \<le> ilog b y" by linarith+
    have "x \<le> of_nat b powi ilog b y"
      using ilog_bounds(2) [OF b x] xe powi_mono_iff [OF b, of "ilog b x + 1" "ilog b y"] by linarith
    then have "round_pos b p emin x \<le> of_nat b powi ilog b y"
      using lt ey p by (intro round_pos_le_power [OF b]) linarith+
    also have "\<dots> \<le> round_pos b p emin y"
      using ilog_bounds(1) [OF b, of y] x xy ey p by (intro round_pos_ge_power [OF b]) linarith+
    finally show ?thesis .
  qed
qed

lemma round_sig_minus: "round_sig b p emin (- q) = - round_sig b p emin q"
  by (auto simp: round_sig_def)

lemma round_sig_zero [simp]: "round_sig b p emin 0 = 0"
  by (simp add: round_sig_def)

lemma round_sig_mono:
  assumes "1 < b" "0 < p" "x \<le> y"
  shows "round_sig b p emin x \<le> round_sig b p emin y"
  using assms round_pos_mono [of b p x y emin] round_pos_mono [of b p "- y" "- x" emin]
    round_pos_nonneg [of y b p emin] round_pos_nonneg [of "- x" b p emin]
  by (auto simp: round_sig_def)

lemma round_sig_exact:
  assumes b: "1 < b" and m: "\<bar>m\<bar> < int b ^ p" and k: "emin \<le> k"
  shows "round_sig b p emin (of_int m * of_nat b powi k) = of_int m * of_nat b powi k"
proof -
  have pos: "round_pos b p emin (of_int n * of_nat b powi k) = of_int n * of_nat b powi k"
    if n: "0 < n" "n < int b ^ p" for n
  proof -
    define q :: rat where "q = of_int n * of_nat b powi k"
    have B: "(0::rat) < of_nat b powi i" for i using b by simp
    have q: "0 < q" using n B by (simp add: q_def)
    have "(of_int n :: rat) < of_int (int b ^ p)" using n by (simp only: of_int_less_iff)
    then have "q < of_nat b powi int p * of_nat b powi k"
      using B by (simp add: q_def)
    also have "\<dots> = of_nat b powi (int p + k)" using b by (simp add: power_int_add)
    finally have "of_nat b powi ilog b q < (of_nat b :: rat) powi (int p + k)"
      using ilog_bounds(1) [OF b q] by linarith
    then have "ilog b q - int p + 1 \<le> k" using powi_strict [OF b] by fastforce
    then have le: "max emin (ilog b q - int p + 1) \<le> k" using k by simp
    define e where "e = max emin (ilog b q - int p + 1)"
    have "of_nat b powi k = (of_int (int b ^ nat (k - e)) :: rat) * of_nat b powi e"
      using b le by (simp add: e_def power_int_add [symmetric] flip: power_int_of_nat)
    then have "q / of_nat b powi e = of_int (n * int b ^ nat (k - e))"
      using B [of e] b by (simp add: q_def)
    then show ?thesis
      using B [of e] unfolding q_def [symmetric] round_pos_def Let_def e_def [symmetric]
      by (metis nonzero_eq_divide_eq order_less_irrefl rhe_of_int)
  qed
  have B: "(0::rat) < of_nat b powi k" using b by simp
  show ?thesis
  proof (cases m "0::int" rule: linorder_cases)
    case less
    then show ?thesis using pos [of "- m"] m B by (simp add: round_sig_def zero_less_mult_iff)
  next
    case equal
    then show ?thesis by simp
  next
    case greater
    then show ?thesis using pos [of m] m B by (simp add: round_sig_def zero_less_mult_iff)
  qed
qed

section \<open>binary64 floats and 28-digit decimals\<close>

type_synonym pyfloat = rat
type_synonym decimal = rat

definition fl :: "rat \<Rightarrow> pyfloat" where
  "fl = round_sig 2 53 (- 1074)"

definition dec28 :: "rat \<Rightarrow> decimal" where
  "dec28 = round_sig 10 28 (- 1000026)"

definition fadd :: "pyfloat \<Rightarrow> pyfloat \<Rightarrow> pyfloat" where "fadd x y = fl (x + y)"
definition fsub :: "pyfloat \<Rightarrow> pyfloat \<Rightarrow> pyfloat" where "fsub x y = fl (x - y)"
definition fmul :: "pyfloat \<Rightarrow> pyfloat \<Rightarrow> pyfloat" where "fmul x y = fl (x * y)"
definition fdiv :: "pyfloat \<Rightarrow> pyfloat \<Rightarrow> pyfloat" where "fdiv x y = fl (x / y)"

definition dadd :: "decimal \<Rightarrow> decimal \<Rightarrow> decimal" where "dadd x y = dec28 (x + y)"
definition dsub :: "decimal \<Rightarrow> decimal \<Rightarrow> decimal" where "dsub x y = dec28 (x - y)"
definition dmul :: "decimal \<Rightarrow> decimal \<Rightarrow> decimal" where "dmul x y = dec28 (x * y)"
definition ddiv :: "decimal \<Rightarrow> decimal \<Rightarrow> decimal" where "ddiv x y = dec28 (x / y)"

text \<open>\<open>int(x)\<close> truncates towards zero; \<open>Decimal(str(round(x, 4)))\<close> is \<open>x\<close> rounded to four
  decimals, ties to even on the exact binary value.\<close>

definition py_int :: "rat \<Rightarrow> int" where
  "py_int q = (if 0 \<le> q then \<lfloor>q\<rfloor> else \<lceil>q\<rceil>)"

definition round4 :: "rat \<Rightarrow> rat" where
  "round4 q = of_int (rhe (q * 10000)) / 10000"

lemma fl_mono: "x \<le> y \<Longrightarrow> fl x \<le> fl y"
  unfolding fl_def by (rule round_sig_mono) simp_all

lemma fl_zero [simp]: "fl 0 = 0"
  by (simp add: fl_def)

lemma fl_nonneg: "0 \<le> x \<Longrightarrow> 0 \<le> fl x"
  using fl_mono [of 0 x] by simp

lemma fl_of_int: "\<bar>n\<bar> < 2 ^ 53 \<Longrightarrow> fl (of_int n) = of_int n"
  using round_sig_exact [of 2 n 53 "- 1074" 0] by (simp add: fl_def)

lemma fl_dyadic: "\<bar>n\<bar> < 2 ^ 53 \<Longrightarrow> - 1074 \<le> k \<Longrightarrow> fl (of_int n * 2 powi k) = of_int n * 2 powi k"
  using round_sig_exact [of 2 n 53 "- 1074" k] by (simp add: fl_def)

lemma dec28_mono: "x \<le> y \<Longrightarrow> dec28 x \<le> dec28 y"
  unfolding dec28_def by (rule round_sig_mono) simp_all

lemma dec28_zero [simp]: "dec28 0 = 0"
  by (simp add: dec28_def)

lemma dec28_nonneg: "0 \<le> x \<Longrightarrow> 0 \<le> dec28 x"
  using dec28_mono [of 0 x] by simp

lemma dec28_decimal:
  "\<bar>n\<bar> < 10 ^ 28 \<Longrightarrow> - 1000026 \<le> k \<Longrightarrow> dec28 (of_int n * 10 powi k) = of_int n * 10 powi k"
  using round_sig_exact [of 10 n 28 "- 1000026" k] by (simp add: dec28_def)

lemma fadd_mono: "x \<le> x' \<Longrightarrow> y \<le> y' \<Longrightarrow> fadd x y \<le> fadd x' y'"
  unfolding fadd_def by (rule fl_mono) simp

lemma fmul_mono: "0 \<le> y \<Longrightarrow> x \<le> x' \<Longrightarrow> fmul x y \<le> fmul x' y"
  unfolding fmul_def by (rule fl_mono) (simp add: mult_right_mono)

lemma fdiv_antimono: "0 \<le> x \<Longrightarrow> 0 < y \<Longrightarrow> y \<le> y' \<Longrightarrow> fdiv x y' \<le> fdiv x y"
  unfolding fdiv_def by (rule fl_mono) (simp add: divide_left_mono)

lemma round4_mono: "x \<le> y \<Longrightarrow> round4 x \<le> round4 y"
  by (simp add: round4_def divide_right_mono rhe_mono)

lemma py_int_mono: "x \<le> y \<Longrightarrow> py_int x \<le> py_int y"
  unfolding py_int_def by (auto intro: floor_mono ceiling_mono)
    (metis ceiling_le_zero floor_less_zero linorder_not_le order.trans order_less_imp_le zero_le_floor)

end
