(* ===== verification/Store.thy ===== *)
theory Store
  imports CoreTypes
begin

text \<open>
  Tables of a SQLAlchemy session opened by \<open>db/session.py\<close>, that is with \<open>autoflush=False\<close>.
  A row is in two places: the database holds the values of the last flush, the session's
  identity map holds the object the Python code reads and mutates.  A cell keeps both: \<open>stored\<close>
  is \<open>None\<close> for an object that was added and not flushed yet.  The consequences the code depends
  on are all visible here: the \<open>WHERE\<close> clause and the aggregates of a query see stored values,
  the objects it returns are the live ones, a mutation changes the live object only, and a flush
  (which \<open>BaseRepository.add\<close> and a commit perform) writes every live object.

  A query without \<open>ORDER BY\<close> returns the rows in the order of the table list; theorems quantify
  over the tables, hence over that order.
\<close>

section \<open>Cells, tables and queries\<close>

datatype 'r cell = Cell (stored: "'r option") (live: 'r)

type_synonym 'r table = "'r cell list"

definition lives :: "'r table \<Rightarrow> 'r list" where
  "lives t = map live t"

definition stored_rows :: "'r table \<Rightarrow> 'r list" where
  "stored_rows t = List.map_filter stored t"

definition stored_sat :: "('r \<Rightarrow> bool) \<Rightarrow> 'r cell \<Rightarrow> bool" where
  "stored_sat P c = (case stored c of None \<Rightarrow> False | Some r \<Rightarrow> P r)"

text \<open>\<open>select(Model).where(P)\<close>: filter on the stored values, return the live objects.\<close>

definition select_where :: "('r \<Rightarrow> bool) \<Rightarrow> 'r table \<Rightarrow> 'r list" where
  "select_where P t = map live (filter (stored_sat P) t)"

text \<open>\<open>... .order_by(k).limit(n)\<close>: sort on the stored key.\<close>

definition stored_key :: "('r \<Rightarrow> 'k) \<Rightarrow> 'r cell \<Rightarrow> 'k" where
  "stored_key k c = k (case stored c of None \<Rightarrow> live c | Some r \<Rightarrow> r)"

definition select_ordered :: "('r \<Rightarrow> 'k::linorder) \<Rightarrow> ('r \<Rightarrow> bool) \<Rightarrow> 'r table \<Rightarrow> 'r list" where
  "select_ordered k P t = map live (sort_key (stored_key k) (filter (stored_sat P) t))"

text \<open>\<open>select(func.coalesce(func.sum(f), 0)).where(P)\<close>: computed by the database.\<close>

definition select_sum :: "('r \<Rightarrow> int) \<Rightarrow> ('r \<Rightarrow> bool) \<Rightarrow> 'r table \<Rightarrow> int" where
  "select_sum f P t = sum_list (map f (filter P (stored_rows t)))"

text \<open>\<open>result.scalar_one_or_none()\<close> raises when the query returns several rows.\<close>

definition scalar_one_or_none :: "'r list \<Rightarrow> exn + 'r option" where
  "scalar_one_or_none rs =
     (case rs of [] \<Rightarrow> Inr None | [r] \<Rightarrow> Inr (Some r) | _ \<Rightarrow> Inl MultipleResultsFound)"

text \<open>\<open>session.get(Model, pk)\<close>: the live object of that key, if it has been flushed.\<close>

definition get_by_key :: "('r \<Rightarrow> uuid) \<Rightarrow> uuid \<Rightarrow> 'r table \<Rightarrow> 'r option" where
  "get_by_key key i t = map_option live (find (\<lambda>c. stored c \<noteq> None \<and> key (live c) = i) t)"

definition add_row :: "'r \<Rightarrow> 'r table \<Rightarrow> 'r table" where
  "add_row r t = t @ [Cell None r]"

definition upd_row :: "('r \<Rightarrow> uuid) \<Rightarrow> uuid \<Rightarrow> ('r \<Rightarrow> 'r) \<Rightarrow> 'r table \<Rightarrow> 'r table" where
  "upd_row key i f t = map (\<lambda>c. if key (live c) = i then Cell (stored c) (f (live c)) else c) t"

text \<open>An \<open>update(Model).where(...).values(...)\<close> statement runs in the database; SQLAlchemy's
  default synchronisation applies it to the matching live objects too.\<close>

definition sql_update :: "('r \<Rightarrow> bool) \<Rightarrow> ('r \<Rightarrow> 'r) \<Rightarrow> 'r table \<Rightarrow> 'r table" where
  "sql_update P f t =
     map (\<lambda>c. if stored_sat P c then Cell (map_option f (stored c)) (f (live c)) else c) t"

definition flush_table :: "'r table \<Rightarrow> 'r table" where
  "flush_table t = map (\<lambda>c. Cell (Some (live c)) (live c)) t"

section \<open>Laws\<close>

definition clean :: "'r table \<Rightarrow> bool" where
  "clean t \<longleftrightarrow> (\<forall>c \<in> set t. stored c = Some (live c))"

definition upd_list :: "('r \<Rightarrow> uuid) \<Rightarrow> uuid \<Rightarrow> ('r \<Rightarrow> 'r) \<Rightarrow> 'r list \<Rightarrow> 'r list" where
  "upd_list key i f rs = map (\<lambda>r. if key r = i then f r else r) rs"

lemma lives_simps [simp]:
  "lives [] = []"
  "lives (add_row r t) = lives t @ [r]"
  "lives (flush_table t) = lives t"
  "lives (upd_row key i f t) = upd_list key i f (lives t)"
  by (auto simp: lives_def add_row_def flush_table_def upd_row_def upd_list_def)

lemma clean_flush [simp]: "clean (flush_table t)"
  by (auto simp: clean_def flush_table_def)

lemma clean_Nil [simp]: "clean []"
  by (simp add: clean_def)

lemma clean_stored_rows: "clean t \<Longrightarrow> stored_rows t = lives t"
  by (induction t) (auto simp: clean_def stored_rows_def lives_def map_filter_simps)

lemma clean_select_where: "clean t \<Longrightarrow> select_where P t = filter P (lives t)"
  by (induction t) (auto simp: clean_def select_where_def lives_def stored_sat_def)

lemma clean_select_sum: "clean t \<Longrightarrow> select_sum f P t = sum_list (map f (filter P (lives t)))"
  by (simp add: select_sum_def clean_stored_rows)

lemma select_where_subset: "set (select_where P t) \<subseteq> set (lives t)"
  by (auto simp: select_where_def lives_def)

lemma in_select_where: "x \<in> set (select_where P t) \<Longrightarrow> x \<in> set (lives t)"
  by (rule subsetD [OF select_where_subset])

lemma select_ordered_set: "set (select_ordered k P t) = set (select_where P t)"
  by (simp add: select_ordered_def select_where_def)

lemma select_ordered_subset: "set (select_ordered k P t) \<subseteq> set (lives t)"
  by (simp add: select_ordered_set select_where_subset)

lemma scalar_one_or_none_Some:
  "scalar_one_or_none rs = Inr (Some r) \<longleftrightarrow> rs = [r]"
  by (auto simp: scalar_one_or_none_def split: list.splits)

lemma scalar_one_or_none_None [simp]:
  "scalar_one_or_none rs = Inr None \<longleftrightarrow> rs = []"
  by (auto simp: scalar_one_or_none_def split: list.splits)

lemma scalar_one_or_none_error:
  "scalar_one_or_none rs = Inl e \<Longrightarrow> e = MultipleResultsFound"
  by (auto simp: scalar_one_or_none_def split: list.splits)

lemma get_by_key_Some:
  "get_by_key key i t = Some r \<Longrightarrow> r \<in> set (lives t) \<and> key r = i"
  by (auto simp: get_by_key_def lives_def find_Some_iff)

lemma get_by_key_clean: "clean t \<Longrightarrow> get_by_key key i t = find (\<lambda>r. key r = i) (lives t)"
  by (induction t) (auto simp: clean_def get_by_key_def lives_def)

lemma get_by_key_upd_row:
  assumes "\<And>r. key (f r) = key r"
  shows "get_by_key key i (upd_row key j f t) = map_option (\<lambda>r. if key r = j then f r else r) (get_by_key key i t)"
  using assms by (induction t) (auto simp: get_by_key_def upd_row_def)

lemma clean_select_ordered:
  assumes "clean t"
  shows "select_ordered k P t = sort_key k (filter P (lives t))"
proof -
  have c: "\<forall>c \<in> set t. stored c = Some (live c)" using assms by (simp add: clean_def)
  have "sort_key (stored_key k) (filter (stored_sat P) t) = sort_key (\<lambda>c. k (live c)) (filter (stored_sat P) t)"
    by (rule sort_key_cong) (use c in \<open>auto simp: stored_key_def\<close>)
  then have "select_ordered k P t = sort_key k (map live (filter (stored_sat P) t))"
    by (simp add: select_ordered_def map_sort_key)
  then show ?thesis using clean_select_where [OF assms, of P] by (simp add: select_where_def)
qed
lemma clean_sql_update [simp]: "clean t \<Longrightarrow> clean (sql_update P f t)"
  by (auto simp: clean_def sql_update_def)

lemma lives_sql_update: "clean t \<Longrightarrow> lives (sql_update P f t) = map (\<lambda>r. if P r then f r else r) (lives t)"
  by (auto simp: clean_def sql_update_def lives_def stored_sat_def)

section \<open>Updating one row of a keyed list\<close>

text \<open>
  The laws of \<open>upd_list\<close> for a table whose keys are distinct, as primary keys are.  They carry
  every conservation proof: a sum over the table changes by the change of the one row.
\<close>

lemma upd_list_simps [simp]:
  "upd_list key i f [] = []"
  "upd_list key i f (r # rs) = (if key r = i then f r else r) # upd_list key i f rs"
  "upd_list key i f (rs @ qs) = upd_list key i f rs @ upd_list key i f qs"
  by (simp_all add: upd_list_def)

lemma length_upd_list [simp]: "length (upd_list key i f rs) = length rs"
  by (simp add: upd_list_def)

lemma upd_list_absent: "i \<notin> key ` set rs \<Longrightarrow> upd_list key i f rs = rs"
  by (induction rs) auto

lemma map_upd_list_same: "(\<And>r. g (f r) = g r) \<Longrightarrow> map g (upd_list key i f rs) = map g rs"
  by (simp add: upd_list_def)

lemma find_upd_list:
  assumes "\<And>x. P (f x) = P x"
  shows "find P (upd_list key i f rs) = map_option (\<lambda>x. if key x = i then f x else x) (find P rs)"
  using assms by (induction rs) auto

lemma set_upd_list:
  "distinct (map key rs) \<Longrightarrow> r \<in> set rs \<Longrightarrow>
   set (upd_list key (key r) f rs) = insert (f r) (set rs - {r})"
  by (auto simp: upd_list_def distinct_map inj_on_def) metis

lemma in_upd_listE:
  assumes "x \<in> set (upd_list key i f rs)"
  obtains "x \<in> set rs" "key x \<noteq> i" | r where "r \<in> set rs" "key r = i" "x = f r"
  using assms by (auto simp: upd_list_def split: if_splits)

lemma sum_upd_list:
  fixes g :: "'r \<Rightarrow> int"
  assumes "distinct (map key rs)" and "r \<in> set rs"
  shows "sum_list (map g (upd_list key (key r) f rs)) = sum_list (map g rs) - g r + g (f r)"
  using assms
proof (induction rs)
  case Nil
  then show ?case by simp
next
  case (Cons q rs)
  show ?case
  proof (cases "q = r")
    case True
    then have "key r \<notin> key ` set rs" using Cons.prems by auto
    then show ?thesis using True by (simp add: upd_list_absent)
  next
    case False
    then have "key q \<noteq> key r" using Cons.prems by force
    then show ?thesis using Cons False by simp
  qed
qed

lemma sum_upd_list_same:
  fixes g :: "'r \<Rightarrow> int"
  assumes "\<And>r. g (f r) = g r"
  shows "sum_list (map g (upd_list key i f rs)) = sum_list (map g rs)"
  by (simp add: map_upd_list_same assms)

lemma sum_filter_as_if:
  fixes g :: "'r \<Rightarrow> int"
  shows "sum_list (map g (filter P rs)) = sum_list (map (\<lambda>r. if P r then g r else 0) rs)"
  by (induction rs) auto

end
