(* ===== verification/Models.thy ===== *)
theory Models
  imports Store
begin

text \<open>
  The ORM classes of \<open>models/\<close>, one record per class and one field per column (with the columns
  of the mixins of \<open>db/base.py\<close> that the code reads: the key and the version counter, and
  \<open>created_at\<close> where a query orders by it), the database session with one table per class, and
  the transaction bracket of \<open>db/session.py\<close>.  A nullable column is an \<open>option\<close>.
\<close>

section \<open>Inventory\<close>

record Sku =
  sku_id :: uuid
  sku_code :: string
  sku_description :: string
  sku_uom :: string
  sku_weight_kg :: "decimal option"
  sku_is_hazmat :: bool
  sku_is_active :: bool
  sku_lead_time_days :: int

record InventoryBalance =
  bal_id :: uuid
  bal_warehouse :: uuid
  bal_sku :: uuid
  bal_location :: "uuid option"
  on_hand :: int
  reserved :: int
  allocated :: int
  in_transit :: int
  damaged :: int
  quarantine :: int
  bal_version :: int

text \<open>The property \<open>InventoryBalance.available\<close>.\<close>

definition uncommitted :: "InventoryBalance \<Rightarrow> int" where
  "uncommitted b = on_hand b - reserved b - allocated b - damaged b - quarantine b"

definition available :: "InventoryBalance \<Rightarrow> int" where
  "available b = max 0 (on_hand b - reserved b - allocated b - damaged b - quarantine b)"

record InventoryReservation =
  res_id :: uuid
  res_order :: uuid
  res_order_line :: uuid
  res_warehouse :: uuid
  res_sku :: uuid
  res_quantity :: int
  res_status :: string
  res_expires_at :: instant
  res_correlation :: "string option"

record SafetyStockPolicy =
  pol_id :: uuid
  pol_warehouse :: uuid
  pol_sku :: uuid
  pol_service_level :: decimal
  pol_safety_stock_qty :: int
  pol_reorder_point :: int
  pol_max_stock :: "int option"
  pol_demand_std_dev :: "decimal option"
  pol_lead_time_days :: int

record InventoryForecast =
  fc_id :: uuid
  fc_warehouse :: uuid
  fc_sku :: uuid
  fc_date :: instant
  fc_predicted :: int
  fc_lower :: "int option"
  fc_upper :: "int option"
  fc_model_version :: string
  fc_drift_score :: "decimal option"

section \<open>Warehouses\<close>

record Warehouse =
  wh_id :: uuid
  wh_code :: string
  wh_name :: string
  wh_address :: pydict
  wh_timezone :: string
  wh_capacity_units :: "int option"
  wh_is_active :: bool
  wh_priority :: int
  wh_operating_hours :: pydict

record WarehouseLocation =
  loc_id :: uuid
  loc_warehouse :: uuid
  loc_code :: string
  loc_zone :: string
  loc_aisle :: "string option"
  loc_rack :: "string option"
  loc_level :: "string option"
  loc_type :: string
  loc_capacity_units :: "int option"
  loc_is_pickable :: bool

record WarehouseTask =
  task_id :: uuid
  task_warehouse :: uuid
  task_type :: string
  task_status :: string
  task_priority :: int
  task_assigned_to :: "string option"
  task_source :: "uuid option"
  task_target :: "uuid option"
  task_sku :: "uuid option"
  task_quantity :: "int option"
  task_ref_type :: "string option"
  task_ref_id :: "uuid option"
  task_started_at :: "instant option"
  task_completed_at :: "instant option"
  task_data :: pydict
  task_created_at :: instant

record WarehouseTransfer =
  tr_id :: uuid
  tr_number :: uuid
  tr_source :: uuid
  tr_destination :: uuid
  tr_status :: string
  tr_sku :: uuid
  tr_quantity :: int
  tr_quantity_shipped :: int
  tr_quantity_received :: int
  tr_scheduled_ship_date :: "instant option"
  tr_correlation :: "string option"
  tr_created_at :: instant

section \<open>Fulfillment\<close>

record Order =
  ord_id :: uuid
  ord_external_id :: string
  ord_customer :: string
  ord_status :: string
  ord_priority :: int
  ord_ship_to :: pydict
  ord_requested_ship_date :: "instant option"
  ord_routing_strategy :: string
  ord_allow_partial :: bool
  ord_correlation :: "string option"
  ord_version :: int
  ord_created_at :: instant

record OrderLine =
  ol_id :: uuid
  ol_order :: uuid
  ol_sku :: uuid
  ol_quantity_ordered :: int
  ol_quantity_allocated :: int
  ol_quantity_shipped :: int
  ol_unit_price :: decimal
  ol_backorder_quantity :: int

record FulfillmentPlan =
  fp_id :: uuid
  fp_order :: uuid
  fp_warehouse :: uuid
  fp_status :: string
  fp_planned_ship_date :: "instant option"
  fp_estimated_cost :: "decimal option"
  fp_routing_score :: "decimal option"
  fp_line_coverage :: "(uuid \<times> int) list"
  fp_strategy :: string
  fp_is_partial :: bool

section \<open>Procurement\<close>

record Supplier =
  sup_id :: uuid
  sup_code :: string
  sup_name :: string
  sup_contact_email :: "string option"
  sup_lead_time_days :: int
  sup_on_time_rate :: "decimal option"
  sup_quality_score :: "decimal option"
  sup_payment_terms_days :: int
  sup_is_preferred :: bool
  sup_is_active :: bool
  sup_metrics :: pydict

record PurchaseOrder =
  po_id :: uuid
  po_number :: uuid
  po_supplier :: uuid
  po_warehouse :: uuid
  po_status :: string
  po_order_date :: instant
  po_expected_delivery :: "instant option"
  po_total_amount :: decimal
  po_currency :: string
  po_run :: "uuid option"
  po_notes :: "string option"
  po_version :: int

record PurchaseOrderLine =
  pol_line_id :: uuid
  pl_po :: uuid
  pl_sku :: uuid
  pl_ordered :: int
  pl_received :: int
  pl_unit_cost :: decimal
  pl_status :: string

section \<open>Transportation\<close>

record Carrier =
  car_id :: uuid
  car_code :: string
  car_name :: string
  car_service_levels :: "json list"
  car_on_time_rate :: "decimal option"
  car_cost_per_kg :: "decimal option"
  car_max_weight_kg :: "decimal option"
  car_is_active :: bool

text \<open>An entry of \<open>state_history\<close>: the status, the instant and the previous status, if any.\<close>

record history_entry =
  h_status :: string
  h_timestamp :: instant
  h_previous :: "string option"

record Shipment =
  sh_id :: uuid
  sh_number :: uuid
  sh_order :: "uuid option"
  sh_warehouse :: uuid
  sh_carrier :: "uuid option"
  sh_status :: string
  sh_origin :: pydict
  sh_destination :: pydict
  sh_total_weight_kg :: "decimal option"
  sh_total_packages :: int
  sh_scheduled_pickup :: "instant option"
  sh_scheduled_delivery :: "instant option"
  sh_actual_delivery :: "instant option"
  sh_tracking_number :: "string option"
  sh_consolidation_group :: "uuid option"
  sh_history :: "history_entry list"
  sh_version :: int
  sh_created_at :: instant

record ShipmentStop =
  st_id :: uuid
  st_shipment :: uuid
  st_sequence :: int
  st_type :: string
  st_address :: pydict
  st_planned_arrival :: "instant option"
  st_actual_arrival :: "instant option"
  st_status :: string

record RoutePlan =
  rp_id :: uuid
  rp_shipment :: uuid
  rp_carrier :: uuid
  rp_total_distance_km :: "decimal option"
  rp_total_duration_minutes :: "int option"
  rp_estimated_cost :: "decimal option"
  rp_ordered_stops :: "uuid list"
  rp_run :: "uuid option"
  rp_is_selected :: bool

section \<open>Events and audit\<close>

record DomainEvent =
  ev_id :: uuid
  ev_type :: string
  ev_aggregate_type :: string
  ev_aggregate_id :: uuid
  ev_sequence :: int
  ev_correlation :: string
  ev_causation :: "string option"
  ev_payload :: pydict
  ev_metadata :: pydict
  ev_occurred_at :: instant
  ev_processed_at :: "instant option"
  ev_status :: string
  ev_retry_count :: int
  ev_error :: "exn option"

record AuditEntry =
  au_id :: uuid
  au_entity_type :: string
  au_entity_id :: uuid
  au_action :: string
  au_actor :: "string option"
  au_correlation :: "string option"
  au_timestamp :: instant
  au_before :: "pydict option"
  au_after :: "pydict option"
  au_metadata :: pydict
  au_is_override :: bool
  au_override_reason :: "string option"

record PlanningDecision =
  pd_id :: uuid
  pd_type :: string
  pd_ref_type :: string
  pd_ref_id :: uuid
  pd_algorithm :: string
  pd_algorithm_version :: string
  pd_input :: pydict
  pd_output :: pydict
  pd_score :: "pyfloat option"
  pd_alternatives :: int
  pd_correlation :: "string option"
  pd_execution_time_ms :: "int option"
  pd_created_at :: instant

section \<open>The session\<close>

text \<open>
  The tables of a session and what else an operation reads: the supply of UUIDs, the clock, and
  the context variables of \<open>core/context.py\<close>.
\<close>

record session =
  skus :: "Sku table"
  balances :: "InventoryBalance table"
  reservations :: "InventoryReservation table"
  policies :: "SafetyStockPolicy table"
  forecasts :: "InventoryForecast table"
  warehouses :: "Warehouse table"
  locations :: "WarehouseLocation table"
  tasks :: "WarehouseTask table"
  transfers :: "WarehouseTransfer table"
  orders :: "Order table"
  order_lines :: "OrderLine table"
  plans :: "FulfillmentPlan table"
  suppliers :: "Supplier table"
  pos :: "PurchaseOrder table"
  po_lines :: "PurchaseOrderLine table"
  carriers :: "Carrier table"
  shipments :: "Shipment table"
  stops :: "ShipmentStop table"
  route_plans :: "RoutePlan table"
  events :: "DomainEvent table"
  audits :: "AuditEntry table"
  decisions :: "PlanningDecision table"
  next_uuid :: uuid
  now :: instant
  ctx_correlation :: string
  ctx_actor :: "string option"
  ctx_override :: "string option"

type_synonym 'a task = "(session, exn, 'a) op"

definition empty_session :: session where
  "empty_session = \<lparr>skus = [], balances = [], reservations = [], policies = [], forecasts = [],
     warehouses = [], locations = [], tasks = [], transfers = [], orders = [], order_lines = [],
     plans = [], suppliers = [], pos = [], po_lines = [], carriers = [], shipments = [],
     stops = [], route_plans = [], events = [], audits = [], decisions = [], next_uuid = 1,
     now = 0, ctx_correlation = '''', ctx_actor = None, ctx_override = None\<rparr>"

definition flush :: "session \<Rightarrow> session" where
  "flush s = s\<lparr>skus := flush_table (skus s), balances := flush_table (balances s),
     reservations := flush_table (reservations s), policies := flush_table (policies s),
     forecasts := flush_table (forecasts s), warehouses := flush_table (warehouses s),
     locations := flush_table (locations s), tasks := flush_table (tasks s),
     transfers := flush_table (transfers s), orders := flush_table (orders s),
     order_lines := flush_table (order_lines s), plans := flush_table (plans s),
     suppliers := flush_table (suppliers s), pos := flush_table (pos s),
     po_lines := flush_table (po_lines s), carriers := flush_table (carriers s),
     shipments := flush_table (shipments s), stops := flush_table (stops s),
     route_plans := flush_table (route_plans s), events := flush_table (events s),
     audits := flush_table (audits s), decisions := flush_table (decisions s)\<rparr>"

lemma flush_code [code]:
  "flush \<lparr>skus = t1, balances = t2, reservations = t3, policies = t4, forecasts = t5, warehouses
     = t6, locations = t7, tasks = t8, transfers = t9, orders = t10, order_lines = t11, plans
     = t12, suppliers = t13, pos = t14, po_lines = t15, carriers = t16, shipments = t17, stops
     = t18, route_plans = t19, events = t20, audits = t21, decisions = t22, next_uuid = i, now
     = n, ctx_correlation = c, ctx_actor = a, ctx_override = r\<rparr> =
   \<lparr>skus = flush_table t1, balances = flush_table t2, reservations = flush_table t3,
     policies = flush_table t4, forecasts = flush_table t5, warehouses = flush_table t6,
     locations = flush_table t7, tasks = flush_table t8, transfers = flush_table t9, orders =
     flush_table t10, order_lines = flush_table t11, plans = flush_table t12, suppliers =
     flush_table t13, pos = flush_table t14, po_lines = flush_table t15, carriers =
     flush_table t16, shipments = flush_table t17, stops = flush_table t18, route_plans =
     flush_table t19, events = flush_table t20, audits = flush_table t21, decisions =
     flush_table t22, next_uuid = i, now = n, ctx_correlation = c, ctx_actor = a, ctx_override
     = r\<rparr>"
  by (simp add: flush_def)

definition clean_session :: "session \<Rightarrow> bool" where
  "clean_session s \<longleftrightarrow> flush s = s"

lemma flush_idem [simp]: "flush (flush s) = flush s"
  by (simp add: flush_def flush_table_def comp_def)

lemma clean_session_flush [simp]: "clean_session (flush s)"
  by (simp add: clean_session_def)

lemma flush_fields [simp]:
  "skus (flush s) = flush_table (skus s)"
  "forecasts (flush s) = flush_table (forecasts s)"
  "decisions (flush s) = flush_table (decisions s)"
  "balances (flush s) = flush_table (balances s)"
  "reservations (flush s) = flush_table (reservations s)"
  "policies (flush s) = flush_table (policies s)"
  "warehouses (flush s) = flush_table (warehouses s)"
  "locations (flush s) = flush_table (locations s)"
  "tasks (flush s) = flush_table (tasks s)"
  "transfers (flush s) = flush_table (transfers s)"
  "orders (flush s) = flush_table (orders s)"
  "order_lines (flush s) = flush_table (order_lines s)"
  "plans (flush s) = flush_table (plans s)"
  "suppliers (flush s) = flush_table (suppliers s)"
  "pos (flush s) = flush_table (pos s)"
  "po_lines (flush s) = flush_table (po_lines s)"
  "carriers (flush s) = flush_table (carriers s)"
  "shipments (flush s) = flush_table (shipments s)"
  "stops (flush s) = flush_table (stops s)"
  "route_plans (flush s) = flush_table (route_plans s)"
  "events (flush s) = flush_table (events s)"
  "audits (flush s) = flush_table (audits s)"
  "next_uuid (flush s) = next_uuid s" "now (flush s) = now s"
  "ctx_correlation (flush s) = ctx_correlation s" "ctx_actor (flush s) = ctx_actor s"
  "ctx_override (flush s) = ctx_override s"
  by (simp_all add: flush_def)

lemma flush_table_fixed: "flush_table t = t \<longleftrightarrow> clean t"
proof (induction t)
  case (Cons c t)
  then show ?case by (cases c) (auto simp: flush_table_def clean_def)
qed (simp add: flush_table_def)

lemma clean_tables:
  assumes "clean_session s"
  shows "clean (balances s)" "clean (reservations s)" "clean (policies s)"
    "clean (warehouses s)" "clean (locations s)" "clean (tasks s)" "clean (transfers s)"
    "clean (orders s)" "clean (order_lines s)" "clean (plans s)" "clean (suppliers s)"
    "clean (pos s)" "clean (po_lines s)" "clean (shipments s)" "clean (stops s)"
    "clean (carriers s)" "clean (route_plans s)" "clean (events s)" "clean (audits s)"
    "clean (forecasts s)" "clean (skus s)" "clean (decisions s)"
proof -
  have "flush s = s" using assms by (simp add: clean_session_def)
  note tables = flush_fields(1-22) [of s, unfolded this]
  show "clean (balances s)" "clean (reservations s)" "clean (policies s)"
    "clean (warehouses s)" "clean (locations s)" "clean (tasks s)" "clean (transfers s)"
    "clean (orders s)" "clean (order_lines s)" "clean (plans s)" "clean (suppliers s)"
    "clean (pos s)" "clean (po_lines s)" "clean (shipments s)" "clean (stops s)"
    "clean (carriers s)" "clean (route_plans s)" "clean (events s)" "clean (audits s)"
    "clean (forecasts s)" "clean (skus s)" "clean (decisions s)"
    unfolding flush_table_fixed [symmetric] by (rule tables [symmetric])+
qed

text \<open>\<open>uuid.uuid4()\<close>, and \<open>datetime.now(timezone.utc)\<close>: the clock is fixed during an operation.\<close>

definition fresh_uuid :: "uuid task" where
  "fresh_uuid = bind (reads next_uuid) (\<lambda>i. bind (modify (\<lambda>s. s\<lparr>next_uuid := Suc i\<rparr>)) (\<lambda>_. ret i))"

definition get_now :: "instant task" where
  "get_now = reads now"

text \<open>
  \<open>get_db_session\<close>: a request runs in one session; a normal return commits, an exception rolls
  every change back.  (UUIDs drawn by an aborted request occur nowhere, so the supply may be
  wound back with the rest.)
\<close>

definition run_request :: "'a task \<Rightarrow> session \<Rightarrow> (exn + 'a) \<times> session" where
  "run_request m s = (case m s of (Inr x, t) \<Rightarrow> (Inr x, flush t) | (Inl e, t) \<Rightarrow> (Inl e, s))"

text \<open>What differs between two requests besides the database: the clock and the context.\<close>

definition new_context :: "instant \<Rightarrow> string \<Rightarrow> string option \<Rightarrow> string option \<Rightarrow> session \<Rightarrow> session" where
  "new_context n c a r s = s\<lparr>now := n, ctx_correlation := c, ctx_actor := a, ctx_override := r\<rparr>"

lemma fresh_uuid_app [simp]: "fresh_uuid s = (Inr (next_uuid s), s\<lparr>next_uuid := Suc (next_uuid s)\<rparr>)"
  by (simp add: fresh_uuid_def)

lemma get_now_app [simp]: "get_now s = (Inr (now s), s)"
  by (simp add: get_now_def)

lemma bind_fresh_uuid [simp]:
  "bind fresh_uuid f s = f (next_uuid s) (s\<lparr>next_uuid := Suc (next_uuid s)\<rparr>)"
  by (simp add: bind_def)

lemma bind_get_now [simp]: "bind get_now f s = f (now s) s"
  by (simp add: bind_def)

lemma preserves_fresh_uuid [hoare_rules]:
  "(\<And>s. I s \<Longrightarrow> I (s\<lparr>next_uuid := Suc (next_uuid s)\<rparr>)) \<Longrightarrow> preserves I fresh_uuid"
  by (rule preservesI) simp

lemma preserves_get_now [hoare_rules]: "preserves I get_now"
  by (simp add: get_now_def preserves_reads)

section \<open>The transaction contract\<close>

text \<open>
  What a component needs to know about transactions in order to state an invariant of the
  database: a request starts from the committed state with a fresh session, so no object is
  dirty, and the invariant has to hold again \<^emph>\<open>at its commit\<close> (intermediate states and aborted
  requests do not matter).  The client lemma is that the invariant then holds in every database
  state that a sequence of requests can reach.
\<close>

definition as_request :: "'a task \<Rightarrow> unit task" where
  "as_request m = bind m (\<lambda>_. ret ())"

inductive reachable :: "unit task set \<Rightarrow> session \<Rightarrow> session \<Rightarrow> bool"
  for reqs :: "unit task set" and s0 :: session where
  start: "reachable reqs s0 s0"
| request: "reachable reqs s0 s \<Longrightarrow> m \<in> reqs \<Longrightarrow> reachable reqs s0 (snd (run_request m s))"
| new_ctx: "reachable reqs s0 s \<Longrightarrow> reachable reqs s0 (new_context n c a r s)"

lemma clean_session_new_context [simp]: "clean_session (new_context n c a r s) \<longleftrightarrow> clean_session s"
  unfolding clean_session_def new_context_def flush_def by (cases s) simp

lemma reachable_clean: "reachable reqs s0 s \<Longrightarrow> clean_session s0 \<Longrightarrow> clean_session s"
  by (induction rule: reachable.induct) (auto simp: run_request_def split: prod.split sum.split)

locale transactional =
  fixes inv :: "session \<Rightarrow> bool"
    and reqs :: "unit task set"
  assumes inv_commit:
      "\<And>m s t. m \<in> reqs \<Longrightarrow> inv s \<Longrightarrow> clean_session s \<Longrightarrow> m s = (Inr (), t) \<Longrightarrow> inv (flush t)"
    and inv_context: "\<And>n c a r s. inv s \<Longrightarrow> inv (new_context n c a r s)"
begin

lemma inv_request: "m \<in> reqs \<Longrightarrow> inv s \<Longrightarrow> clean_session s \<Longrightarrow> inv (snd (run_request m s))"
  using inv_commit [of m s] by (auto simp: run_request_def split: prod.split sum.split)

lemma reachable_inv: "reachable reqs s0 s \<Longrightarrow> clean_session s0 \<Longrightarrow> inv s0 \<Longrightarrow> inv s"
  by (induction rule: reachable.induct) (auto intro: inv_request inv_context reachable_clean)

end

lemma as_request_Inr: "as_request m s = (Inr (), t) \<Longrightarrow> \<exists>x. m s = (Inr x, t)"
  by (auto simp: as_request_def bind_Inr_iff)

end
