(* ===== verification/Repositories.thy ===== *)
theory Repositories
  imports Models
begin

text \<open>
  The repository layer (\<open>repositories/\<close>): the queries of the code base as operations on the
  session, in terms of the table queries of \<^theory_text>\<open>Store\<close>.  The class \<open>BaseRepository\<close> is generic
  in the ORM class; its methods take the record update function of the table
  (\<open>balances_update\<close>, ...) and the key field.
\<close>

section \<open>BaseRepository\<close>

type_synonym 'r tab_update = "('r table \<Rightarrow> 'r table) \<Rightarrow> session \<Rightarrow> session"

definition get_by_id :: "('r \<Rightarrow> uuid) \<Rightarrow> (session \<Rightarrow> 'r table) \<Rightarrow> uuid \<Rightarrow> 'r option task" where
  "get_by_id key tab i = reads (\<lambda>s. get_by_key key i (tab s))"

definition get_by_id_or_raise :: "('r \<Rightarrow> uuid) \<Rightarrow> (session \<Rightarrow> 'r table) \<Rightarrow> uuid \<Rightarrow> 'r task" where
  "get_by_id_or_raise key tab i =
     bind (get_by_id key tab i) (\<lambda>e. case e of None \<Rightarrow> raise (NotFoundError i) | Some r \<Rightarrow> ret r)"

lemma get_by_id_or_raise_ok:
  assumes "get_by_id_or_raise key tab i s = (Inr r, t)"
  shows "t = s" and "r \<in> set (lives (tab s))" and "key r = i"
  using assms get_by_key_Some [of key i "tab s" r]
  by (auto simp: get_by_id_or_raise_def get_by_id_def bind_Inr_iff split: option.splits)

lemma bind_get_by_id_or_raise:
  "get_by_id_or_raise key tab i s = (Inr r, s) \<Longrightarrow> bind (get_by_id_or_raise key tab i) f s = f r s"
  by (simp add: bind_def)

lemma preserves_get_by_id_or_raise [hoare_rules]: "preserves I (get_by_id_or_raise key tab i)"
  unfolding get_by_id_or_raise_def get_by_id_def by (intro hoare_rules)

text \<open>\<open>session.add(entity)\<close>; \<open>add\<close> flushes the whole session as well.\<close>

definition session_add :: "'r tab_update \<Rightarrow> 'r \<Rightarrow> unit task" where
  "session_add upd r = modify (upd (add_row r))"

definition add :: "'r tab_update \<Rightarrow> 'r \<Rightarrow> 'r task" where
  "add upd r = bind (session_add upd r) (\<lambda>_. bind (modify flush) (\<lambda>_. ret r))"

definition delete :: "'r tab_update \<Rightarrow> ('r \<Rightarrow> uuid) \<Rightarrow> uuid \<Rightarrow> unit task" where
  "delete upd key i = bind (modify (upd (filter (\<lambda>c. key (live c) \<noteq> i)))) (\<lambda>_. modify flush)"

definition repo_list_all :: "(session \<Rightarrow> 'r table) \<Rightarrow> nat \<Rightarrow> nat \<Rightarrow> 'r list task" where
  "repo_list_all tab limit offset = reads (\<lambda>s. take limit (drop offset (select_where (\<lambda>_. True) (tab s))))"

text \<open>\<open>obj.field = value\<close> on the object of key \<open>i\<close>.\<close>

definition set_obj :: "'r tab_update \<Rightarrow> ('r \<Rightarrow> uuid) \<Rightarrow> uuid \<Rightarrow> ('r \<Rightarrow> 'r) \<Rightarrow> unit task" where
  "set_obj upd key i f = modify (upd (upd_row key i f))"

text \<open>\<open>update_with_version\<close>: a conditional update statement; the database compares the version.\<close>

definition update_with_version ::
  "'r tab_update \<Rightarrow> (session \<Rightarrow> 'r table) \<Rightarrow> ('r \<Rightarrow> uuid) \<Rightarrow> ('r \<Rightarrow> int) \<Rightarrow> (int \<Rightarrow> 'r \<Rightarrow> 'r) \<Rightarrow>
   uuid \<Rightarrow> int \<Rightarrow> ('r \<Rightarrow> 'r) \<Rightarrow> 'r task" where
  "update_with_version upd tab key ver set_ver i expected values =
     bind (reads (\<lambda>s. select_where (\<lambda>r. key r = i \<and> ver r = expected) (tab s))) (\<lambda>hits.
     bind (modify (upd (sql_update (\<lambda>r. key r = i \<and> ver r = expected)
                                   (\<lambda>r. set_ver (expected + 1) (values r))))) (\<lambda>_.
     bind (fetch (\<lambda>_. scalar_one_or_none (map (\<lambda>r. set_ver (expected + 1) (values r)) hits)))
       (\<lambda>r. case r of None \<Rightarrow> raise (ConcurrencyError i expected) | Some r \<Rightarrow> ret r)))"

text \<open>The look-ups by a unique column all have this form.\<close>

definition get_by_unique :: "('r \<Rightarrow> 'k) \<Rightarrow> (session \<Rightarrow> 'r table) \<Rightarrow> 'k \<Rightarrow> 'r option task" where
  "get_by_unique col tab v = fetch (\<lambda>s. scalar_one_or_none (select_where (\<lambda>r. col r = v) (tab s)))"

definition get_sku_by_code :: "string \<Rightarrow> Sku option task" where
  "get_sku_by_code = get_by_unique sku_code skus"

definition get_warehouse_by_code :: "string \<Rightarrow> Warehouse option task" where
  "get_warehouse_by_code = get_by_unique wh_code warehouses"

definition get_location_by_code :: "uuid \<Rightarrow> string \<Rightarrow> WarehouseLocation option task" where
  "get_location_by_code w c = get_by_unique (\<lambda>l. (loc_warehouse l, loc_code l)) locations (w, c)"

definition get_transfer_by_number :: "uuid \<Rightarrow> WarehouseTransfer option task" where
  "get_transfer_by_number = get_by_unique tr_number transfers"

definition get_order_by_external_id :: "string \<Rightarrow> Order option task" where
  "get_order_by_external_id = get_by_unique ord_external_id orders"

definition get_supplier_by_code :: "string \<Rightarrow> Supplier option task" where
  "get_supplier_by_code = get_by_unique sup_code suppliers"

definition get_po_by_number :: "uuid \<Rightarrow> PurchaseOrder option task" where
  "get_po_by_number = get_by_unique po_number pos"

definition get_carrier_by_code :: "string \<Rightarrow> Carrier option task" where
  "get_carrier_by_code = get_by_unique car_code carriers"

definition get_shipment_by_number :: "uuid \<Rightarrow> Shipment option task" where
  "get_shipment_by_number = get_by_unique sh_number shipments"

section \<open>Inventory\<close>

definition get_balance :: "uuid \<Rightarrow> uuid \<Rightarrow> uuid option \<Rightarrow> InventoryBalance option task" where
  "get_balance w k l = fetch (\<lambda>s. scalar_one_or_none
     (select_where (\<lambda>b. bal_warehouse b = w \<and> bal_sku b = k \<and> bal_location b = l) (balances s)))"

definition get_aggregated_available :: "uuid \<Rightarrow> uuid \<Rightarrow> int task" where
  "get_aggregated_available w k = reads (\<lambda>s. max 0
     (select_sum uncommitted (\<lambda>b. bal_warehouse b = w \<and> bal_sku b = k) (balances s)))"

definition network_visibility :: "uuid \<Rightarrow> session \<Rightarrow> (uuid \<times> int \<times> int \<times> int) list" where
  "network_visibility k s =
     (let rows = filter (\<lambda>b. bal_sku b = k) (stored_rows (balances s));
          sum_of = (\<lambda>f w. sum_list (map f (filter (\<lambda>b. bal_warehouse b = w) rows)))
      in map (\<lambda>w. (w, sum_of on_hand w, sum_of reserved w, max 0 (sum_of uncommitted w)))
           (first_occurrences (map bal_warehouse rows)))"

definition get_network_visibility :: "uuid \<Rightarrow> (uuid \<times> int \<times> int \<times> int) list task" where
  "get_network_visibility k = reads (network_visibility k)"

definition list_by_warehouse :: "uuid \<Rightarrow> InventoryBalance list task" where
  "list_by_warehouse w = reads (\<lambda>s. select_where (\<lambda>b. bal_warehouse b = w) (balances s))"

definition get_active_for_order :: "uuid \<Rightarrow> InventoryReservation list task" where
  "get_active_for_order i = reads (\<lambda>s.
     select_where (\<lambda>r. res_order r = i \<and> res_status r = ''active'') (reservations s))"

definition get_expired :: "instant option \<Rightarrow> InventoryReservation list task" where
  "get_expired as_of = bind get_now (\<lambda>n.
     let cutoff = (case as_of of None \<Rightarrow> n | Some t \<Rightarrow> t) in
     reads (\<lambda>s. select_where (\<lambda>r. res_status r = ''active'' \<and> res_expires_at r < cutoff) (reservations s)))"

definition sum_reserved_quantity :: "uuid \<Rightarrow> uuid \<Rightarrow> int task" where
  "sum_reserved_quantity w k = reads (\<lambda>s. select_sum res_quantity
     (\<lambda>r. res_warehouse r = w \<and> res_sku r = k \<and> res_status r = ''active'') (reservations s))"

definition get_policy :: "uuid \<Rightarrow> uuid \<Rightarrow> SafetyStockPolicy option task" where
  "get_policy w k = fetch (\<lambda>s. scalar_one_or_none
     (select_where (\<lambda>p. pol_warehouse p = w \<and> pol_sku p = k) (policies s)))"

text \<open>\<open>list_below_reorder_point\<close>: an outer join with the balances, grouped by policy.\<close>

definition policy_available :: "session \<Rightarrow> SafetyStockPolicy \<Rightarrow> int" where
  "policy_available s p = select_sum (\<lambda>b. on_hand b - reserved b - allocated b)
     (\<lambda>b. bal_warehouse b = pol_warehouse p \<and> bal_sku b = pol_sku p) (balances s)"

definition list_below_reorder_point :: "(SafetyStockPolicy \<times> int) list task" where
  "list_below_reorder_point = reads (\<lambda>s.
     map (\<lambda>p. (p, policy_available s p))
       (select_where (\<lambda>p. policy_available s p < pol_reorder_point p) (policies s)))"

definition get_forecast_series ::
  "uuid \<Rightarrow> uuid \<Rightarrow> instant \<Rightarrow> instant \<Rightarrow> InventoryForecast list task" where
  "get_forecast_series w k t0 t1 = reads (\<lambda>s. select_ordered fc_date
     (\<lambda>f. fc_warehouse f = w \<and> fc_sku f = k \<and> t0 \<le> fc_date f \<and> fc_date f \<le> t1) (forecasts s))"

definition get_latest :: "uuid \<Rightarrow> uuid \<Rightarrow> InventoryForecast option task" where
  "get_latest w k = fetch (\<lambda>s. scalar_one_or_none (take 1
     (select_ordered (\<lambda>f. - fc_date f) (\<lambda>f. fc_warehouse f = w \<and> fc_sku f = k) (forecasts s))))"

section \<open>Warehouses\<close>

definition list_active_warehouses :: "Warehouse list task" where
  "list_active_warehouses = reads (\<lambda>s. select_ordered wh_priority wh_is_active (warehouses s))"

text \<open>\<open>if zone:\<close> adds the zone condition for a non-empty zone only.\<close>

definition list_pickable :: "uuid \<Rightarrow> string option \<Rightarrow> WarehouseLocation list task" where
  "list_pickable w zone = reads (\<lambda>s. select_where (\<lambda>l. loc_warehouse l = w \<and> loc_is_pickable l \<and>
     (case zone of None \<Rightarrow> True | Some z \<Rightarrow> z = [] \<or> loc_zone l = z)) (locations s))"

definition list_pending_tasks :: "uuid \<Rightarrow> string option \<Rightarrow> nat \<Rightarrow> WarehouseTask list task" where
  "list_pending_tasks w ty limit = reads (\<lambda>s. take limit
     (select_ordered (\<lambda>t. (task_priority t, task_created_at t))
       (\<lambda>t. task_warehouse t = w \<and> task_status t = ''pending'' \<and>
         (case ty of None \<Rightarrow> True | Some y \<Rightarrow> y = [] \<or> task_type t = y)) (tasks s)))"

definition list_tasks_by_reference :: "string \<Rightarrow> uuid \<Rightarrow> WarehouseTask list task" where
  "list_tasks_by_reference ty i = reads (\<lambda>s.
     select_where (\<lambda>t. task_ref_type t = Some ty \<and> task_ref_id t = Some i) (tasks s))"

definition list_in_transit :: "WarehouseTransfer list task" where
  "list_in_transit = reads (\<lambda>s.
     select_where (\<lambda>t. tr_status t \<in> {''shipped'', ''in_transit''}) (transfers s))"

section \<open>Fulfillment\<close>

definition lines_of_order :: "session \<Rightarrow> uuid \<Rightarrow> OrderLine list" where
  "lines_of_order s i = select_where (\<lambda>l. ol_order l = i) (order_lines s)"

definition get_order_with_lines :: "uuid \<Rightarrow> (Order \<times> OrderLine list) option task" where
  "get_order_with_lines i = fetch (\<lambda>s. map_sum id (map_option (\<lambda>ord. (ord, lines_of_order s (ord_id ord))))
     (scalar_one_or_none (select_where (\<lambda>ord. ord_id ord = i) (orders s))))"

definition list_orders_by_status :: "string \<Rightarrow> nat \<Rightarrow> Order list task" where
  "list_orders_by_status st limit = reads (\<lambda>s. take limit
     (select_ordered (\<lambda>ord. (ord_priority ord, ord_created_at ord)) (\<lambda>ord. ord_status ord = st) (orders s)))"

definition list_pending_allocation :: "nat \<Rightarrow> Order list task" where
  "list_pending_allocation limit = reads (\<lambda>s. take limit
     (select_ordered (\<lambda>ord. (ord_priority ord, ord_created_at ord))
       (\<lambda>ord. ord_status ord \<in> {''received'', ''validating'', ''allocating''}) (orders s)))"

definition get_unfulfilled_lines :: "uuid \<Rightarrow> OrderLine list task" where
  "get_unfulfilled_lines i = reads (\<lambda>s. select_where
     (\<lambda>l. ol_order l = i \<and> ol_quantity_allocated l < ol_quantity_ordered l) (order_lines s))"

definition get_plans_for_order :: "uuid \<Rightarrow> FulfillmentPlan list task" where
  "get_plans_for_order i = reads (\<lambda>s. select_where (\<lambda>p. fp_order p = i) (plans s))"

definition get_active_plan :: "uuid \<Rightarrow> uuid \<Rightarrow> FulfillmentPlan option task" where
  "get_active_plan i w = fetch (\<lambda>s. scalar_one_or_none (select_where
     (\<lambda>p. fp_order p = i \<and> fp_warehouse p = w \<and> fp_status p \<in> {''planned'', ''executing''}) (plans s)))"

section \<open>Procurement\<close>

text \<open>\<open>order_by(x.desc().nullslast())\<close> and \<open>order_by(x.asc().nullslast())\<close>.\<close>


definition desc_nullslast :: "decimal option \<Rightarrow> bool \<times> decimal" where
  "desc_nullslast x = (case x of None \<Rightarrow> (True, 0) | Some v \<Rightarrow> (False, - v))"

definition asc_nullslast :: "instant option \<Rightarrow> bool \<times> instant" where
  "asc_nullslast x = (case x of None \<Rightarrow> (True, 0) | Some v \<Rightarrow> (False, v))"

definition list_preferred :: "Supplier list task" where
  "list_preferred = reads (\<lambda>s. select_ordered (\<lambda>p. desc_nullslast (sup_on_time_rate p))
     (\<lambda>p. sup_is_preferred p \<and> sup_is_active p) (suppliers s))"

definition list_by_performance_threshold :: "decimal \<Rightarrow> Supplier list task" where
  "list_by_performance_threshold m = reads (\<lambda>s. select_where (\<lambda>p. sup_is_active p \<and>
     (case sup_on_time_rate p of None \<Rightarrow> False | Some r \<Rightarrow> m \<le> r)) (suppliers s))"

definition lines_of_po :: "session \<Rightarrow> uuid \<Rightarrow> PurchaseOrderLine list" where
  "lines_of_po s i = select_where (\<lambda>l. pl_po l = i) (po_lines s)"

definition get_po_with_lines :: "uuid \<Rightarrow> (PurchaseOrder \<times> PurchaseOrderLine list) option task" where
  "get_po_with_lines i = fetch (\<lambda>s. map_sum id (map_option (\<lambda>p. (p, lines_of_po s (po_id p))))
     (scalar_one_or_none (select_where (\<lambda>p. po_id p = i) (pos s))))"

definition list_open_for_warehouse :: "uuid \<Rightarrow> (PurchaseOrder \<times> PurchaseOrderLine list) list task" where
  "list_open_for_warehouse w = reads (\<lambda>s. map (\<lambda>p. (p, lines_of_po s (po_id p)))
     (select_ordered (\<lambda>p. asc_nullslast (po_expected_delivery p))
       (\<lambda>p. po_warehouse p = w \<and>
         po_status p \<in> {''submitted'', ''acknowledged'', ''partially_received''}) (pos s)))"

definition list_pending_receipt :: "nat \<Rightarrow> PurchaseOrder list task" where
  "list_pending_receipt limit = reads (\<lambda>s. take limit
     (select_ordered (\<lambda>p. asc_nullslast (po_expected_delivery p))
       (\<lambda>p. po_status p \<in> {''acknowledged'', ''partially_received''}) (pos s)))"

section \<open>Transportation\<close>

definition list_active_carriers :: "Carrier list task" where
  "list_active_carriers = reads (\<lambda>s. select_where car_is_active (carriers s))"

definition stops_of_shipment :: "session \<Rightarrow> uuid \<Rightarrow> ShipmentStop list" where
  "stops_of_shipment s i = select_where (\<lambda>p. st_shipment p = i) (stops s)"

definition get_shipment_with_stops :: "uuid \<Rightarrow> (Shipment \<times> ShipmentStop list) option task" where
  "get_shipment_with_stops i = fetch (\<lambda>s. map_sum id (map_option (\<lambda>p. (p, stops_of_shipment s (sh_id p))))
     (scalar_one_or_none (select_where (\<lambda>p. sh_id p = i) (shipments s))))"

definition list_shipments_by_status :: "string \<Rightarrow> nat \<Rightarrow> Shipment list task" where
  "list_shipments_by_status st limit = reads (\<lambda>s. take limit
     (select_ordered sh_created_at (\<lambda>p. sh_status p = st) (shipments s)))"

definition list_consolidation_candidates :: "uuid \<Rightarrow> instant \<Rightarrow> instant \<Rightarrow> Shipment list task" where
  "list_consolidation_candidates w t0 t1 = reads (\<lambda>s. select_where (\<lambda>p. sh_warehouse p = w \<and>
     sh_status p = ''planned'' \<and> sh_consolidation_group p = None \<and>
     (case sh_scheduled_pickup p of None \<Rightarrow> False | Some t \<Rightarrow> t0 \<le> t \<and> t \<le> t1)) (shipments s))"

definition list_by_consolidation_group :: "uuid \<Rightarrow> Shipment list task" where
  "list_by_consolidation_group g = reads (\<lambda>s.
     select_where (\<lambda>p. sh_consolidation_group p = Some g) (shipments s))"

definition get_selected_for_shipment :: "uuid \<Rightarrow> RoutePlan option task" where
  "get_selected_for_shipment i = fetch (\<lambda>s. scalar_one_or_none
     (select_where (\<lambda>p. rp_shipment p = i \<and> rp_is_selected p) (route_plans s)))"

definition list_alternatives :: "uuid \<Rightarrow> RoutePlan list task" where
  "list_alternatives i = reads (\<lambda>s. select_ordered
     (\<lambda>p. case rp_estimated_cost p of None \<Rightarrow> (True, 0) | Some c \<Rightarrow> (False, c))
     (\<lambda>p. rp_shipment p = i) (route_plans s))"

section \<open>Events\<close>

definition max_list0 :: "int list \<Rightarrow> int" where
  "max_list0 xs = (case xs of [] \<Rightarrow> 0 | x # ys \<Rightarrow> fold max ys x)"

definition get_next_sequence :: "string \<Rightarrow> uuid \<Rightarrow> int task" where
  "get_next_sequence ty i = reads (\<lambda>s. max_list0 (map ev_sequence
     (filter (\<lambda>e. ev_aggregate_type e = ty \<and> ev_aggregate_id e = i) (stored_rows (events s)))) + 1)"

definition list_pending_events :: "nat \<Rightarrow> DomainEvent list task" where
  "list_pending_events limit = reads (\<lambda>s. take limit
     (select_ordered ev_occurred_at (\<lambda>e. ev_status e = ''pending'') (events s)))"

definition list_for_aggregate :: "string \<Rightarrow> uuid \<Rightarrow> DomainEvent list task" where
  "list_for_aggregate ty i = reads (\<lambda>s. select_ordered ev_sequence
     (\<lambda>e. ev_aggregate_type e = ty \<and> ev_aggregate_id e = i) (events s))"

definition mark_processed :: "uuid \<Rightarrow> unit task" where
  "mark_processed i = bind get_now (\<lambda>n. modify (events_update (sql_update (\<lambda>e. ev_id e = i)
     (\<lambda>e. e\<lparr>ev_status := ''processed'', ev_processed_at := Some n\<rparr>))))"

definition mark_failed :: "uuid \<Rightarrow> exn \<Rightarrow> unit task" where
  "mark_failed i e = modify (events_update (sql_update (\<lambda>x. ev_id x = i)
     (\<lambda>x. x\<lparr>ev_status := ''failed'', ev_retry_count := ev_retry_count x + 1, ev_error := Some e\<rparr>)))"

definition count_unprocessed_by_type :: "(string \<times> nat) list task" where
  "count_unprocessed_by_type = reads (\<lambda>s.
     let pending = map ev_type (filter (\<lambda>e. ev_status e = ''pending'') (stored_rows (events s)))
     in map (\<lambda>ty. (ty, count_list pending ty)) (first_occurrences pending))"

section \<open>Audit\<close>

definition list_for_entity :: "string \<Rightarrow> uuid \<Rightarrow> nat \<Rightarrow> AuditEntry list task" where
  "list_for_entity ty i limit = reads (\<lambda>s. take limit (select_ordered (\<lambda>a. - au_timestamp a)
     (\<lambda>a. au_entity_type a = ty \<and> au_entity_id a = i) (audits s)))"

definition list_by_correlation :: "string \<Rightarrow> AuditEntry list task" where
  "list_by_correlation c = reads (\<lambda>s. select_ordered au_timestamp
     (\<lambda>a. au_correlation a = Some c) (audits s))"

definition list_manual_overrides :: "instant \<Rightarrow> instant \<Rightarrow> nat \<Rightarrow> AuditEntry list task" where
  "list_manual_overrides t0 t1 limit = reads (\<lambda>s. take limit (select_ordered (\<lambda>a. - au_timestamp a)
     (\<lambda>a. au_is_override a \<and> t0 \<le> au_timestamp a \<and> au_timestamp a \<le> t1) (audits s)))"

definition list_for_reference :: "string \<Rightarrow> uuid \<Rightarrow> PlanningDecision list task" where
  "list_for_reference ty i = reads (\<lambda>s. select_ordered (\<lambda>d. - pd_created_at d)
     (\<lambda>d. pd_ref_type d = ty \<and> pd_ref_id d = i) (decisions s))"

definition get_latest_for_reference :: "string \<Rightarrow> uuid \<Rightarrow> string \<Rightarrow> PlanningDecision option task" where
  "get_latest_for_reference ty i dt = fetch (\<lambda>s. scalar_one_or_none (take 1
     (select_ordered (\<lambda>d. - pd_created_at d)
       (\<lambda>d. pd_ref_type d = ty \<and> pd_ref_id d = i \<and> pd_type d = dt) (decisions s))))"

end
