(* ===== verification/Allocation.thy ===== *)
theory Allocation
  imports Repositories
begin

text \<open>
  \<open>domain/inventory/allocation.py\<close>: the allocation engine.  \<open>allocate\<close> ranks the active
  warehouses, walks them greedily, and for each creates a reservation row and raises \<open>reserved\<close>
  on the warehouse's balance; \<open>confirm_allocation\<close> and \<open>release_reservations\<close> end a reservation.
  Proved here: the accounting of a result, and that no path (exceptions included) oversells a
  balance.
\<close>

section \<open>Data\<close>

record AllocationRequest =
  ar_order :: uuid
  ar_order_line :: uuid
  ar_sku :: uuid
  ar_quantity :: int
  ar_preferred :: "uuid option"
  ar_allow_split :: bool

record AllocationResult =
  al_order_line :: uuid
  al_allocations :: "(uuid \<times> int) list"
  al_total :: int
  al_backorder :: int
  al_reservation_ids :: "uuid list"

definition is_fully_allocated :: "AllocationResult \<Rightarrow> bool" where
  "is_fully_allocated r \<longleftrightarrow> al_backorder r = 0"

record WarehouseScore =
  ws_warehouse :: uuid
  ws_available :: int
  ws_distance_score :: pyfloat
  ws_cost_score :: pyfloat
  ws_priority_score :: pyfloat

text \<open>\<open>d * 0.3 + c * 0.4 + p * 0.3\<close> in floats.\<close>

definition composite_score :: "WarehouseScore \<Rightarrow> pyfloat" where
  "composite_score w = fadd (fadd (fmul (ws_distance_score w) (fl (3/10)))
     (fmul (ws_cost_score w) (fl (4/10)))) (fmul (ws_priority_score w) (fl (3/10)))"

definition RESERVATION_TTL_MINUTES :: int where "RESERVATION_TTL_MINUTES = 30"

section \<open>Operations\<close>

definition score_warehouse :: "uuid \<Rightarrow> Warehouse \<Rightarrow> WarehouseScore task" where
  "score_warehouse k w = bind (get_aggregated_available (wh_id w) k) (\<lambda>av.
     ret \<lparr>ws_warehouse = wh_id w, ws_available = av, ws_distance_score = 1/2, ws_cost_score = 1/2,
          ws_priority_score = fdiv 1 (fl (of_int (max (wh_priority w) 1)))\<rparr>)"

definition rank_warehouses :: "AllocationRequest \<Rightarrow> WarehouseScore list task" where
  "rank_warehouses req = bind list_active_warehouses (\<lambda>whs.
     bind (for_loop (\<lambda>w acc. bind (score_warehouse (ar_sku req) w) (\<lambda>sc. ret (acc @ [sc]))) whs [])
       (\<lambda>scores. ret (sort_key (\<lambda>w. - composite_score w) scores)))"

definition create_reservation :: "AllocationRequest \<Rightarrow> uuid \<Rightarrow> int \<Rightarrow> InventoryReservation task" where
  "create_reservation req w q =
     bind fresh_uuid (\<lambda>i. bind get_now (\<lambda>n. bind (reads ctx_correlation) (\<lambda>c.
     add reservations_update
       \<lparr>res_id = i, res_order = ar_order req, res_order_line = ar_order_line req, res_warehouse = w,
        res_sku = ar_sku req, res_quantity = q, res_status = ''active'',
        res_expires_at = n + minutes RESERVATION_TTL_MINUTES, res_correlation = Some c\<rparr>)))"

definition apply_allocation :: "uuid \<Rightarrow> uuid \<Rightarrow> int \<Rightarrow> unit task" where
  "apply_allocation w k q = bind (get_balance w k None) (\<lambda>b. case b of
     None \<Rightarrow> raise AllocationError
   | Some b \<Rightarrow>
       bind (raise_if (available b < q) (InsufficientInventoryError k q (available b) (Some w))) (\<lambda>_.
       set_obj balances_update bal_id (bal_id b)
         (\<lambda>b. b\<lparr>reserved := reserved b + q, bal_version := bal_version b + 1\<rparr>)))"

text \<open>
  One iteration of the loop of \<open>allocate\<close>.  The guard \<open>remaining \<le> 0\<close> is the \<open>break\<close>: once it
  holds it holds at every later warehouse, so skipping the body is leaving the loop.
\<close>

definition allocate_step ::
  "AllocationRequest \<Rightarrow> WarehouseScore \<Rightarrow> AllocationResult \<times> int \<Rightarrow> (AllocationResult \<times> int) task" where
  "allocate_step req sc acc = (case acc of (result, remaining) \<Rightarrow>
     if remaining \<le> 0 then ret (result, remaining)
     else if ws_available sc \<le> 0 then ret (result, remaining)
     else let q = min remaining (ws_available sc) in
       if \<not> ar_allow_split req \<and> q < remaining then ret (result, remaining)
       else bind (create_reservation req (ws_warehouse sc) q) (\<lambda>r.
            bind (apply_allocation (ws_warehouse sc) (ar_sku req) q) (\<lambda>_.
            ret (result\<lparr>al_allocations := al_allocations result @ [(ws_warehouse sc, q)],
                        al_reservation_ids := al_reservation_ids result @ [res_id r],
                        al_total := al_total result + q\<rparr>, remaining - q))))"

definition prefer_warehouse :: "uuid option \<Rightarrow> WarehouseScore list \<Rightarrow> WarehouseScore list" where
  "prefer_warehouse p scores = (case p of None \<Rightarrow> scores
     | Some w \<Rightarrow> sort_key (\<lambda>sc. (ws_warehouse sc \<noteq> w, - composite_score sc)) scores)"

definition empty_result :: "AllocationRequest \<Rightarrow> AllocationResult" where
  "empty_result req = \<lparr>al_order_line = ar_order_line req, al_allocations = [], al_total = 0,
     al_backorder = 0, al_reservation_ids = []\<rparr>"

definition allocate :: "AllocationRequest \<Rightarrow> AllocationResult task" where
  "allocate req = bind (rank_warehouses req) (\<lambda>ranked.
     let scores = prefer_warehouse (ar_preferred req) ranked in
     bind (for_loop (allocate_step req) scores (empty_result req, ar_quantity req))
       (\<lambda>(result, remaining).
       bind (raise_if (al_total result = 0) (InsufficientInventoryError (ar_sku req)
               (ar_quantity req) (sum_list (map ws_available scores)) None)) (\<lambda>_.
       ret (result\<lparr>al_backorder := remaining\<rparr>))))"

definition release_single_reservation :: "InventoryReservation \<Rightarrow> unit task" where
  "release_single_reservation r = bind (get_balance (res_warehouse r) (res_sku r) None) (\<lambda>b.
     bind (case b of None \<Rightarrow> ret () | Some b \<Rightarrow>
             set_obj balances_update bal_id (bal_id b)
               (\<lambda>b. (if res_status r = ''confirmed''
                     then b\<lparr>allocated := max 0 (allocated b - res_quantity r)\<rparr>
                     else b\<lparr>reserved := max 0 (reserved b - res_quantity r)\<rparr>)
                    \<lparr>bal_version := bal_version b + 1\<rparr>)) (\<lambda>_.
     set_obj reservations_update res_id (res_id r) (\<lambda>r. r\<lparr>res_status := ''released''\<rparr>)))"

definition release_reservations :: "uuid \<Rightarrow> int task" where
  "release_reservations i = bind (get_active_for_order i) (\<lambda>rs.
     for_loop (\<lambda>r released. bind (release_single_reservation r) (\<lambda>_. ret (released + res_quantity r))) rs 0)"

definition confirm_allocation :: "uuid \<Rightarrow> unit task" where
  "confirm_allocation i = bind (get_by_id_or_raise res_id reservations i) (\<lambda>r.
     bind (raise_if (res_status r \<noteq> ''active'') (ReservationExpiredError i)) (\<lambda>_.
     bind get_now (\<lambda>n.
     if res_expires_at r < n
     then bind (release_single_reservation r) (\<lambda>_. raise (ReservationExpiredError i))
     else bind (set_obj reservations_update res_id i (\<lambda>r. r\<lparr>res_status := ''confirmed''\<rparr>)) (\<lambda>_.
          bind (get_balance (res_warehouse r) (res_sku r) None) (\<lambda>b. case b of
            None \<Rightarrow> ret ()
          | Some b \<Rightarrow> set_obj balances_update bal_id (bal_id b)
              (\<lambda>b. b\<lparr>reserved := reserved b - res_quantity r, allocated := allocated b + res_quantity r,
                     bal_version := bal_version b + 1\<rparr>))))))"

section \<open>Frame facts\<close>

text \<open>Reading operations do not change the session.\<close>

lemma get_balance_app:
  "get_balance w k l s = (scalar_one_or_none (select_where
     (\<lambda>b. bal_warehouse b = w \<and> bal_sku b = k \<and> bal_location b = l) (balances s)), s)"
  by (simp add: get_balance_def)

lemma get_balance_Some:
  assumes "get_balance w k l s = (Inr (Some b), t)"
  shows "t = s" and "b \<in> set (lives (balances s))"
proof -
  from assms have "select_where (\<lambda>b. bal_warehouse b = w \<and> bal_sku b = k \<and> bal_location b = l) (balances s) = [b]"
    and "t = s"
    by (auto simp: get_balance_app scalar_one_or_none_Some)
  then show "t = s" "b \<in> set (lives (balances s))"
    using in_select_where [of b _ "balances s"] by (metis list.set_intros(1))+
qed

text \<open>The ranking is a pure function of the session.\<close>

definition score_of :: "uuid \<Rightarrow> session \<Rightarrow> Warehouse \<Rightarrow> WarehouseScore" where
  "score_of k s w = \<lparr>ws_warehouse = wh_id w,
     ws_available = max 0 (select_sum uncommitted (\<lambda>b. bal_warehouse b = wh_id w \<and> bal_sku b = k) (balances s)),
     ws_distance_score = 1/2, ws_cost_score = 1/2,
     ws_priority_score = fdiv 1 (fl (of_int (max (wh_priority w) 1)))\<rparr>"

definition scores_of :: "uuid \<Rightarrow> session \<Rightarrow> WarehouseScore list" where
  "scores_of k s = map (score_of k s) (select_ordered wh_priority wh_is_active (warehouses s))"

lemma rank_warehouses_app:
  "rank_warehouses req s = (Inr (sort_key (\<lambda>w. - composite_score w) (scores_of (ar_sku req) s)), s)"
proof -
  have "score_warehouse (ar_sku req) w s = (Inr (score_of (ar_sku req) s w), s)" for w
    by (simp add: score_warehouse_def get_aggregated_available_def score_of_def)
  note loop = bind_collect [where m = "score_warehouse (ar_sku req)"
      and h = "score_of (ar_sku req) s", OF this]
  show ?thesis
    by (simp add: rank_warehouses_def list_active_warehouses_def scores_of_def loop)
qed

section \<open>Accounting of a result\<close>

definition accounted :: "AllocationRequest \<Rightarrow> AllocationResult \<times> int \<Rightarrow> bool" where
  "accounted req acc \<longleftrightarrow> (case acc of (r, remaining) \<Rightarrow>
     al_order_line r = ar_order_line req \<and>
     al_total r + remaining = ar_quantity req \<and> (0 \<le> ar_quantity req \<longrightarrow> 0 \<le> remaining) \<and>
     sum_list (map snd (al_allocations r)) = al_total r \<and>
     (\<forall>(w, q) \<in> set (al_allocations r). 0 < q) \<and>
     length (al_reservation_ids r) = length (al_allocations r) \<and>
     al_backorder r = 0 \<and>
     (ar_allow_split req \<or> al_allocations r = [] \<or> (remaining = 0 \<and> length (al_allocations r) = 1)))"

lemma allocate_step_accounted:
  "hoare (\<lambda>_. accounted req acc) (allocate_step req sc acc) (\<lambda>acc' _. accounted req acc') (\<lambda>_ _. True)"
proof (rule hoareI)
  fix s acc' t
  assume inv: "accounted req acc" and run: "allocate_step req sc acc s = (Inr acc', t)"
  obtain r m where acc: "acc = (r, m)" by (cases acc)
  show "accounted req acc'"
    using inv run
    by (auto simp: acc accounted_def allocate_step_def Let_def bind_Inr_iff split: if_splits)
qed simp

lemma accounted_start: "accounted req (empty_result req, ar_quantity req)"
  by (simp add: accounted_def empty_result_def)

lemma allocate_accounted:
  "allocate req s = (Inr r, t) \<Longrightarrow> accounted req (r\<lparr>al_backorder := 0\<rparr>, al_backorder r) \<and> al_total r \<noteq> 0"
proof -
  assume run: "allocate req s = (Inr r, t)"
  define scores where "scores = prefer_warehouse (ar_preferred req)
    (sort_key (\<lambda>w. - composite_score w) (scores_of (ar_sku req) s))"
  from run obtain r' m u
    where loop: "for_loop (allocate_step req) scores (empty_result req, ar_quantity req) s = (Inr (r', m), u)"
      and r: "r = r'\<lparr>al_backorder := m\<rparr>" and nz: "al_total r' \<noteq> 0"
    by (auto simp: allocate_def bind_Inr_iff rank_warehouses_app scores_def Let_def split: if_splits)
  have "hoare (\<lambda>_. accounted req (empty_result req, ar_quantity req))
      (for_loop (allocate_step req) scores (empty_result req, ar_quantity req))
      (\<lambda>a _. accounted req a) (\<lambda>_ _. True)"
    by (rule hoare_for_loop [where I = "\<lambda>a _. accounted req a"]) (rule allocate_step_accounted)
  from hoare_ok [OF this accounted_start loop] have acc: "accounted req (r', m)" .
  then have "al_backorder r' = 0" by (simp add: accounted_def)
  with acc nz show ?thesis by (simp add: r accounted_def)
qed

section \<open>No oversell\<close>

text \<open>A balance is sound when its buckets are not negative and fit in what is on hand.\<close>

definition bal_ok :: "InventoryBalance \<Rightarrow> bool" where
  "bal_ok b \<longleftrightarrow> 0 \<le> reserved b \<and> 0 \<le> allocated b \<and> 0 \<le> damaged b \<and> 0 \<le> quarantine b \<and>
     reserved b + allocated b + damaged b + quarantine b \<le> on_hand b"

definition all_bal_ok :: "session \<Rightarrow> bool" where
  "all_bal_ok s \<longleftrightarrow> (\<forall>b \<in> set (lives (balances s)). bal_ok b)"

lemma all_bal_ok_flush [simp]: "all_bal_ok (flush s) \<longleftrightarrow> all_bal_ok s"
  by (simp add: all_bal_ok_def)

lemma all_bal_ok_frame [simp]:
  "all_bal_ok (reservations_update f s) \<longleftrightarrow> all_bal_ok s"
  "all_bal_ok (s\<lparr>next_uuid := i\<rparr>) \<longleftrightarrow> all_bal_ok s"
  by (simp_all add: all_bal_ok_def)

lemma all_bal_ok_upd:
  "all_bal_ok s \<Longrightarrow> (\<And>b. b \<in> set (lives (balances s)) \<Longrightarrow> bal_id b = i \<Longrightarrow> bal_ok b \<Longrightarrow> bal_ok (f b)) \<Longrightarrow>
   all_bal_ok (balances_update (upd_row bal_id i f) s)"
  by (auto simp: all_bal_ok_def elim!: in_upd_listE)

lemma create_reservation_app:
  "create_reservation req w q s = (let r = \<lparr>res_id = next_uuid s, res_order = ar_order req,
     res_order_line = ar_order_line req, res_warehouse = w, res_sku = ar_sku req, res_quantity = q,
     res_status = ''active'', res_expires_at = now s + minutes RESERVATION_TTL_MINUTES,
     res_correlation = Some (ctx_correlation s)\<rparr> in
   (Inr r, flush (reservations_update (add_row r) (s\<lparr>next_uuid := Suc (next_uuid s)\<rparr>))))"
  by (simp add: create_reservation_def add_def session_add_def Let_def)

text \<open>Two balances with the same key are one object; \<open>distinct_balances\<close> is the primary key.\<close>

definition distinct_balances :: "session \<Rightarrow> bool" where
  "distinct_balances s \<longleftrightarrow> distinct (map bal_id (lives (balances s)))"

definition stock_ok :: "session \<Rightarrow> bool" where
  "stock_ok s \<longleftrightarrow> all_bal_ok s \<and> distinct_balances s"

lemma stock_ok_frame [simp]:
  "stock_ok (flush s) \<longleftrightarrow> stock_ok s"
  "stock_ok (reservations_update f s) \<longleftrightarrow> stock_ok s"
  "stock_ok (s\<lparr>next_uuid := i\<rparr>) \<longleftrightarrow> stock_ok s"
  by (simp_all add: stock_ok_def distinct_balances_def)

lemma stock_ok_upd:
  assumes ok: "stock_ok s" and b: "b \<in> set (lives (balances s))"
    and f: "bal_ok b \<Longrightarrow> bal_ok (f b)" and id: "\<And>x. bal_id (f x) = bal_id x"
  shows "stock_ok (balances_update (upd_row bal_id (bal_id b) f) s)"
proof -
  have d: "distinct (map bal_id (lives (balances s)))"
    using ok by (simp add: stock_ok_def distinct_balances_def)
  have "all_bal_ok (balances_update (upd_row bal_id (bal_id b) f) s)"
  proof (rule all_bal_ok_upd)
    fix x assume "x \<in> set (lives (balances s))" "bal_id x = bal_id b" "bal_ok x"
    with d b have "x = b" by (auto simp: distinct_map inj_on_def)
    with f \<open>bal_ok x\<close> show "bal_ok (f x)" by simp
  qed (use ok in \<open>simp add: stock_ok_def\<close>)
  with d id show ?thesis by (simp add: stock_ok_def distinct_balances_def map_upd_list_same)
qed

lemma apply_allocation_stock_ok: "0 < q \<Longrightarrow> preserves stock_ok (apply_allocation w k q)"
  unfolding preserves_def
proof (rule hoareI)
  fix s x t assume q: "0 < q" and ok: "stock_ok s" and run: "apply_allocation w k q s = (Inr x, t)"
  from run obtain b where b: "get_balance w k None s = (Inr (Some b), s)" and av: "\<not> available b < q"
    and t: "t = balances_update (upd_row bal_id (bal_id b)
      (\<lambda>b. b\<lparr>reserved := reserved b + q, bal_version := bal_version b + 1\<rparr>)) s"
    by (auto simp: apply_allocation_def bind_Inr_iff set_obj_def get_balance_app
        split: option.splits if_splits)
  show "stock_ok t" unfolding t
    using ok get_balance_Some(2) [OF b] av q
    by (intro stock_ok_upd) (auto simp: bal_ok_def available_def)
next
  fix s e t assume ok: "stock_ok s" and run: "apply_allocation w k q s = (Inl e, t)"
  then show "stock_ok t"
    by (auto simp: apply_allocation_def bind_def get_balance_app set_obj_def
        split: option.splits if_splits sum.splits)
qed

lemma create_reservation_stock_ok [hoare_rules]: "preserves stock_ok (create_reservation req w q)"
  by (rule preservesI) (simp add: create_reservation_app Let_def)

lemma allocate_step_stock_ok [hoare_rules]: "preserves stock_ok (allocate_step req sc acc)"
  unfolding allocate_step_def Let_def
  by (intro hoare_rules apply_allocation_stock_ok) auto

lemma rank_warehouses_preserves [hoare_rules]: "preserves I (rank_warehouses req)"
  by (rule preservesI) (simp add: rank_warehouses_app)

lemma allocate_stock_ok [hoare_rules]: "preserves stock_ok (allocate req)"
  unfolding allocate_def Let_def by (intro hoare_rules)

section \<open>A small network\<close>

text \<open>Two warehouses (1 and 2) holding 10 and 5 of SKU 3; used to evaluate the model.\<close>

definition demo_warehouse :: "uuid \<Rightarrow> int \<Rightarrow> Warehouse" where
  "demo_warehouse i p = \<lparr>wh_id = i, wh_code = ''WH'', wh_name = ''W'', wh_address = [],
     wh_timezone = ''UTC'', wh_capacity_units = Some 1000, wh_is_active = True, wh_priority = p,
     wh_operating_hours = []\<rparr>"

definition demo_balance :: "uuid \<Rightarrow> uuid \<Rightarrow> int \<Rightarrow> InventoryBalance" where
  "demo_balance i w n = \<lparr>bal_id = i, bal_warehouse = w, bal_sku = 3, bal_location = None,
     on_hand = n, reserved = 0, allocated = 0, in_transit = 0, damaged = 0, quarantine = 0,
     bal_version = 1\<rparr>"

definition demo_session :: session where
  "demo_session = empty_session\<lparr>
     warehouses := map (\<lambda>w. Cell (Some w) w) [demo_warehouse 1 1, demo_warehouse 2 2],
     balances := map (\<lambda>b. Cell (Some b) b) [demo_balance 4 1 10, demo_balance 5 2 5],
     next_uuid := 10\<rparr>"

definition demo_request :: "int \<Rightarrow> AllocationRequest" where
  "demo_request q = \<lparr>ar_order = 6, ar_order_line = 7, ar_sku = 3, ar_quantity = q,
     ar_preferred = None, ar_allow_split = True\<rparr>"

definition demo_scores :: "WarehouseScore list" where
  "demo_scores = scores_of 3 demo_session"

text \<open>The first warehouse has the better priority, hence the better score, and ranks first.\<close>

lemma composite_score_mono:
  assumes "ws_distance_score v = ws_distance_score w" and "ws_cost_score v = ws_cost_score w"
    and "ws_priority_score v \<le> ws_priority_score w"
  shows "composite_score v \<le> composite_score w"
  unfolding composite_score_def using assms by (auto intro!: fadd_mono fmul_mono simp: fl_nonneg)

lemma demo_rank: "rank_warehouses (demo_request q) demo_session = (Inr demo_scores, demo_session)"
proof -
  have scores: "demo_scores = [score_of 3 demo_session (demo_warehouse 1 1), score_of 3 demo_session (demo_warehouse 2 2)]"
    by (simp add: demo_scores_def scores_of_def demo_session_def demo_warehouse_def select_ordered_def
        stored_sat_def stored_key_def)
  have "composite_score (score_of 3 demo_session (demo_warehouse 2 2)) \<le>
      composite_score (score_of 3 demo_session (demo_warehouse 1 1))"
    using fl_of_int [of 1] fl_of_int [of 2]
    by (intro composite_score_mono) (auto simp: score_of_def demo_warehouse_def intro!: fdiv_antimono fl_mono)
  then have "sort_key (\<lambda>w. - composite_score w) demo_scores = demo_scores"
    by (simp add: scores)
  then show ?thesis by (simp add: rank_warehouses_app demo_scores_def demo_request_def)
qed

lemma demo_allocate:
  "allocate (demo_request q) demo_session =
   bind (for_loop (allocate_step (demo_request q)) demo_scores (empty_result (demo_request q), q))
     (\<lambda>(result, remaining).
       bind (raise_if (al_total result = 0) (InsufficientInventoryError 3 q
         (sum_list (map ws_available demo_scores)) None)) (\<lambda>_.
       ret (result\<lparr>al_backorder := remaining\<rparr>))) demo_session"
proof -
  have "bind (rank_warehouses (demo_request q)) f demo_session = f demo_scores demo_session" for f :: "_ \<Rightarrow> 'a task"
    by (rule bind_ok) (rule demo_rank)
  then show ?thesis unfolding allocate_def
    by (simp add: Let_def prefer_warehouse_def demo_request_def)
qed

section \<open>Properties\<close>

text \<open>A result of \<open>allocate\<close> adds up: what was allocated plus the backorder is what was asked
  for, the total is the sum of the (positive) per-warehouse quantities, there is one reservation
  per warehouse used, and a request that forbids splitting is served by a single warehouse in
  full.\<close>

theorem allocate_accounts:
  assumes "allocate req s = (Inr r, t)" and "0 \<le> ar_quantity req"
  shows "al_total r + al_backorder r = ar_quantity req \<and> 0 < al_total r \<and> 0 \<le> al_backorder r \<and>
    al_total r = sum_list (map snd (al_allocations r)) \<and> (\<forall>(w, q) \<in> set (al_allocations r). 0 < q) \<and>
    length (al_reservation_ids r) = length (al_allocations r) \<and>
    (\<not> ar_allow_split req \<longrightarrow> length (al_allocations r) = 1 \<and> is_fully_allocated r)"
proof -
  have acc: "accounted req (r\<lparr>al_backorder := 0\<rparr>, al_backorder r)" and nz: "al_total r \<noteq> 0"
    using allocate_accounted [OF assms(1)] by simp_all
  have "0 \<le> sum_list (map snd (al_allocations r))"
    using acc by (intro sum_list_nonneg_map) (auto simp: accounted_def less_imp_le)
  with acc nz assms(2) show ?thesis by (auto simp: accounted_def is_fully_allocated_def)
qed

theorem allocate_accounts_witness:
  "\<exists>r t. allocate (demo_request 12) demo_session = (Inr r, t) \<and>
     al_total r + al_backorder r = 12 \<and> al_total r = sum_list (map snd (al_allocations r))"
proof -
  have "fst (allocate (demo_request 12) demo_session) = Inr \<lparr>al_order_line = 7,
      al_allocations = [(1, 10), (2, 2)], al_total = 12, al_backorder = 0, al_reservation_ids = [10, 11]\<rparr>"
    unfolding demo_allocate by code_simp
  then obtain r t where "allocate (demo_request 12) demo_session = (Inr r, t)"
    by (cases "allocate (demo_request 12) demo_session") auto
  with allocate_accounts [OF this] show ?thesis by (simp add: demo_request_def)
qed

text \<open>C10: Whatever \<open>allocate\<close> does to the session, and also when it raises half way, it leaves every
  balance sound: no bucket is negative and the committed buckets fit in what is on hand.\<close>

theorem allocate_never_overcommits:
  "stock_ok s \<Longrightarrow> stock_ok (snd (allocate req s))"
  by (rule preservesD [OF allocate_stock_ok])

theorem allocate_never_overcommits_witness:
  "stock_ok (snd (allocate (demo_request 40) demo_session))"
  by (rule allocate_never_overcommits)
    (simp add: stock_ok_def all_bal_ok_def distinct_balances_def demo_session_def demo_balance_def
      empty_session_def lives_def bal_ok_def)

end
