(* ===== verification/Ledger.thy ===== *)
theory Ledger
  imports Allocation "HOL-Library.Multiset"
begin

text \<open>
  The reservation ledger.  A reservation is recorded twice: as a row of
  \<open>inventory_reservations\<close> and as an amount in \<open>reserved\<close> of the warehouse's bin-less balance.
  \<open>ledger\<close> says that the two agree for every warehouse and SKU; it is the invariant the
  reconciler checks.  Here: the operations of the allocation engine keep it.
\<close>

section \<open>The invariant\<close>

definition bin_key :: "InventoryBalance \<Rightarrow> uuid \<times> uuid \<times> uuid option" where
  "bin_key b = (bal_warehouse b, bal_sku b, bal_location b)"

definition active_at :: "uuid \<Rightarrow> uuid \<Rightarrow> InventoryReservation \<Rightarrow> bool" where
  "active_at w k r \<longleftrightarrow> res_warehouse r = w \<and> res_sku r = k \<and> res_status r = ''active''"

definition active_qty :: "uuid \<Rightarrow> uuid \<Rightarrow> session \<Rightarrow> int" where
  "active_qty w k s = sum_list (map (\<lambda>r. if active_at w k r then res_quantity r else 0) (lives (reservations s)))"

definition reserved_qty :: "uuid \<Rightarrow> uuid \<Rightarrow> session \<Rightarrow> int" where
  "reserved_qty w k s =
     sum_list (map (\<lambda>b. if bin_key b = (w, k, None) then reserved b else 0) (lives (balances s)))"

text \<open>The shape of the tables: primary keys, one balance per bin, positive quantities, and the
  columns of the bin unchanged since the last flush.\<close>

definition bins_synced :: "session \<Rightarrow> bool" where
  "bins_synced s \<longleftrightarrow> (\<forall>c \<in> set (balances s). \<exists>b. stored c = Some b \<and> bin_key b = bin_key (live c))"

definition tables_ok :: "session \<Rightarrow> bool" where
  "tables_ok s \<longleftrightarrow> bins_synced s \<and>
     distinct (map bal_id (lives (balances s))) \<and> distinct (map bin_key (lives (balances s))) \<and>
     distinct (map res_id (lives (reservations s))) \<and>
     (\<forall>b \<in> set (lives (balances s)). bal_id b < next_uuid s) \<and>
     (\<forall>r \<in> set (lives (reservations s)). res_id r < next_uuid s \<and> 0 < res_quantity r)"

definition ledger :: "session \<Rightarrow> bool" where
  "ledger s \<longleftrightarrow> tables_ok s \<and> (\<forall>w k. active_qty w k s = reserved_qty w k s)"

section \<open>Looking a balance up\<close>

lemma bins_synced_flush [simp]: "bins_synced (flush s)"
  by (auto simp: bins_synced_def flush_table_def)

lemma bins_synced_upd:
  "bins_synced s \<Longrightarrow> (\<And>b. bin_key (f b) = bin_key b) \<Longrightarrow>
   bins_synced (balances_update (upd_row bal_id i f) s)"
  by (fastforce simp: bins_synced_def upd_row_def)

lemma get_balance_synced:
  assumes "bins_synced s"
  shows "get_balance w k l s =
    (scalar_one_or_none (filter (\<lambda>b. bin_key b = (w, k, l)) (lives (balances s))), s)"
proof -
  have "select_where (\<lambda>b. bal_warehouse b = w \<and> bal_sku b = k \<and> bal_location b = l) t =
      filter (\<lambda>b. bin_key b = (w, k, l)) (lives t)"
    if "\<forall>c \<in> set t. \<exists>b. stored c = Some b \<and> bin_key b = bin_key (live c)" for t
    using that
    by (induction t) (auto simp: select_where_def stored_sat_def lives_def bin_key_def)
  with assms show ?thesis by (simp add: get_balance_app bins_synced_def)
qed

lemma filter_key_cases:
  assumes "distinct (map key xs)"
  shows "filter (\<lambda>x. key x = a) xs = (case find (\<lambda>x. key x = a) xs of None \<Rightarrow> [] | Some x \<Rightarrow> [x])"
  using assms
proof (induction xs)
  case (Cons x xs)
  have "\<forall>y \<in> set xs. key y \<noteq> key x" using Cons.prems by (auto simp: rev_image_eqI)
  then have "filter (\<lambda>y. key y = key x) xs = []" by (simp add: filter_empty_conv)
  with Cons show ?case by (cases "key x = a") auto
qed simp

text \<open>With distinct bins the query returns at most one row and never raises.\<close>

lemma get_balance_ok:
  assumes "tables_ok s"
  shows "get_balance w k l s = (Inr (find (\<lambda>b. bin_key b = (w, k, l)) (lives (balances s))), s)"
  using assms filter_key_cases [of bin_key "lives (balances s)" "(w, k, l)"]
  by (auto simp: tables_ok_def get_balance_synced scalar_one_or_none_def split: option.splits)

lemma find_bin:
  assumes "find (\<lambda>b. bin_key b = (w, k, l)) bs = Some b"
  shows "b \<in> set bs" and "bin_key b = (w, k, l)"
  using assms by (auto simp: find_Some_iff)

section \<open>How the two sides of the ledger change\<close>

lemma active_qty_frame [simp]:
  "active_qty w k (flush s) = active_qty w k s"
  "active_qty w k (balances_update f s) = active_qty w k s"
  "active_qty w k (s\<lparr>next_uuid := i\<rparr>) = active_qty w k s"
  by (simp_all add: active_qty_def)

lemma reserved_qty_frame [simp]:
  "reserved_qty w k (flush s) = reserved_qty w k s"
  "reserved_qty w k (reservations_update g s) = reserved_qty w k s"
  "reserved_qty w k (s\<lparr>next_uuid := i\<rparr>) = reserved_qty w k s"
  by (simp_all add: reserved_qty_def)

lemma active_qty_add:
  "active_qty w k (reservations_update (add_row r) s) =
   active_qty w k s + (if active_at w k r then res_quantity r else 0)"
  by (simp add: active_qty_def)

lemma active_qty_upd:
  assumes "tables_ok s" and "r \<in> set (lives (reservations s))"
  shows "active_qty w k (reservations_update (upd_row res_id (res_id r) f) s) = active_qty w k s
    - (if active_at w k r then res_quantity r else 0) + (if active_at w k (f r) then res_quantity (f r) else 0)"
  using assms by (simp add: active_qty_def tables_ok_def sum_upd_list)

lemma reserved_qty_upd:
  assumes "tables_ok s" and "b \<in> set (lives (balances s))" and "bin_key (f b) = bin_key b"
  shows "reserved_qty w k (balances_update (upd_row bal_id (bal_id b) f) s) = reserved_qty w k s
    + (if bin_key b = (w, k, None) then reserved (f b) - reserved b else 0)"
  using assms by (simp add: reserved_qty_def tables_ok_def sum_upd_list)

lemma tables_ok_frame [simp]: "tables_ok s \<Longrightarrow> tables_ok (flush s)"
  by (simp add: tables_ok_def)

lemma tables_ok_upd_balance:
  assumes "tables_ok s" and "\<And>b. bin_key (f b) = bin_key b" and "\<And>b. bal_id (f b) = bal_id b"
  shows "tables_ok (balances_update (upd_row bal_id i f) s)"
  using assms
  by (auto simp: tables_ok_def bins_synced_upd map_upd_list_same elim!: in_upd_listE)

lemma tables_ok_upd_reservation:
  assumes "tables_ok s" and "\<And>r. res_id (f r) = res_id r" and "\<And>r. res_quantity (f r) = res_quantity r"
  shows "tables_ok (reservations_update (upd_row res_id i f) s)"
  using assms
  by (auto simp: tables_ok_def bins_synced_def map_upd_list_same elim!: in_upd_listE)

lemma tables_ok_add_reservation:
  assumes "tables_ok s" and "res_id r = next_uuid s" and "0 < res_quantity r"
  shows "tables_ok (reservations_update (add_row r) (s\<lparr>next_uuid := Suc (next_uuid s)\<rparr>))"
  using assms by (fastforce simp: tables_ok_def bins_synced_def)

lemma active_le_qty:
  assumes "tables_ok s" and "r \<in> set (lives (reservations s))" and "active_at w k r"
  shows "res_quantity r \<le> active_qty w k s"
proof -
  have "(if active_at w k r then res_quantity r else 0) \<le> active_qty w k s"
    unfolding active_qty_def
    by (rule member_le_sum_list_map) (use assms in \<open>auto simp: tables_ok_def less_imp_le\<close>)
  with assms(3) show ?thesis by simp
qed

lemma reserved_qty_find:
  assumes "tables_ok s"
  shows "reserved_qty w k s = (case find (\<lambda>b. bin_key b = (w, k, None)) (lives (balances s)) of
     None \<Rightarrow> 0 | Some b \<Rightarrow> reserved b)"
  using assms filter_key_cases [of bin_key "lives (balances s)" "(w, k, None)"]
  by (simp add: reserved_qty_def tables_ok_def sum_filter_as_if [symmetric] split: option.splits)

text \<open>Every active reservation has its balance, holding at least the reserved quantity.\<close>

lemma ledger_active_balance:
  assumes L: "ledger s" and r: "r \<in> set (lives (reservations s))" "active_at w k r"
  obtains b where "find (\<lambda>b. bin_key b = (w, k, None)) (lives (balances s)) = Some b"
    and "b \<in> set (lives (balances s))" and "bin_key b = (w, k, None)" and "res_quantity r \<le> reserved b"
proof -
  have T: "tables_ok s" using L by (simp add: ledger_def)
  have "0 < res_quantity r" using T r by (simp add: tables_ok_def)
  moreover have "res_quantity r \<le> reserved_qty w k s"
    using active_le_qty [OF T r] L by (simp add: ledger_def)
  ultimately obtain b where "find (\<lambda>b. bin_key b = (w, k, None)) (lives (balances s)) = Some b"
    and "res_quantity r \<le> reserved b"
    by (auto simp: reserved_qty_find [OF T] split: option.splits)
  with find_bin show ?thesis using that by blast
qed

section \<open>The engine keeps the ledger\<close>

text \<open>A reservation leaves the active set and its balance is reduced in the same operation.\<close>

lemma ledger_close:
  assumes L: "ledger s" and r: "r \<in> set (lives (reservations s))" and act: "active_at w k r"
    and b: "b \<in> set (lives (balances s))" "bin_key b = (w, k, None)"
    and f: "\<And>x. bin_key (f x) = bin_key x" "\<And>x. bal_id (f x) = bal_id x"
      "reserved (f b) = reserved b - res_quantity r"
    and g: "\<And>x. res_id (g x) = res_id x" "\<And>x. res_quantity (g x) = res_quantity x"
      "res_status (g r) \<noteq> ''active''"
  shows "ledger (reservations_update (upd_row res_id (res_id r) g)
           (balances_update (upd_row bal_id (bal_id b) f) s))"
proof -
  let ?u = "balances_update (upd_row bal_id (bal_id b) f) s"
  have T: "tables_ok s" using L by (simp add: ledger_def)
  have Tu: "tables_ok ?u" by (rule tables_ok_upd_balance [OF T f(1,2)])
  have ru: "r \<in> set (lives (reservations ?u))" using r by simp
  have "\<not> active_at w' k' (g r)" for w' k' using g(3) by (simp add: active_at_def)
  then have A: "active_qty w' k' (reservations_update (upd_row res_id (res_id r) g) ?u) =
      active_qty w' k' s - (if active_at w' k' r then res_quantity r else 0)" for w' k'
    using active_qty_upd [OF Tu ru, of w' k' g] by simp
  have R: "reserved_qty w' k' ?u =
      reserved_qty w' k' s + (if bin_key b = (w', k', None) then reserved (f b) - reserved b else 0)"
    for w' k'
    using reserved_qty_upd [where f = f, OF T b(1) f(1)] by simp
  have "active_at w' k' r \<longleftrightarrow> bin_key b = (w', k', None)" for w' k'
    using act b(2) by (auto simp: active_at_def)
  then show ?thesis
    using L tables_ok_upd_reservation [OF Tu g(1,2)] by (simp add: ledger_def A R f(3))
qed

lemma release_single_app:
  assumes L: "ledger s" and r: "r \<in> set (lives (reservations s))" "res_status r = ''active''"
  obtains t where "release_single_reservation r s = (Inr (), t)" and "ledger t"
    and "reservations t = upd_row res_id (res_id r) (\<lambda>r. r\<lparr>res_status := ''released''\<rparr>) (reservations s)"
proof -
  have act: "active_at (res_warehouse r) (res_sku r) r" using r by (simp add: active_at_def)
  from ledger_active_balance [OF L r(1) act] obtain b where
    fb: "find (\<lambda>b. bin_key b = (res_warehouse r, res_sku r, None)) (lives (balances s)) = Some b"
    and b: "b \<in> set (lives (balances s))" "bin_key b = (res_warehouse r, res_sku r, None)"
    and le: "res_quantity r \<le> reserved b" .
  let ?f = "\<lambda>b. b\<lparr>reserved := max 0 (reserved b - res_quantity r), bal_version := bal_version b + 1\<rparr>"
  let ?g = "\<lambda>r. r\<lparr>res_status := ''released''\<rparr>"
  let ?t = "reservations_update (upd_row res_id (res_id r) ?g)
              (balances_update (upd_row bal_id (bal_id b) ?f) s)"
  have T: "tables_ok s" using L by (simp add: ledger_def)
  have "release_single_reservation r s = (Inr (), ?t)"
    using r(2) by (simp add: release_single_reservation_def bind_def get_balance_ok [OF T] fb set_obj_def)
  moreover have "ledger ?t"
    by (rule ledger_close [OF L r(1) act b]) (use le in \<open>simp_all add: bin_key_def\<close>)
  ultimately show ?thesis using that by simp
qed

lemma confirm_allocation_ledger: "preserves ledger (confirm_allocation i)"
proof (rule preservesI)
  fix s assume L: "ledger s"
  have T: "tables_ok s" using L by (simp add: ledger_def)
  show "ledger (snd (confirm_allocation i s))"
  proof (cases "get_by_key res_id i (reservations s)")
    case None
    then show ?thesis using L
      by (simp add: confirm_allocation_def get_by_id_or_raise_def get_by_id_def bind_def)
  next
    case (Some r)
    from get_by_key_Some [OF Some] have r: "r \<in> set (lives (reservations s))" and i: "res_id r = i" by auto
    show ?thesis
    proof (cases "res_status r = ''active''")
      case False
      then show ?thesis using L Some
        by (simp add: confirm_allocation_def get_by_id_or_raise_def get_by_id_def bind_def)
    next
      case active: True
      show ?thesis
      proof (cases "res_expires_at r < now s")
        case True
        from release_single_app [OF L r active] obtain t
          where "release_single_reservation r s = (Inr (), t)" "ledger t" by blast
        with True Some active show ?thesis
          by (simp add: confirm_allocation_def get_by_id_or_raise_def get_by_id_def bind_def)
      next
        case False
        have act: "active_at (res_warehouse r) (res_sku r) r" using active by (simp add: active_at_def)
        from ledger_active_balance [OF L r act] obtain b where
          fb: "find (\<lambda>b. bin_key b = (res_warehouse r, res_sku r, None)) (lives (balances s)) = Some b"
          and b: "b \<in> set (lives (balances s))" "bin_key b = (res_warehouse r, res_sku r, None)" .
        let ?g = "\<lambda>r. r\<lparr>res_status := ''confirmed''\<rparr>"
        let ?f = "\<lambda>b. b\<lparr>reserved := reserved b - res_quantity r, allocated := allocated b + res_quantity r,
                     bal_version := bal_version b + 1\<rparr>"
        have Tu: "tables_ok (reservations_update (upd_row res_id i ?g) s)"
          by (rule tables_ok_upd_reservation [OF T]) simp_all
        have "snd (confirm_allocation i s) = reservations_update (upd_row res_id (res_id r) ?g)
              (balances_update (upd_row bal_id (bal_id b) ?f) s)"
          using False Some active i
          by (simp add: confirm_allocation_def get_by_id_or_raise_def get_by_id_def bind_def
              get_balance_ok [OF Tu] fb set_obj_def)
        moreover have "ledger \<dots>"
          by (rule ledger_close [OF L r act b]) (simp_all add: bin_key_def)
        ultimately show ?thesis by simp
      qed
    qed
  qed
qed

text \<open>The loop over a list of live, active reservations.\<close>

definition pending_release :: "InventoryReservation list \<Rightarrow> session \<Rightarrow> bool" where
  "pending_release rs s \<longleftrightarrow> ledger s \<and> distinct (map res_id rs) \<and>
     (\<forall>r \<in> set rs. r \<in> set (lives (reservations s)) \<and> res_status r = ''active'')"

lemma release_single_pending_app:
  assumes P: "pending_release (r # rs) s"
  obtains t where "release_single_reservation r s = (Inr (), t)" and "pending_release rs t"
    and "reservations t = upd_row res_id (res_id r) (\<lambda>r. r\<lparr>res_status := ''released''\<rparr>) (reservations s)"
proof -
  from P have "ledger s" "r \<in> set (lives (reservations s))" "res_status r = ''active''"
    by (simp_all add: pending_release_def)
  from release_single_app [OF this] obtain t where t: "release_single_reservation r s = (Inr (), t)"
    "ledger t" "reservations t = upd_row res_id (res_id r) (\<lambda>r. r\<lparr>res_status := ''released''\<rparr>) (reservations s)" .
  have "x \<in> set (lives (reservations t))" if "x \<in> set rs" for x
    using that P by (force simp: pending_release_def t(3) upd_list_def image_iff)
  with P t(1,2) have "pending_release rs t" by (auto simp: pending_release_def)
  with t(1,3) show ?thesis using that by blast
qed

lemma release_single_pending:
  "hoare (pending_release (r # rs)) (release_single_reservation r) (\<lambda>_. pending_release rs) (\<lambda>_ _. False)"
  by (rule hoareI; erule release_single_pending_app) simp_all

lemma select_active_pending:
  assumes L: "ledger s" and C: "clean (reservations s)"
    and P: "\<And>r. P r \<Longrightarrow> res_status r = ''active''"
  shows "pending_release (select_where P (reservations s)) s"
  using L P by (auto simp: pending_release_def clean_select_where [OF C] ledger_def tables_ok_def
      intro: distinct_map_filter)

lemma release_reservations_ledger:
  assumes L: "ledger s" and C: "clean (reservations s)"
  shows "\<exists>n t. release_reservations i s = (Inr n, t) \<and> ledger t"
proof -
  let ?P = "\<lambda>r. res_order r = i \<and> res_status r = ''active''"
  let ?body = "\<lambda>r released. bind (release_single_reservation r) (\<lambda>_. ret (released + res_quantity r))"
  have step: "hoare (pending_release (r # rs)) (?body r n) (\<lambda>_. pending_release rs) (\<lambda>_ _. False)" for r rs n
    by (rule hoare_bind [OF release_single_pending]) (rule hoare_ret)
  let ?rs = "select_where ?P (reservations s)"
  have "hoare (pending_release ?rs) (for_loop ?body ?rs 0) (\<lambda>_. pending_release []) (\<lambda>_ _. False)"
    by (rule hoare_for_loop_rest [where I = "\<lambda>rs _. pending_release rs"]) (rule step)
  moreover have "pending_release ?rs s" by (rule select_active_pending [OF L C]) simp
  ultimately have "\<exists>n t. for_loop ?body ?rs 0 s = (Inr n, t) \<and> pending_release [] t"
    by (rule hoare_returns)
  then show ?thesis by (simp add: release_reservations_def get_active_for_order_def pending_release_def)
qed

section \<open>Allocation keeps the ledger when it returns\<close>

lemma reserve_ledger:
  assumes L: "ledger s" and q: "0 < q"
  shows "hoare (\<lambda>u. u = s)
    (bind (create_reservation req w q) (\<lambda>r. bind (apply_allocation w (ar_sku req) q) (\<lambda>_. ret (g r))))
    (\<lambda>_. ledger) (\<lambda>_ _. True)"
proof (rule hoareI)
  fix s' x t
  assume "s' = s" and run: "bind (create_reservation req w q)
    (\<lambda>r. bind (apply_allocation w (ar_sku req) q) (\<lambda>_. ret (g r))) s' = (Inr x, t)"
  have T: "tables_ok s" using L by (simp add: ledger_def)
  define r where "r = \<lparr>res_id = next_uuid s, res_order = ar_order req,
     res_order_line = ar_order_line req, res_warehouse = w, res_sku = ar_sku req, res_quantity = q,
     res_status = ''active'', res_expires_at = now s + minutes RESERVATION_TTL_MINUTES,
     res_correlation = Some (ctx_correlation s)\<rparr>"
  define u where "u = flush (reservations_update (add_row r) (s\<lparr>next_uuid := Suc (next_uuid s)\<rparr>))"
  have Tu: "tables_ok u" unfolding u_def
    by (intro tables_ok_frame tables_ok_add_reservation [OF T]) (simp_all add: r_def q)
  let ?f = "\<lambda>b. b\<lparr>reserved := reserved b + q, bal_version := bal_version b + 1\<rparr>"
  from run obtain b where fb: "find (\<lambda>b. bin_key b = (w, ar_sku req, None)) (lives (balances u)) = Some b"
    and t: "t = balances_update (upd_row bal_id (bal_id b) ?f) u"
    by (auto simp: \<open>s' = s\<close> create_reservation_app Let_def r_def [symmetric] u_def [symmetric] bind_Inr_iff
        apply_allocation_def get_balance_ok [OF Tu] set_obj_def split: option.splits if_splits)
  have key: "\<And>x. bin_key (?f x) = bin_key x" by (simp add: bin_key_def)
  have "tables_ok t" unfolding t by (rule tables_ok_upd_balance [OF Tu]) (simp_all add: key)
  moreover have "active_qty w' k' t = active_qty w' k' s + (if active_at w' k' r then q else 0)" for w' k'
    by (simp add: t u_def active_qty_add) (simp add: r_def)
  moreover have "reserved_qty w' k' t = reserved_qty w' k' s
      + (if bin_key b = (w', k', None) then q else 0)" for w' k'
    unfolding t using reserved_qty_upd [where f = ?f, OF Tu find_bin(1) [OF fb] key] by (simp add: u_def)
  moreover have "active_at w' k' r \<longleftrightarrow> bin_key b = (w', k', None)" for w' k'
    using find_bin(2) [OF fb] by (auto simp: active_at_def r_def)
  ultimately show "ledger t" using L by (simp add: ledger_def)
qed simp

lemma allocate_step_ledger: "hoare ledger (allocate_step req sc acc) (\<lambda>_. ledger) (\<lambda>_ _. True)"
proof (rule hoareI)
  fix s x t assume L: "ledger s" and run: "allocate_step req sc acc s = (Inr x, t)"
  obtain r m where acc: "acc = (r, m)" by (cases acc)
  let ?q = "min m (ws_available sc)"
  show "ledger t"
  proof (cases "m \<le> 0 \<or> ws_available sc \<le> 0 \<or> (\<not> ar_allow_split req \<and> ?q < m)")
    case True
    with L run acc show ?thesis by (auto simp: allocate_step_def Let_def split: if_splits)
  next
    case False
    then have q: "0 < ?q" by simp
    let ?g = "\<lambda>v. (r\<lparr>al_allocations := al_allocations r @ [(ws_warehouse sc, ?q)],
      al_reservation_ids := al_reservation_ids r @ [res_id v], al_total := al_total r + ?q\<rparr>, m - ?q)"
    have "bind (create_reservation req (ws_warehouse sc) ?q) (\<lambda>v.
        bind (apply_allocation (ws_warehouse sc) (ar_sku req) ?q) (\<lambda>_. ret (?g v))) s = (Inr x, t)"
      using False run by (auto simp: allocate_step_def Let_def acc not_less)
    with hoare_ok [OF reserve_ledger [where g = ?g, OF L q] refl] show ?thesis by blast
  qed
qed simp

lemma allocate_ledger: "hoare ledger (allocate req) (\<lambda>_. ledger) (\<lambda>_ _. True)"
proof -
  have loop: "hoare ledger (for_loop (allocate_step req) scs acc) (\<lambda>_. ledger) (\<lambda>_ _. True)" for scs acc
    by (rule hoare_for_loop) (rule allocate_step_ledger)
  show ?thesis unfolding allocate_def Let_def
    by (rule hoare_bind [where R = "\<lambda>_. ledger"], rule hoareI, simp_all add: rank_warehouses_app)
      (rule hoare_bind [OF loop], auto intro!: hoare_bind [where R = "\<lambda>_. ledger"] hoare_raise_if hoare_ret
        split: prod.split)
qed

section \<open>Allocation serves what the network holds\<close>

text \<open>When the stock of the SKU is in bin-less balances, the ranking promises no more than the
  balances hold, so with splitting allowed every promise is kept and the walk is greedy.\<close>

definition bin_of :: "uuid \<Rightarrow> uuid \<Rightarrow> session \<Rightarrow> InventoryBalance option" where
  "bin_of w k s = find (\<lambda>b. bin_key b = (w, k, None)) (lives (balances s))"

definition promises_kept :: "uuid \<Rightarrow> WarehouseScore list \<Rightarrow> session \<Rightarrow> bool" where
  "promises_kept k scs s \<longleftrightarrow> tables_ok s \<and> distinct (map ws_warehouse scs) \<and>
     (\<forall>sc \<in> set scs. 0 \<le> ws_available sc \<and>
        (0 < ws_available sc \<longrightarrow> map_option available (bin_of (ws_warehouse sc) k s) = Some (ws_available sc)))"

lemma bin_of_reserve:
  assumes T: "tables_ok s" and b: "bin_of w k s = Some b" and w: "w' \<noteq> w"
    and f: "\<And>x. bin_key (f x) = bin_key x"
  shows "bin_of w' k (balances_update (upd_row bal_id (bal_id b) f) s) = bin_of w' k s"
proof (cases "bin_of w' k s")
  case None
  then show ?thesis by (simp add: bin_of_def find_upd_list f)
next
  case (Some b')
  have "b \<in> set (lives (balances s))" "b' \<in> set (lives (balances s))" "b' \<noteq> b"
    using find_bin [OF b [unfolded bin_of_def]] find_bin [OF Some [unfolded bin_of_def]] w by auto
  then have "bal_id b' \<noteq> bal_id b" using T by (auto simp: tables_ok_def distinct_map inj_on_def)
  with Some show ?thesis by (simp add: bin_of_def find_upd_list f)
qed

lemma allocate_step_kept:
  assumes P: "promises_kept (ar_sku req) (sc # scs) s" and split: "ar_allow_split req" and m: "0 \<le> m"
  obtains r' t where "allocate_step req sc (r, m) s = (Inr (r', m - min m (ws_available sc)), t)"
    and "al_total r' = al_total r + min m (ws_available sc)" and "promises_kept (ar_sku req) scs t"
proof (cases "m = 0 \<or> ws_available sc \<le> 0")
  case True
  then have "allocate_step req sc (r, m) s = (Inr (r, m - min m (ws_available sc)), s)"
    and "min m (ws_available sc) = 0"
    using P m by (auto simp: allocate_step_def Let_def promises_kept_def)
  with P show ?thesis using that by (auto simp: promises_kept_def)
next
  case False
  let ?q = "min m (ws_available sc)" and ?w = "ws_warehouse sc" and ?k = "ar_sku req"
  have q: "0 < ?q" using False m by auto
  have T: "tables_ok s" using P by (simp add: promises_kept_def)
  from False P obtain b where b: "bin_of ?w ?k s = Some b" and av: "available b = ws_available sc"
    by (auto simp: promises_kept_def)
  define v where "v = \<lparr>res_id = next_uuid s, res_order = ar_order req,
     res_order_line = ar_order_line req, res_warehouse = ?w, res_sku = ?k, res_quantity = ?q,
     res_status = ''active'', res_expires_at = now s + minutes RESERVATION_TTL_MINUTES,
     res_correlation = Some (ctx_correlation s)\<rparr>"
  define u where "u = flush (reservations_update (add_row v) (s\<lparr>next_uuid := Suc (next_uuid s)\<rparr>))"
  have Tu: "tables_ok u" unfolding u_def
    by (intro tables_ok_frame tables_ok_add_reservation [OF T]) (use q in \<open>simp_all add: v_def\<close>)
  have bin: "bin_of w ?k u = bin_of w ?k s" for w by (simp add: bin_of_def u_def)
  let ?f = "\<lambda>b. b\<lparr>reserved := reserved b + ?q, bal_version := bal_version b + 1\<rparr>"
  let ?t = "balances_update (upd_row bal_id (bal_id b) ?f) u"
  let ?r = "r\<lparr>al_allocations := al_allocations r @ [(?w, ?q)],
     al_reservation_ids := al_reservation_ids r @ [res_id v], al_total := al_total r + ?q\<rparr>"
  have create: "create_reservation req ?w ?q s = (Inr v, u)"
    by (simp add: create_reservation_app Let_def v_def u_def)
  have "\<not> available b < ?q" using av by simp
  then have app: "apply_allocation ?w ?k ?q u = (Inr (), ?t)"
    using b bin by (simp add: apply_allocation_def bind_def get_balance_ok [OF Tu] bin_of_def set_obj_def)
  have "allocate_step req sc (r, m) s = (Inr (?r, m - ?q), ?t)"
    using False m split by (simp add: allocate_step_def Let_def bind_def create app)
  moreover have "promises_kept ?k scs ?t"
  proof -
    have key: "bin_key (?f x) = bin_key x" for x by (simp add: bin_key_def)
    have "tables_ok ?t" by (rule tables_ok_upd_balance [OF Tu]) (simp_all add: key)
    moreover have "bin_of (ws_warehouse sc') ?k ?t = bin_of (ws_warehouse sc') ?k s" if "sc' \<in> set scs" for sc'
    proof -
      have "ws_warehouse sc' \<noteq> ?w" using P that by (auto simp: promises_kept_def image_iff)
      from bin_of_reserve [where f = ?f, OF Tu _ this key] b bin show ?thesis by simp
    qed
    ultimately show ?thesis using P by (simp add: promises_kept_def)
  qed
  ultimately show ?thesis using that by simp
qed

lemma allocate_loop_kept:
  assumes "promises_kept (ar_sku req) scs s" and "ar_allow_split req" and "0 \<le> m"
  shows "\<exists>r' t. for_loop (allocate_step req) scs (r, m) s =
      (Inr (r', m - min m (sum_list (map ws_available scs))), t) \<and>
      al_total r' = al_total r + min m (sum_list (map ws_available scs))"
  using assms
proof (induction scs arbitrary: s r m)
  case (Cons sc scs)
  let ?q = "min m (ws_available sc)"
  have nn: "0 \<le> ws_available sc" "0 \<le> sum_list (map ws_available scs)"
    using Cons.prems by (auto simp: promises_kept_def intro: sum_list_nonneg_map)
  from allocate_step_kept [OF Cons.prems(1,2,3), where r = r] obtain r' u where
    step: "allocate_step req sc (r, m) s = (Inr (r', m - ?q), u)"
    and r': "al_total r' = al_total r + ?q" and "promises_kept (ar_sku req) scs u" .
  with Cons.IH [of u "m - ?q" r'] Cons.prems obtain r'' t where
    "for_loop (allocate_step req) scs (r', m - ?q) u =
      (Inr (r'', m - ?q - min (m - ?q) (sum_list (map ws_available scs))), t)"
    "al_total r'' = al_total r' + min (m - ?q) (sum_list (map ws_available scs))" by auto
  with step r' nn Cons.prems(3) show ?case by (auto simp: bind_ok min_def split: if_splits)
qed simp

text \<open>The ranking only permutes the scores.\<close>

lemma prefer_warehouse_mset: "mset (prefer_warehouse p scs) = mset scs"
  by (simp add: prefer_warehouse_def split: option.split)

lemma select_ordered_mset: "mset (select_ordered k P t) = mset (select_where P t)"
  unfolding select_ordered_def select_where_def mset_map mset_sort ..

definition single_bins :: "uuid \<Rightarrow> session \<Rightarrow> bool" where
  "single_bins k s \<longleftrightarrow> (\<forall>b \<in> set (lives (balances s)). bal_sku b = k \<longrightarrow> bal_location b = None)"

definition network_available :: "uuid \<Rightarrow> session \<Rightarrow> int" where
  "network_available k s = sum_list (map ws_available (scores_of k s))"

lemma score_available:
  assumes T: "tables_ok s" and C: "clean_session s" and S: "single_bins k s"
  shows "ws_available (score_of k s w) =
    (case bin_of (wh_id w) k s of None \<Rightarrow> 0 | Some b \<Rightarrow> available b)"
proof -
  note [simp] = clean_select_sum [OF clean_tables(1) [OF C]]
  have "filter (\<lambda>b. bal_warehouse b = wh_id w \<and> bal_sku b = k) (lives (balances s)) =
      filter (\<lambda>b. bin_key b = (wh_id w, k, None)) (lives (balances s))"
    using S by (auto simp: single_bins_def bin_key_def intro: filter_cong)
  then show ?thesis
    using T filter_key_cases [of bin_key "lives (balances s)" "(wh_id w, k, None)"]
    by (simp add: score_of_def tables_ok_def bin_of_def uncommitted_def available_def split: option.split)
qed

lemma ranking_kept:
  assumes T: "tables_ok s" and C: "clean_session s" and S: "single_bins k s"
    and W: "distinct (map wh_id (lives (warehouses s)))"
    and R: "mset scs = mset (scores_of k s)"
  shows "promises_kept k scs s"
proof -
  have "mset (select_ordered wh_priority wh_is_active (warehouses s)) =
      mset (filter wh_is_active (lives (warehouses s)))"
    by (simp add: select_ordered_mset clean_select_where [OF clean_tables(4) [OF C]])
  then have "distinct (map wh_id (select_ordered wh_priority wh_is_active (warehouses s)))"
    using W distinct_map_filter [of wh_id "lives (warehouses s)" wh_is_active]
    by (metis mset_eq_imp_distinct_iff mset_map)
  moreover have "map ws_warehouse (scores_of k s) =
      map wh_id (select_ordered wh_priority wh_is_active (warehouses s))"
    by (simp add: scores_of_def score_of_def)
  ultimately have "distinct (map ws_warehouse scs)"
    using R by (metis mset_eq_imp_distinct_iff mset_map)
  moreover have "set scs = set (scores_of k s)" using R by (rule mset_eq_setD)
  ultimately show ?thesis
    using T score_available [OF T C S]
    by (auto simp: promises_kept_def scores_of_def available_def score_of_def split: option.splits)
qed

lemma allocate_complete:
  assumes T: "tables_ok s" and C: "clean_session s" and S: "single_bins (ar_sku req) s"
    and W: "distinct (map wh_id (lives (warehouses s)))"
    and split: "ar_allow_split req" and q: "0 < ar_quantity req"
  shows "if network_available (ar_sku req) s = 0
         then fst (allocate req s) = Inl (InsufficientInventoryError (ar_sku req) (ar_quantity req) 0 None)
         else \<exists>r t. allocate req s = (Inr r, t) \<and>
           al_total r = min (ar_quantity req) (network_available (ar_sku req) s) \<and>
           al_backorder r = ar_quantity req - al_total r"
proof -
  define scs where "scs = prefer_warehouse (ar_preferred req)
    (sort_key (\<lambda>w. - composite_score w) (scores_of (ar_sku req) s))"
  have m: "mset scs = mset (scores_of (ar_sku req) s)" by (simp add: scs_def prefer_warehouse_mset)
  then have sum: "sum_list (map ws_available scs) = network_available (ar_sku req) s"
    unfolding network_available_def by (metis mset_map sum_mset_sum_list)
  have P: "promises_kept (ar_sku req) scs s" by (rule ranking_kept [OF T C S W m])
  then have nn: "0 \<le> network_available (ar_sku req) s"
    unfolding sum [symmetric] by (auto simp: promises_kept_def intro: sum_list_nonneg_map)
  from allocate_loop_kept [OF P split, of "ar_quantity req" "empty_result req"] q obtain r' t where
    loop: "for_loop (allocate_step req) scs (empty_result req, ar_quantity req) s =
      (Inr (r', ar_quantity req - min (ar_quantity req) (network_available (ar_sku req) s)), t)"
    and tot: "al_total r' = min (ar_quantity req) (network_available (ar_sku req) s)"
    by (auto simp: sum empty_result_def)
  have "allocate req s = bind (for_loop (allocate_step req) scs (empty_result req, ar_quantity req))
       (\<lambda>(result, remaining).
       bind (raise_if (al_total result = 0) (InsufficientInventoryError (ar_sku req)
               (ar_quantity req) (sum_list (map ws_available scs)) None)) (\<lambda>_.
       ret (result\<lparr>al_backorder := remaining\<rparr>))) s"
    unfolding allocate_def Let_def scs_def
    by (rule bind_ok) (simp add: rank_warehouses_app)
  with loop tot nn q show ?thesis by (auto simp: bind_def sum)
qed

section \<open>Properties\<close>


lemma demo_tables_ok: "tables_ok demo_session"
  by (simp add: tables_ok_def bins_synced_def demo_session_def demo_balance_def
      empty_session_def lives_def bin_key_def)

lemma demo_clean: "clean_session demo_session"
  by (simp add: clean_session_def demo_session_def empty_session_def flush_def flush_table_def)


end
