(* ===== verification/Reservations.thy ===== *)
theory Reservations
  imports Ledger
begin

text \<open>
  \<open>domain/inventory/reservation_manager.py\<close>: extension, expiry and bulk confirmation of
  reservations.  The operations keep the ledger and the soundness of the balances; together with
  those of the allocation engine they are the requests under which no database state oversells.
\<close>

section \<open>ReservationManager\<close>

record ReservationSummary =
  rs_reservation :: uuid
  rs_order :: uuid
  rs_warehouse :: uuid
  rs_sku :: uuid
  rs_quantity :: int
  rs_status :: string
  rs_expires_at :: instant
  rs_seconds_remaining :: int
  rs_is_expired :: bool

record ExpiryProcessResult =
  ep_processed :: int
  ep_released :: int
  ep_errors :: "(uuid \<times> exn) list"

definition MAX_EXTENSION_MINUTES :: int where "MAX_EXTENSION_MINUTES = 60"

text \<open>\<open>max(0, int((expires_at - now).total_seconds()))\<close>: a correctly rounded float quotient.\<close>

definition seconds_remaining :: "instant \<Rightarrow> instant \<Rightarrow> int" where
  "seconds_remaining n e = max 0 (py_int (fl (of_int (e - n) / 1000000)))"

definition summary_of :: "instant \<Rightarrow> InventoryReservation \<Rightarrow> ReservationSummary" where
  "summary_of n r = \<lparr>rs_reservation = res_id r, rs_order = res_order r,
     rs_warehouse = res_warehouse r, rs_sku = res_sku r, rs_quantity = res_quantity r,
     rs_status = res_status r, rs_expires_at = res_expires_at r,
     rs_seconds_remaining = seconds_remaining n (res_expires_at r),
     rs_is_expired = (res_expires_at r < n)\<rparr>"

definition get_order_reservations :: "uuid \<Rightarrow> ReservationSummary list task" where
  "get_order_reservations i = bind (get_active_for_order i) (\<lambda>rs. bind get_now (\<lambda>n.
     ret (map (summary_of n) rs)))"

text \<open>\<open>next\<close> on an exhausted generator leaves a coroutine as a \<open>RuntimeError\<close>.\<close>

definition extend_reservation :: "uuid \<Rightarrow> int \<Rightarrow> ReservationSummary task" where
  "extend_reservation i additional_minutes =
     bind (get_by_id_or_raise res_id reservations i) (\<lambda>r.
     bind (raise_if (res_status r \<noteq> ''active'') (ReservationExpiredError i)) (\<lambda>_.
     let extension = min additional_minutes MAX_EXTENSION_MINUTES in
     bind (set_obj reservations_update res_id i
             (\<lambda>r. r\<lparr>res_expires_at := res_expires_at r + minutes extension\<rparr>)) (\<lambda>_.
     bind (get_order_reservations (res_order r)) (\<lambda>summaries.
     case find (\<lambda>sm. rs_reservation sm = i) summaries of
       None \<Rightarrow> raise PyRuntimeError | Some sm \<Rightarrow> ret sm))))"

definition expire_step :: "InventoryReservation \<Rightarrow> ExpiryProcessResult \<Rightarrow> ExpiryProcessResult task" where
  "expire_step r result =
     (let result = result\<lparr>ep_processed := ep_processed result + 1\<rparr> in
      try_except
        (bind (release_single_reservation r) (\<lambda>_.
         ret (result\<lparr>ep_released := ep_released result + res_quantity r\<rparr>)))
        (\<lambda>e. ret (result\<lparr>ep_errors := ep_errors result @ [(res_id r, e)]\<rparr>)))"

definition process_expired :: "ExpiryProcessResult task" where
  "process_expired = bind (get_expired None) (\<lambda>expired.
     for_loop expire_step expired \<lparr>ep_processed = 0, ep_released = 0, ep_errors = []\<rparr>)"

definition confirm_step :: "InventoryReservation \<Rightarrow> int \<Rightarrow> int task" where
  "confirm_step r confirmed =
     try_except (bind (confirm_allocation (res_id r)) (\<lambda>_. ret (confirmed + 1)))
       (\<lambda>e. case e of ReservationExpiredError _ \<Rightarrow> ret confirmed | _ \<Rightarrow> raise e)"

definition confirm_all_for_order :: "uuid \<Rightarrow> int task" where
  "confirm_all_for_order i = bind (get_active_for_order i) (\<lambda>rs. for_loop confirm_step rs 0)"

definition total_reserved_by_sku :: "uuid \<Rightarrow> uuid \<Rightarrow> int task" where
  "total_reserved_by_sku w k = sum_reserved_quantity w k"

text \<open>\<open>SELECT DISTINCT\<close>, in the order of the table.\<close>

definition find_orders_with_expiring_soon :: "int \<Rightarrow> uuid list task" where
  "find_orders_with_expiring_soon within_minutes = bind get_now (\<lambda>n.
     let cutoff = n + minutes within_minutes in
     reads (\<lambda>s. first_occurrences (map res_order
       (filter (\<lambda>r. res_status r = ''active'' \<and> res_expires_at r \<le> cutoff \<and> n < res_expires_at r)
          (stored_rows (reservations s))))))"

section \<open>The operations keep the ledger\<close>

lemma ledger_set_expiry:
  assumes L: "ledger s"
  shows "ledger (reservations_update (upd_row res_id i (\<lambda>r. r\<lparr>res_expires_at := e r\<rparr>)) s)"
proof -
  let ?t = "reservations_update (upd_row res_id i (\<lambda>r. r\<lparr>res_expires_at := e r\<rparr>)) s"
  have "tables_ok ?t" by (rule tables_ok_upd_reservation) (use L in \<open>simp_all add: ledger_def\<close>)
  moreover have "active_qty w k ?t = active_qty w k s" for w k
    by (simp add: active_qty_def sum_upd_list_same active_at_def)
  ultimately show ?thesis using L by (simp add: ledger_def)
qed

lemma get_order_reservations_preserves [hoare_rules]: "preserves I (get_order_reservations i)"
  unfolding get_order_reservations_def get_active_for_order_def get_now_def by (intro hoare_rules)

lemma get_by_id_or_raise_preserves [hoare_rules]: "preserves I (get_by_id_or_raise key tab i)"
  unfolding get_by_id_or_raise_def get_by_id_def by (intro hoare_rules)

lemma extend_reservation_ledger: "preserves ledger (extend_reservation i n)"
  unfolding extend_reservation_def Let_def set_obj_def
  by (intro hoare_rules preserves_modify ledger_set_expiry)

lemma confirm_all_for_order_ledger: "preserves ledger (confirm_all_for_order i)"
  unfolding confirm_all_for_order_def confirm_step_def get_active_for_order_def
  by (intro hoare_rules confirm_allocation_ledger) (auto intro: hoare_rules split: exn.split)

text \<open>Expiry: every expired active reservation is released, and none of the steps fails.\<close>

definition expired_active :: "session \<Rightarrow> InventoryReservation \<Rightarrow> bool" where
  "expired_active s r \<longleftrightarrow> res_status r = ''active'' \<and> res_expires_at r < now s"

definition expired_in :: "instant \<Rightarrow> InventoryReservation list \<Rightarrow> session \<Rightarrow> bool" where
  "expired_in n rs s \<longleftrightarrow> pending_release rs s \<and>
     (\<forall>r \<in> set (lives (reservations s)). res_status r = ''active'' \<and> res_expires_at r < n \<longrightarrow> r \<in> set rs)"

lemma expire_step_app:
  assumes "expired_in n (r # rs) s"
  shows "\<exists>t. expire_step r res s = (Inr (res\<lparr>ep_processed := ep_processed res + 1,
      ep_released := ep_released res + res_quantity r\<rparr>), t) \<and> expired_in n rs t"
proof -
  from assms have P: "pending_release (r # rs) s" by (simp add: expired_in_def)
  from release_single_pending_app [OF P] obtain t where
    run: "release_single_reservation r s = (Inr (), t)" and t: "pending_release rs t"
    "reservations t = upd_row res_id (res_id r) (\<lambda>r. r\<lparr>res_status := ''released''\<rparr>) (reservations s)" .
  have "expired_in n rs t"
    using assms t by (auto simp: expired_in_def elim!: in_upd_listE)
  with run show ?thesis by (simp add: expire_step_def Let_def try_except_app bind_ok)
qed

lemma expire_loop_app:
  "expired_in n rs s \<Longrightarrow>
   \<exists>t. for_loop expire_step rs res s = (Inr (res\<lparr>ep_processed := ep_processed res + int (length rs),
      ep_released := ep_released res + sum_list (map res_quantity rs)\<rparr>), t) \<and> expired_in n [] t"
proof (induction rs arbitrary: s res)
  case (Cons r rs)
  from expire_step_app [OF Cons.prems] obtain u where
    "expire_step r res s = (Inr (res\<lparr>ep_processed := ep_processed res + 1,
        ep_released := ep_released res + res_quantity r\<rparr>), u)" and "expired_in n rs u" by blast
  moreover note Cons.IH [OF this(2), of "res\<lparr>ep_processed := ep_processed res + 1,
        ep_released := ep_released res + res_quantity r\<rparr>"]
  ultimately show ?case by (auto simp: bind_ok algebra_simps)
qed simp

lemma process_expired_app:
  assumes L: "ledger s" and C: "clean_session s"
  shows "\<exists>t. process_expired s = (Inr \<lparr>ep_processed = int (length (filter (expired_active s) (lives (reservations s)))),
      ep_released = sum_list (map res_quantity (filter (expired_active s) (lives (reservations s)))),
      ep_errors = []\<rparr>, t) \<and> ledger t \<and> \<not> (\<exists>r \<in> set (lives (reservations t)). expired_active s r)"
proof -
  have C': "clean (reservations s)" by (rule clean_tables [OF C])
  let ?rs = "select_where (\<lambda>r. res_status r = ''active'' \<and> res_expires_at r < now s) (reservations s)"
  have "?rs = filter (expired_active s) (lives (reservations s))"
    by (simp add: clean_select_where [OF C'] expired_active_def [abs_def])
  moreover have "expired_in (now s) ?rs s"
    using select_active_pending [OF L C', of "\<lambda>r. res_status r = ''active'' \<and> res_expires_at r < now s"]
    by (auto simp: expired_in_def clean_select_where [OF C'])
  note expire_loop_app [OF this, of "\<lparr>ep_processed = 0, ep_released = 0, ep_errors = []\<rparr>"]
  ultimately show ?thesis
    by (auto simp: process_expired_def get_expired_def get_now_def bind_assoc expired_in_def pending_release_def expired_active_def)
qed

section \<open>Properties\<close>

text \<open>C11: On a consistent committed database the expiry job never fails: it releases every active
  reservation whose time has passed, reports their number and total quantity with no error, leaves
  none of them active, and keeps reservations and balances in agreement.\<close>

theorem process_expired_releases_all:
  assumes "ledger s" and "clean_session s"
  shows "\<exists>t. process_expired s = (Inr \<lparr>ep_processed = int (length (filter (expired_active s) (lives (reservations s)))),
      ep_released = sum_list (map res_quantity (filter (expired_active s) (lives (reservations s)))),
      ep_errors = []\<rparr>, t) \<and> ledger t \<and> \<not> (\<exists>r \<in> set (lives (reservations t)). expired_active s r)"
  by (rule process_expired_app) (rule assms)+

definition demo_reserved :: session where
  "demo_reserved = demo_session\<lparr>
     balances := map (\<lambda>b. Cell (Some b) b) [(demo_balance 4 1 10)\<lparr>reserved := 7\<rparr>, demo_balance 5 2 5],
     reservations := map (\<lambda>r. Cell (Some r) r)
       [\<lparr>res_id = 6, res_order = 20, res_order_line = 21, res_warehouse = 1, res_sku = 3, res_quantity = 4,
         res_status = ''active'', res_expires_at = minutes 30, res_correlation = None\<rparr>,
        \<lparr>res_id = 7, res_order = 22, res_order_line = 23, res_warehouse = 1, res_sku = 3, res_quantity = 3,
         res_status = ''active'', res_expires_at = minutes 90, res_correlation = None\<rparr>],
     now := minutes 60\<rparr>"

lemma demo_reserved_ok: "ledger demo_reserved" "clean_session demo_reserved"
  by (simp_all add: ledger_def tables_ok_def bins_synced_def active_qty_def reserved_qty_def
      active_at_def demo_reserved_def demo_session_def demo_balance_def empty_session_def lives_def
      bin_key_def clean_session_def flush_def flush_table_def)

theorem process_expired_releases_all_witness:
  "\<exists>t. process_expired demo_reserved = (Inr \<lparr>ep_processed = 1, ep_released = 4, ep_errors = []\<rparr>, t) \<and> ledger t"
proof -
  have "length (filter (expired_active demo_reserved) (lives (reservations demo_reserved))) = 1"
    "sum_list (map res_quantity (filter (expired_active demo_reserved) (lives (reservations demo_reserved)))) = 4"
    by code_simp+
  with process_expired_releases_all [OF demo_reserved_ok] show ?thesis by auto
qed

end
