(* ===== verification/Reconciliation.thy ===== *)
theory Reconciliation
  imports Reservations
begin

text \<open>
  \<open>domain/inventory/reconciliation.py\<close>: detecting and repairing disagreement between the
  reservations and the balances.  The detector is characterised exactly, the repair restores the
  agreement, and the reservation requests of the program are shown to keep the joint invariant
  of the stock in every reachable database state.
\<close>

section \<open>InventoryReconciler\<close>

record ReconciliationDiscrepancy =
  dc_warehouse :: uuid
  dc_sku :: uuid
  dc_on_hand :: int
  dc_computed_available :: int
  dc_reserved_in_reservations :: int
  dc_reserved_in_balance :: int
  dc_allocated_in_balance :: int
  dc_type :: string
  dc_severity :: string

record ReconciliationReport =
  rr_discrepancies :: "ReconciliationDiscrepancy list"
  rr_warehouses_checked :: int
  rr_skus_checked :: int
  rr_is_balanced :: bool

definition empty_report :: ReconciliationReport where
  "empty_report = \<lparr>rr_discrepancies = [], rr_warehouses_checked = 0, rr_skus_checked = 0,
     rr_is_balanced = True\<rparr>"

definition add_discrepancy :: "ReconciliationDiscrepancy \<Rightarrow> ReconciliationReport \<Rightarrow> ReconciliationReport" where
  "add_discrepancy d rep = rep\<lparr>rr_discrepancies := rr_discrepancies rep @ [d], rr_is_balanced := False\<rparr>"

definition total_of :: "(InventoryBalance \<Rightarrow> int) \<Rightarrow> InventoryBalance list \<Rightarrow> int" where
  "total_of f bs = sum_list (map f bs)"

definition reservation_mismatch ::
  "uuid \<Rightarrow> uuid \<Rightarrow> InventoryBalance list \<Rightarrow> int \<Rightarrow> ReconciliationDiscrepancy" where
  "reservation_mismatch w k sku_balances reservation_total =
     \<lparr>dc_warehouse = w, dc_sku = k, dc_on_hand = total_of on_hand sku_balances,
      dc_computed_available = total_of on_hand sku_balances - total_of reserved sku_balances
        - total_of allocated sku_balances,
      dc_reserved_in_reservations = reservation_total,
      dc_reserved_in_balance = total_of reserved sku_balances,
      dc_allocated_in_balance = total_of allocated sku_balances,
      dc_type = ''reservation_mismatch'',
      dc_severity = (if 10 < \<bar>reservation_total - total_of reserved sku_balances\<bar>
                     then ''high'' else ''medium'')\<rparr>"

definition negative_available :: "uuid \<Rightarrow> uuid \<Rightarrow> int \<Rightarrow> InventoryBalance \<Rightarrow> ReconciliationDiscrepancy" where
  "negative_available w k reservation_total b =
     \<lparr>dc_warehouse = w, dc_sku = k, dc_on_hand = on_hand b, dc_computed_available = uncommitted b,
      dc_reserved_in_reservations = reservation_total, dc_reserved_in_balance = reserved b,
      dc_allocated_in_balance = allocated b, dc_type = ''negative_available'',
      dc_severity = ''critical''\<rparr>"

definition reconcile_sku ::
  "uuid \<Rightarrow> InventoryBalance list \<Rightarrow> uuid \<Rightarrow> ReconciliationReport \<Rightarrow> ReconciliationReport task" where
  "reconcile_sku w bals k rep =
     (let sku_balances = filter (\<lambda>b. bal_sku b = k) bals in
      bind (sum_reserved_quantity w k) (\<lambda>reservation_total.
      let rep = (if reservation_total \<noteq> total_of reserved sku_balances
                 then add_discrepancy (reservation_mismatch w k sku_balances reservation_total) rep
                 else rep)
      in ret (fold (\<lambda>b rep. if uncommitted b < 0
                            then add_discrepancy (negative_available w k reservation_total b) rep
                            else rep) sku_balances rep)))"

definition reconcile_warehouse :: "(uuid list \<Rightarrow> uuid list) \<Rightarrow> uuid \<Rightarrow> ReconciliationReport task" where
  "reconcile_warehouse so w = bind (list_by_warehouse w) (\<lambda>bals.
     let sku_ids = so (map bal_sku bals) in
     for_loop (reconcile_sku w bals) sku_ids
       (empty_report\<lparr>rr_warehouses_checked := 1, rr_skus_checked := int (length sku_ids)\<rparr>))"

definition reconcile_network ::
  "(uuid list \<Rightarrow> uuid list) \<Rightarrow> uuid list \<Rightarrow> ReconciliationReport task" where
  "reconcile_network so ws = for_loop (\<lambda>w combined. bind (reconcile_warehouse so w) (\<lambda>rep.
     ret \<lparr>rr_discrepancies = rr_discrepancies combined @ rr_discrepancies rep,
          rr_warehouses_checked = rr_warehouses_checked combined + rr_warehouses_checked rep,
          rr_skus_checked = rr_skus_checked combined + rr_skus_checked rep,
          rr_is_balanced = (rr_is_balanced combined \<and> rr_is_balanced rep)\<rparr>)) ws empty_report"

definition auto_repair_reservation_mismatch ::
  "(uuid list \<Rightarrow> uuid list) \<Rightarrow> uuid \<Rightarrow> uuid \<Rightarrow> bool task" where
  "auto_repair_reservation_mismatch so w k = bind (reconcile_warehouse so w) (\<lambda>rep.
     case filter (\<lambda>d. dc_sku d = k \<and> dc_type d = ''reservation_mismatch'') (rr_discrepancies rep) of
       [] \<Rightarrow> ret False
     | discrepancy # _ \<Rightarrow>
         bind (get_balance w k None) (\<lambda>b. case b of
           None \<Rightarrow> raise ReconciliationError
         | Some b \<Rightarrow> bind (set_obj balances_update bal_id (bal_id b)
             (\<lambda>b. b\<lparr>reserved := dc_reserved_in_reservations discrepancy,
                    bal_version := bal_version b + 1\<rparr>)) (\<lambda>_. ret True)))"

section \<open>What the detector reports\<close>

definition sku_discrepancies ::
  "uuid \<Rightarrow> InventoryBalance list \<Rightarrow> int \<Rightarrow> uuid \<Rightarrow> ReconciliationDiscrepancy list" where
  "sku_discrepancies w bals tot k =
     (let bs = filter (\<lambda>b. bal_sku b = k) bals in
      (if tot \<noteq> total_of reserved bs then [reservation_mismatch w k bs tot] else [])
      @ map (negative_available w k tot) (filter (\<lambda>b. uncommitted b < 0) bs))"

definition extend_report :: "ReconciliationDiscrepancy list \<Rightarrow> ReconciliationReport \<Rightarrow> ReconciliationReport" where
  "extend_report ds rep = rep\<lparr>rr_discrepancies := rr_discrepancies rep @ ds,
     rr_is_balanced := (rr_is_balanced rep \<and> ds = [])\<rparr>"

lemma extend_report_simps [simp]:
  "extend_report [] rep = rep"
  "extend_report ds (extend_report es rep) = extend_report (es @ ds) rep"
  "add_discrepancy d rep = extend_report [d] rep"
  by (auto simp: extend_report_def add_discrepancy_def)

lemma fold_add_discrepancy:
  "fold (\<lambda>b rep. if P b then add_discrepancy (f b) rep else rep) bs rep =
   extend_report (map f (filter P bs)) rep"
  by (induction bs arbitrary: rep) auto

lemma reconcile_sku_app:
  "reconcile_sku w bs k rep s =
   (Inr (extend_report (sku_discrepancies w bs
      (select_sum res_quantity (active_at w k) (reservations s)) k) rep), s)"
  by (simp add: reconcile_sku_def Let_def sum_reserved_quantity_def sku_discrepancies_def
      fold_add_discrepancy active_at_def [abs_def])

lemma fold_extend_report:
  "fold (\<lambda>k. extend_report (f k)) ks rep = extend_report (concat (map f ks)) rep"
  by (induction ks arbitrary: rep) auto

lemma reconcile_warehouse_app:
  "reconcile_warehouse so w s =
    (let bs = select_where (\<lambda>b. bal_warehouse b = w) (balances s); ks = so (map bal_sku bs) in
     (Inr (extend_report (concat (map (\<lambda>k. sku_discrepancies w bs
          (select_sum res_quantity (active_at w k) (reservations s)) k) ks))
        (empty_report\<lparr>rr_warehouses_checked := 1, rr_skus_checked := int (length ks)\<rparr>)), s))"
proof -
  let ?bs = "select_where (\<lambda>b. bal_warehouse b = w) (balances s)"
  let ?f = "\<lambda>k. extend_report (sku_discrepancies w ?bs
     (select_sum res_quantity (active_at w k) (reservations s)) k)"
  have "for_loop (reconcile_sku w ?bs) ks rep s = (Inr (fold ?f ks rep), s)" for ks rep
    by (rule for_loop_pure) (rule reconcile_sku_app)
  then show ?thesis
    by (simp add: reconcile_warehouse_def list_by_warehouse_def Let_def fold_extend_report)
qed

lemma reconcile_warehouse_preserves [hoare_rules]: "preserves I (reconcile_warehouse so w)"
  by (rule preservesI) (simp add: reconcile_warehouse_app Let_def)

lemma reconcile_network_preserves [hoare_rules]: "preserves I (reconcile_network so ws)"
  unfolding reconcile_network_def by (intro hoare_rules)

lemma sku_discrepancies_empty:
  "sku_discrepancies w bs tot k = [] \<longleftrightarrow> tot = total_of reserved (filter (\<lambda>b. bal_sku b = k) bs) \<and>
     (\<forall>b \<in> set bs. bal_sku b = k \<longrightarrow> 0 \<le> uncommitted b)"
  by (auto simp: sku_discrepancies_def Let_def filter_empty_conv)

text \<open>On a committed state the report is empty exactly when reservations and balances agree.\<close>

definition reserved_total :: "uuid \<Rightarrow> uuid \<Rightarrow> session \<Rightarrow> int" where
  "reserved_total w k s = total_of reserved
     (filter (\<lambda>b. bal_warehouse b = w \<and> bal_sku b = k) (lives (balances s)))"

lemma active_sum_clean:
  "clean (reservations s) \<Longrightarrow> select_sum res_quantity (active_at w k) (reservations s) = active_qty w k s"
  by (simp add: clean_select_sum active_qty_def sum_filter_as_if)

text \<open>What the reconciler needs of the session is less: the bins and the reservations are flushed.\<close>

definition comparable :: "session \<Rightarrow> bool" where
  "comparable s \<longleftrightarrow> bins_synced s \<and> clean (reservations s)"

lemma clean_comparable: "clean_session s \<Longrightarrow> comparable s"
  using clean_tables(1,2) [of s] by (auto simp: comparable_def bins_synced_def clean_def)

lemma comparable_warehouse:
  assumes "comparable s"
  shows "select_where (\<lambda>b. bal_warehouse b = w) (balances s) = filter (\<lambda>b. bal_warehouse b = w) (lives (balances s))"
proof -
  have "select_where (\<lambda>b. bal_warehouse b = w) t = filter (\<lambda>b. bal_warehouse b = w) (lives t)"
    if "\<forall>c \<in> set t. \<exists>b. stored c = Some b \<and> bin_key b = bin_key (live c)" for t
    using that by (induction t) (auto simp: select_where_def stored_sat_def lives_def bin_key_def)
  with assms show ?thesis by (simp add: comparable_def bins_synced_def)
qed

lemma reconcile_warehouse_iff:
  assumes C: "clean_session s" and so: "set_order so" and run: "reconcile_warehouse so w s = (Inr rep, t)"
  shows "rr_is_balanced rep \<longleftrightarrow> (\<forall>b \<in> set (lives (balances s)). bal_warehouse b = w \<longrightarrow>
      0 \<le> uncommitted b \<and> active_qty w (bal_sku b) s = reserved_total w (bal_sku b) s)"
proof -
  note [simp] = clean_select_where [OF clean_tables(1) [OF C]] active_sum_clean [OF clean_tables(2) [OF C]]
  let ?bs = "filter (\<lambda>b. bal_warehouse b = w) (lives (balances s))"
  have so': "set (so (map bal_sku ?bs)) = bal_sku ` set ?bs" using so by (simp add: set_order_def)
  have "rr_is_balanced rep \<longleftrightarrow> (\<forall>k \<in> bal_sku ` set ?bs. sku_discrepancies w ?bs (active_qty w k s) k = [])"
    using run by (auto simp: reconcile_warehouse_app Let_def extend_report_def empty_report_def
        concat_eq_Nil_conv so' simp del: set_filter)
  then show ?thesis
    by (auto simp: sku_discrepancies_empty reserved_total_def conj_commute)
qed

section \<open>What the repair does\<close>

lemma in_sku_discrepancies:
  "d \<in> set (sku_discrepancies w bs tot k') \<and> dc_sku d = k \<and> dc_type d = ''reservation_mismatch'' \<longleftrightarrow>
   k' = k \<and> tot \<noteq> total_of reserved (filter (\<lambda>b. bal_sku b = k) bs) \<and>
   d = reservation_mismatch w k (filter (\<lambda>b. bal_sku b = k) bs) tot"
proof -
  have "dc_sku (reservation_mismatch w k' cs tot) = k'"
    "dc_type (reservation_mismatch w k' cs tot) = ''reservation_mismatch''"
    "dc_type (negative_available w k' tot b) \<noteq> ''reservation_mismatch''" for cs b
    by (simp_all add: reservation_mismatch_def negative_available_def)
  then show ?thesis by (auto simp: sku_discrepancies_def Let_def)
qed

lemma mismatch_reported:
  assumes C: "comparable s" and so: "set_order so" and run: "reconcile_warehouse so w s = (Inr rep, t)"
  shows "d \<in> set (rr_discrepancies rep) \<and> dc_sku d = k \<and> dc_type d = ''reservation_mismatch'' \<longleftrightarrow>
    (\<exists>b \<in> set (lives (balances s)). bal_warehouse b = w \<and> bal_sku b = k) \<and>
    active_qty w k s \<noteq> reserved_total w k s \<and>
    d = reservation_mismatch w k (filter (\<lambda>b. bal_warehouse b = w \<and> bal_sku b = k) (lives (balances s)))
          (active_qty w k s)"
proof -
  note [simp] = comparable_warehouse [OF C] active_sum_clean [OF C [unfolded comparable_def, THEN conjunct2]]
  let ?bs = "filter (\<lambda>b. bal_warehouse b = w) (lives (balances s))"
  have so': "set (so (map bal_sku ?bs)) = bal_sku ` set ?bs" using so by (simp add: set_order_def)
  have "rr_discrepancies rep = concat (map (\<lambda>k. sku_discrepancies w ?bs (active_qty w k s) k) (so (map bal_sku ?bs)))"
    using run by (auto simp: reconcile_warehouse_app Let_def extend_report_def empty_report_def)
  then have "set (rr_discrepancies rep) =
      (\<Union>k \<in> bal_sku ` set ?bs. set (sku_discrepancies w ?bs (active_qty w k s) k))"
    by (simp add: so' del: set_filter)
  then have "d \<in> set (rr_discrepancies rep) \<and> dc_sku d = k \<and> dc_type d = ''reservation_mismatch'' \<longleftrightarrow>
      (\<exists>k' \<in> bal_sku ` set ?bs. d \<in> set (sku_discrepancies w ?bs (active_qty w k' s) k') \<and>
        dc_sku d = k \<and> dc_type d = ''reservation_mismatch'')"
    by blast
  also have "\<dots> \<longleftrightarrow> k \<in> bal_sku ` set ?bs \<and>
      active_qty w k s \<noteq> total_of reserved (filter (\<lambda>b. bal_sku b = k) ?bs) \<and>
      d = reservation_mismatch w k (filter (\<lambda>b. bal_sku b = k) ?bs) (active_qty w k s)"
    unfolding in_sku_discrepancies by blast
  finally show ?thesis by (auto simp: reserved_total_def conj_commute)
qed

lemma auto_repair_app:
  assumes C: "comparable s" and so: "set_order so" and T: "tables_ok s"
    and run: "auto_repair_reservation_mismatch so w k s = (Inr res, t)"
  shows "if (\<exists>b \<in> set (lives (balances s)). bal_warehouse b = w \<and> bal_sku b = k) \<and>
            active_qty w k s \<noteq> reserved_total w k s
         then res \<and> (\<exists>b. find (\<lambda>b. bin_key b = (w, k, None)) (lives (balances s)) = Some b \<and>
           t = balances_update (upd_row bal_id (bal_id b)
             (\<lambda>b. b\<lparr>reserved := active_qty w k s, bal_version := bal_version b + 1\<rparr>)) s)
         else \<not> res \<and> t = s"
proof -
  obtain rep where rep: "reconcile_warehouse so w s = (Inr rep, s)"
    by (simp add: reconcile_warehouse_app Let_def)
  note reported = mismatch_reported [OF C so rep, of _ k]
  let ?ds = "filter (\<lambda>d. dc_sku d = k \<and> dc_type d = ''reservation_mismatch'') (rr_discrepancies rep)"
  show ?thesis
  proof (cases ?ds)
    case Nil
    then have "\<not> ((\<exists>b \<in> set (lives (balances s)). bal_warehouse b = w \<and> bal_sku b = k) \<and>
        active_qty w k s \<noteq> reserved_total w k s)"
      using reported by (fastforce simp: filter_empty_conv)
    with run Nil rep show ?thesis
      by (simp add: auto_repair_reservation_mismatch_def bind_ok)
  next
    case (Cons d ds)
    then have "d \<in> set ?ds" by simp
    then have d: "(\<exists>b \<in> set (lives (balances s)). bal_warehouse b = w \<and> bal_sku b = k)"
      "active_qty w k s \<noteq> reserved_total w k s" "dc_reserved_in_reservations d = active_qty w k s"
      using reported [of d] by (auto simp: reservation_mismatch_def)
    with run Cons rep show ?thesis
      by (auto simp: auto_repair_reservation_mismatch_def bind_ok bind_Inr_iff get_balance_ok [OF T]
          set_obj_def split: option.splits)
  qed
qed

lemma upd_reserved_exact:
  fixes v :: int
  assumes T: "tables_ok s" and f: "find (\<lambda>b. bin_key b = (w, k, None)) (lives (balances s)) = Some b"
  defines "t \<equiv> balances_update (upd_row bal_id (bal_id b)
             (\<lambda>b. b\<lparr>reserved := v, bal_version := bal_version b + 1\<rparr>)) s"
  shows "tables_ok t" "active_qty w' k' t = active_qty w' k' s"
    "reserved_qty w' k' t = (if w' = w \<and> k' = k then v else reserved_qty w' k' s)"
proof -
  let ?f = "\<lambda>b. b\<lparr>reserved := v, bal_version := bal_version b + 1\<rparr>"
  have key: "bin_key (?f x) = bin_key x" for x by (simp add: bin_key_def)
  show "tables_ok t" unfolding t_def by (rule tables_ok_upd_balance [OF T]) (simp_all add: key)
  show "active_qty w' k' t = active_qty w' k' s" by (simp add: t_def)
  show "reserved_qty w' k' t = (if w' = w \<and> k' = k then v else reserved_qty w' k' s)"
    unfolding t_def
    using reserved_qty_upd [where f = ?f, OF T find_bin(1) [OF f] key, of w' k'] f
      find_bin(2) [OF f] reserved_qty_find [OF T, of w k]
    by (cases "w' = w \<and> k' = k") auto
qed

text \<open>A repair leaves the bin-less balance of that warehouse and SKU equal to its reservations, and
  no other.  In a state that satisfies the ledger it changes nothing that the ledger mentions.\<close>

lemma auto_repair_ledger:
  assumes "clean_session s" and "set_order so" and L: "ledger s"
    and "auto_repair_reservation_mismatch so w k s = (Inr res, t)"
  shows "ledger t"
proof -
  have T: "tables_ok s" using L by (simp add: ledger_def)
  from auto_repair_app [OF clean_comparable [OF assms(1)] assms(2) T assms(4)] L show ?thesis
    by (auto simp: ledger_def upd_reserved_exact [OF T] split: if_splits)
qed

section \<open>The stock invariant of the reservation requests\<close>

lemma release_single_stock_ok: "0 \<le> res_quantity r \<Longrightarrow> preserves stock_ok (release_single_reservation r)"
proof (rule preservesI)
  fix s assume q: "0 \<le> res_quantity r" and ok: "stock_ok s"
  let ?f = "\<lambda>b. (if res_status r = ''confirmed''
                then b\<lparr>allocated := max 0 (allocated b - res_quantity r)\<rparr>
                else b\<lparr>reserved := max 0 (reserved b - res_quantity r)\<rparr>)\<lparr>bal_version := bal_version b + 1\<rparr>"
  show "stock_ok (snd (release_single_reservation r s))"
  proof (cases "fst (get_balance (res_warehouse r) (res_sku r) None s)")
    case (Inl e)
    with ok show ?thesis by (auto simp: release_single_reservation_def get_balance_app bind_def)
  next
    case (Inr bo)
    then have g: "get_balance (res_warehouse r) (res_sku r) None s = (Inr bo, s)"
      by (simp add: get_balance_app)
    show ?thesis
    proof (cases bo)
      case None
      with g ok show ?thesis by (simp add: release_single_reservation_def bind_ok set_obj_def)
    next
      case (Some b)
      have "stock_ok (balances_update (upd_row bal_id (bal_id b) ?f) s)"
        by (rule stock_ok_upd [OF ok get_balance_Some(2) [OF g [unfolded Some]]])
          (use q in \<open>auto simp: bal_ok_def\<close>)
      with g Some show ?thesis
        by (simp add: release_single_reservation_def bind_ok set_obj_def bind_def)
    qed
  qed
qed

definition positive_reservations :: "session \<Rightarrow> bool" where
  "positive_reservations s \<longleftrightarrow> (\<forall>r \<in> set (lives (reservations s)). 0 < res_quantity r)"

lemma ledger_positive: "ledger s \<Longrightarrow> positive_reservations s"
  by (simp add: ledger_def tables_ok_def positive_reservations_def)

lemma stock_ok_release_loop:
  assumes "\<forall>r \<in> set rs. 0 < res_quantity r"
  shows "preserves stock_ok (for_loop (\<lambda>r n. bind (release_single_reservation r) (\<lambda>_. ret (n + res_quantity r))) rs a)"
    and "preserves stock_ok (for_loop expire_step rs res)"
  using assms unfolding expire_step_def Let_def
  by (auto intro!: hoare_rules release_single_stock_ok less_imp_le)

lemma confirm_allocation_stock_ok:
  "preserves (\<lambda>s. ledger s \<and> stock_ok s) (confirm_allocation i)"
proof (rule preservesI)
  fix s assume I: "ledger s \<and> stock_ok s"
  then have T: "tables_ok s" and pos: "positive_reservations s"
    by (simp_all add: ledger_def ledger_positive)
  have "stock_ok (snd (confirm_allocation i s))"
  proof (cases "get_by_key res_id i (reservations s)")
    case None
    with I show ?thesis by (simp add: confirm_allocation_def get_by_id_or_raise_def get_by_id_def bind_def)
  next
    case (Some r)
    from get_by_key_Some [OF Some] have r: "r \<in> set (lives (reservations s))" and i: "res_id r = i" by auto
    note [simp] = confirm_allocation_def get_by_id_or_raise_def get_by_id_def
    consider "res_status r \<noteq> ''active''" | "res_status r = ''active''" "res_expires_at r < now s"
      | "res_status r = ''active''" "\<not> res_expires_at r < now s" by blast
    then show ?thesis
    proof cases
      case 1
      with I Some show ?thesis by (simp add: bind_def)
    next
      case 2
      have "stock_ok (snd (release_single_reservation r s))"
        using I r pos by (intro preservesD [OF release_single_stock_ok]) (auto simp: positive_reservations_def less_imp_le)
      with 2 Some show ?thesis by (auto simp: bind_def split: prod.split sum.split)
    next
      case 3
      have "active_at (res_warehouse r) (res_sku r) r" using 3 by (simp add: active_at_def)
      from ledger_active_balance [OF conjunct1 [OF I] r this] obtain b where
        fb: "find (\<lambda>b. bin_key b = (res_warehouse r, res_sku r, None)) (lives (balances s)) = Some b"
        and b: "b \<in> set (lives (balances s))" and le: "res_quantity r \<le> reserved b" .
      have Tu: "tables_ok (reservations_update (upd_row res_id i (\<lambda>r. r\<lparr>res_status := ''confirmed''\<rparr>)) s)"
        by (rule tables_ok_upd_reservation [OF T]) simp_all
      have "0 < res_quantity r" using r pos by (simp add: positive_reservations_def)
      then have "stock_ok (balances_update (upd_row bal_id (bal_id b)
          (\<lambda>b. b\<lparr>reserved := reserved b - res_quantity r, allocated := allocated b + res_quantity r,
                 bal_version := bal_version b + 1\<rparr>)) s)"
        using I le by (intro stock_ok_upd [OF _ b]) (auto simp: bal_ok_def)
      then show ?thesis using 3 Some fb
        by (simp add: bind_def get_balance_ok [OF Tu] set_obj_def stock_ok_def all_bal_ok_def distinct_balances_def)
    qed
  qed
  with preservesD [OF confirm_allocation_ledger conjunct1 [OF I]]
  show "ledger (snd (confirm_allocation i s)) \<and> stock_ok (snd (confirm_allocation i s))" by simp
qed

lemma confirm_all_stock_inv: "preserves (\<lambda>s. ledger s \<and> stock_ok s) (confirm_all_for_order i)"
  unfolding confirm_all_for_order_def confirm_step_def get_active_for_order_def
  by (intro hoare_rules confirm_allocation_stock_ok) (auto intro: hoare_rules split: exn.split)

lemma extend_reservation_stock_ok: "preserves stock_ok (extend_reservation i n)"
  unfolding extend_reservation_def Let_def set_obj_def
  by (intro hoare_rules preserves_modify) simp

lemma auto_repair_stock_ok:
  assumes "clean_session s" and "set_order so" and L: "ledger s" and S: "stock_ok s"
    and "auto_repair_reservation_mismatch so w k s = (Inr res, t)"
  shows "stock_ok t"
proof -
  have T: "tables_ok s" using L by (simp add: ledger_def)
  from auto_repair_app [OF clean_comparable [OF assms(1)] assms(2) T assms(5)] consider "t = s" |
    b where "find (\<lambda>b. bin_key b = (w, k, None)) (lives (balances s)) = Some b"
      "t = balances_update (upd_row bal_id (bal_id b)
         (\<lambda>b. b\<lparr>reserved := active_qty w k s, bal_version := bal_version b + 1\<rparr>)) s"
    by (auto split: if_splits)
  then show ?thesis
  proof cases
    case 2
    have "active_qty w k s = reserved b"
      using L 2(1) by (simp add: ledger_def reserved_qty_find)
    then show ?thesis unfolding 2(2)
      by (intro stock_ok_upd [OF S find_bin(1) [OF 2(1)]]) (simp_all add: bal_ok_def)
  qed (use S in simp)
qed

text \<open>The requests: the calls of the allocation engine, the reservation manager and the reconciler.\<close>

datatype stock_call =
    Allocate AllocationRequest
  | Release uuid
  | Confirm uuid
  | Confirm_all uuid
  | Extend uuid int
  | Expire
  | Reconcile "uuid list"
  | Repair uuid uuid

primrec perform :: "(uuid list \<Rightarrow> uuid list) \<Rightarrow> stock_call \<Rightarrow> unit task" where
  "perform so (Allocate req) = as_request (allocate req)"
| "perform so (Release i) = as_request (release_reservations i)"
| "perform so (Confirm i) = as_request (confirm_allocation i)"
| "perform so (Confirm_all i) = as_request (confirm_all_for_order i)"
| "perform so (Extend i n) = as_request (extend_reservation i n)"
| "perform so Expire = as_request process_expired"
| "perform so (Reconcile ws) = as_request (reconcile_network so ws)"
| "perform so (Repair w k) = as_request (auto_repair_reservation_mismatch so w k)"

definition stock_inv :: "session \<Rightarrow> bool" where
  "stock_inv s \<longleftrightarrow> ledger s \<and> stock_ok s"

definition stock_requests :: "unit task set" where
  "stock_requests = {perform so c |so c. set_order so}"

lemma ledger_flush [simp]: "ledger s \<Longrightarrow> ledger (flush s)"
  by (simp add: ledger_def)

lemma stock_inv_flush: "stock_inv s \<Longrightarrow> stock_inv (flush s)"
  by (simp add: stock_inv_def)

lemma stock_inv_perform:
  assumes C: "clean_session s" and so: "set_order so" and I: "stock_inv s"
    and run: "perform so c s = (Inr (), t)"
  shows "stock_inv t"
proof -
  have L: "ledger s" and S: "stock_ok s" and pos: "positive_reservations s"
    using I by (auto simp: stock_inv_def ledger_positive)
  have CR: "clean (reservations s)" by (rule clean_tables [OF C])
  have pos': "\<forall>r \<in> set (select_where P (reservations s)). 0 < res_quantity r" for P
    using pos in_select_where [of _ P "reservations s"] by (auto simp: positive_reservations_def)
  show ?thesis
  proof (cases c)
    case (Allocate req)
    then obtain r where r: "allocate req s = (Inr r, t)" using run by (auto dest!: as_request_Inr)
    show ?thesis using hoare_ok [OF allocate_ledger L r] preserves_ok [OF allocate_stock_ok S r]
      by (simp add: stock_inv_def)
  next
    case (Release i)
    then obtain n where r: "release_reservations i s = (Inr n, t)" using run by (auto dest!: as_request_Inr)
    have "stock_ok t"
      using r preserves_ok [OF stock_ok_release_loop(1) [OF pos'] S]
      by (simp add: release_reservations_def get_active_for_order_def)
    with release_reservations_ledger [OF L CR, of i] r show ?thesis by (simp add: stock_inv_def)
  next
    case (Confirm i)
    then have r: "confirm_allocation i s = (Inr (), t)" using run by (auto dest!: as_request_Inr)
    show ?thesis unfolding stock_inv_def
      by (rule preserves_ok [OF confirm_allocation_stock_ok _ r]) (use L S in simp)
  next
    case (Confirm_all i)
    then obtain n where r: "confirm_all_for_order i s = (Inr n, t)" using run by (auto dest!: as_request_Inr)
    show ?thesis unfolding stock_inv_def
      by (rule preserves_ok [OF confirm_all_stock_inv _ r]) (use L S in simp)
  next
    case (Extend i n)
    then obtain x where x: "extend_reservation i n s = (Inr x, t)" using run by (auto dest!: as_request_Inr)
    show ?thesis using preserves_ok [OF extend_reservation_ledger L x]
      preserves_ok [OF extend_reservation_stock_ok S x] by (simp add: stock_inv_def)
  next
    case Expire
    then obtain x where r: "process_expired s = (Inr x, t)" using run by (auto dest!: as_request_Inr)
    have "stock_ok t"
      using r preserves_ok [OF stock_ok_release_loop(2) [OF pos'] S]
      by (simp add: process_expired_def get_expired_def bind_assoc)
    with process_expired_app [OF L C] r show ?thesis by (auto simp: stock_inv_def)
  next
    case (Reconcile ws)
    then obtain x where r: "reconcile_network so ws s = (Inr x, t)" using run by (auto dest!: as_request_Inr)
    show ?thesis by (rule preserves_ok [where I = stock_inv, OF reconcile_network_preserves I r])
  next
    case (Repair w k)
    then obtain x where r: "auto_repair_reservation_mismatch so w k s = (Inr x, t)"
      using run by (auto dest!: as_request_Inr)
    show ?thesis using auto_repair_ledger [OF C so L r] auto_repair_stock_ok [OF C so L S r]
      by (simp add: stock_inv_def)
  qed
qed

lemma stock_inv_context: "stock_inv s \<Longrightarrow> stock_inv (new_context n c a r s)"
  by (simp add: stock_inv_def new_context_def ledger_def tables_ok_def bins_synced_def active_qty_def
      reserved_qty_def stock_ok_def all_bal_ok_def distinct_balances_def)

interpretation stock: transactional stock_inv stock_requests
  by unfold_locales (auto simp: stock_requests_def intro: stock_inv_flush stock_inv_perform stock_inv_context)

lemma demo_stock_inv: "stock_inv demo_session"
  by (simp add: stock_inv_def ledger_def tables_ok_def bins_synced_def active_qty_def reserved_qty_def
      stock_ok_def all_bal_ok_def distinct_balances_def demo_session_def demo_balance_def
      empty_session_def lives_def bin_key_def bal_ok_def)

section \<open>Properties\<close>

text \<open>C1: In every database state that reservation requests (allocate, release, confirm, confirm
  all, extend, expire, reconcile, repair, in any order, from any context, and whatever of them is
  aborted) reach from a consistent one, the active reservations of a warehouse and SKU add up to
  the \<open>reserved\<close> amount of its bin-less balance, and no balance is committed beyond what is on
  hand: the program never promises the same unit twice.\<close>

theorem reservations_never_oversell:
  assumes "clean_session s0" and "stock_inv s0" and "reachable stock_requests s0 s"
  shows "(\<forall>w k. active_qty w k s = reserved_qty w k s) \<and>
    (\<forall>b \<in> set (lives (balances s)). 0 \<le> reserved b \<and> 0 \<le> allocated b \<and>
       reserved b + allocated b + damaged b + quarantine b \<le> on_hand b)"
  using stock.reachable_inv [OF assms(3,1,2)]
  by (auto simp: stock_inv_def ledger_def stock_ok_def all_bal_ok_def bal_ok_def)

theorem reservations_never_oversell_witness:
  "let s = snd (run_request (perform remdups (Allocate (demo_request 12))) demo_session) in
   (\<forall>w k. active_qty w k s = reserved_qty w k s) \<and> active_qty 1 3 s = 10 \<and> active_qty 2 3 s = 2"
proof -
  let ?m = "perform remdups (Allocate (demo_request 12))"
  have "reachable stock_requests demo_session (snd (run_request ?m demo_session))"
    by (intro reachable.intros) (use set_order_remdups in \<open>unfold stock_requests_def, blast\<close>)
  from reservations_never_oversell [OF demo_clean demo_stock_inv this]
  have "\<forall>w k. active_qty w k (snd (run_request ?m demo_session)) = reserved_qty w k (snd (run_request ?m demo_session))"
    by blast
  moreover have "active_qty 1 3 (snd (run_request ?m demo_session)) = 10"
    "active_qty 2 3 (snd (run_request ?m demo_session)) = 2"
    unfolding perform.simps as_request_def run_request_def bind_def demo_allocate by code_simp+
  ultimately show ?thesis by (simp add: Let_def)
qed


definition demo_unbalanced :: session where
  "demo_unbalanced = demo_reserved\<lparr>
     balances := map (\<lambda>b. Cell (Some b) b) [(demo_balance 4 1 10)\<lparr>reserved := 9\<rparr>, demo_balance 5 2 5]\<rparr>"

lemma demo_unbalanced_ok: "clean_session demo_unbalanced" "tables_ok demo_unbalanced"
  by (simp_all add: demo_unbalanced_def demo_reserved_def demo_session_def demo_balance_def empty_session_def
      clean_session_def flush_def flush_table_def tables_ok_def bins_synced_def lives_def bin_key_def)




end
