(* ===== verification/Events.thy ===== *)
theory Events
  imports Repositories
begin

text \<open>
  \<open>services/audit_service.py\<close> and \<open>events/\<close>: the audit trail, the event store with its bus, the
  ordering validator and the replayer.  Proved here: an event stream written through the bus
  carries the sequence numbers 1, 2, 3, ... for every aggregate, which is exactly what the
  validator accepts and what replay requires.
\<close>

section \<open>AuditService\<close>

definition audit_record ::
  "string \<Rightarrow> uuid \<Rightarrow> string \<Rightarrow> pydict option \<Rightarrow> pydict option \<Rightarrow> pydict option \<Rightarrow> AuditEntry task" where
  "audit_record entity_type entity_id action before after metadata =
     bind fresh_uuid (\<lambda>i. bind get_now (\<lambda>n. bind (reads ctx_actor) (\<lambda>actor.
     bind (reads ctx_correlation) (\<lambda>c. bind (reads ctx_override) (\<lambda>override_reason.
     add audits_update
       \<lparr>au_id = i, au_entity_type = entity_type, au_entity_id = entity_id, au_action = action,
        au_actor = actor, au_correlation = Some c, au_timestamp = n, au_before = before,
        au_after = after, au_metadata = (case metadata of None \<Rightarrow> [] | Some m \<Rightarrow> m),
        au_is_override = (override_reason \<noteq> None), au_override_reason = override_reason\<rparr>)))))"

definition record_inventory_change ::
  "uuid \<Rightarrow> uuid \<Rightarrow> string \<Rightarrow> pydict \<Rightarrow> pydict \<Rightarrow> AuditEntry task" where
  "record_inventory_change w k action before after =
     audit_record ''inventory_balance'' k action (Some before) (Some after)
       (Some [(''warehouse_id'', JUuid w)])"

definition record_shipment_transition :: "uuid \<Rightarrow> string \<Rightarrow> string \<Rightarrow> AuditEntry task" where
  "record_shipment_transition i from_status to_status =
     audit_record ''shipment'' i ''state_transition'' (Some [(''status'', JStr from_status)])
       (Some [(''status'', JStr to_status)]) None"

definition get_entity_history :: "string \<Rightarrow> uuid \<Rightarrow> nat \<Rightarrow> AuditEntry list task" where
  "get_entity_history = list_for_entity"

definition get_correlation_trail :: "string \<Rightarrow> AuditEntry list task" where
  "get_correlation_trail = list_by_correlation"

definition audit_list_manual_overrides :: "instant \<Rightarrow> instant \<Rightarrow> AuditEntry list task" where
  "audit_list_manual_overrides t0 t1 = list_manual_overrides t0 t1 100"

section \<open>Payloads\<close>

text \<open>\<open>DomainEventPayload.event_type\<close> holds the value of the enumeration: \<open>publish\<close> stores that
  string and \<open>dispatch\<close> passes the stored string on.\<close>

record DomainEventPayload =
  dp_event_type :: string
  dp_aggregate_type :: string
  dp_aggregate_id :: uuid
  dp_payload :: pydict
  dp_correlation :: string
  dp_causation :: "string option"
  dp_metadata :: pydict
  dp_occurred_at :: instant

definition opt_json :: "('a \<Rightarrow> json) \<Rightarrow> 'a option \<Rightarrow> json" where
  "opt_json f x = (case x of None \<Rightarrow> JNull | Some y \<Rightarrow> f y)"

definition to_dict :: "DomainEventPayload \<Rightarrow> pydict" where
  "to_dict e = [(''event_type'', JStr (dp_event_type e)),
     (''aggregate_type'', JStr (dp_aggregate_type e)),
     (''aggregate_id'', JUuid (dp_aggregate_id e)), (''payload'', JObj (dp_payload e)),
     (''correlation_id'', JStr (dp_correlation e)),
     (''causation_id'', opt_json JStr (dp_causation e)), (''metadata'', JObj (dp_metadata e)),
     (''occurred_at'', JInt (dp_occurred_at e))]"

record InventoryAdjustedEvent =
  ia_warehouse :: uuid
  ia_sku :: uuid
  ia_delta :: int
  ia_reason :: string
  ia_before :: int
  ia_after :: int

definition InventoryAdjustedEvent_to_payload :: "InventoryAdjustedEvent \<Rightarrow> pydict" where
  "InventoryAdjustedEvent_to_payload e =
     [(''warehouse_id'', JUuid (ia_warehouse e)), (''sku_id'', JUuid (ia_sku e)),
      (''quantity_delta'', JInt (ia_delta e)), (''reason'', JStr (ia_reason e)),
      (''balance_before'', JInt (ia_before e)), (''balance_after'', JInt (ia_after e))]"

record ShipmentStateChangedEvent =
  sc_shipment :: uuid
  sc_previous :: string
  sc_new :: string
  sc_number :: uuid

definition ShipmentStateChangedEvent_to_payload :: "ShipmentStateChangedEvent \<Rightarrow> pydict" where
  "ShipmentStateChangedEvent_to_payload e =
     [(''shipment_id'', JUuid (sc_shipment e)), (''previous_status'', JStr (sc_previous e)),
      (''new_status'', JStr (sc_new e)), (''shipment_number'', JUuid (sc_number e))]"

record ForecastUpdatedEvent =
  fu_warehouse :: uuid
  fu_sku :: uuid
  fu_version :: string
  fu_drift_detected :: bool
  fu_drift_score :: pyfloat

definition ForecastUpdatedEvent_to_payload :: "ForecastUpdatedEvent \<Rightarrow> pydict" where
  "ForecastUpdatedEvent_to_payload e =
     [(''warehouse_id'', JUuid (fu_warehouse e)), (''sku_id'', JUuid (fu_sku e)),
      (''model_version'', JStr (fu_version e)), (''drift_detected'', JBool (fu_drift_detected e)),
      (''drift_score'', JFloat (fu_drift_score e))]"

section \<open>EventBus\<close>

type_synonym EventHandler = "DomainEventPayload \<Rightarrow> unit task"

text \<open>The bus object: its dictionary of handlers.  An operation of the bus that calls handlers runs on
  the pair of bus and session.\<close>

type_synonym bus = "string \<Rightarrow> EventHandler list option"

type_synonym 'a bus_task = "(bus \<times> session, exn, 'a) op"

definition on_session :: "'a task \<Rightarrow> ('c \<times> session, exn, 'a) op" where
  "on_session m = (\<lambda>(b, s). case m s of (r, t) \<Rightarrow> (r, (b, t)))"

text \<open>\<open>_handlers\<close> is a \<open>defaultdict\<close>: subscribing creates the list, \<open>get\<close> does not.\<close>

definition handlers_for :: "string \<Rightarrow> bus \<Rightarrow> EventHandler list" where
  "handlers_for ty b = (case b ty of None \<Rightarrow> [] | Some hs \<Rightarrow> hs)"

definition subscribe :: "string \<Rightarrow> EventHandler \<Rightarrow> bus \<Rightarrow> bus" where
  "subscribe ty h b = b(ty \<mapsto> handlers_for ty b @ [h])"

text \<open>The Redis client is not part of the program: \<open>xadd\<close> stands for its call, if there is one.\<close>

definition publish :: "EventHandler option \<Rightarrow> DomainEventPayload \<Rightarrow> DomainEvent task" where
  "publish xadd e =
     bind (get_next_sequence (dp_aggregate_type e) (dp_aggregate_id e)) (\<lambda>sn.
     bind fresh_uuid (\<lambda>i.
     let ev = \<lparr>ev_id = i, ev_type = dp_event_type e, ev_aggregate_type = dp_aggregate_type e,
       ev_aggregate_id = dp_aggregate_id e, ev_sequence = sn, ev_correlation = dp_correlation e,
       ev_causation = dp_causation e, ev_payload = dp_payload e, ev_metadata = dp_metadata e,
       ev_occurred_at = dp_occurred_at e, ev_processed_at = None, ev_status = ''pending'',
       ev_retry_count = 0, ev_error = None\<rparr> in
     bind (add events_update ev) (\<lambda>ev.
     bind (case xadd of None \<Rightarrow> ret () | Some x \<Rightarrow> x e) (\<lambda>_. ret ev))))"

text \<open>
  \<open>dispatch\<close>.  \<open>handlers = self._handlers.get(ty, [])\<close> is the registered list itself when there is
  one, so \<open>handlers.extend(...)\<close> changes the registration.
\<close>

definition payload_of :: "DomainEvent \<Rightarrow> DomainEventPayload" where
  "payload_of ev = \<lparr>dp_event_type = ev_type ev, dp_aggregate_type = ev_aggregate_type ev,
     dp_aggregate_id = ev_aggregate_id ev, dp_payload = ev_payload ev,
     dp_correlation = ev_correlation ev, dp_causation = ev_causation ev,
     dp_metadata = ev_metadata ev, dp_occurred_at = ev_occurred_at ev\<rparr>"

definition extended_handlers :: "string \<Rightarrow> bus \<Rightarrow> EventHandler list" where
  "extended_handlers ty b = handlers_for ty b @ handlers_for ''*'' b"

definition extend_registration :: "string \<Rightarrow> bus \<Rightarrow> bus" where
  "extend_registration ty b =
     (case b ty of None \<Rightarrow> b | Some _ \<Rightarrow> b(ty \<mapsto> extended_handlers ty b))"

definition dispatch :: "DomainEvent \<Rightarrow> unit bus_task" where
  "dispatch ev =
     bind (reads (\<lambda>(b, s). extended_handlers (ev_type ev) b)) (\<lambda>handlers.
     bind (modify (map_prod (extend_registration (ev_type ev)) id)) (\<lambda>_.
     try_except
       (bind (for_loop (\<lambda>h _. on_session (h (payload_of ev))) handlers ()) (\<lambda>_.
        on_session (mark_processed (ev_id ev))))
       (\<lambda>e. bind (on_session (mark_failed (ev_id ev) e)) (\<lambda>_. raise e))))"

definition process_event :: "DomainEvent \<Rightarrow> int \<Rightarrow> int bus_task" where
  "process_event ev processed =
     try_except (bind (dispatch ev) (\<lambda>_. ret (processed + 1))) (\<lambda>_. ret processed)"

definition process_pending :: "nat \<Rightarrow> int bus_task" where
  "process_pending limit = bind (on_session (list_pending_events limit)) (\<lambda>pending.
     for_loop process_event pending 0)"

section \<open>EventOrderingValidator\<close>

record OrderingViolation =
  ov_aggregate_type :: string
  ov_aggregate_id :: uuid
  ov_expected :: int
  ov_actual :: int
  ov_event :: uuid

fun ordering_violations ::
  "string \<Rightarrow> uuid \<Rightarrow> DomainEvent list \<Rightarrow> int \<Rightarrow> OrderingViolation list" where
  "ordering_violations ty i [] expected = []"
| "ordering_violations ty i (ev # evs) expected =
     (if ev_sequence ev \<noteq> expected
      then [\<lparr>ov_aggregate_type = ty, ov_aggregate_id = i, ov_expected = expected,
             ov_actual = ev_sequence ev, ov_event = ev_id ev\<rparr>]
      else []) @ ordering_violations ty i evs (ev_sequence ev + 1)"

definition validate_aggregate :: "string \<Rightarrow> uuid \<Rightarrow> OrderingViolation list task" where
  "validate_aggregate ty i = bind (list_for_aggregate ty i) (\<lambda>evs.
     ret (ordering_violations ty i evs 1))"

definition validate_and_raise :: "string \<Rightarrow> uuid \<Rightarrow> unit task" where
  "validate_and_raise ty i = bind (validate_aggregate ty i) (\<lambda>violations.
     case violations of [] \<Rightarrow> ret ()
     | v # _ \<Rightarrow> raise (EventOrderingError (ov_expected v) (ov_actual v) (length violations)))"

definition get_expected_next_sequence :: "string \<Rightarrow> uuid \<Rightarrow> int task" where
  "get_expected_next_sequence ty i = bind (list_for_aggregate ty i) (\<lambda>evs.
     ret (if evs = [] then 1 else ev_sequence (last evs) + 1))"

section \<open>EventReplayer\<close>

type_synonym projections = "string \<Rightarrow> (DomainEvent \<Rightarrow> unit task) option"

definition register_projection ::
  "string \<Rightarrow> (DomainEvent \<Rightarrow> unit task) \<Rightarrow> projections \<Rightarrow> projections" where
  "register_projection ty h ps = ps(ty \<mapsto> h)"

text \<open>\<open>rp_errors\<close> holds the exceptions; an ordering error has no event.\<close>

record ReplayResult =
  rp_aggregate_type :: string
  rp_aggregate_id :: uuid
  rp_replayed :: int
  rp_errors :: "(uuid option \<times> exn) list"
  rp_started_at :: "instant option"
  rp_completed_at :: "instant option"

definition replay_event :: "projections \<Rightarrow> DomainEvent \<Rightarrow> ReplayResult \<Rightarrow> ReplayResult task" where
  "replay_event ps ev result = (case ps (ev_type ev) of
     None \<Rightarrow> ret result
   | Some handler \<Rightarrow> try_except
       (bind (handler ev) (\<lambda>_. ret (result\<lparr>rp_replayed := rp_replayed result + 1\<rparr>)))
       (\<lambda>e. ret (result\<lparr>rp_errors := rp_errors result @ [(Some (ev_id ev), e)]\<rparr>)))"

definition replay_aggregate :: "projections \<Rightarrow> string \<Rightarrow> uuid \<Rightarrow> int \<Rightarrow> ReplayResult task" where
  "replay_aggregate ps ty i from_sequence = bind get_now (\<lambda>n.
     let result = \<lparr>rp_aggregate_type = ty, rp_aggregate_id = i, rp_replayed = 0, rp_errors = [],
                   rp_started_at = Some n, rp_completed_at = None\<rparr> in
     bind (try_except (bind (validate_and_raise ty i) (\<lambda>_. ret None))
            (\<lambda>e. case e of EventOrderingError _ _ _ \<Rightarrow> ret (Some e) | _ \<Rightarrow> raise e)) (\<lambda>failure.
     case failure of
       Some e \<Rightarrow> ret (result\<lparr>rp_errors := [(None, e)]\<rparr>)
     | None \<Rightarrow>
         bind (list_for_aggregate ty i) (\<lambda>evs.
         bind (for_loop (replay_event ps) (filter (\<lambda>ev. from_sequence \<le> ev_sequence ev) evs) result)
           (\<lambda>result. bind get_now (\<lambda>n. ret (result\<lparr>rp_completed_at := Some n\<rparr>))))))"

record ReplayStats =
  rs_total_aggregates :: int
  rs_total_events :: int
  rs_failed_aggregates :: int
  rs_results :: "ReplayResult list"

text \<open>The dictionary of aggregates keeps insertion order.\<close>

definition replay_pending_events :: "projections \<Rightarrow> nat \<Rightarrow> ReplayStats task" where
  "replay_pending_events ps limit = bind (list_pending_events limit) (\<lambda>pending.
     let keys = first_occurrences (map (\<lambda>ev. (ev_aggregate_type ev, ev_aggregate_id ev)) pending) in
     for_loop (\<lambda>(ty, i) stats. bind (replay_aggregate ps ty i 1) (\<lambda>r.
       ret (stats\<lparr>rs_results := rs_results stats @ [r],
                  rs_total_events := rs_total_events stats + rp_replayed r,
                  rs_failed_aggregates := rs_failed_aggregates stats +
                    (if rp_errors r = [] then 0 else 1)\<rparr>)))
       keys
       \<lparr>rs_total_aggregates = int (length keys), rs_total_events = 0, rs_failed_aggregates = 0,
        rs_results = []\<rparr>)"

text \<open>\<open>rebuild_inventory_projection\<close>: the running totals on hand, reserved and allocated.  A quantity
  that is not an integer raises.\<close>

definition json_int :: "json \<Rightarrow> exn + int" where
  "json_int v = (case v of JInt n \<Rightarrow> Inr n | JBool b \<Rightarrow> Inr (of_bool b) | _ \<Rightarrow> Inl PyTypeError)"

definition project_event :: "uuid \<Rightarrow> DomainEvent \<Rightarrow> int \<times> int \<times> int \<Rightarrow> (int \<times> int \<times> int) task" where
  "project_event w ev acc = (case acc of (on_hand_total, res_total, alloc_total) \<Rightarrow>
     let qty = dict_get (ev_payload ev) ''quantity'' (JInt 0);
         here = (dict_get (ev_payload ev) ''warehouse_id'' JNull = JUuid w) in
     if ev_type ev = ''inventory.adjusted'' then
       bind (fetch (\<lambda>_. json_int (dict_get (ev_payload ev) ''quantity_delta'' (JInt 0)))) (\<lambda>d.
         ret (on_hand_total + d, res_total, alloc_total))
     else if ev_type ev = ''inventory.reserved'' \<and> here then
       bind (fetch (\<lambda>_. json_int qty)) (\<lambda>q. ret (on_hand_total, res_total + q, alloc_total))
     else if ev_type ev = ''allocation.created'' \<and> here then
       bind (fetch (\<lambda>_. json_int qty)) (\<lambda>q. ret (on_hand_total, res_total, alloc_total + q))
     else ret acc)"

definition rebuild_inventory_projection :: "uuid \<Rightarrow> uuid \<Rightarrow> pydict task" where
  "rebuild_inventory_projection w k = bind (list_for_aggregate ''inventory'' k) (\<lambda>evs.
     bind (for_loop (project_event w) evs (0, 0, 0)) (\<lambda>(h, r, a).
     ret [(''warehouse_id'', JUuid w), (''sku_id'', JUuid k), (''projected_on_hand'', JInt h),
          (''projected_reserved'', JInt r), (''projected_allocated'', JInt a),
          (''projected_available'', JInt (max 0 (h - r - a))),
          (''events_processed'', JInt (int (length evs)))]))"

section \<open>The event log is gapless\<close>

definition stream_of :: "string \<Rightarrow> uuid \<Rightarrow> session \<Rightarrow> DomainEvent list" where
  "stream_of ty i s = filter (\<lambda>ev. ev_aggregate_type ev = ty \<and> ev_aggregate_id ev = i) (lives (events s))"

definition numbered :: "DomainEvent list \<Rightarrow> bool" where
  "numbered evs \<longleftrightarrow> map ev_sequence evs = map (\<lambda>n. int n + 1) [0..<length evs]"

definition gapless :: "session \<Rightarrow> bool" where
  "gapless s \<longleftrightarrow> clean (events s) \<and> (\<forall>ty i. numbered (stream_of ty i s))"

lemma numbered_Nil [simp]: "numbered []"
  by (simp add: numbered_def)

lemma numbered_snoc: "numbered (evs @ [ev]) \<longleftrightarrow> numbered evs \<and> ev_sequence ev = int (length evs) + 1"
  by (auto simp: numbered_def)

lemma fold_max_upt: "fold max (map (\<lambda>n. int n + 1) [1..<n]) 1 = max 1 (int n)"
  by (induction n) auto

lemma max_list0_numbered: "numbered evs \<Longrightarrow> max_list0 (map ev_sequence evs) = int (length evs)"
proof (cases "length evs")
  case (Suc n)
  assume "numbered evs"
  with Suc have "map ev_sequence evs = 1 # map (\<lambda>n. int n + 1) [1..<Suc n]"
    unfolding numbered_def by (simp only: upt_conv_Cons [of 0 "Suc n"] zero_less_Suc) simp
  then show ?thesis using Suc fold_max_upt [of "Suc n"] by (simp add: max_list0_def)
qed (simp add: max_list0_def)

lemma next_sequence_gapless:
  "gapless s \<Longrightarrow> get_next_sequence ty i s = (Inr (int (length (stream_of ty i s)) + 1), s)"
  by (simp add: get_next_sequence_def gapless_def clean_stored_rows max_list0_numbered flip: stream_of_def)

lemma publish_app:
  assumes "gapless s"
  shows "\<exists>ev. publish None e s = (Inr ev, flush (events_update (add_row ev) (s\<lparr>next_uuid := Suc (next_uuid s)\<rparr>))) \<and>
     ev_aggregate_type ev = dp_aggregate_type e \<and> ev_aggregate_id ev = dp_aggregate_id e \<and>
     ev_sequence ev = int (length (stream_of (dp_aggregate_type e) (dp_aggregate_id e) s)) + 1 \<and>
     ev_type ev = dp_event_type e \<and> ev_payload ev = dp_payload e \<and> ev_status ev = ''pending''"
  by (simp add: publish_def bind_def next_sequence_gapless [OF assms] Let_def add_def session_add_def)

lemma gapless_flush: "gapless s \<Longrightarrow> gapless (flush s)"
  by (simp add: gapless_def stream_of_def)

lemma gapless_append:
  assumes "gapless s"
    and "ev_sequence ev = int (length (stream_of (ev_aggregate_type ev) (ev_aggregate_id ev) s)) + 1"
  shows "gapless (flush (events_update (add_row ev) (s\<lparr>next_uuid := n\<rparr>)))"
  using assms by (auto simp: gapless_def stream_of_def numbered_snoc)

lemma publish_gapless: "hoare gapless (publish None e) (\<lambda>_. gapless) (\<lambda>_ _. False)"
proof -
  have "\<exists>ev t. publish None e s = (Inr ev, t) \<and> gapless t" if "gapless s" for s
    using publish_app [OF that, of e] gapless_append [OF that] by fastforce
  then show ?thesis by (fastforce simp: hoare_def)
qed

text \<open>What the bus and the audit trail write: any sequence of publications and audit records.\<close>

datatype log_call = Publish "DomainEventPayload list" | Audit string uuid string

primrec log_perform :: "log_call \<Rightarrow> unit task" where
  "log_perform (Publish es) = for_loop (\<lambda>e _. as_request (publish None e)) es ()"
| "log_perform (Audit ty i a) = as_request (audit_record ty i a None None None)"

lemma audit_record_gapless: "hoare gapless (audit_record ty i a b f m) (\<lambda>_. gapless) (\<lambda>_ _. False)"
  by (auto simp: hoare_def audit_record_def add_def session_add_def gapless_def stream_of_def)

lemma log_perform_gapless: "hoare gapless (log_perform c) (\<lambda>_. gapless) (\<lambda>_ _. False)"
proof (cases c)
  case (Publish es)
  have "hoare gapless (as_request (publish None e)) (\<lambda>_. gapless) (\<lambda>_ _. False)" for e
    unfolding as_request_def by (rule hoare_bind [OF publish_gapless]) (rule hoare_ret)
  then show ?thesis unfolding Publish log_perform.simps
    by (rule hoare_for_loop [where I = "\<lambda>_. gapless"])
next
  case (Audit ty i a)
  show ?thesis unfolding Audit log_perform.simps as_request_def
    by (rule hoare_bind [OF audit_record_gapless]) (rule hoare_ret)
qed

lemma gapless_context: "gapless s \<Longrightarrow> gapless (new_context n c a r s)"
  by (simp add: gapless_def stream_of_def new_context_def)

interpretation event_log: transactional gapless "range log_perform"
proof
  fix m s t assume "m \<in> range log_perform" "gapless s" "m s = (Inr (), t)"
  then have "gapless t" using hoare_ok [OF log_perform_gapless] by blast
  then show "gapless (flush t)" by (rule gapless_flush)
qed (rule gapless_context)

section \<open>The validator accepts exactly the numbered streams\<close>

lemma ordering_violations_Nil_iff:
  "ordering_violations ty i evs e = [] \<longleftrightarrow> map ev_sequence evs = map (\<lambda>n. int n + e) [0..<length evs]"
proof (induction evs arbitrary: e)
  case (Cons ev evs)
  have "map (\<lambda>n. int n + e) [0..<Suc n] = e # map (\<lambda>n. int n + (e + 1)) [0..<n]" for n
    by (simp add: upt_conv_Cons map_Suc_upt [symmetric] del: upt_Suc map_Suc_upt)
  with Cons show ?case by auto
qed simp

lemma validate_aggregate_app:
  assumes "clean (events s)"
  shows "validate_aggregate ty i s =
    (Inr (ordering_violations ty i (sort_key ev_sequence (stream_of ty i s)) 1), s)"
proof -
  have "select_ordered ev_sequence P (events s) = sort_key ev_sequence (filter P (lives (events s)))" for P
    using assms by (rule clean_select_ordered)
  then show ?thesis by (simp add: validate_aggregate_def list_for_aggregate_def stream_of_def)
qed

lemma sorted_numbered: "numbered evs \<Longrightarrow> sort_key ev_sequence evs = evs"
  by (rule sort_key_id_if_sorted) (simp add: numbered_def sorted_map sorted_wrt_map)

section \<open>Frames\<close>

text \<open>The call of an external client (Redis) may fail but leaves the database session alone.\<close>

definition external :: "EventHandler option \<Rightarrow> bool" where
  "external x \<longleftrightarrow> (case x of None \<Rightarrow> True | Some f \<Rightarrow> \<forall>e s. snd (f e s) = s)"

lemma preserves_external: "external (Some f) \<Longrightarrow> preserves I (f e)"
  by (rule preservesI) (simp add: external_def)

lemma preserves_add:
  "(\<And>s. I s \<Longrightarrow> I (upd (add_row r) s)) \<Longrightarrow> (\<And>s. I s \<Longrightarrow> I (flush s)) \<Longrightarrow> preserves I (add upd r)"
  unfolding add_def session_add_def by (intro hoare_rules preserves_modify)

lemma preserves_publish:
  assumes "external xadd" and "\<And>s. I s \<Longrightarrow> I (s\<lparr>next_uuid := Suc (next_uuid s)\<rparr>)"
    and "\<And>s f. I s \<Longrightarrow> I (events_update f s)" and "\<And>s. I s \<Longrightarrow> I (flush s)"
  shows "preserves I (publish xadd e)"
  unfolding publish_def get_next_sequence_def Let_def
  by (intro hoare_rules preserves_add) (use assms in \<open>auto intro: preserves_external\<close>)

lemma preserves_audit_record:
  assumes "\<And>s. I s \<Longrightarrow> I (s\<lparr>next_uuid := Suc (next_uuid s)\<rparr>)"
    and "\<And>s f. I s \<Longrightarrow> I (audits_update f s)" and "\<And>s. I s \<Longrightarrow> I (flush s)"
  shows "preserves I (audit_record ty i a b f m)"
  unfolding audit_record_def by (intro hoare_rules preserves_add) (auto intro: assms)

section \<open>Replay\<close>

definition handled :: "projections \<Rightarrow> DomainEvent \<Rightarrow> bool" where
  "handled ps ev \<longleftrightarrow> ps (ev_type ev) \<noteq> None"

text \<open>Whatever a projection handler does, its event is counted once, as replayed or as an error.\<close>

lemma replay_event_counts:
  "\<exists>r t. replay_event ps ev res s = (Inr r, t) \<and>
     rp_replayed r + int (length (rp_errors r)) =
       rp_replayed res + int (length (rp_errors res)) + (if handled ps ev then 1 else 0)"
proof (cases "ps (ev_type ev)")
  case (Some h)
  then show ?thesis
    by (cases "h ev s"; cases "fst (h ev s)") (auto simp: replay_event_def handled_def try_except_app bind_def)
qed (simp add: replay_event_def handled_def)

lemma replay_loop_counts:
  "\<exists>r t. for_loop (replay_event ps) evs res s = (Inr r, t) \<and>
     rp_replayed r + int (length (rp_errors r)) =
       rp_replayed res + int (length (rp_errors res)) + int (length (filter (handled ps) evs))"
proof (induction evs arbitrary: res s)
  case (Cons ev evs)
  obtain r u where step: "replay_event ps ev res s = (Inr r, u)"
    and c: "rp_replayed r + int (length (rp_errors r)) =
       rp_replayed res + int (length (rp_errors res)) + (if handled ps ev then 1 else 0)"
    using replay_event_counts by blast
  from Cons.IH [of r u] c show ?case by (auto simp: bind_def step)
qed simp

lemma validate_and_raise_app:
  assumes "clean (events s)"
  shows "validate_and_raise ty i s =
    (case ordering_violations ty i (sort_key ev_sequence (stream_of ty i s)) 1 of
       [] \<Rightarrow> Inr () | v # vs \<Rightarrow> Inl (EventOrderingError (ov_expected v) (ov_actual v) (Suc (length vs))), s)"
  by (simp add: validate_and_raise_def bind_def validate_aggregate_app [OF assms] split: list.split)

section \<open>Dispatching\<close>

lemma dispatch_bus: "fst (snd (dispatch ev (b, s))) = extend_registration (ev_type ev) b"
proof -
  have loop: "fst (snd (for_loop (\<lambda>h _. on_session (h e)) hs () (c, u))) = c"
    for hs :: "EventHandler list" and e c u
    by (induction hs arbitrary: u) (auto simp: bind_def on_session_def split: prod.split sum.split)
  show ?thesis
    using loop [of "payload_of ev" "extended_handlers (ev_type ev) b" "extend_registration (ev_type ev) b" s]
    by (auto simp: dispatch_def bind_def try_except_def on_session_def split: prod.splits sum.splits)
qed

lemma extend_registration_lengths:
  assumes "b ty = Some hs" and "ty \<noteq> ''*''"
  shows "length (handlers_for ty ((extend_registration ty ^^ n) b)) = length hs + n * length (handlers_for ''*'' b)"
proof -
  have "\<exists>ks. (extend_registration ty ^^ n) b ty = Some ks \<and> length ks = length hs + n * length (handlers_for ''*'' b)
      \<and> (extend_registration ty ^^ n) b ''*'' = b ''*''"
    using assms by (induction n) (auto simp: extend_registration_def extended_handlers_def handlers_for_def)
  then show ?thesis by (auto simp: handlers_for_def)
qed

text \<open>Handlers that do not write the event table themselves; flushing a table that has nothing to
  flush is not a write.\<close>

definition quiet :: "EventHandler \<Rightarrow> bool" where
  "quiet h \<longleftrightarrow> (\<forall>e s. clean (events s) \<longrightarrow> events (snd (h e s)) = events s)"

definition quiet_bus :: "bus \<Rightarrow> bool" where
  "quiet_bus b \<longleftrightarrow> (\<forall>ty. \<forall>h \<in> set (handlers_for ty b). quiet h)"

lemma quiet_bus_extend: "quiet_bus b \<Longrightarrow> quiet_bus (extend_registration ty b)"
proof -
  have "set (handlers_for ty' (extend_registration ty b)) \<subseteq> set (handlers_for ty' b) \<union> set (handlers_for ''*'' b)" for ty'
    by (auto simp: extend_registration_def extended_handlers_def handlers_for_def split: option.splits if_splits)
  then show "quiet_bus b \<Longrightarrow> quiet_bus (extend_registration ty b)" unfolding quiet_bus_def by blast
qed

lemma quiet_loop:
  "\<forall>h \<in> set hs. quiet h \<Longrightarrow> clean (events s) \<Longrightarrow>
   events (snd (snd (for_loop (\<lambda>h _. on_session (h e)) hs () (b, s)))) = events s"
proof (induction hs arbitrary: s)
  case (Cons h hs)
  obtain r t where h: "h e s = (r, t)" by (cases "h e s")
  have "events t = events s" using Cons.prems h by (auto simp: quiet_def dest!: spec [of _ e] spec [of _ s])
  with Cons h show ?case by (cases r) (auto simp: bind_def on_session_def)
qed simp

definition settle :: "instant \<Rightarrow> exn option \<Rightarrow> DomainEvent \<Rightarrow> DomainEvent" where
  "settle n e ev = (case e of
     None \<Rightarrow> ev\<lparr>ev_status := ''processed'', ev_processed_at := Some n\<rparr>
   | Some e \<Rightarrow> ev\<lparr>ev_status := ''failed'', ev_retry_count := ev_retry_count ev + 1, ev_error := Some e\<rparr>)"

lemma dispatch_settles:
  assumes q: "quiet_bus b" and C: "clean (events s)"
  shows "\<exists>n e t. dispatch ev (b, s) =
      ((case e of None \<Rightarrow> Inr () | Some e \<Rightarrow> Inl e), (extend_registration (ev_type ev) b, t)) \<and>
      events t = sql_update (\<lambda>x. ev_id x = ev_id ev) (settle n e) (events s)"
proof -
  let ?b = "extend_registration (ev_type ev) b"
  obtain r c u where loop: "for_loop (\<lambda>h _. on_session (h (payload_of ev))) (extended_handlers (ev_type ev) b) () (?b, s) = (r, (c, u))"
    by (metis prod.exhaust)
  have hs: "\<forall>h \<in> set (extended_handlers (ev_type ev) b). quiet h"
    using q by (auto simp: quiet_bus_def extended_handlers_def)
  have ev: "events u = events s" using quiet_loop [OF hs C, of "payload_of ev" ?b] loop by simp
  have run: "dispatch ev (b, s) = (case r of
      Inl e \<Rightarrow> (Inl e, (c, snd (mark_failed (ev_id ev) e u)))
    | Inr _ \<Rightarrow> (Inr (), (c, snd (mark_processed (ev_id ev) u))))"
    using loop by (simp add: dispatch_def bind_def try_except_def on_session_def mark_failed_def
        mark_processed_def split: sum.split)
  then have "c = ?b" using dispatch_bus [of ev b s] by (auto split: sum.splits)
  show ?thesis
  proof (cases r)
    case (Inl e)
    have "events (snd (mark_failed (ev_id ev) e u)) = sql_update (\<lambda>x. ev_id x = ev_id ev) (settle 0 (Some e)) (events s)"
      by (simp add: mark_failed_def ev settle_def [abs_def])
    with run Inl \<open>c = ?b\<close> show ?thesis by (intro exI [of _ 0] exI [of _ "Some e"]) simp
  next
    case (Inr x)
    have "events (snd (mark_processed (ev_id ev) u)) = sql_update (\<lambda>x. ev_id x = ev_id ev) (settle (now u) None) (events s)"
      by (simp add: mark_processed_def ev settle_def [abs_def])
    with run Inr \<open>c = ?b\<close> show ?thesis by (intro exI [of _ "now u"] exI [of _ None]) simp
  qed
qed

text \<open>Which events a run of \<open>process_pending\<close> may still find pending: none of those it took.\<close>

definition settled :: "uuid set \<Rightarrow> session \<Rightarrow> session \<Rightarrow> bool" where
  "settled ids s t \<longleftrightarrow> clean (events t) \<and> map ev_id (lives (events t)) = map ev_id (lives (events s)) \<and>
     (\<forall>ev \<in> set (lives (events t)). if ev_id ev \<in> ids then ev_status ev \<in> {''processed'', ''failed''}
        else ev \<in> set (lives (events s)))"

lemma settle_simps [simp]:
  "ev_id (settle n e ev) = ev_id ev" "ev_status (settle n e ev) \<in> {''processed'', ''failed''}"
  by (simp_all add: settle_def split: option.split)

lemma settled_step:
  assumes S: "settled ids s t" and u: "events u = sql_update (\<lambda>x. ev_id x = i) (settle n e) (events t)"
  shows "settled (insert i ids) s u"
proof -
  have c: "clean (events t)" using S by (simp add: settled_def)
  have l: "lives (events u) = map (\<lambda>r. if ev_id r = i then settle n e r else r) (lives (events t))"
    by (simp add: u lives_sql_update [OF c])
  have upd: "map ev_id (map (\<lambda>r. if ev_id r = i then settle n e r else r) rs) = map ev_id rs" for rs
    by (induction rs) auto
  have "map ev_id (lives (events u)) = map ev_id (lives (events s))"
    using S unfolding l upd by (simp add: settled_def)
  moreover have "clean (events u)" using c by (simp add: u)
  moreover have "if ev_id ev \<in> insert i ids then ev_status ev \<in> {''processed'', ''failed''}
      else ev \<in> set (lives (events s))" if "ev \<in> set (lives (events u))" for ev
  proof -
    from that obtain r where r: "r \<in> set (lives (events t))"
      and ev: "ev = (if ev_id r = i then settle n e r else r)" by (auto simp: l)
    show ?thesis
    proof (cases "ev_id r = i")
      case True
      then show ?thesis using settle_simps(2) [of n e r] by (simp add: ev)
    qed (use r S in \<open>auto simp: ev settled_def\<close>)
  qed
  ultimately show ?thesis unfolding settled_def by blast
qed

lemma process_loop_settles:
  assumes "quiet_bus b" and "settled ids s t"
  shows "\<exists>n b' u. for_loop process_event evs k (b, t) = (Inr n, (b', u)) \<and>
      settled (ids \<union> ev_id ` set evs) s u \<and> k \<le> n \<and> n \<le> k + int (length evs)"
  using assms
proof (induction evs arbitrary: b t ids k)
  case (Cons ev evs)
  have C: "clean (events t)" using Cons.prems(2) by (simp add: settled_def)
  obtain n e v where d: "dispatch ev (b, t) =
      ((case e of None \<Rightarrow> Inr () | Some e \<Rightarrow> Inl e), (extend_registration (ev_type ev) b, v))"
    and v: "events v = sql_update (\<lambda>x. ev_id x = ev_id ev) (settle n e) (events t)"
    using dispatch_settles [OF Cons.prems(1) C] by blast
  define k' where "k' = (if e = None then k + 1 else k)"
  have step: "process_event ev k (b, t) = (Inr k', (extend_registration (ev_type ev) b, v))"
    by (simp add: process_event_def try_except_app bind_def d k'_def split: option.split)
  from Cons.IH [OF quiet_bus_extend [OF Cons.prems(1)] settled_step [OF Cons.prems(2) v], of k' "ev_type ev"]
  show ?case by (auto simp: bind_def step k'_def insert_commute split: if_splits)
qed auto

definition demo_payload :: DomainEventPayload where
  "demo_payload = \<lparr>dp_event_type = ''order.routed'', dp_aggregate_type = ''order'', dp_aggregate_id = 5,
     dp_payload = [], dp_correlation = ''c'', dp_causation = None, dp_metadata = [], dp_occurred_at = 0\<rparr>"

text \<open>A log whose second number is missing.\<close>

definition demo_event :: "uuid \<Rightarrow> int \<Rightarrow> DomainEvent" where
  "demo_event i n = \<lparr>ev_id = i, ev_type = ''order.routed'', ev_aggregate_type = ''order'',
     ev_aggregate_id = 5, ev_sequence = n, ev_correlation = ''c'', ev_causation = None,
     ev_payload = [], ev_metadata = [], ev_occurred_at = n, ev_processed_at = None,
     ev_status = ''pending'', ev_retry_count = 0, ev_error = None\<rparr>"

definition demo_log :: session where
  "demo_log = empty_session\<lparr>events := map (\<lambda>e. Cell (Some e) e) [demo_event 1 1, demo_event 2 3]\<rparr>"

lemma demo_log_clean: "clean_session demo_log"
  by (simp add: clean_session_def demo_log_def empty_session_def flush_def flush_table_def)

section \<open>Properties\<close>

text \<open>C16: In every database state that publications and audit records reach from an empty log, the
  events of each aggregate carry the numbers 1, 2, 3, ... in the order they were published, the
  ordering validator reports no violation for any aggregate, and it predicts the number the next
  publication will use.\<close>

theorem published_log_validates:
  assumes "clean_session s0" and "gapless s0" and "reachable (range log_perform) s0 s"
  shows "map ev_sequence (stream_of ty i s) = map (\<lambda>n. int n + 1) [0..<length (stream_of ty i s)] \<and>
    validate_aggregate ty i s = (Inr [], s) \<and>
    get_expected_next_sequence ty i s = get_next_sequence ty i s"
proof -
  have G: "gapless s" by (rule event_log.reachable_inv [OF assms(3,1,2)])
  then have N: "numbered (stream_of ty i s)" and C: "clean (events s)" by (simp_all add: gapless_def)
  have "ordering_violations ty i (sort_key ev_sequence (stream_of ty i s)) 1 = []"
    using N by (simp add: sorted_numbered [OF N] ordering_violations_Nil_iff numbered_def)
  moreover have "list_for_aggregate ty i s = (Inr (stream_of ty i s), s)"
    using sorted_numbered [OF N] by (simp add: list_for_aggregate_def clean_select_ordered [OF C] stream_of_def)
  moreover have "ev_sequence (last (stream_of ty i s)) = int (length (stream_of ty i s))" if ne: "stream_of ty i s \<noteq> []"
  proof -
    obtain evs ev where "stream_of ty i s = evs @ [ev]" using ne by (meson rev_exhaust)
    then show ?thesis using N by (simp add: numbered_snoc)
  qed
  ultimately show ?thesis
    using N by (auto simp: numbered_def validate_aggregate_app [OF C] get_expected_next_sequence_def
        next_sequence_gapless [OF G] bind_def)
qed

text \<open>C1: The validator is exact: on a committed log it reports no violation if and only if the
  stored numbers of the aggregate are 1, 2, 3, ... without gap or repetition, whatever the order
  of the rows.\<close>

theorem published_log_validates_witness:
  "let s = snd (run_request (log_perform (Publish [demo_payload, demo_payload])) empty_session) in
   validate_aggregate ''order'' 5 s = (Inr [], s) \<and> length (stream_of ''order'' 5 s) = 2"
proof -
  let ?s = "snd (run_request (log_perform (Publish [demo_payload, demo_payload])) empty_session)"
  have "clean_session empty_session" "gapless empty_session"
    by (simp_all add: clean_session_def empty_session_def flush_def flush_table_def gapless_def stream_of_def)
  moreover have "reachable (range log_perform) empty_session ?s" by (intro reachable.intros rangeI)
  ultimately have "validate_aggregate ''order'' 5 ?s = (Inr [], ?s)"
    using published_log_validates by blast
  moreover have "length (stream_of ''order'' 5 ?s) = 2" by code_simp
  ultimately show ?thesis by (simp add: Let_def)
qed

text \<open>C17: The ordering validator is exact: on a committed database it reports no violation if and only
  if the events of the aggregate, in sequence order, are numbered 1, 2, 3 and so on.\<close>

theorem validator_exact:
  assumes "clean_session s"
  shows "\<exists>vs. validate_aggregate ty i s = (Inr vs, s) \<and>
    (vs = [] \<longleftrightarrow> numbered (sort_key ev_sequence (stream_of ty i s)))"
  using validate_aggregate_app [OF clean_tables(18) [OF assms], of ty i]
  by (simp add: ordering_violations_Nil_iff numbered_def)

theorem validator_exact_witness:
  "\<exists>vs. validate_aggregate ''order'' 5 demo_log = (Inr vs, demo_log) \<and> vs \<noteq> []"
proof -
  have "map ev_sequence (sort_key ev_sequence (stream_of ''order'' 5 demo_log)) = [1, 3]" by code_simp
  then have "\<not> numbered (sort_key ev_sequence (stream_of ''order'' 5 demo_log))"
    by (auto simp: numbered_def dest: arg_cong [where f = "\<lambda>xs. xs ! 1"] arg_cong [where f = length])
  with validator_exact [OF demo_log_clean] show ?thesis by blast
qed



text \<open>C19: Delivery is at most once: when no handler writes the event table, a run of
  \<open>process_pending\<close> never fails, marks every event it took as processed or failed, changes no
  other event, and reports at most as many as it took; a failed event is therefore never pending
  again.\<close>

theorem process_pending_settles:
  assumes "quiet_bus b" and "clean_session s"
  shows "\<exists>n b' t taken. process_pending limit (b, s) = (Inr n, (b', t)) \<and>
    fst (list_pending_events limit s) = Inr taken \<and> 0 \<le> n \<and> n \<le> int (length taken) \<and>
    (\<forall>ev \<in> set (lives (events t)). if ev_id ev \<in> ev_id ` set taken
       then ev_status ev \<in> {''processed'', ''failed''} else ev \<in> set (lives (events s)))"
proof -
  obtain taken where taken: "list_pending_events limit s = (Inr taken, s)"
    by (simp add: list_pending_events_def)
  have "settled {} s s" using clean_tables(18) [OF assms(2)] by (simp add: settled_def)
  from process_loop_settles [OF assms(1) this, of taken 0] obtain n b' t where
    loop: "for_loop process_event taken 0 (b, s) = (Inr n, (b', t))" "0 \<le> n" "n \<le> int (length taken)"
    and S: "settled (ev_id ` set taken) s t" by auto
  have "process_pending limit (b, s) = (Inr n, (b', t))"
    using loop(1) taken by (simp add: process_pending_def bind_def on_session_def)
  moreover have "fst (list_pending_events limit s) = Inr taken" using taken by simp
  ultimately show ?thesis using loop(2,3) S unfolding settled_def by blast
qed

theorem process_pending_settles_witness:
  "\<exists>n b' t. process_pending 10 (subscribe ''order.routed'' (\<lambda>e. ret ()) (\<lambda>_. None), demo_log) = (Inr n, (b', t)) \<and>
     (\<forall>ev \<in> set (lives (events t)). ev_status ev \<in> {''processed'', ''failed''})"
proof -
  let ?b = "subscribe ''order.routed'' (\<lambda>e. ret ()) (\<lambda>_. None)"
  have "quiet_bus ?b" by (auto simp: quiet_bus_def subscribe_def handlers_for_def quiet_def)
  from process_pending_settles [OF this demo_log_clean, of 10] obtain n b' t taken where
    run: "process_pending 10 (?b, demo_log) = (Inr n, (b', t))"
    and taken: "fst (list_pending_events 10 demo_log) = Inr taken"
    and st: "\<forall>ev \<in> set (lives (events t)). if ev_id ev \<in> ev_id ` set taken
       then ev_status ev \<in> {''processed'', ''failed''} else ev \<in> set (lives (events demo_log))" by blast
  have "ev_id ` set taken = {1, 2}"
    using taken by (auto simp: list_pending_events_def demo_log_def demo_event_def empty_session_def
        select_ordered_def stored_sat_def stored_key_def insert_commute)
  then have "\<forall>ev \<in> set (lives (events t)). ev_status ev \<in> {''processed'', ''failed''}"
    using st by (auto simp: demo_log_def demo_event_def lives_def split: if_splits)
  with run show ?thesis by blast
qed

text \<open>Dispatching an event of a type with registered handlers appends the wildcard handlers to
  the registration itself, so after n events the wildcard handlers are called n times for the
  next one.\<close>

theorem dispatch_accumulates_wildcards:
  assumes "b ty = Some hs" and "ty \<noteq> ''*''" and "ev_type ev = ty"
  shows "fst (snd (dispatch ev (b, s))) = extend_registration ty b \<and>
    length (handlers_for ty ((extend_registration ty ^^ n) b)) = length hs + n * length (handlers_for ''*'' b)"
  using dispatch_bus [of ev b s] extend_registration_lengths [where b = b and ty = ty and hs = hs and n = n] assms
  by simp

theorem dispatch_accumulates_wildcards_witness:
  "length (handlers_for ''order.routed'' ((extend_registration ''order.routed'' ^^ 3)
     (subscribe ''*'' (\<lambda>e. ret ()) (subscribe ''order.routed'' (\<lambda>e. ret ()) (\<lambda>_. None))))) = 4"
proof -
  let ?b = "subscribe ''*'' (\<lambda>e. ret ()) (subscribe ''order.routed'' (\<lambda>e. ret ()) (\<lambda>_. None))"
  have "?b ''order.routed'' = Some [\<lambda>e. ret ()]" by (simp add: subscribe_def handlers_for_def)
  with dispatch_accumulates_wildcards [where n = 3 and ev = "demo_event 1 1" and b = ?b
      and ty = "''order.routed''" and hs = "[\<lambda>e. ret ()]"]
  show ?thesis by (simp add: demo_event_def subscribe_def handlers_for_def)
qed

end
