(* ===== verification/Lifecycle.thy ===== *)
theory Lifecycle
  imports Events
begin

text \<open>
  The contract of a status table such as \<open>PO_TRANSITIONS\<close> or \<open>VALID_TRANSITIONS\<close>: a dictionary
  from a status to the set of statuses that may follow it.  The client lemmas are about chains of
  permitted steps, which is what an entity's recorded history has to be.
\<close>

type_synonym transition_dict = "(string \<times> string list) list"

text \<open>\<open>TABLE.get(current, set())\<close>.\<close>

definition allowed_from :: "transition_dict \<Rightarrow> string \<Rightarrow> string list" where
  "allowed_from d current = (case map_of d current of None \<Rightarrow> [] | Some ts \<Rightarrow> ts)"

text \<open>A chain of statuses, each permitted after its predecessor.\<close>

fun chain :: "(string \<Rightarrow> string list) \<Rightarrow> string list \<Rightarrow> bool" where
  "chain allowed [] = True"
| "chain allowed [x] = True"
| "chain allowed (x # y # ys) = (y \<in> set (allowed x) \<and> chain allowed (y # ys))"

lemma chain_snoc:
  "chain allowed (xs @ [x, y]) \<longleftrightarrow> chain allowed (xs @ [x]) \<and> y \<in> set (allowed x)"
  by (induction allowed xs rule: chain.induct) auto

lemma chain_append_single:
  "xs \<noteq> [] \<Longrightarrow> chain allowed (xs @ [y]) \<longleftrightarrow> chain allowed xs \<and> y \<in> set (allowed (last xs))"
  using chain_snoc [of allowed "butlast xs" "last xs" y] append_butlast_last_id [of xs]
  by (metis append.assoc append_Cons append_Nil)

locale transition_table =
  fixes allowed :: "string \<Rightarrow> string list"
    and statuses :: "string set"
  assumes closed: "x \<in> statuses \<Longrightarrow> y \<in> set (allowed x) \<Longrightarrow> y \<in> statuses"
begin

lemma chain_in_statuses: "chain allowed xs \<Longrightarrow> xs \<noteq> [] \<Longrightarrow> hd xs \<in> statuses \<Longrightarrow> set xs \<subseteq> statuses"
  by (induction xs rule: induct_list012) (auto dest: closed)

text \<open>Nothing follows a terminal status.\<close>

lemma terminal_is_last:
  "chain allowed xs \<Longrightarrow> i < length xs \<Longrightarrow> allowed (xs ! i) = [] \<Longrightarrow> i = length xs - 1"
proof (induction xs arbitrary: i rule: induct_list012)
  case (3 x y ys)
  then show ?case by (cases i) auto
qed auto

end

text \<open>A table in which every step decreases a rank: a status is never revisited and the number of
  steps is bounded.\<close>

locale ranked_table = transition_table +
  fixes rank :: "string \<Rightarrow> nat"
  assumes decreasing: "x \<in> statuses \<Longrightarrow> y \<in> set (allowed x) \<Longrightarrow> rank y < rank x"
begin

lemma chain_rank: "chain allowed xs \<Longrightarrow> xs \<noteq> [] \<Longrightarrow> hd xs \<in> statuses \<Longrightarrow> rank (last xs) + length xs \<le> rank (hd xs) + 1"
proof (induction xs rule: induct_list012)
  case (3 x y ys)
  then show ?case using decreasing [of x y] closed [of x y] by fastforce
qed auto

lemma chain_distinct: "chain allowed xs \<Longrightarrow> xs \<noteq> [] \<Longrightarrow> hd xs \<in> statuses \<Longrightarrow> distinct xs \<and> (\<forall>y \<in> set xs. rank y \<le> rank (hd xs))"
proof (induction xs rule: induct_list012)
  case (3 x y ys)
  then show ?case using decreasing [of x y] closed [of x y] by fastforce
qed auto

end

end
