(* ===== verification/Shipments.thy ===== *)
theory Shipments
  imports Lifecycle
begin

text \<open>
  \<open>domain/fulfillment/shipment_generation.py\<close>: the shipment state machine, its history, and the
  generation of shipments from fulfillment plans.
\<close>

section \<open>ShipmentGenerator\<close>

definition VALID_TRANSITIONS :: transition_dict where
  "VALID_TRANSITIONS =
    [(''draft'', [''planned'', ''cancelled'']),
     (''planned'', [''consolidated'', ''label_generated'', ''cancelled'']),
     (''consolidated'', [''label_generated'', ''cancelled'']),
     (''label_generated'', [''in_transit'', ''cancelled'']),
     (''in_transit'', [''out_for_delivery'', ''exception'', ''delivered'']),
     (''out_for_delivery'', [''delivered'', ''exception'']),
     (''exception'', [''in_transit'', ''cancelled'']),
     (''delivered'', []),
     (''cancelled'', [])]"

definition ship_allowed :: "string \<Rightarrow> string list" where
  "ship_allowed = allowed_from VALID_TRANSITIONS"

definition set_shipment :: "uuid \<Rightarrow> (Shipment \<Rightarrow> Shipment) \<Rightarrow> unit task" where
  "set_shipment = set_obj shipments_update sh_id"

definition new_shipment :: "uuid \<Rightarrow> uuid \<Rightarrow> instant \<Rightarrow> Order \<Rightarrow> Warehouse \<Rightarrow> Shipment" where
  "new_shipment i number n ord wh =
     \<lparr>sh_id = i, sh_number = number, sh_order = Some (ord_id ord), sh_warehouse = wh_id wh,
      sh_carrier = None, sh_status = ''draft'', sh_origin = wh_address wh,
      sh_destination = ord_ship_to ord, sh_total_weight_kg = Some 0, sh_total_packages = 1,
      sh_scheduled_pickup = None, sh_scheduled_delivery = None, sh_actual_delivery = None,
      sh_tracking_number = None, sh_consolidation_group = None,
      sh_history = [\<lparr>h_status = ''draft'', h_timestamp = n, h_previous = None\<rparr>],
      sh_version = 1, sh_created_at = n\<rparr>"

definition new_stop :: "uuid \<Rightarrow> uuid \<Rightarrow> int \<Rightarrow> string \<Rightarrow> pydict \<Rightarrow> ShipmentStop" where
  "new_stop i sh k ty addr = \<lparr>st_id = i, st_shipment = sh, st_sequence = k, st_type = ty,
     st_address = addr, st_planned_arrival = None, st_actual_arrival = None, st_status = ''pending''\<rparr>"

definition generate_from_plan :: "uuid \<Rightarrow> uuid task" where
  "generate_from_plan plan_id = bind (get_by_id_or_raise fp_id plans plan_id) (\<lambda>plan.
     bind (get_by_id_or_raise ord_id orders (fp_order plan)) (\<lambda>ord.
     bind (get_by_id_or_raise wh_id warehouses (fp_warehouse plan)) (\<lambda>wh.
     bind fresh_uuid (\<lambda>number. bind fresh_uuid (\<lambda>i. bind get_now (\<lambda>n.
     bind (add shipments_update (new_shipment i number n ord wh)) (\<lambda>sh.
     bind fresh_uuid (\<lambda>j. bind fresh_uuid (\<lambda>k.
     bind (session_add stops_update (new_stop j (sh_id sh) 1 ''pickup'' (wh_address wh))) (\<lambda>_.
     bind (session_add stops_update (new_stop k (sh_id sh) 2 ''delivery'' (ord_ship_to ord))) (\<lambda>_.
     bind (set_obj plans_update fp_id plan_id (\<lambda>p. p\<lparr>fp_status := ''executing''\<rparr>)) (\<lambda>_.
     ret (sh_id sh)))))))))))))"

definition advance :: "instant \<Rightarrow> string \<Rightarrow> string \<Rightarrow> Shipment \<Rightarrow> Shipment" where
  "advance n current new sh = sh\<lparr>sh_status := new,
     sh_history := sh_history sh @ [\<lparr>h_status = new, h_timestamp = n, h_previous = Some current\<rparr>],
     sh_version := sh_version sh + 1,
     sh_actual_delivery := (if new = ''delivered'' then Some n else sh_actual_delivery sh)\<rparr>"

definition transition_state :: "uuid \<Rightarrow> string \<Rightarrow> uuid task" where
  "transition_state i new = bind (get_by_id_or_raise sh_id shipments i) (\<lambda>sh.
     bind (raise_if (new \<notin> set (ship_allowed (sh_status sh))) (ShipmentStateError i (sh_status sh) new)) (\<lambda>_.
     bind get_now (\<lambda>n.
     bind (set_shipment i (advance n (sh_status sh) new)) (\<lambda>_. ret i))))"

definition generate_for_order :: "uuid \<Rightarrow> uuid list task" where
  "generate_for_order ord = bind (get_plans_for_order ord) (\<lambda>ps.
     for_loop (\<lambda>plan shs.
       if fp_status plan \<in> {''planned'', ''executing''} then
         bind (generate_from_plan (fp_id plan)) (\<lambda>sh.
         bind (transition_state sh ''planned'') (\<lambda>_. ret (shs @ [sh])))
       else ret shs) ps [])"

section \<open>The status table\<close>

definition ship_statuses :: "string set" where
  "ship_statuses = set (map fst VALID_TRANSITIONS)"

lemmas ship_table_simps = ship_allowed_def allowed_from_def VALID_TRANSITIONS_def ship_statuses_def

interpretation ship_table: transition_table ship_allowed ship_statuses
  by unfold_locales (auto simp: ship_table_simps split: if_splits)

text \<open>The table allows a cycle (a failed delivery goes back in transit), so unlike the purchase
  order table it is not ranked.\<close>

lemma ship_table_cycle: "chain ship_allowed [''in_transit'', ''exception'', ''in_transit'']"
  by (simp add: ship_table_simps)

section \<open>The history of a shipment\<close>

text \<open>Every entry names the status before it.\<close>

fun linked :: "history_entry list \<Rightarrow> bool" where
  "linked (h # k # hs) \<longleftrightarrow> h_previous k = Some (h_status h) \<and> linked (k # hs)"
| "linked _ = True"

lemma linked_snoc: "hs \<noteq> [] \<Longrightarrow> linked (hs @ [k]) \<longleftrightarrow> linked hs \<and> h_previous k = Some (h_status (last hs))"
  by (induction hs rule: linked.induct) auto

definition history_ok :: "Shipment \<Rightarrow> bool" where
  "history_ok sh \<longleftrightarrow> sh_history sh \<noteq> [] \<and> h_status (hd (sh_history sh)) = ''draft'' \<and>
     h_status (last (sh_history sh)) = sh_status sh \<and> linked (sh_history sh) \<and>
     chain ship_allowed (map h_status (sh_history sh)) \<and>
     sh_version sh = int (length (sh_history sh)) \<and>
     (sh_actual_delivery sh \<noteq> None \<longleftrightarrow> sh_status sh = ''delivered'')"

definition ship_inv :: "session \<Rightarrow> bool" where
  "ship_inv s \<longleftrightarrow> distinct (map sh_id (lives (shipments s))) \<and>
     (\<forall>sh \<in> set (lives (shipments s)). history_ok sh \<and> sh_id sh < next_uuid s)"

lemma history_ok_new: "history_ok (new_shipment i number n ord wh)"
  by (simp add: history_ok_def new_shipment_def)

lemma history_ok_advance:
  assumes "history_ok sh" and "new \<in> set (ship_allowed (sh_status sh))"
  shows "history_ok (advance n (sh_status sh) new sh)"
proof -
  have "sh_status sh \<noteq> ''delivered''" using assms(2) by (auto simp: ship_table_simps)
  with assms show ?thesis
    by (auto simp: history_ok_def advance_def linked_snoc chain_append_single last_map)
qed

lemma ship_inv_frame:
  "ship_inv s \<Longrightarrow> ship_inv (s\<lparr>next_uuid := Suc (next_uuid s)\<rparr>)"
  "ship_inv s \<Longrightarrow> ship_inv (events_update f s)"
  "ship_inv s \<Longrightarrow> ship_inv (audits_update g s)"
  "ship_inv s \<Longrightarrow> ship_inv (stops_update h s)"
  "ship_inv s \<Longrightarrow> ship_inv (plans_update k s)"
  "ship_inv s \<Longrightarrow> ship_inv (flush s)"
  by (auto simp: ship_inv_def)

text \<open>Any update of the fields the history does not speak of keeps the invariant.\<close>

lemma ship_inv_set:
  assumes "ship_inv s" and "\<And>x. sh_id (f x) = sh_id x"
    and "\<And>x. x \<in> set (lives (shipments s)) \<Longrightarrow> sh_id x = i \<Longrightarrow> history_ok (f x)"
  shows "ship_inv (shipments_update (upd_row sh_id i f) s)"
  using assms by (auto simp: ship_inv_def map_upd_list_same elim!: in_upd_listE)

lemma preserves_set_shipment:
  assumes "\<And>x. sh_id (f x) = sh_id x" and "\<And>x. history_ok x \<Longrightarrow> history_ok (f x)"
  shows "preserves ship_inv (set_shipment i f)"
  unfolding set_shipment_def set_obj_def
  by (intro preserves_modify ship_inv_set) (auto simp: assms ship_inv_def)

lemma transition_state_preserves: "preserves ship_inv (transition_state i new)"
proof (rule preservesI)
  fix s assume I: "ship_inv s"
  show "ship_inv (snd (transition_state i new s))"
  proof (cases "get_by_key sh_id i (shipments s)")
    case (Some sh)
    then have sh: "sh \<in> set (lives (shipments s))" "sh_id sh = i" by (auto dest: get_by_key_Some)
    have u: "x = sh" if "x \<in> set (lives (shipments s))" "sh_id x = i" for x
      using I sh that by (auto simp: ship_inv_def distinct_map inj_on_def)
    have "ship_inv (shipments_update (upd_row sh_id i (advance n (sh_status sh) new)) s)"
      if "new \<in> set (ship_allowed (sh_status sh))" for n
      by (rule ship_inv_set [OF I]) (use u history_ok_advance that I in \<open>auto simp: ship_inv_def advance_def\<close>)
    then show ?thesis using I Some
      by (simp add: transition_state_def get_by_id_or_raise_def get_by_id_def bind_assoc set_shipment_def set_obj_def)
  qed (use I in \<open>simp add: transition_state_def get_by_id_or_raise_def get_by_id_def bind_assoc\<close>)
qed

lemma add_shipment_preserves:
  "ship_inv s \<Longrightarrow> ship_inv (shipments_update (add_row (new_shipment (next_uuid s) number n ord wh))
      (s\<lparr>next_uuid := Suc (next_uuid s)\<rparr>))"
  using history_ok_new by (fastforce simp: ship_inv_def new_shipment_def)

lemma generate_from_plan_preserves: "preserves ship_inv (generate_from_plan i)"
proof -
  have "preserves ship_inv (bind fresh_uuid (\<lambda>i. bind get_now (\<lambda>n.
     bind (add shipments_update (new_shipment i number n ord wh)) f)))"
    if f: "\<And>x. preserves ship_inv (f x)" for f :: "Shipment \<Rightarrow> 'a task" and number ord wh
  proof (rule preservesI)
    fix s assume "ship_inv s"
    from preservesD [OF f ship_inv_frame(6) [OF add_shipment_preserves [OF this]]]
    show "ship_inv (snd (bind fresh_uuid (\<lambda>i. bind get_now (\<lambda>n.
       bind (add shipments_update (new_shipment i number n ord wh)) f)) s))"
      by (simp add: add_def session_add_def bind_assoc)
  qed
  note * = this
  show ?thesis unfolding generate_from_plan_def session_add_def set_obj_def
    by (intro * hoare_rules preserves_modify preserves_get_by_id_or_raise ship_inv_frame)
qed

lemma generate_for_order_preserves: "preserves ship_inv (generate_for_order i)"
  unfolding generate_for_order_def get_plans_for_order_def
  by (intro hoare_rules generate_from_plan_preserves transition_state_preserves)

end
