(* ===== verification/Transport.thy ===== *)
theory Transport
  imports Shipments "HOL-Library.Multiset"
begin

text \<open>
  The rest of \<open>domain/transportation/\<close>: consolidation, carrier assignment, dock scheduling and route
  planning, and \<open>services/transportation_service.py\<close>.  The settings and the two third-party
  computations (\<open>math\<close>'s great-circle distance in floating point, networkx's tour) are parameters.
\<close>

section \<open>ConsolidationEngine\<close>

record ConsolidationGroup =
  cg_group :: uuid
  cg_warehouse :: uuid
  cg_shipments :: "uuid list"
  cg_weight :: decimal
  cg_region :: string
  cg_savings :: decimal

record ConsolidationResult =
  cr_groups :: "ConsolidationGroup list"
  cr_consolidated :: int
  cr_total_savings :: decimal

definition MAX_GROUP_WEIGHT_KG :: decimal where "MAX_GROUP_WEIGHT_KG = 500"
definition MAX_GROUP_SIZE :: nat where "MAX_GROUP_SIZE = 10"

text \<open>\<open>fmt\<close> is Python's \<open>str\<close> on the values of a JSON document that are not strings.\<close>

definition py_str :: "(json \<Rightarrow> string) \<Rightarrow> json \<Rightarrow> string" where
  "py_str fmt v = (case v of JStr x \<Rightarrow> x | _ \<Rightarrow> fmt v)"

definition postal_prefix :: "(json \<Rightarrow> string) \<Rightarrow> json \<Rightarrow> exn + string" where
  "postal_prefix fmt v = (case v of JStr x \<Rightarrow> Inr (take 3 x) | JUuid _ \<Rightarrow> Inr (take 3 (fmt v))
     | JArr xs \<Rightarrow> Inr (fmt (JArr (take 3 xs))) | _ \<Rightarrow> Inl PyTypeError)"

definition extract_region :: "(json \<Rightarrow> string) \<Rightarrow> pydict \<Rightarrow> exn + string" where
  "extract_region fmt addr = map_sum id
     (\<lambda>postal. py_str fmt (dict_get addr ''state'' (JStr ''UNKNOWN'')) @ ''-'' @ postal)
     (postal_prefix fmt (dict_get addr ''postal_code'' (JStr '''')))"

text \<open>\<open>x or d\<close> for a nullable number.\<close>

definition or_default :: "'a::zero option \<Rightarrow> 'a \<Rightarrow> 'a" where
  "or_default x d = (case x of None \<Rightarrow> d | Some v \<Rightarrow> if v = 0 then d else v)"

definition weight_of :: "Shipment \<Rightarrow> decimal" where
  "weight_of sh = or_default (sh_total_weight_kg sh) 10"

definition new_group :: "uuid \<Rightarrow> uuid \<Rightarrow> string \<Rightarrow> ConsolidationGroup" where
  "new_group g w region = \<lparr>cg_group = g, cg_warehouse = w, cg_shipments = [], cg_weight = 0,
     cg_region = region, cg_savings = 0\<rparr>"

definition group_full :: "ConsolidationGroup option \<Rightarrow> decimal \<Rightarrow> bool" where
  "group_full cur weight = (case cur of None \<Rightarrow> True
     | Some g \<Rightarrow> MAX_GROUP_SIZE \<le> length (cg_shipments g) \<or> MAX_GROUP_WEIGHT_KG < dadd (cg_weight g) weight)"

definition join_group :: "Shipment \<Rightarrow> ConsolidationGroup \<Rightarrow> ConsolidationGroup" where
  "join_group sh g = g\<lparr>cg_shipments := cg_shipments g @ [sh_id sh], cg_weight := dadd (cg_weight g) (weight_of sh)\<rparr>"

text \<open>One shipment of a region: the groups closed so far and the current one.\<close>

definition consolidate_one ::
  "uuid \<Rightarrow> string \<Rightarrow> Shipment \<Rightarrow> ConsolidationGroup list \<times> ConsolidationGroup option \<Rightarrow>
   (ConsolidationGroup list \<times> ConsolidationGroup option) task" where
  "consolidate_one w region sh = (\<lambda>(groups, cur).
     bind (if group_full cur (weight_of sh)
           then bind fresh_uuid (\<lambda>g. ret (groups @ (case cur of None \<Rightarrow> [] | Some c \<Rightarrow> [c]), new_group g w region))
           else ret (groups, the cur)) (\<lambda>(groups, g).
     bind (set_shipment (sh_id sh) (\<lambda>x. x\<lparr>sh_consolidation_group := Some (cg_group g)\<rparr>)) (\<lambda>_.
     ret (groups, Some (join_group sh g)))))"

definition close_region ::
  "ConsolidationGroup list \<times> ConsolidationGroup option \<Rightarrow> decimal \<Rightarrow> ConsolidationGroup list \<times> decimal" where
  "close_region r total_savings = (case r of
     (groups, None) \<Rightarrow> (groups, total_savings)
   | (groups, Some g) \<Rightarrow>
       (groups @ [g\<lparr>cg_savings := of_nat (length (cg_shipments g) * 5)\<rparr>],
        dadd total_savings (of_nat (length (cg_shipments g) * 5))))"

definition consolidate_region ::
  "uuid \<Rightarrow> string \<times> Shipment list \<Rightarrow> ConsolidationResult \<Rightarrow> ConsolidationResult task" where
  "consolidate_region w = (\<lambda>(region, shs) res.
     bind (for_loop (consolidate_one w region)
             (sort_key (\<lambda>sh. or_default (sh_total_weight_kg sh) 0) shs) (cr_groups res, None)) (\<lambda>r.
     case close_region r (cr_total_savings res) of (groups, total_savings) \<Rightarrow>
       ret \<lparr>cr_groups = groups, cr_consolidated = cr_consolidated res + int (length shs),
            cr_total_savings = total_savings\<rparr>))"

definition consolidate_window ::
  "(json \<Rightarrow> string) \<Rightarrow> Settings \<Rightarrow> uuid \<Rightarrow> instant option \<Rightarrow> ConsolidationResult task" where
  "consolidate_window fmt cfg w window_start = bind get_now (\<lambda>n.
     let start = (case window_start of None \<Rightarrow> n | Some t \<Rightarrow> t);
         stop = start + hours (consolidation_window_hours cfg) in
     bind (list_consolidation_candidates w start stop) (\<lambda>candidates.
     bind (for_loop (\<lambda>sh acc. bind (fetch (\<lambda>_. extract_region fmt (sh_destination sh))) (\<lambda>region.
             ret (acc @ [(region, sh)]))) candidates []) (\<lambda>tagged.
     for_loop (consolidate_region w)
       (map (\<lambda>(region, rs). (region, map snd rs)) (group_by fst tagged))
       \<lparr>cr_groups = [], cr_consolidated = 0, cr_total_savings = 0\<rparr>)))"

section \<open>CarrierAssigner\<close>

record CarrierAssignment =
  ca_shipment :: uuid
  ca_carrier :: uuid
  ca_code :: string
  ca_cost :: decimal
  ca_transit_days :: int
  ca_score :: pyfloat
  ca_reason :: string

definition estimate_cost :: "Carrier \<Rightarrow> decimal \<Rightarrow> decimal" where
  "estimate_cost c weight = dadd (dmul (or_default (car_cost_per_kg c) 1) weight) 15"

definition estimate_transit :: "Carrier \<Rightarrow> int" where
  "estimate_transit c = max 1 (py_int (fdiv 3 (fl (or_default (car_on_time_rate c) (85 / 100)))))"

definition score_carrier :: "Carrier \<Rightarrow> decimal \<Rightarrow> decimal \<Rightarrow> pyfloat" where
  "score_carrier c cost weight =
     (let cost_score = fsub 1 (min (fl (ddiv cost 500)) 1);
          perf_score = fl (or_default (car_on_time_rate c) (8 / 10));
          capacity_score = min (fl (ddiv weight (or_default (car_max_weight_kg c) 1000))) 1
      in fadd (fadd (fmul cost_score (fl (4 / 10))) (fmul perf_score (fl (35 / 100))))
              (fmul (fsub 1 capacity_score) (fl (25 / 100))))"

definition over_capacity :: "decimal \<Rightarrow> Carrier \<Rightarrow> bool" where
  "over_capacity weight c \<longleftrightarrow> (case car_max_weight_kg c of None \<Rightarrow> False | Some m \<Rightarrow> m \<noteq> 0 \<and> m < weight)"

definition assign_carrier :: "uuid \<Rightarrow> CarrierAssignment task" where
  "assign_carrier i = bind (get_by_id_or_raise sh_id shipments i) (\<lambda>sh.
     bind list_active_carriers (\<lambda>cs.
     bind (raise_if (cs = []) PyValueError) (\<lambda>_.
     let weight = weight_of sh;
         scored = map (\<lambda>c. (c, score_carrier c (estimate_cost c weight) weight))
                    (filter (\<lambda>c. \<not> over_capacity weight c) cs) in
     case sort_key (\<lambda>(c, score). - score) scored of
       [] \<Rightarrow> ret \<lparr>ca_shipment = i, ca_carrier = car_id (hd cs), ca_code = car_code (hd cs),
                   ca_cost = estimate_cost (hd cs) weight, ca_transit_days = estimate_transit (hd cs),
                   ca_score = fl (5 / 10), ca_reason = ''fallback_no_capacity_match''\<rparr>
     | (c, score) # _ \<Rightarrow>
         bind (set_shipment i (\<lambda>x. x\<lparr>sh_carrier := Some (car_id c)\<rparr>)) (\<lambda>_.
         ret \<lparr>ca_shipment = i, ca_carrier = car_id c, ca_code = car_code c,
              ca_cost = estimate_cost c weight, ca_transit_days = estimate_transit c,
              ca_score = score, ca_reason = ''optimization_score''\<rparr>))))"

section \<open>DeliveryScheduler\<close>

datatype DeliveryWindow = MORNING | AFTERNOON | EVENING

record DeliverySlot =
  slot_id :: uuid
  slot_warehouse :: uuid
  slot_window :: DeliveryWindow
  slot_date :: instant
  slot_capacity :: int
  slot_booked :: int

definition slot_available :: "DeliverySlot \<Rightarrow> int" where
  "slot_available sl = max 0 (slot_capacity sl - slot_booked sl)"

definition slot_is_full :: "DeliverySlot \<Rightarrow> bool" where
  "slot_is_full sl \<longleftrightarrow> slot_capacity sl \<le> slot_booked sl"

text \<open>A schedule holds a reference to its slot, here the slot's identifier.\<close>

record DeliverySchedule =
  ds_shipment :: uuid
  ds_slot :: uuid
  ds_arrival :: instant
  ds_departure :: instant
  ds_dock :: "int option"

record SchedulingResult =
  sr_scheduled :: "DeliverySchedule list"
  sr_unscheduled :: "uuid list"
  sr_conflicts :: "uuid list"

definition DEFAULT_DOCK_CAPACITY :: int where "DEFAULT_DOCK_CAPACITY = 8"
definition SLOT_DURATION_HOURS :: int where "SLOT_DURATION_HOURS = 4"

text \<open>\<open>date.weekday()\<close> (Monday is 0; the epoch was a Thursday) and \<open>date.replace(hour=8, ...)\<close>, in UTC.\<close>

definition weekday :: "instant \<Rightarrow> int" where
  "weekday t = (t div days 1 + 3) mod 7"

definition at_eight :: "instant \<Rightarrow> instant" where
  "at_eight t = t div days 1 * days 1 + hours 8"

text \<open>The scheduler object owns the dictionary \<open>_slots\<close>; it runs on the pair of that and the session.\<close>

type_synonym slot_book = "(uuid \<times> DeliverySlot list) list"

type_synonym 'a sched_task = "(slot_book \<times> session, exn, 'a) op"

definition in_session :: "'a task \<Rightarrow> 'a sched_task" where
  "in_session m = (\<lambda>(b, s). case m s of (r, t) \<Rightarrow> (r, (b, t)))"

lemma in_session_code [code]: "in_session m (b, s) = (case m s of (r, t) \<Rightarrow> (r, (b, t)))"
  by (simp add: in_session_def)

definition slots_for_day :: "uuid \<Rightarrow> instant \<Rightarrow> nat \<Rightarrow> DeliverySlot list \<Rightarrow> DeliverySlot list task" where
  "slots_for_day w start_date off acc = (let date = start_date + days (int off) in
     if 5 \<le> weekday date then ret acc
     else for_loop (\<lambda>win acc. bind fresh_uuid (\<lambda>i. ret (acc @ [
       \<lparr>slot_id = i, slot_warehouse = w, slot_window = win, slot_date = at_eight date,
        slot_capacity = DEFAULT_DOCK_CAPACITY, slot_booked = 0\<rparr>]))) [MORNING, AFTERNOON, EVENING] acc)"

definition put_slots :: "uuid \<Rightarrow> DeliverySlot list \<Rightarrow> slot_book \<Rightarrow> slot_book" where
  "put_slots w sls b = (if w \<in> fst ` set b then map (\<lambda>(v, xs). (v, if v = w then sls else xs)) b
     else b @ [(w, sls)])"

definition generate_slots :: "uuid \<Rightarrow> instant \<Rightarrow> nat \<Rightarrow> DeliverySlot list sched_task" where
  "generate_slots w start_date n = bind (in_session (for_loop (slots_for_day w start_date) [0..<n] [])) (\<lambda>sls.
     bind (modify (map_prod (put_slots w sls) id)) (\<lambda>_. ret sls))"

definition slots_of :: "uuid \<Rightarrow> slot_book \<Rightarrow> DeliverySlot list" where
  "slots_of w b = (case map_of b w of None \<Rightarrow> [] | Some sls \<Rightarrow> sls)"

definition find_best_slot :: "DeliverySlot list \<Rightarrow> instant option \<Rightarrow> DeliverySlot option" where
  "find_best_slot sls preferred = (let avail = filter (\<lambda>sl. \<not> slot_is_full sl) sls in
     if avail = [] then None
     else case preferred of None \<Rightarrow> Some (hd avail)
       | Some p \<Rightarrow> py_min_by (\<lambda>sl. fdiv (of_int \<bar>slot_date sl - p\<bar>) 1000000) avail)"

definition book_slot :: "uuid \<Rightarrow> slot_book \<Rightarrow> slot_book" where
  "book_slot i b = map (\<lambda>(w, sls). (w, upd_list slot_id i (\<lambda>sl. sl\<lparr>slot_booked := slot_booked sl + 1\<rparr>) sls)) b"

definition schedule_one :: "uuid \<Rightarrow> uuid list \<Rightarrow> uuid \<Rightarrow> SchedulingResult \<Rightarrow> SchedulingResult sched_task" where
  "schedule_one w usable i res = bind (in_session (get_by_id sh_id shipments i)) (\<lambda>sh. case sh of
     None \<Rightarrow> ret (res\<lparr>sr_conflicts := sr_conflicts res @ [i], sr_unscheduled := sr_unscheduled res @ [i]\<rparr>)
   | Some sh \<Rightarrow>
       bind (reads (\<lambda>(b, s). find_best_slot (filter (\<lambda>sl. slot_id sl \<in> set usable) (slots_of w b))
                               (sh_scheduled_delivery sh))) (\<lambda>sl. case sl of
         None \<Rightarrow> ret (res\<lparr>sr_conflicts := sr_conflicts res @ [i], sr_unscheduled := sr_unscheduled res @ [i]\<rparr>)
       | Some sl \<Rightarrow>
           bind (modify (map_prod (book_slot (slot_id sl)) id)) (\<lambda>_.
           bind (in_session (set_shipment i (\<lambda>x. x\<lparr>sh_scheduled_delivery := Some (slot_date sl)\<rparr>))) (\<lambda>_.
           ret (res\<lparr>sr_scheduled := sr_scheduled res @
             [\<lparr>ds_shipment = i, ds_slot = slot_id sl, ds_arrival = slot_date sl,
               ds_departure = slot_date sl + hours SLOT_DURATION_HOURS,
               ds_dock = Some (slot_booked sl + 1)\<rparr>]\<rparr>)))))"

definition schedule_shipments :: "uuid \<Rightarrow> uuid list \<Rightarrow> SchedulingResult sched_task" where
  "schedule_shipments w shs = bind (reads (\<lambda>(b, s). w \<in> fst ` set b)) (\<lambda>known.
     bind (if known then ret () else bind (in_session get_now) (\<lambda>n. bind (generate_slots w n 7) (\<lambda>_. ret ()))) (\<lambda>_.
     bind (reads (\<lambda>(b, s). map slot_id (filter (\<lambda>sl. \<not> slot_is_full sl) (slots_of w b)))) (\<lambda>usable.
     for_loop (schedule_one w usable) shs \<lparr>sr_scheduled = [], sr_unscheduled = [], sr_conflicts = []\<rparr>)))"

definition reschedule :: "uuid \<Rightarrow> uuid \<Rightarrow> DeliverySchedule option sched_task" where
  "reschedule i new_slot = bind (reads (\<lambda>(b, s).
       find (\<lambda>sl. slot_id sl = new_slot \<and> \<not> slot_is_full sl) (concat (map snd b)))) (\<lambda>sl. case sl of
     None \<Rightarrow> ret None
   | Some sl \<Rightarrow> bind (modify (map_prod (book_slot (slot_id sl)) id)) (\<lambda>_.
       ret (Some \<lparr>ds_shipment = i, ds_slot = slot_id sl, ds_arrival = slot_date sl,
         ds_departure = slot_date sl + hours SLOT_DURATION_HOURS, ds_dock = None\<rparr>)))"


section \<open>Consolidation: every candidate in one bounded group\<close>

lemma mset_group_by:
  fixes f :: "'a \<Rightarrow> 'b"
  shows "mset (concat (map snd (group_by f xs))) = mset xs"
proof (rule multiset_eqI)
  fix x :: 'a
  have c: "int (count (mset ys) x) = sum_list (map (\<lambda>y. if y = x then 1 else 0) ys)" for ys
    by (induction ys) auto
  have "sum_list (map g (concat (map snd ps))) = sum_list (map (\<lambda>(k, ys). sum_list (map g ys)) ps)"
    for g :: "'a \<Rightarrow> int" and ps :: "('b \<times> 'a list) list"
    by (induction ps) auto
  then have "int (count (mset (concat (map snd (group_by f xs)))) x) = int (count (mset xs) x)"
    unfolding c by (simp add: sum_group_by)
  then show "count (mset (concat (map snd (group_by f xs)))) x = count (mset xs) x" by simp
qed

definition group_ok :: "ConsolidationGroup \<Rightarrow> bool" where
  "group_ok g \<longleftrightarrow> cg_shipments g \<noteq> [] \<and> length (cg_shipments g) \<le> MAX_GROUP_SIZE \<and>
     (length (cg_shipments g) = 1 \<or> cg_weight g \<le> MAX_GROUP_WEIGHT_KG)"

definition all_groups :: "ConsolidationGroup list \<times> ConsolidationGroup option \<Rightarrow> ConsolidationGroup list" where
  "all_groups r = fst r @ (case snd r of None \<Rightarrow> [] | Some g \<Rightarrow> [g])"

definition members :: "ConsolidationGroup list \<Rightarrow> uuid list" where
  "members gs = concat (map cg_shipments gs)"

text \<open>The shipments of a group carry its identifier.\<close>

definition marked :: "ConsolidationGroup list \<Rightarrow> session \<Rightarrow> bool" where
  "marked gs s \<longleftrightarrow> (\<forall>g \<in> set gs. \<forall>x \<in> set (lives (shipments s)).
     sh_id x \<in> set (cg_shipments g) \<longrightarrow> sh_consolidation_group x = Some (cg_group g))"

definition groups_step :: "uuid list \<Rightarrow> ConsolidationGroup list \<Rightarrow> session \<Rightarrow> ConsolidationGroup list \<Rightarrow> session \<Rightarrow> bool" where
  "groups_step new gs s gs' t \<longleftrightarrow> mset (members gs') = mset (members gs) + mset new \<and>
     ((\<forall>g \<in> set gs. group_ok g) \<longrightarrow> (\<forall>g \<in> set gs'. group_ok g)) \<and>
     (distinct (new @ members gs) \<longrightarrow> marked gs s \<longrightarrow> marked gs' t)"

lemma groups_step_refl: "groups_step [] gs s gs s"
  by (simp add: groups_step_def)

lemma groups_step_trans:
  assumes 1: "groups_step xs gs s gs1 t" and 2: "groups_step ys gs1 t gs2 u"
  shows "groups_step (xs @ ys) gs s gs2 u"
proof -
  have m: "mset (members gs1) = mset (members gs) + mset xs" using 1 by (simp add: groups_step_def)
  have "distinct (ys @ members gs1)" "distinct (xs @ members gs)" if "distinct ((xs @ ys) @ members gs)"
  proof -
    have "mset (ys @ members gs1) = mset ((xs @ ys) @ members gs)" by (simp add: m)
    with that show "distinct (ys @ members gs1)" by (metis mset_eq_imp_distinct_iff)
    from that show "distinct (xs @ members gs)" by auto
  qed
  then show ?thesis using 1 2 by (auto simp: groups_step_def m)
qed

lemma consolidate_one_app:
  "\<exists>r' t. consolidate_one w region sh r s = (Inr r', t) \<and> snd r' \<noteq> None \<and>
     groups_step [sh_id sh] (all_groups r) s (all_groups r') t"
proof -
  obtain groups cur where r: "r = (groups, cur)" by force
  note defs = consolidate_one_def r bind_assoc set_shipment_def set_obj_def all_groups_def groups_step_def
    members_def group_ok_def join_group_def
  show ?thesis
  proof (cases "group_full cur (weight_of sh)")
    case True
    then show ?thesis
      by (auto simp: defs new_group_def MAX_GROUP_SIZE_def marked_def split: option.split elim!: in_upd_listE)
  next
    case False
    then obtain g where "cur = Some g" "length (cg_shipments g) < MAX_GROUP_SIZE"
      "dadd (cg_weight g) (weight_of sh) \<le> MAX_GROUP_WEIGHT_KG"
      by (auto simp: group_full_def split: option.splits)
    then show ?thesis using False
      by (auto simp: defs marked_def elim!: in_upd_listE)
  qed
qed

lemma consolidate_loop:
  "\<exists>r' t. for_loop (consolidate_one w region) shs r s = (Inr r', t) \<and>
     groups_step (map sh_id shs) (all_groups r) s (all_groups r') t"
proof (induction shs arbitrary: r s)
  case (Cons sh shs)
  obtain r1 t1 where 1: "consolidate_one w region sh r s = (Inr r1, t1)"
    "groups_step [sh_id sh] (all_groups r) s (all_groups r1) t1"
    using consolidate_one_app [of w region sh r s] by blast
  obtain r2 t2 where 2: "for_loop (consolidate_one w region) shs r1 t1 = (Inr r2, t2)"
    "groups_step (map sh_id shs) (all_groups r1) t1 (all_groups r2) t2"
    using Cons.IH by blast
  from groups_step_trans [OF 1(2) 2(2)] 1(1) 2(1) show ?case by (simp add: bind_def)
qed (simp add: groups_step_refl)

lemma groups_step_mset: "groups_step xs gs s gs' t \<Longrightarrow> mset xs = mset ys \<Longrightarrow> groups_step ys gs s gs' t"
  using mset_eq_imp_distinct_iff [of "xs @ members gs" "ys @ members gs"] by (simp add: groups_step_def)

lemma close_region_groups:
  "groups_step xs gs s (all_groups r) t \<Longrightarrow> groups_step xs gs s (fst (close_region r d)) t"
proof -
  have "members (fst (close_region r d)) = members (all_groups r)"
    "(\<forall>g \<in> set (fst (close_region r d)). group_ok g) = (\<forall>g \<in> set (all_groups r). group_ok g)"
    "marked (fst (close_region r d)) t = marked (all_groups r) t"
    by (auto simp: close_region_def all_groups_def members_def marked_def group_ok_def
        split: prod.split option.split)
  then show "groups_step xs gs s (all_groups r) t \<Longrightarrow> ?thesis" by (simp add: groups_step_def)
qed

text \<open>The result of one region, and of all of them, in terms of the result before.\<close>

lemma consolidate_region_app:
  "\<exists>r t. consolidate_region w x res s = (Inr r, t) \<and>
     groups_step (map sh_id (snd x)) (cr_groups res) s (cr_groups r) t \<and>
     cr_consolidated r = cr_consolidated res + int (length (snd x))"
proof -
  obtain region shs where x: "x = (region, shs)" by force
  let ?sorted = "sort_key (\<lambda>sh. or_default (sh_total_weight_kg sh) 0) shs"
  obtain r t where loop: "for_loop (consolidate_one w region) ?sorted (cr_groups res, None) s = (Inr r, t)"
    and step: "groups_step (map sh_id ?sorted) (all_groups (cr_groups res, None)) s (all_groups r) t"
    using consolidate_loop [of w region ?sorted "(cr_groups res, None)" s] by blast
  from step have "groups_step (map sh_id shs) (cr_groups res) s (all_groups r) t"
    unfolding all_groups_def fst_conv snd_conv option.case append_Nil2 by (rule groups_step_mset) simp
  from close_region_groups [OF this, of "cr_total_savings res"]
  show ?thesis unfolding x consolidate_region_def
    by (simp add: bind_def loop split_beta)
qed

lemma consolidate_regions_app:
  "\<exists>r t. for_loop (consolidate_region w) rs res s = (Inr r, t) \<and>
     groups_step (map sh_id (concat (map snd rs))) (cr_groups res) s (cr_groups r) t \<and>
     cr_consolidated r = cr_consolidated res + int (length (concat (map snd rs)))"
proof (induction rs arbitrary: res s)
  case (Cons x rs)
  obtain r t where 1: "consolidate_region w x res s = (Inr r, t)"
     "groups_step (map sh_id (snd x)) (cr_groups res) s (cr_groups r) t"
     "cr_consolidated r = cr_consolidated res + int (length (snd x))"
    using consolidate_region_app [of w x res s] by blast
  obtain r2 t2 where 2: "for_loop (consolidate_region w) rs r t = (Inr r2, t2)"
     "groups_step (map sh_id (concat (map snd rs))) (cr_groups r) t (cr_groups r2) t2"
     "cr_consolidated r2 = cr_consolidated r + int (length (concat (map snd rs)))"
    using Cons.IH by blast
  from groups_step_trans [OF 1(2) 2(2)] 1 2 show ?case by (simp add: bind_def)
qed (simp add: groups_step_refl)

lemma tag_regions:
  "for_loop (\<lambda>sh acc. bind (fetch (\<lambda>_. g sh)) (\<lambda>y. ret (acc @ [(y, sh)]))) shs acc s = (Inr tagged, t) \<Longrightarrow>
   t = s \<and> map snd tagged = map snd acc @ shs"
proof (induction shs arbitrary: acc)
  case (Cons sh shs)
  from Cons.prems [unfolded for_loop.simps] obtain a u where
    step: "bind (fetch (\<lambda>_. g sh)) (\<lambda>y. ret (acc @ [(y, sh)])) s = (Inr a, u)"
    and rest: "for_loop (\<lambda>sh acc. bind (fetch (\<lambda>_. g sh)) (\<lambda>y. ret (acc @ [(y, sh)]))) shs a u = (Inr tagged, t)"
    by (rule bind_InrE)
  from step obtain y where "a = acc @ [(y, sh)]" "u = s" by (auto split: sum.splits)
  with Cons.IH [OF rest [unfolded this]] show ?case by simp
qed simp

text \<open>The shipments a window selects.\<close>

definition candidates_of :: "Settings \<Rightarrow> uuid \<Rightarrow> instant option \<Rightarrow> session \<Rightarrow> Shipment list" where
  "candidates_of cfg w window_start s =
     (let start = (case window_start of None \<Rightarrow> now s | Some t \<Rightarrow> t) in
      select_where (\<lambda>p. sh_warehouse p = w \<and> sh_status p = ''planned'' \<and> sh_consolidation_group p = None \<and>
        (case sh_scheduled_pickup p of None \<Rightarrow> False
         | Some t \<Rightarrow> start \<le> t \<and> t \<le> start + hours (consolidation_window_hours cfg))) (shipments s))"

lemma consolidate_window_groups:
  assumes "consolidate_window fmt cfg w window_start s = (Inr r, t)"
  shows "groups_step (map sh_id (candidates_of cfg w window_start s)) [] s (cr_groups r) t"
    and "cr_consolidated r = int (length (candidates_of cfg w window_start s))"
proof -
  let ?cs = "candidates_of cfg w window_start s"
  let ?body = "\<lambda>sh acc. bind (fetch (\<lambda>_. extract_region fmt (sh_destination sh))) (\<lambda>region. ret (acc @ [(region, sh)]))"
  from assms have "bind (for_loop ?body ?cs []) (\<lambda>tagged.
      for_loop (consolidate_region w) (map (\<lambda>(region, rs). (region, map snd rs)) (group_by fst tagged))
        \<lparr>cr_groups = [], cr_consolidated = 0, cr_total_savings = 0\<rparr>) s = (Inr r, t)"
    by (simp add: consolidate_window_def list_consolidation_candidates_def candidates_of_def Let_def)
  then obtain tagged u where tag: "for_loop ?body ?cs [] s = (Inr tagged, u)"
    and loop: "for_loop (consolidate_region w) (map (\<lambda>(region, rs). (region, map snd rs)) (group_by fst tagged))
        \<lparr>cr_groups = [], cr_consolidated = 0, cr_total_savings = 0\<rparr> u = (Inr r, t)"
    by (auto simp: bind_Inr_iff)
  from tag_regions [OF tag] have u: "u = s" and tagged: "map snd tagged = ?cs" by simp_all
  have snds: "concat (map snd (map (\<lambda>(region, rs). (region, map snd rs)) ps)) = map snd (concat (map snd ps))"
    for ps :: "(string \<times> (string \<times> Shipment) list) list"
    by (induction ps) auto
  have ms: "mset (map snd (concat (map snd (group_by fst tagged)))) = mset ?cs"
    by (simp add: mset_group_by tagged [symmetric])
  have len: "length (concat (map snd (group_by fst tagged))) = length ?cs"
    using arg_cong [OF ms, of size] by (simp only: size_mset length_map)
  from consolidate_regions_app [of w "map (\<lambda>(region, rs). (region, map snd rs)) (group_by fst tagged)"
      "\<lparr>cr_groups = [], cr_consolidated = 0, cr_total_savings = 0\<rparr>" s] loop [unfolded u]
  have g: "groups_step (map sh_id (map snd (concat (map snd (group_by fst tagged))))) [] s (cr_groups r) t"
    and c: "cr_consolidated r = int (length (map snd (concat (map snd (group_by fst tagged)))))"
    unfolding snds by auto
  show "cr_consolidated r = int (length ?cs)" using c len by simp
  have "mset (map sh_id (map snd (concat (map snd (group_by fst tagged))))) = mset (map sh_id ?cs)"
    using ms by (metis mset_map)
  from groups_step_mset [OF g this] show "groups_step (map sh_id ?cs) [] s (cr_groups r) t" .
qed


section \<open>Docks are never overbooked\<close>

definition all_slots :: "slot_book \<Rightarrow> DeliverySlot list" where
  "all_slots b = concat (map snd b)"

definition slot_ok :: "DeliverySlot \<Rightarrow> bool" where
  "slot_ok sl \<longleftrightarrow> 0 \<le> slot_booked sl \<and> slot_booked sl \<le> slot_capacity sl"

definition book_ok :: "slot_book \<times> session \<Rightarrow> bool" where
  "book_ok = (\<lambda>(b, s). distinct (map fst b) \<and> distinct (map slot_id (all_slots b)) \<and>
     (\<forall>sl \<in> set (all_slots b). slot_ok sl \<and> slot_id sl < next_uuid s))"

lemma preserves_in_session:
  assumes "\<And>b s. I (b, s) \<Longrightarrow> I (b, snd (m s))"
  shows "preserves I (in_session m)"
proof (rule preservesI)
  fix bs assume "I bs"
  then show "I (snd (in_session m bs))"
    using assms [of "fst bs" "snd bs"] by (simp add: in_session_def split_beta)
qed

lemma all_slots_book [simp]:
  "all_slots (book_slot i b) = upd_list slot_id i (\<lambda>sl. sl\<lparr>slot_booked := slot_booked sl + 1\<rparr>) (all_slots b)"
  by (induction b) (auto simp: all_slots_def book_slot_def upd_list_def)

lemma book_slot_ok:
  assumes "book_ok (b, s)" and sl: "sl \<in> set (all_slots b)" "\<not> slot_is_full sl"
  shows "book_ok (book_slot (slot_id sl) b, s)"
proof -
  have u: "x = sl" if "x \<in> set (all_slots b)" "slot_id x = slot_id sl" for x
    using assms(1) sl(1) that by (auto simp: book_ok_def distinct_map inj_on_def)
  have "map fst (book_slot i b) = map fst b" for i by (simp add: book_slot_def split_def comp_def)
  then show ?thesis using assms
    by (auto simp: book_ok_def map_upd_list_same slot_ok_def slot_is_full_def elim!: in_upd_listE dest: u)
qed

lemma slots_of_subset: "set (slots_of w b) \<subseteq> set (all_slots b)"
  using map_of_SomeD [of b w] by (cases "map_of b w") (force simp: slots_of_def all_slots_def)+

lemma find_best_slot_Some:
  assumes "find_best_slot sls p = Some sl"
  shows "sl \<in> set sls \<and> \<not> slot_is_full sl"
proof -
  have "sl \<in> set (filter (\<lambda>sl. \<not> slot_is_full sl) sls)"
    using assms by (auto simp: find_best_slot_def Let_def simp del: set_filter
        dest: py_min_by_Some split: if_splits option.splits)
  then show ?thesis by simp
qed

text \<open>Generated slots are new and empty.\<close>

definition fresh_slots :: "uuid \<Rightarrow> DeliverySlot list \<Rightarrow> session \<Rightarrow> bool" where
  "fresh_slots n sls s \<longleftrightarrow> n \<le> next_uuid s \<and> distinct (map slot_id sls) \<and>
     (\<forall>sl \<in> set sls. slot_ok sl \<and> n \<le> slot_id sl \<and> slot_id sl < next_uuid s)"

lemma slots_for_day_fresh:
  "hoare (fresh_slots n acc) (slots_for_day w d off acc) (fresh_slots n) (\<lambda>_ _. False)"
proof -
  have "hoare (fresh_slots n acc) (bind fresh_uuid (\<lambda>i. ret (acc @ [\<lparr>slot_id = i, slot_warehouse = w,
      slot_window = win, slot_date = t, slot_capacity = DEFAULT_DOCK_CAPACITY, slot_booked = 0\<rparr>])))
      (fresh_slots n) (\<lambda>_ _. False)" for win t acc
    by (fastforce simp: hoare_def fresh_slots_def slot_ok_def DEFAULT_DOCK_CAPACITY_def)
  then show ?thesis unfolding slots_for_day_def Let_def
    by (intro hoare_if hoare_ret hoare_for_loop [where I = "fresh_slots n"]) auto
qed

lemma replace_slots_distinct:
  assumes "distinct (map fst b)" and "distinct (map slot_id (all_slots b))" and "distinct (map slot_id sls)"
    and "slot_id ` set (all_slots b) \<inter> slot_id ` set sls = {}"
  shows "distinct (map slot_id (all_slots (map (\<lambda>(v, xs). (v, if v = w then sls else xs)) b)))"
  using assms
proof (induction b)
  case (Cons x b)
  obtain v xs where x: "x = (v, xs)" by force
  let ?r = "map (\<lambda>(v, xs). (v, if v = w then sls else xs))"
  have tail: "all_slots (y # c) = snd y @ all_slots c" for y c by (simp add: all_slots_def)
  note prems = Cons.prems [unfolded x tail snd_conv map_append distinct_append set_append list.map fst_conv distinct.simps]
  have IH: "distinct (map slot_id (all_slots (?r b)))"
    by (rule Cons.IH) (use prems assms(3) in auto)
  show ?case
  proof (cases "v = w")
    case True
    then have "?r b = b" using prems(1) by (force intro!: map_idI)
    with True prems assms(3) show ?thesis by (auto simp: x tail)
  next
    case False
    have "set (all_slots (?r b)) \<subseteq> set (all_slots b) \<union> set sls"
      by (auto simp: all_slots_def split: if_splits)
    then have "slot_id ` set (all_slots (?r b)) \<subseteq> slot_id ` set (all_slots b) \<union> slot_id ` set sls" by blast
    moreover have "slot_id ` set xs \<inter> slot_id ` set sls = {}" using prems(4) by blast
    moreover have "slot_id ` set xs \<inter> slot_id ` set (all_slots b) = {}" using prems(2) by simp
    ultimately have "slot_id ` set xs \<inter> slot_id ` set (all_slots (?r b)) = {}" by blast
    with False IH prems(2) show ?thesis by (simp add: x tail)
  qed
qed (simp add: all_slots_def)

lemma generate_slots_ok: "preserves book_ok (generate_slots w d n)"
proof (rule preservesI)
  fix bs assume I: "book_ok bs"
  obtain b s where bs: "bs = (b, s)" by force
  have "hoare (fresh_slots (next_uuid s) []) (for_loop (slots_for_day w d) [0..<n] [])
      (fresh_slots (next_uuid s)) (\<lambda>_ _. False)"
    by (intro hoare_for_loop [where I = "fresh_slots (next_uuid s)"] slots_for_day_fresh)
  from hoare_returns [OF this, of s] obtain sls t where
    gen: "for_loop (slots_for_day w d) [0..<n] [] s = (Inr sls, t)" and F: "fresh_slots (next_uuid s) sls t"
    by (auto simp: fresh_slots_def)
  have run: "snd (generate_slots w d n (b, s)) = (put_slots w sls b, t)"
    using gen by (simp add: generate_slots_def in_session_def bind_def)
  have sub: "set (all_slots (put_slots w sls b)) \<subseteq> set (all_slots b) \<union> set sls"
    by (auto simp: all_slots_def put_slots_def split: if_splits)
  have keys: "distinct (map fst (put_slots w sls b))"
    using I by (auto simp: book_ok_def bs put_slots_def comp_def split_def)
  have old: "slot_id sl < next_uuid s" if "sl \<in> set (all_slots b)" for sl
    using I that by (auto simp: book_ok_def bs)
  have disj: "slot_id ` set (all_slots b) \<inter> slot_id ` set sls = {}"
    using old F by (fastforce simp: fresh_slots_def)
  have "distinct (map slot_id (all_slots (put_slots w sls b)))"
  proof (cases "w \<in> fst ` set b")
    case False
    then show ?thesis using I F disj by (auto simp: put_slots_def all_slots_def book_ok_def bs fresh_slots_def)
  next
    case True
    have "distinct (map slot_id (all_slots (map (\<lambda>(v, xs). (v, if v = w then sls else xs)) b)))"
      using I F by (intro replace_slots_distinct disj) (auto simp: book_ok_def bs fresh_slots_def)
    then show ?thesis using True by (simp add: put_slots_def all_slots_def)
  qed
  moreover have "slot_ok sl \<and> slot_id sl < next_uuid t" if "sl \<in> set (all_slots (put_slots w sls b))" for sl
    using sub that I old F by (fastforce simp: book_ok_def bs fresh_slots_def)
  ultimately show "book_ok (snd (generate_slots w d n bs))"
    using keys by (auto simp: bs run book_ok_def)
qed

lemma schedule_one_ok: "preserves book_ok (schedule_one w usable i res)"
proof -
  have "preserves book_ok (bind (reads (\<lambda>(b, s). find_best_slot (filter (\<lambda>sl. slot_id sl \<in> set usable) (slots_of w b)) p))
     (\<lambda>sl. case sl of None \<Rightarrow> ret r | Some sl \<Rightarrow> bind (modify (map_prod (book_slot (slot_id sl)) id)) (\<lambda>_. f sl)))"
    if f: "\<And>sl. preserves book_ok (f sl)" for p r and f :: "DeliverySlot \<Rightarrow> 'a sched_task"
  proof (rule preservesI)
    fix bs assume I: "book_ok bs"
    obtain b s where bs: "bs = (b, s)" by force
    show "book_ok (snd (bind (reads (\<lambda>(b, s). find_best_slot (filter (\<lambda>sl. slot_id sl \<in> set usable) (slots_of w b)) p))
     (\<lambda>sl. case sl of None \<Rightarrow> ret r | Some sl \<Rightarrow> bind (modify (map_prod (book_slot (slot_id sl)) id)) (\<lambda>_. f sl)) bs))"
    proof (cases "find_best_slot (filter (\<lambda>sl. slot_id sl \<in> set usable) (slots_of w b)) p")
      case (Some sl)
      then have "sl \<in> set (all_slots b)" "\<not> slot_is_full sl"
        using slots_of_subset [of w b] by (auto dest!: find_best_slot_Some)
      from preservesD [OF f book_slot_ok [OF I [unfolded bs] this]] Some show ?thesis by (simp add: bs)
    qed (use I in \<open>simp add: bs\<close>)
  qed
  note * = this
  show ?thesis unfolding schedule_one_def get_by_id_def set_shipment_def set_obj_def
    by (intro * hoare_rules preserves_in_session) (simp_all add: book_ok_def)
qed

lemma schedule_shipments_ok: "preserves book_ok (schedule_shipments w shs)"
  unfolding schedule_shipments_def
  by (intro hoare_rules schedule_one_ok generate_slots_ok preserves_in_session) simp

lemma reschedule_ok: "preserves book_ok (reschedule i j)"
proof (rule preservesI)
  fix bs assume I: "book_ok bs"
  obtain b s where bs: "bs = (b, s)" by force
  show "book_ok (snd (reschedule i j bs))"
  proof (cases "find (\<lambda>sl. slot_id sl = j \<and> \<not> slot_is_full sl) (concat (map snd b))")
    case (Some sl)
    then have "sl \<in> set (all_slots b)" "\<not> slot_is_full sl" by (auto simp: all_slots_def dest!: find_SomeD simp del: set_concat)
    from book_slot_ok [OF I [unfolded bs] this] Some show ?thesis by (simp add: bs reschedule_def)
  qed (use I in \<open>simp add: bs reschedule_def\<close>)
qed


section \<open>The transportation requests\<close>

lemma consolidate_one_preserves: "preserves ship_inv (consolidate_one w region sh r)"
  unfolding consolidate_one_def
  by (cases r, simp only: prod.case)
    (intro hoare_rules preserves_set_shipment ship_inv_frame; simp add: history_ok_def)

lemma consolidate_region_preserves: "preserves ship_inv (consolidate_region w x res)"
  unfolding consolidate_region_def
  by (cases x, simp only: prod.case) (intro hoare_rules consolidate_one_preserves)

lemma consolidate_window_preserves: "preserves ship_inv (consolidate_window fmt cfg w t0)"
  unfolding consolidate_window_def list_consolidation_candidates_def Let_def
  by (intro hoare_rules consolidate_region_preserves)

lemma assign_carrier_preserves: "preserves ship_inv (assign_carrier i)"
proof -
  have "preserves ship_inv (case xs of [] \<Rightarrow> m | (c, score) # _ \<Rightarrow> f c score)"
    if "preserves ship_inv m" "\<And>c score. preserves ship_inv (f c score)"
    for xs :: "(Carrier \<times> pyfloat) list" and m :: "'a task" and f
    using that by (cases xs) auto
  note * = this
  show ?thesis unfolding assign_carrier_def list_active_carriers_def Let_def
    by (intro * hoare_rules preserves_get_by_id_or_raise preserves_set_shipment) (simp_all add: history_ok_def)
qed

text \<open>In a request the scheduler object is new.\<close>

definition schedule_request :: "uuid \<Rightarrow> uuid list \<Rightarrow> SchedulingResult task" where
  "schedule_request w shs = (\<lambda>s. case schedule_shipments w shs ([], s) of (r, (b, t)) \<Rightarrow> (r, t))"

lemma schedule_shipments_ship_inv: "preserves (\<lambda>(b, s). ship_inv s) (schedule_shipments w shs)"
proof -
  have s: "preserves (\<lambda>(b, s). ship_inv s) (in_session m)" if "preserves ship_inv m" for m :: "'a task"
    using preservesD [OF that] by (intro preserves_in_session) simp
  have b: "preserves (\<lambda>(b, s). ship_inv s) (modify (map_prod f id))" for f
    by (rule preserves_modify) auto
  show ?thesis
    unfolding schedule_shipments_def schedule_one_def generate_slots_def slots_for_day_def get_by_id_def Let_def
    by (intro hoare_rules s b preserves_set_shipment ship_inv_frame) (simp_all add: history_ok_def)
qed

lemma schedule_request_preserves: "preserves ship_inv (schedule_request w shs)"
proof (rule preservesI)
  fix s assume "ship_inv s"
  with preservesD [OF schedule_shipments_ship_inv, of "([], s)" w shs]
  show "ship_inv (snd (schedule_request w shs s))" by (simp add: schedule_request_def split_beta)
qed

datatype ship_call =
    Transition uuid string
  | Generate uuid
  | Generate_for_order uuid
  | Consolidate uuid "instant option"
  | Assign uuid
  | Schedule uuid "uuid list"

primrec ship_perform :: "(json \<Rightarrow> string) \<Rightarrow> Settings \<Rightarrow> ship_call \<Rightarrow> unit task" where
  "ship_perform fmt cfg (Transition i new) = as_request (transition_state i new)"
| "ship_perform fmt cfg (Generate p) = as_request (generate_from_plan p)"
| "ship_perform fmt cfg (Generate_for_order i) = as_request (generate_for_order i)"
| "ship_perform fmt cfg (Consolidate w t0) = as_request (consolidate_window fmt cfg w t0)"
| "ship_perform fmt cfg (Assign i) = as_request (assign_carrier i)"
| "ship_perform fmt cfg (Schedule w shs) = as_request (schedule_request w shs)"

definition ship_requests :: "unit task set" where
  "ship_requests = {ship_perform fmt cfg c |fmt cfg c. True}"

lemma ship_perform_preserves: "preserves ship_inv (ship_perform fmt cfg c)"
  by (cases c) (auto simp: as_request_def intro!: hoare_rules transition_state_preserves
      generate_from_plan_preserves generate_for_order_preserves consolidate_window_preserves
      assign_carrier_preserves schedule_request_preserves)

interpretation ship_requests: transactional ship_inv ship_requests
proof
  fix m s t assume "m \<in> ship_requests" "ship_inv s" "m s = (Inr (), t)"
  then show "ship_inv (flush t)"
    using preserves_ok [OF ship_perform_preserves] by (auto simp: ship_requests_def intro: ship_inv_frame)
qed (simp add: ship_inv_def new_context_def)

section \<open>Properties\<close>

definition demo_shipment :: "uuid \<Rightarrow> decimal \<Rightarrow> Shipment" where
  "demo_shipment i weight = \<lparr>sh_id = i, sh_number = i, sh_order = None, sh_warehouse = 1, sh_carrier = None,
     sh_status = ''planned'', sh_origin = [], sh_destination = [(''state'', JStr ''CA''), (''postal_code'', JStr ''94107'')],
     sh_total_weight_kg = Some weight, sh_total_packages = 1, sh_scheduled_pickup = Some 5,
     sh_scheduled_delivery = None, sh_actual_delivery = None, sh_tracking_number = None,
     sh_consolidation_group = None,
     sh_history = [\<lparr>h_status = ''draft'', h_timestamp = 0, h_previous = None\<rparr>,
       \<lparr>h_status = ''planned'', h_timestamp = 1, h_previous = Some ''draft''\<rparr>],
     sh_version = 2, sh_created_at = 0\<rparr>"

definition demo_carrier :: "uuid \<Rightarrow> decimal \<Rightarrow> Carrier" where
  "demo_carrier i limit = \<lparr>car_id = i, car_code = ''C'', car_name = ''C'', car_service_levels = [],
     car_on_time_rate = Some (1 / 2), car_cost_per_kg = Some 1, car_max_weight_kg = Some limit,
     car_is_active = True\<rparr>"

definition demo_ships :: session where
  "demo_ships = empty_session\<lparr>shipments := map (\<lambda>x. Cell (Some x) x) [demo_shipment 2 400, demo_shipment 3 50, demo_shipment 4 100],
     carriers := map (\<lambda>x. Cell (Some x) x) [demo_carrier 5 10, demo_carrier 6 1000], next_uuid := 10\<rparr>"

lemma demo_ships_clean: "clean_session demo_ships"
  by (simp add: clean_session_def demo_ships_def empty_session_def flush_def flush_table_def)

lemma demo_ships_inv: "ship_inv demo_ships"
  by (simp add: ship_inv_def demo_ships_def lives_def demo_shipment_def history_ok_def ship_table_simps)

text \<open>C22: The history of a shipment is the path it took: in every state that transportation requests
  reach, each history starts at \<open>draft\<close>, every entry is a permitted successor of the one before and
  names it, the last entry is the current status, the version counts the entries, a delivered or
  cancelled entry can only be the last, and the delivery instant is set exactly when delivered.\<close>

theorem shipment_history_is_path:
  assumes "clean_session s0" and "ship_inv s0" and "reachable ship_requests s0 s"
    and "sh \<in> set (lives (shipments s))"
  shows "h_status (hd (sh_history sh)) = ''draft'' \<and> h_status (last (sh_history sh)) = sh_status sh \<and>
    chain ship_allowed (map h_status (sh_history sh)) \<and> linked (sh_history sh) \<and>
    sh_version sh = int (length (sh_history sh)) \<and>
    (sh_actual_delivery sh \<noteq> None \<longleftrightarrow> sh_status sh = ''delivered'') \<and>
    (\<forall>i < length (sh_history sh). h_status (sh_history sh ! i) \<in> {''delivered'', ''cancelled''} \<longrightarrow>
       i = length (sh_history sh) - 1)"
proof -
  have ok: "history_ok sh"
    using ship_requests.reachable_inv [OF assms(3,1,2)] assms(4) by (simp add: ship_inv_def)
  have "i = length (sh_history sh) - 1"
    if "i < length (sh_history sh)" "h_status (sh_history sh ! i) \<in> {''delivered'', ''cancelled''}" for i
    using ship_table.terminal_is_last [of "map h_status (sh_history sh)" i] ok that
    by (auto simp: history_ok_def ship_table_simps)
  with ok show ?thesis by (simp add: history_ok_def)
qed

theorem shipment_history_is_path_witness:
  "let s = snd (run_request (ship_perform undefined default_settings (Transition 2 ''cancelled'')) demo_ships) in
   map (\<lambda>sh. (sh_status sh, sh_version sh)) (lives (shipments s)) =
     [(''cancelled'', 3), (''planned'', 2), (''planned'', 2)] \<and>
   list_all (\<lambda>sh. linked (sh_history sh) \<and> chain ship_allowed (map h_status (sh_history sh))) (lives (shipments s))"
proof -
  let ?m = "ship_perform undefined default_settings (Transition 2 ''cancelled'')"
  have "reachable ship_requests demo_ships (snd (run_request ?m demo_ships))"
    by (intro reachable.intros) (unfold ship_requests_def, blast)
  from shipment_history_is_path [OF demo_ships_clean demo_ships_inv this]
  have "list_all (\<lambda>sh. linked (sh_history sh) \<and> chain ship_allowed (map h_status (sh_history sh)))
      (lives (shipments (snd (run_request ?m demo_ships))))" by (simp add: list_all_iff)
  moreover have "map (\<lambda>sh. (sh_status sh, sh_version sh)) (lives (shipments (snd (run_request ?m demo_ships)))) =
     [(''cancelled'', 3), (''planned'', 2), (''planned'', 2)]" by code_simp
  ultimately show ?thesis by (simp add: Let_def)
qed


definition demo_window :: "ConsolidationResult" where
  "demo_window = projr (fst (consolidate_window undefined default_settings 1 None demo_ships))"



definition demo_heavy :: session where
  "demo_heavy = demo_ships\<lparr>carriers := [Cell (Some (demo_carrier 5 10)) (demo_carrier 5 10)]\<rparr>"


text \<open>Any sequence of calls on one scheduler object.\<close>

datatype sched_call = Slots uuid instant nat | Book uuid "uuid list" | Rebook uuid uuid

primrec sched_perform :: "sched_call \<Rightarrow> unit sched_task" where
  "sched_perform (Slots w d n) = bind (generate_slots w d n) (\<lambda>_. ret ())"
| "sched_perform (Book w shs) = bind (schedule_shipments w shs) (\<lambda>_. ret ())"
| "sched_perform (Rebook i j) = bind (reschedule i j) (\<lambda>_. ret ())"

definition sched_run :: "sched_call list \<Rightarrow> session \<Rightarrow> slot_book" where
  "sched_run cs s = fst (snd (for_loop (\<lambda>c _. sched_perform c) cs () ([], s)))"

text \<open>C25: A dock is never overbooked: whatever calls are made on a scheduler, every slot has between 0
  and its capacity of bookings, and the slots have distinct identifiers.\<close>

theorem docks_never_overbooked:
  "(\<forall>sl. sl \<in> set (all_slots (sched_run cs s)) \<longrightarrow>
      0 \<le> slot_booked sl \<and> slot_booked sl \<le> slot_capacity sl) \<and>
   distinct (map slot_id (all_slots (sched_run cs s)))"
proof -
  have "preserves book_ok (sched_perform c)" for c
    by (cases c) (auto intro!: hoare_rules generate_slots_ok schedule_shipments_ok reschedule_ok)
  then have "preserves book_ok (for_loop (\<lambda>c _. sched_perform c) cs ())" by (intro hoare_rules)
  from preservesD [OF this, of "([], s)"] show ?thesis
    by (auto simp: sched_run_def book_ok_def all_slots_def slot_ok_def split_beta)
qed

theorem docks_never_overbooked_witness:
  "map slot_booked (all_slots (sched_run [Slots 1 0 1, Book 1 [2, 3]] demo_ships)) = [2, 0, 0] \<and>
   distinct (map slot_id (all_slots (sched_run [Slots 1 0 1, Book 1 [2, 3]] demo_ships)))"
  by (intro conjI conjunct2 [OF docks_never_overbooked]) code_simp

text \<open>The scheduler answers for every shipment it is given.\<close>

lemma schedule_one_answers:
  "\<exists>r c. schedule_one w usable i res bs = (Inr r, c) \<and>
     mset (map ds_shipment (sr_scheduled r) @ sr_unscheduled r) =
       add_mset i (mset (map ds_shipment (sr_scheduled res) @ sr_unscheduled res)) \<and>
     (sr_conflicts res = sr_unscheduled res \<longrightarrow> sr_conflicts r = sr_unscheduled r)"
proof -
  obtain b s where bs: "bs = (b, s)" by force
  show ?thesis
  proof (cases "get_by_key sh_id i (shipments s)")
    case None
    then show ?thesis by (simp add: schedule_one_def bs bind_def in_session_def get_by_id_def)
  next
    case (Some sh)
    then show ?thesis
      by (cases "find_best_slot (filter (\<lambda>sl. slot_id sl \<in> set usable) (slots_of w b)) (sh_scheduled_delivery sh)")
        (simp_all add: schedule_one_def bs bind_def in_session_def get_by_id_def set_shipment_def set_obj_def)
  qed
qed

lemma schedule_loop_answers:
  "\<exists>r c. for_loop (schedule_one w usable) shs res bs = (Inr r, c) \<and>
     mset (map ds_shipment (sr_scheduled r) @ sr_unscheduled r) =
       mset shs + mset (map ds_shipment (sr_scheduled res) @ sr_unscheduled res) \<and>
     (sr_conflicts res = sr_unscheduled res \<longrightarrow> sr_conflicts r = sr_unscheduled r)"
proof (induction shs arbitrary: res bs)
  case (Cons i shs)
  obtain r c where 1: "schedule_one w usable i res bs = (Inr r, c)"
    "mset (map ds_shipment (sr_scheduled r) @ sr_unscheduled r) =
       add_mset i (mset (map ds_shipment (sr_scheduled res) @ sr_unscheduled res))"
    "sr_conflicts res = sr_unscheduled res \<longrightarrow> sr_conflicts r = sr_unscheduled r"
    using schedule_one_answers [of w usable i res bs] by blast
  obtain r2 c2 where 2: "for_loop (schedule_one w usable) shs r c = (Inr r2, c2)"
    "mset (map ds_shipment (sr_scheduled r2) @ sr_unscheduled r2) =
       mset shs + mset (map ds_shipment (sr_scheduled r) @ sr_unscheduled r)"
    "sr_conflicts r = sr_unscheduled r \<longrightarrow> sr_conflicts r2 = sr_unscheduled r2"
    using Cons.IH [of r c] by blast
  have "mset (map ds_shipment (sr_scheduled r2) @ sr_unscheduled r2) =
      mset (i # shs) + mset (map ds_shipment (sr_scheduled res) @ sr_unscheduled res)"
    unfolding 2(2) 1(2) by simp
  with 1(1,3) 2(1,3) show ?case by (simp add: bind_def)
qed simp

text \<open>C26: Scheduling never fails and answers for every shipment: each requested shipment is scheduled or
  reported unscheduled, exactly once per request, with one conflict per unscheduled shipment.\<close>

theorem schedule_answers_all:
  "\<exists>r c. schedule_shipments w shs (b, s) = (Inr r, c) \<and>
     mset (map ds_shipment (sr_scheduled r) @ sr_unscheduled r) = mset shs \<and>
     sr_conflicts r = sr_unscheduled r"
proof -
  have gen: "\<exists>x t. for_loop (slots_for_day w d) ds acc u = (Inr x, t)" for d ds acc u
  proof (induction ds arbitrary: acc u)
    case (Cons k ds)
    have "\<exists>x t. slots_for_day w d k acc u = (Inr x, t)"
      by (simp add: slots_for_day_def Let_def bind_assoc)
    then show ?case using Cons by (auto simp: bind_def)
  qed simp
  have "\<exists>c. bind (reads (\<lambda>(b, s). w \<in> fst ` set b)) (\<lambda>known. if known then ret ()
     else bind (in_session get_now) (\<lambda>n. bind (generate_slots w n 7) (\<lambda>_. ret ()))) (b, s) = (Inr (), c)"
    using gen [of "now s" "[0..<7]" "[]" s] by (auto simp: bind_def in_session_def generate_slots_def)
  then obtain c where c: "bind (reads (\<lambda>(b, s). w \<in> fst ` set b)) (\<lambda>known. if known then ret ()
     else bind (in_session get_now) (\<lambda>n. bind (generate_slots w n 7) (\<lambda>_. ret ()))) (b, s) = (Inr (), c)" ..
  have "schedule_shipments w shs (b, s) = bind (reads (\<lambda>(b, s). map slot_id (filter (\<lambda>sl. \<not> slot_is_full sl) (slots_of w b))))
     (\<lambda>usable. for_loop (schedule_one w usable) shs \<lparr>sr_scheduled = [], sr_unscheduled = [], sr_conflicts = []\<rparr>) c"
    using c by (auto simp: schedule_shipments_def bind_def split: prod.splits sum.splits)
  then show ?thesis
    using schedule_loop_answers [of w _ shs "\<lparr>sr_scheduled = [], sr_unscheduled = [], sr_conflicts = []\<rparr>" c]
    by simp
qed

text \<open>The savings of a consolidation are under-reported: when the shipments of a region fill several
  groups only the last of them is credited with savings, all the others keep 0.\<close>

theorem savings_only_last_group:
  assumes "consolidate_region w (region, shs) res s = (Inr r, t)"
  shows "\<exists>gs. cr_groups r = cr_groups res @ gs \<and> list_all (\<lambda>g. cg_savings g = 0) (butlast gs) \<and>
    (gs \<noteq> [] \<longrightarrow> cg_savings (last gs) = of_nat (length (cg_shipments (last gs)) * 5))"
proof -
  define I where "I = (\<lambda>(r :: ConsolidationGroup list \<times> ConsolidationGroup option) (_ :: session). \<exists>gs. fst r = cr_groups res @ gs \<and> (\<forall>g \<in> set gs. cg_savings g = 0) \<and>
     pred_option (\<lambda>g. cg_savings g = 0) (snd r) \<and> (snd r = None \<longrightarrow> fst r = cr_groups res))"
  have "hoare (I r) (consolidate_one w region sh r) I (\<lambda>_ _. False)" for r sh
    by (cases r; cases "snd r")
      (auto simp: I_def hoare_def consolidate_one_def bind_assoc set_shipment_def set_obj_def join_group_def new_group_def group_full_def)
  then have "hoare (I (cr_groups res, None)) (for_loop (consolidate_one w region) shs' (cr_groups res, None)) I
      (\<lambda>_ _. False)" for shs'
    by (intro hoare_for_loop [where I = I])
  from hoare_returns [OF this [of "sort_key (\<lambda>sh. or_default (sh_total_weight_kg sh) 0) shs"], where s = s]
  obtain x u where "for_loop (consolidate_one w region) (sort_key (\<lambda>sh. or_default (sh_total_weight_kg sh) 0) shs)
      (cr_groups res, None) s = (Inr x, u)" and I: "I x u"
    by (auto simp: I_def)
  with assms have "cr_groups r = fst (close_region x (cr_total_savings res))"
    by (auto simp: consolidate_region_def bind_def split_beta)
  with I show ?thesis
    by (auto simp: I_def close_region_def list_all_iff butlast_append split: prod.splits option.splits)
qed

theorem savings_only_last_group_witness:
  "\<exists>r t gs. consolidate_region 1 (''CA-941'', [demo_shipment 2 400, demo_shipment 3 400])
      \<lparr>cr_groups = [], cr_consolidated = 0, cr_total_savings = 0\<rparr> demo_ships = (Inr r, t) \<and>
     cr_groups r = gs \<and> map cg_savings gs = [0, 5]"
proof -
  let ?res = "\<lparr>cr_groups = [], cr_consolidated = 0, cr_total_savings = 0\<rparr>"
  let ?run = "consolidate_region 1 (''CA-941'', [demo_shipment 2 400, demo_shipment 3 400]) ?res demo_ships"
  have "(case fst ?run of Inl e \<Rightarrow> [] | Inr r \<Rightarrow> map cg_shipments (cr_groups r)) = [[2], [3]]" by code_simp
  then obtain r t where run: "?run = (Inr r, t)" and ids: "map cg_shipments (cr_groups r) = [[2], [3]]"
    by (cases ?run) (auto split: sum.splits)
  then obtain g h where gs: "cr_groups r = [g, h]" "cg_shipments h = [3]" by auto
  from savings_only_last_group [OF run] gs show ?thesis
    by (intro exI [of _ r] exI [of _ t] exI [of _ "[g, h]"]) (use run in auto)
qed

end
