(* ===== verification/RoutePlanning.thy ===== *)
theory RoutePlanning
  imports Transport
begin

text \<open>
  \<open>domain/transportation/routing.py\<close> and \<open>services/transportation_service.py\<close>.  What is not under the
  repository is a parameter: \<open>hav\<close> for the great-circle distance that \<open>math\<close> computes in floating
  point, \<open>tsp\<close> for networkx's approximate tour (\<open>None\<close> when it raises) and \<open>parse\<close> for \<open>float\<close> on a
  string.
\<close>

section \<open>RoutePlanner\<close>

record RouteStop =
  rst_stop :: uuid
  rst_address :: pydict
  rst_latitude :: pyfloat
  rst_longitude :: pyfloat
  rst_service_minutes :: int

record RouteOption =
  ro_carrier :: uuid
  ro_stops :: "RouteStop list"
  ro_distance_km :: decimal
  ro_duration :: int
  ro_cost :: decimal
  ro_ordered_stop_ids :: "uuid list"

record RoutePlanningResult =
  rr_shipment :: uuid
  rr_options :: "RouteOption list"
  rr_selected :: "RouteOption option"
  rr_run :: uuid

type_synonym distance = "pyfloat \<Rightarrow> pyfloat \<Rightarrow> pyfloat \<Rightarrow> pyfloat \<Rightarrow> pyfloat"
type_synonym tour = "(nat \<Rightarrow> nat \<Rightarrow> pyfloat) \<Rightarrow> nat \<Rightarrow> nat list option"

definition py_float :: "(string \<Rightarrow> pyfloat option) \<Rightarrow> json \<Rightarrow> exn + pyfloat" where
  "py_float parse v = (case v of JInt n \<Rightarrow> Inr (fl (of_int n)) | JFloat x \<Rightarrow> Inr x | JBool b \<Rightarrow> Inr (of_bool b)
     | JStr x \<Rightarrow> (case parse x of None \<Rightarrow> Inl PyValueError | Some y \<Rightarrow> Inr y)
     | JUuid _ \<Rightarrow> Inl PyValueError | _ \<Rightarrow> Inl PyTypeError)"

definition build_stop :: "(string \<Rightarrow> pyfloat option) \<Rightarrow> ShipmentStop \<Rightarrow> exn + RouteStop" where
  "build_stop parse st =
     (case py_float parse (dict_get (st_address st) ''latitude'' (JInt 0)) of Inl e \<Rightarrow> Inl e | Inr lat \<Rightarrow>
      case py_float parse (dict_get (st_address st) ''longitude'' (JInt 0)) of Inl e \<Rightarrow> Inl e | Inr lon \<Rightarrow>
      Inr \<lparr>rst_stop = st_id st, rst_address = st_address st, rst_latitude = lat, rst_longitude = lon,
           rst_service_minutes = 15\<rparr>)"

definition build_stops :: "(string \<Rightarrow> pyfloat option) \<Rightarrow> ShipmentStop list \<Rightarrow> RouteStop list task" where
  "build_stops parse sts = for_loop (\<lambda>st acc. bind (fetch (\<lambda>_. build_stop parse st)) (\<lambda>x. ret (acc @ [x])))
     (sort_key st_sequence sts) []"

definition stop_distance :: "distance \<Rightarrow> RouteStop \<Rightarrow> RouteStop \<Rightarrow> pyfloat" where
  "stop_distance hav a b = hav (rst_latitude a) (rst_longitude a) (rst_latitude b) (rst_longitude b)"

definition solve_tsp :: "tour \<Rightarrow> (nat \<Rightarrow> nat \<Rightarrow> pyfloat) \<Rightarrow> nat \<Rightarrow> nat list" where
  "solve_tsp tsp graph n = (if n \<le> 2 then [0..<n]
     else case tsp graph n of None \<Rightarrow> [0..<n] | Some path \<Rightarrow> path)"

text \<open>\<open>Decimal(str(round(x, 2)))\<close>.\<close>

definition round2 :: "pyfloat \<Rightarrow> decimal" where
  "round2 x = of_int (rhe (x * 100)) / 100"

fun walk_route :: "distance \<Rightarrow> RouteStop list \<Rightarrow> decimal \<times> int \<Rightarrow> decimal \<times> int" where
  "walk_route hav (a # b # sts) (total_distance, total_duration) =
     (let d = stop_distance hav a b in
      walk_route hav (b # sts) (dadd total_distance (round2 d),
        total_duration + py_int (fmul d 2) + rst_service_minutes a))"
| "walk_route hav _ acc = acc"

definition ordered_indices :: "Settings \<Rightarrow> distance \<Rightarrow> tour \<Rightarrow> RouteStop list \<Rightarrow> nat list" where
  "ordered_indices cfg hav tsp sts =
     (if max_route_stops cfg < length sts then [0..<min (length sts) (max_route_stops cfg)]
      else solve_tsp tsp (\<lambda>i j. stop_distance hav (sts ! min i j) (sts ! max i j)) (length sts))"

definition compute_route :: "Settings \<Rightarrow> distance \<Rightarrow> tour \<Rightarrow> RouteStop list \<Rightarrow> Carrier \<Rightarrow> RouteOption" where
  "compute_route cfg hav tsp sts c =
     (if length sts \<le> 1 then
        \<lparr>ro_carrier = car_id c, ro_stops = sts, ro_distance_km = 0, ro_duration = 0, ro_cost = 0,
         ro_ordered_stop_ids = []\<rparr>
      else
        let ordered_stops = map (\<lambda>i. sts ! i) (ordered_indices cfg hav tsp sts);
            (total_distance, total_duration) = walk_route hav ordered_stops (0, 0)
        in \<lparr>ro_carrier = car_id c, ro_stops = ordered_stops, ro_distance_km = total_distance,
            ro_duration = total_duration,
            ro_cost = dadd (dmul total_distance (or_default (car_cost_per_kg c) (1 / 2))) 25,
            ro_ordered_stop_ids = map rst_stop ordered_stops\<rparr>)"

definition new_route_plan :: "uuid \<Rightarrow> uuid \<Rightarrow> uuid \<Rightarrow> RouteOption \<Rightarrow> bool \<Rightarrow> RoutePlan" where
  "new_route_plan j i run opt sel =
     \<lparr>rp_id = j, rp_shipment = i, rp_carrier = ro_carrier opt, rp_total_distance_km = Some (ro_distance_km opt),
      rp_total_duration_minutes = Some (ro_duration opt), rp_estimated_cost = Some (ro_cost opt),
      rp_ordered_stops = ro_ordered_stop_ids opt, rp_run = Some run, rp_is_selected = sel\<rparr>"

definition persist_option :: "uuid \<Rightarrow> uuid \<Rightarrow> nat \<times> RouteOption \<Rightarrow> unit task" where
  "persist_option i run = (\<lambda>(k, opt). bind fresh_uuid (\<lambda>j.
     bind (add route_plans_update (new_route_plan j i run opt (k = 0))) (\<lambda>_. ret ())))"

definition persist_route_plans :: "uuid \<Rightarrow> RouteOption list \<Rightarrow> uuid \<Rightarrow> unit task" where
  "persist_route_plans i opts run = for_loop (\<lambda>x _. persist_option i run x) (enumerate 0 opts) ()"

definition select_route :: "uuid \<Rightarrow> RouteOption \<Rightarrow> unit task" where
  "select_route i opt = bind (list_alternatives i) (\<lambda>ps.
     for_loop (\<lambda>p _. set_obj route_plans_update rp_id (rp_id p)
       (\<lambda>x. x\<lparr>rp_is_selected := (rp_carrier x = ro_carrier opt)\<rparr>)) ps ())"

definition plan_routes ::
  "Settings \<Rightarrow> distance \<Rightarrow> tour \<Rightarrow> (string \<Rightarrow> pyfloat option) \<Rightarrow> uuid \<Rightarrow> RoutePlanningResult task" where
  "plan_routes cfg hav tsp parse i = bind (get_shipment_with_stops i) (\<lambda>r. case r of
     None \<Rightarrow> raise PyValueError
   | Some (sh, sts) \<Rightarrow>
       bind list_active_carriers (\<lambda>cs.
       bind (build_stops parse sts) (\<lambda>rstops.
       let opts = sort_key ro_cost (map (compute_route cfg hav tsp rstops) cs) in
       bind fresh_uuid (\<lambda>run.
       bind (persist_route_plans i opts run) (\<lambda>_.
       bind (case opts of [] \<Rightarrow> ret () | opt # _ \<Rightarrow> select_route i opt) (\<lambda>_.
       ret \<lparr>rr_shipment = i, rr_options = opts,
            rr_selected = (case opts of [] \<Rightarrow> None | opt # _ \<Rightarrow> Some opt), rr_run = run\<rparr>))))))"

section \<open>TransportationService\<close>

definition service_plan_routes ::
  "Settings \<Rightarrow> distance \<Rightarrow> tour \<Rightarrow> (string \<Rightarrow> pyfloat option) \<Rightarrow> uuid \<Rightarrow> RoutePlanningResult task" where
  "service_plan_routes cfg hav tsp parse i = bind (plan_routes cfg hav tsp parse i) (\<lambda>r.
     bind (audit_record ''shipment'' i ''routes_planned'' None
       (Some [(''option_count'', JInt (int (length (rr_options r))))]) None) (\<lambda>_. ret r))"

section \<open>What a planning run leaves in the database\<close>

definition persisted :: "uuid \<Rightarrow> RouteOption list \<Rightarrow> session \<Rightarrow> session \<Rightarrow> bool" where
  "persisted i opts s t \<longleftrightarrow> lives (carriers t) = lives (carriers s) \<and> (clean (carriers s) \<longrightarrow> clean (carriers t)) \<and>
     (clean (route_plans s) \<longrightarrow> clean (route_plans t)) \<and> next_uuid s \<le> next_uuid t \<and>
     (\<exists>ps. lives (route_plans t) = lives (route_plans s) @ ps \<and> map rp_carrier ps = map ro_carrier opts \<and>
        (\<forall>p \<in> set ps. rp_shipment p = i) \<and> map rp_id ps = [next_uuid s..<next_uuid t])"

lemma persist_one:
  "\<exists>u. persist_option i run (n, opt) s = (Inr (), u) \<and> persisted i [opt] s u"
  by (simp add: persist_option_def add_def session_add_def bind_assoc persisted_def)
    (simp add: new_route_plan_def)

lemma persisted_trans:
  assumes "persisted i xs s t" and "persisted i ys t u"
  shows "persisted i (xs @ ys) s u"
proof -
  obtain ps where ps: "lives (route_plans t) = lives (route_plans s) @ ps" "map rp_carrier ps = map ro_carrier xs"
    "\<forall>p \<in> set ps. rp_shipment p = i" "map rp_id ps = [next_uuid s..<next_uuid t]"
    using assms(1) by (auto simp: persisted_def)
  obtain qs where qs: "lives (route_plans u) = lives (route_plans t) @ qs" "map rp_carrier qs = map ro_carrier ys"
    "\<forall>p \<in> set qs. rp_shipment p = i" "map rp_id qs = [next_uuid t..<next_uuid u]"
    using assms(2) by (auto simp: persisted_def)
  have le: "next_uuid s \<le> next_uuid t" "next_uuid t \<le> next_uuid u" using assms by (simp_all add: persisted_def)
  then have "map rp_id (ps @ qs) = [next_uuid s..<next_uuid u]"
    using ps(4) qs(4) upt_add_eq_append [of "next_uuid s" "next_uuid t" "next_uuid u - next_uuid t"] by simp
  then show ?thesis
    using assms ps qs le unfolding persisted_def by (intro conjI exI [of _ "ps @ qs"]) auto
qed

lemma persist_app: "\<exists>t. persist_route_plans i opts run s = (Inr (), t) \<and> persisted i opts s t"
proof -
  have "\<exists>t. for_loop (\<lambda>x _. persist_option i run x) (enumerate n opts) () s = (Inr (), t) \<and> persisted i opts s t" for n
  proof (induction opts arbitrary: n s)
    case (Cons opt opts)
    obtain u where 1: "persist_option i run (n, opt) s = (Inr (), u)" "persisted i [opt] s u"
      using persist_one by blast
    obtain t where 2: "for_loop (\<lambda>x _. persist_option i run x) (enumerate (Suc n) opts) () u = (Inr (), t)"
      "persisted i opts u t"
      using Cons.IH by blast
    from persisted_trans [OF 1(2) 2(2)] 1(1) 2(1) show ?case by (simp add: bind_def)
  qed (simp add: persisted_def)
  then show ?thesis unfolding persist_route_plans_def .
qed

definition elect :: "uuid \<Rightarrow> uuid \<Rightarrow> RoutePlan \<Rightarrow> RoutePlan" where
  "elect i c p = (if rp_shipment p = i then p\<lparr>rp_is_selected := (rp_carrier p = c)\<rparr> else p)"

lemma set_selected_loop:
  "\<exists>t. for_loop (\<lambda>p _. set_obj route_plans_update rp_id (rp_id p) (\<lambda>x. x\<lparr>rp_is_selected := (rp_carrier x = c)\<rparr>)) ps () s = (Inr (), t) \<and>
     lives (route_plans t) = map (\<lambda>x. if rp_id x \<in> rp_id ` set ps then x\<lparr>rp_is_selected := (rp_carrier x = c)\<rparr> else x)
       (lives (route_plans s)) \<and> carriers t = carriers s \<and> next_uuid t = next_uuid s"
proof (induction ps arbitrary: s)
  case (Cons p ps)
  let ?u = "route_plans_update (upd_row rp_id (rp_id p) (\<lambda>x. x\<lparr>rp_is_selected := (rp_carrier x = c)\<rparr>)) s"
  from Cons.IH [of ?u] show ?case by (auto simp: bind_def set_obj_def upd_list_def)
qed simp

lemma select_route_app:
  assumes "clean (route_plans s)" and "distinct (map rp_id (lives (route_plans s)))"
  shows "\<exists>t. select_route i opt s = (Inr (), t) \<and>
     lives (route_plans t) = map (elect i (ro_carrier opt)) (lives (route_plans s)) \<and>
     carriers t = carriers s \<and> next_uuid t = next_uuid s"
proof -
  let ?key = "\<lambda>p. case rp_estimated_cost p of None \<Rightarrow> (True, 0) | Some c \<Rightarrow> (False, c)"
  let ?ps = "sort_key ?key (filter (\<lambda>p. rp_shipment p = i) (lives (route_plans s)))"
  have "list_alternatives i s = (Inr ?ps, s)"
    by (simp add: list_alternatives_def clean_select_ordered [OF assms(1)])
  moreover have "(if rp_id x \<in> rp_id ` set ?ps then x\<lparr>rp_is_selected := (rp_carrier x = ro_carrier opt)\<rparr> else x) = elect i (ro_carrier opt) x"
    if "x \<in> set (lives (route_plans s))" for x
    using assms(2) that by (auto simp: elect_def distinct_map inj_on_def)
  ultimately show ?thesis
    using set_selected_loop [of "ro_carrier opt" ?ps s]
    by (auto simp: select_route_def bind_def cong: map_cong)
qed

definition route_ids_ok :: "session \<Rightarrow> bool" where
  "route_ids_ok s \<longleftrightarrow> distinct (map rp_id (lives (route_plans s))) \<and> (\<forall>p \<in> set (lives (route_plans s)). rp_id p < next_uuid s)"

definition active_carriers :: "session \<Rightarrow> Carrier list" where
  "active_carriers s = filter car_is_active (lives (carriers s))"

lemma elect_simps [simp]: "rp_id (elect i c p) = rp_id p" "rp_shipment (elect i c p) = rp_shipment p"
    "rp_carrier (elect i c p) = rp_carrier p"
  by (simp_all add: elect_def)

lemma compute_route_carrier [simp]: "ro_carrier (compute_route cfg hav tsp sts c) = car_id c"
  by (simp add: compute_route_def Let_def split_beta)

lemma build_stops_pure: "build_stops parse sts s = (x, t) \<Longrightarrow> t = s"
proof -
  have "snd (for_loop (\<lambda>st acc. bind (fetch (\<lambda>_. build_stop parse st)) (\<lambda>x. ret (acc @ [x]))) ys acc s) = s" for ys acc
    by (induction ys arbitrary: acc) (auto simp: bind_def split: sum.splits)
  then show "build_stops parse sts s = (x, t) \<Longrightarrow> t = s" unfolding build_stops_def by (metis snd_conv)
qed

text \<open>A run appends one plan per active carrier and makes the cheapest carrier's plans the selected ones.\<close>

lemma plan_routes_effect:
  assumes C: "clean_session s" and R: "route_ids_ok s" and run: "plan_routes cfg hav tsp parse i s = (Inr r, t)"
    and some: "active_carriers s \<noteq> []"
  shows "\<exists>rstops ps. rr_options r = sort_key ro_cost (map (compute_route cfg hav tsp rstops) (active_carriers s)) \<and>
     rr_selected r = Some (hd (rr_options r)) \<and>
     lives (route_plans t) = map (elect i (ro_carrier (hd (rr_options r)))) (lives (route_plans s) @ ps) \<and>
     map rp_carrier ps = map ro_carrier (rr_options r) \<and> (\<forall>p \<in> set ps. rp_shipment p = i) \<and>
     lives (carriers t) = lives (carriers s) \<and> route_ids_ok t"
proof -
  have cs: "list_active_carriers s = (Inr (active_carriers s), s)"
    by (simp add: list_active_carriers_def active_carriers_def clean_select_where [OF clean_tables(16) [OF C]])
  obtain sh sts where g: "get_shipment_with_stops i s = (Inr (Some (sh, sts)), s)"
  proof -
    from run [unfolded plan_routes_def] obtain x u where x: "get_shipment_with_stops i s = (Inr x, u)"
      and rest: "(case x of None \<Rightarrow> raise PyValueError | Some (sh, sts) \<Rightarrow> bind list_active_carriers (\<lambda>cs.
       bind (build_stops parse sts) (\<lambda>rstops.
       let opts = sort_key ro_cost (map (compute_route cfg hav tsp rstops) cs) in
       bind fresh_uuid (\<lambda>run. bind (persist_route_plans i opts run) (\<lambda>_.
       bind (case opts of [] \<Rightarrow> ret () | opt # _ \<Rightarrow> select_route i opt) (\<lambda>_.
       ret \<lparr>rr_shipment = i, rr_options = opts,
            rr_selected = (case opts of [] \<Rightarrow> None | opt # _ \<Rightarrow> Some opt), rr_run = run\<rparr>)))))) u = (Inr r, t)"
      by (rule bind_InrE)
    have "x \<noteq> None"
    proof
      assume "x = None"
      with rest show False by simp
    qed
    then obtain sh sts where "x = Some (sh, sts)" by (metis option.exhaust surj_pair)
    moreover have "u = s" using x by (simp add: get_shipment_with_stops_def)
    ultimately show thesis using that x by simp
  qed
  define opts where "opts rstops = sort_key ro_cost (map (compute_route cfg hav tsp rstops) (active_carriers s))" for rstops
  from run obtain rstops u where st: "build_stops parse sts s = (Inr rstops, u)"
    and rest: "bind fresh_uuid (\<lambda>run. bind (persist_route_plans i (opts rstops) run) (\<lambda>_.
       bind (case opts rstops of [] \<Rightarrow> ret () | opt # _ \<Rightarrow> select_route i opt) (\<lambda>_.
       ret \<lparr>rr_shipment = i, rr_options = opts rstops,
            rr_selected = (case opts rstops of [] \<Rightarrow> None | opt # _ \<Rightarrow> Some opt), rr_run = run\<rparr>))) u = (Inr r, t)"
    by (auto simp: plan_routes_def bind_def g cs opts_def Let_def split: prod.splits sum.splits)
  have u: "u = s" by (rule build_stops_pure [OF st])
  let ?s = "s\<lparr>next_uuid := Suc (next_uuid s)\<rparr>"
  obtain v where v: "persist_route_plans i (opts rstops) (next_uuid s) ?s = (Inr (), v)"
    and P: "persisted i (opts rstops) ?s v"
    using persist_app by blast
  obtain ps where ps: "lives (route_plans v) = lives (route_plans s) @ ps"
    "map rp_carrier ps = map ro_carrier (opts rstops)" "\<forall>p \<in> set ps. rp_shipment p = i"
    "map rp_id ps = [Suc (next_uuid s)..<next_uuid v]" and le: "Suc (next_uuid s) \<le> next_uuid v"
    and cv: "lives (carriers v) = lives (carriers s)" and clv: "clean (route_plans v)"
    using P clean_tables(17) [OF C] by (auto simp: persisted_def)
  have new: "rp_id ` set ps = {Suc (next_uuid s)..<next_uuid v}"
    using arg_cong [OF ps(4), of set] by simp
  have "distinct (map rp_id ps)" unfolding ps(4) by simp
  moreover have old: "rp_id p < next_uuid s" if "p \<in> set (lives (route_plans s))" for p
    using R that by (simp add: route_ids_ok_def)
  then have "rp_id ` set (lives (route_plans s)) \<inter> rp_id ` set ps = {}" unfolding new by force
  ultimately have "distinct (map rp_id (lives (route_plans v)))" using R by (simp add: ps(1) route_ids_ok_def)
  moreover have "rp_id p < next_uuid v" if "p \<in> set (lives (route_plans v))" for p
  proof (cases "p \<in> set ps")
    case True
    then have "rp_id p \<in> rp_id ` set ps" by simp
    then show ?thesis unfolding new by simp
  qed (use that le in \<open>auto simp: ps(1) dest: old\<close>)
  ultimately have Rv: "route_ids_ok v" by (simp add: route_ids_ok_def)
  have "opts rstops \<noteq> []" using some by (auto simp: opts_def dest!: arg_cong [where f = length])
  then obtain opt os where ne: "opts rstops = opt # os" by (cases "opts rstops") auto
  obtain w where w: "select_route i opt v = (Inr (), w)" "lives (route_plans w) = map (elect i (ro_carrier opt)) (lives (route_plans v))"
     "carriers w = carriers v" "next_uuid w = next_uuid v"
    using select_route_app [OF clv, of i opt] Rv by (auto simp: route_ids_ok_def)
  have r: "rr_options r = opts rstops" "rr_selected r = Some opt" and t: "t = w"
    using rest v w(1) unfolding u by (auto simp: bind_def ne)
  have "route_ids_ok w" using Rv by (auto simp: route_ids_ok_def w comp_def)
  then show ?thesis using w ps cv ne
    by (intro exI [of _ rstops] exI [of _ ps]) (simp add: r t opts_def [symmetric])
qed

section \<open>Properties\<close>

definition demo_plan :: "session \<Rightarrow> (exn + RoutePlanningResult) \<times> session" where
  "demo_plan = run_request (plan_routes default_settings (\<lambda>_ _ _ _. 1) (\<lambda>_ _. None) (\<lambda>_. None) 2)"

lemma demo_routes_ok: "route_ids_ok demo_ships" "route_ids_ok (snd (demo_plan demo_ships))"
    "active_carriers demo_ships \<noteq> []"
  by code_simp+

text \<open>C27: Route planning picks the cheapest option: there is one option per active carrier, the selected
  one costs no more than any other, and after the commit the shipment's selected plans are exactly
  those of the selected carrier.\<close>

theorem plan_routes_selects_cheapest:
  assumes "clean_session s" and "route_ids_ok s" and "active_carriers s \<noteq> []"
    and "plan_routes cfg hav tsp parse i s = (Inr r, t)"
  shows "\<exists>best. rr_selected r = Some best \<and> best \<in> set (rr_options r) \<and>
    (\<forall>opt \<in> set (rr_options r). ro_cost best \<le> ro_cost opt) \<and>
    ro_carrier ` set (rr_options r) = car_id ` set (active_carriers s) \<and>
    length (rr_options r) = length (active_carriers s) \<and>
    (\<forall>p \<in> set (lives (route_plans (flush t))). rp_shipment p = i \<longrightarrow>
       rp_is_selected p = (rp_carrier p = ro_carrier best))"
proof -
  from plan_routes_effect [OF assms(1,2,4,3)] obtain rstops ps where
    opts: "rr_options r = sort_key ro_cost (map (compute_route cfg hav tsp rstops) (active_carriers s))"
    and sel: "rr_selected r = Some (hd (rr_options r))"
    and t: "lives (route_plans t) = map (elect i (ro_carrier (hd (rr_options r)))) (lives (route_plans s) @ ps)"
    by blast
  have len: "length (rr_options r) = length (active_carriers s)" by (simp add: opts)
  with assms(3) obtain opt os where ne: "rr_options r = opt # os" by (cases "rr_options r") auto
  have "sorted (map ro_cost (rr_options r))" by (simp add: opts)
  then have "\<forall>x \<in> set (rr_options r). ro_cost opt \<le> ro_cost x" by (auto simp: ne)
  moreover have "ro_carrier ` set (rr_options r) = car_id ` set (active_carriers s)" by (simp add: opts image_image)
  moreover have "\<forall>p \<in> set (lives (route_plans (flush t))). rp_shipment p = i \<longrightarrow> rp_is_selected p = (rp_carrier p = ro_carrier opt)"
  proof (intro ballI impI)
    fix p assume "p \<in> set (lives (route_plans (flush t)))" and i: "rp_shipment p = i"
    then obtain q where q: "p = elect i (ro_carrier opt) q" by (auto simp: t ne)
    with i have "rp_shipment q = i" by simp
    with q show "rp_is_selected p = (rp_carrier p = ro_carrier opt)" by (simp add: elect_def)
  qed
  ultimately show ?thesis using sel len
    by (intro exI [of _ opt]) (simp_all add: ne)
qed

theorem plan_routes_selects_cheapest_witness:
  "\<exists>r t. plan_routes default_settings (\<lambda>_ _ _ _. 1) (\<lambda>_ _. None) (\<lambda>_. None) 2 demo_ships = (Inr r, t) \<and>
     length (rr_options r) = 2 \<and> rr_selected r \<noteq> None"
proof -
  let ?m = "plan_routes default_settings (\<lambda>_ _ _ _. 1) (\<lambda>_ _. None) (\<lambda>_. None) 2"
  have "case fst (?m demo_ships) of Inl e \<Rightarrow> False | Inr r \<Rightarrow> True" by code_simp
  then obtain r t where run: "?m demo_ships = (Inr r, t)" by (cases "?m demo_ships") (auto split: sum.splits)
  have "length (active_carriers demo_ships) = 2" by code_simp
  with plan_routes_selects_cheapest [OF demo_ships_clean demo_routes_ok(1,3) run] run show ?thesis by auto
qed

text \<open>Planning the same shipment again breaks it: every run leaves its own plans and selects by
  carrier, so after a second run the selected carrier has two selected plans and the query for
  \<^emph>\<open>the\<close> selected plan raises.\<close>

theorem replanning_breaks_selection:
  assumes "clean_session s" and "route_ids_ok s" and "active_carriers s \<noteq> []"
    and "plan_routes cfg hav tsp parse i s = (Inr r1, t1)"
    and "plan_routes cfg hav tsp parse i (flush t1) = (Inr r2, t2)"
  shows "get_selected_for_shipment i (flush t2) = (Inl MultipleResultsFound, flush t2)"
proof -
  from plan_routes_effect [OF assms(1,2,4,3)] obtain ss1 ps1 where
    o1: "rr_options r1 = sort_key ro_cost (map (compute_route cfg hav tsp ss1) (active_carriers s))"
    and t1: "lives (route_plans t1) = map (elect i (ro_carrier (hd (rr_options r1)))) (lives (route_plans s) @ ps1)"
    and ps1: "map rp_carrier ps1 = map ro_carrier (rr_options r1)" "\<forall>p \<in> set ps1. rp_shipment p = i"
    and c1: "lives (carriers t1) = lives (carriers s)" and R1: "route_ids_ok t1"
    by blast
  have a: "active_carriers (flush t1) = active_carriers s" by (simp add: active_carriers_def c1)
  have "route_ids_ok (flush t1)" using R1 by (simp add: route_ids_ok_def)
  from plan_routes_effect [OF clean_session_flush this assms(5)] assms(3) obtain ss2 ps2 where
    o2: "rr_options r2 = sort_key ro_cost (map (compute_route cfg hav tsp ss2) (active_carriers s))"
    and t2: "lives (route_plans t2) = map (elect i (ro_carrier (hd (rr_options r2)))) (lives (route_plans t1) @ ps2)"
    and ps2: "map rp_carrier ps2 = map ro_carrier (rr_options r2)" "\<forall>p \<in> set ps2. rp_shipment p = i"
    unfolding a by auto
  define c where "c = ro_carrier (hd (rr_options r2))"
  have "rr_options r2 \<noteq> []" using assms(3) by (auto simp: o2 dest!: arg_cong [where f = length])
  then have "c \<in> ro_carrier ` set (rr_options r2)" by (simp add: c_def)
  then have c2: "c \<in> set (map rp_carrier ps2)" unfolding ps2(1) by simp
  moreover have "c \<in> set (map rp_carrier ps1)"
    using \<open>c \<in> ro_carrier ` set (rr_options r2)\<close> unfolding ps1(1) o1 o2 by (auto simp: image_image)
  ultimately obtain p1 p2 where p: "p1 \<in> set ps1" "rp_carrier p1 = c" "p2 \<in> set ps2" "rp_carrier p2 = c" by auto
  let ?P = "\<lambda>p. rp_shipment p = i \<and> rp_is_selected p"
  let ?d = "ro_carrier (hd (rr_options r1))"
  have "rp_is_selected (elect i c (elect i ?d p1))" "rp_is_selected (elect i c p2)" "rp_shipment p1 = i" "rp_shipment p2 = i"
    using p ps1(2) ps2(2) by (simp_all add: elect_def)
  then have "elect i c (elect i ?d p1) \<in> set (filter ?P (map (elect i c) (map (elect i ?d) ps1)))"
    "elect i c p2 \<in> set (filter ?P (map (elect i c) ps2))"
    using p by simp_all
  then have ne: "filter ?P (map (elect i c) (map (elect i ?d) ps1)) \<noteq> []" "filter ?P (map (elect i c) ps2) \<noteq> []"
    by (metis empty_iff empty_set)+
  have "filter ?P (lives (route_plans t2)) = filter ?P (map (elect i c) (map (elect i ?d) (lives (route_plans s)))) @
      filter ?P (map (elect i c) (map (elect i ?d) ps1)) @ filter ?P (map (elect i c) ps2)"
    by (simp only: t2 t1 c_def map_append filter_append append_assoc)
  with ne have "2 \<le> length (filter ?P (lives (route_plans t2)))"
    by (cases "filter ?P (map (elect i c) (map (elect i ?d) ps1))"; cases "filter ?P (map (elect i c) ps2)")
      (simp_all del: filter_map)
  then have "\<exists>x y zs. filter ?P (lives (route_plans t2)) = x # y # zs"
    by (metis Suc_le_length_iff numeral_2_eq_2)
  then show ?thesis
    by (auto simp: get_selected_for_shipment_def clean_select_where scalar_one_or_none_def)
qed

theorem replanning_breaks_selection_witness:
  "fst (get_selected_for_shipment 2 (snd (demo_plan (snd (demo_plan demo_ships))))) = Inl MultipleResultsFound"
proof -
  let ?m = "plan_routes default_settings (\<lambda>_ _ _ _. 1) (\<lambda>_ _. None) (\<lambda>_. None) 2"
  have "case fst (?m demo_ships) of Inl e \<Rightarrow> False | Inr r \<Rightarrow> True" by code_simp
  then obtain r t where run: "?m demo_ships = (Inr r, t)" by (cases "?m demo_ships") (auto split: sum.splits)
  have "case fst (?m (snd (demo_plan demo_ships))) of Inl e \<Rightarrow> False | Inr r \<Rightarrow> True" by code_simp
  moreover have d: "snd (demo_plan demo_ships) = flush t" by (simp add: demo_plan_def run_request_def run)
  ultimately obtain r2 t2 where run2: "?m (flush t) = (Inr r2, t2)"
    by (cases "?m (flush t)") (auto split: sum.splits)
  from replanning_breaks_selection [OF demo_ships_clean demo_routes_ok(1,3) run run2]
  show ?thesis by (simp add: d) (simp add: demo_plan_def run_request_def run2)
qed

end
