(* ===== verification/PurchaseOrders.thy ===== *)
theory PurchaseOrders
  imports Lifecycle
begin

text \<open>
  \<open>domain/procurement/purchase_orders.py\<close> and the purchase order operations of
  \<open>services/procurement_service.py\<close>: the life cycle of a purchase order and receipts against its
  lines.
\<close>

section \<open>PurchaseOrderManager\<close>

definition PO_TRANSITIONS :: transition_dict where
  "PO_TRANSITIONS =
    [(''draft'', [''submitted'', ''cancelled'']),
     (''submitted'', [''acknowledged'', ''cancelled'']),
     (''acknowledged'', [''partially_received'', ''received'', ''cancelled'']),
     (''partially_received'', [''received'', ''closed'']),
     (''received'', [''closed'']),
     (''closed'', []),
     (''cancelled'', [])]"

definition po_allowed :: "string \<Rightarrow> string list" where
  "po_allowed = allowed_from PO_TRANSITIONS"

definition validate_transition :: "string \<Rightarrow> string \<Rightarrow> unit task" where
  "validate_transition current target = raise_if (target \<notin> set (po_allowed current)) WorkflowError"

text \<open>The event bus is optional; its Redis client is too.\<close>

type_synonym event_bus = "EventHandler option"

definition publish_po_event :: "event_bus option \<Rightarrow> uuid \<Rightarrow> string \<Rightarrow> pydict \<Rightarrow> unit task" where
  "publish_po_event bus i action extra = (case bus of None \<Rightarrow> ret () | Some x \<Rightarrow>
     bind (get_by_id_or_raise po_id pos i) (\<lambda>po. bind (reads ctx_correlation) (\<lambda>c. bind get_now (\<lambda>n.
     bind (publish x
       \<lparr>dp_event_type = EventType_value PO_SUBMITTED, dp_aggregate_type = ''purchase_order'',
        dp_aggregate_id = po_id po,
        dp_payload = [(''po_number'', JUuid (po_number po)), (''status'', JStr (po_status po)),
                      (''action'', JStr action)] @ extra,
        dp_correlation = c, dp_causation = None, dp_metadata = [], dp_occurred_at = n\<rparr>) (\<lambda>_. ret ())))))"

definition set_po :: "uuid \<Rightarrow> (PurchaseOrder \<Rightarrow> PurchaseOrder) \<Rightarrow> unit task" where
  "set_po = set_obj pos_update po_id"

definition submit :: "event_bus option \<Rightarrow> uuid \<Rightarrow> uuid task" where
  "submit bus i = bind (get_po_with_lines i) (\<lambda>r. case r of
     None \<Rightarrow> raise ValidationError
   | Some (po, ls) \<Rightarrow>
       bind (validate_transition (po_status po) ''submitted'') (\<lambda>_.
       bind (raise_if (ls = []) ValidationError) (\<lambda>_.
       bind (get_by_id sup_id suppliers (po_supplier po)) (\<lambda>sup.
       bind (raise_if (case sup of None \<Rightarrow> True | Some p \<Rightarrow> \<not> sup_is_active p) ValidationError) (\<lambda>_.
       bind (set_po (po_id po) (\<lambda>p. p\<lparr>po_status := ''submitted''\<rparr>)) (\<lambda>_.
       bind (publish_po_event bus (po_id po) ''submitted'' []) (\<lambda>_. ret (po_id po))))))))"

definition acknowledge :: "event_bus option \<Rightarrow> uuid \<Rightarrow> instant option \<Rightarrow> uuid task" where
  "acknowledge bus i expected_delivery = bind (get_by_id_or_raise po_id pos i) (\<lambda>po.
     bind (validate_transition (po_status po) ''acknowledged'') (\<lambda>_.
     bind (set_po i (\<lambda>p. p\<lparr>po_status := ''acknowledged''\<rparr>)) (\<lambda>_.
     bind (case expected_delivery of None \<Rightarrow> ret ()
           | Some d \<Rightarrow> set_po i (\<lambda>p. p\<lparr>po_expected_delivery := Some d\<rparr>)) (\<lambda>_.
     bind (publish_po_event bus i ''acknowledged'' []) (\<lambda>_. ret i)))))"

text \<open>\<open>po.lines\<close> is loaded once; its elements are the session's objects, read again after updates.\<close>

definition live_lines :: "PurchaseOrderLine list \<Rightarrow> session \<Rightarrow> PurchaseOrderLine list" where
  "live_lines ls s = List.map_filter (\<lambda>l. find (\<lambda>x. pol_line_id x = pol_line_id l) (lives (po_lines s))) ls"

definition set_po_line :: "uuid \<Rightarrow> (PurchaseOrderLine \<Rightarrow> PurchaseOrderLine) \<Rightarrow> unit task" where
  "set_po_line = set_obj po_lines_update pol_line_id"

definition receive_line :: "(uuid \<rightharpoonup> int) \<Rightarrow> PurchaseOrderLine \<Rightarrow> int \<Rightarrow> int task" where
  "receive_line receipts l total_received = (case receipts (pol_line_id l) of
     None \<Rightarrow> ret total_received
   | Some qty \<Rightarrow>
       bind (raise_if (pl_ordered l < pl_received l + qty) ValidationError) (\<lambda>_.
       bind (set_po_line (pol_line_id l) (\<lambda>x. x\<lparr>pl_received := pl_received x + qty,
               pl_status := (if pl_ordered x \<le> pl_received x + qty then ''closed'' else pl_status x)\<rparr>)) (\<lambda>_.
       ret (total_received + qty))))"

definition record_receipt :: "event_bus option \<Rightarrow> uuid \<Rightarrow> (uuid \<rightharpoonup> int) \<Rightarrow> uuid task" where
  "record_receipt bus i receipts = bind (get_po_with_lines i) (\<lambda>r. case r of
     None \<Rightarrow> raise ValidationError
   | Some (po, ls) \<Rightarrow>
       bind (raise_if (po_status po \<notin> {''acknowledged'', ''partially_received''}) WorkflowError) (\<lambda>_.
       bind (for_loop (receive_line receipts) ls 0) (\<lambda>total_received.
       bind (reads (live_lines ls)) (\<lambda>ls'.
       let all_closed = list_all (\<lambda>l. pl_status l = ''closed'') ls';
           any_received = list_ex (\<lambda>l. 0 < pl_received l) ls' in
       bind (if all_closed then set_po (po_id po) (\<lambda>p. p\<lparr>po_status := ''received''\<rparr>)
             else if any_received then set_po (po_id po) (\<lambda>p. p\<lparr>po_status := ''partially_received''\<rparr>)
             else ret ()) (\<lambda>_.
       bind (publish_po_event bus (po_id po) ''receipt_recorded''
               [(''total_received'', JInt total_received)]) (\<lambda>_. ret (po_id po)))))))"

definition close_po :: "uuid \<Rightarrow> uuid task" where
  "close_po i = bind (get_by_id_or_raise po_id pos i) (\<lambda>po.
     bind (validate_transition (po_status po) ''closed'') (\<lambda>_.
     bind (set_po i (\<lambda>p. p\<lparr>po_status := ''closed''\<rparr>)) (\<lambda>_. ret i)))"

definition cancel_po :: "uuid \<Rightarrow> string \<Rightarrow> uuid task" where
  "cancel_po i reason = bind (get_by_id_or_raise po_id pos i) (\<lambda>po.
     bind (validate_transition (po_status po) ''cancelled'') (\<lambda>_.
     bind (raise_if (po_status po \<in> {''received'', ''partially_received''}) WorkflowError) (\<lambda>_.
     bind (set_po i (\<lambda>p. p\<lparr>po_status := ''cancelled'', po_notes := Some (''Cancelled: '' @ reason)\<rparr>)) (\<lambda>_.
     ret i))))"

definition calculate_open_po_value :: "uuid \<Rightarrow> decimal task" where
  "calculate_open_po_value w = bind (list_open_for_warehouse w) (\<lambda>open_pos.
     ret (fold (\<lambda>(po, ls). fold (\<lambda>l tot. dadd tot (dmul (of_int (pl_ordered l - pl_received l)) (pl_unit_cost l))) ls)
       open_pos 0))"

definition list_overdue :: "PurchaseOrder list task" where
  "list_overdue = bind get_now (\<lambda>n. bind (list_pending_receipt 50) (\<lambda>pending.
     ret (filter (\<lambda>po. case po_expected_delivery po of None \<Rightarrow> False | Some d \<Rightarrow> d < n) pending)))"

section \<open>ProcurementService\<close>

definition submit_purchase_order :: "uuid \<Rightarrow> uuid task" where
  "submit_purchase_order i = bind (get_by_id_or_raise po_id pos i) (\<lambda>po.
     bind (raise_if (po_status po \<noteq> ''draft'') PyValueError) (\<lambda>_.
     bind (set_po i (\<lambda>p. p\<lparr>po_status := ''submitted''\<rparr>)) (\<lambda>_.
     bind (audit_record ''purchase_order'' i ''submitted'' (Some [(''status'', JStr ''draft'')])
       (Some [(''status'', JStr ''submitted'')]) None) (\<lambda>_. ret i))))"

text \<open>A line of the request: \<open>unit_cost\<close> may be absent and counts as 0.\<close>

record po_line_data =
  pd_line_sku :: uuid
  pd_line_quantity :: int
  pd_line_unit_cost :: "decimal option"

definition line_cost :: "po_line_data \<Rightarrow> decimal" where
  "line_cost d = (case pd_line_unit_cost d of None \<Rightarrow> 0 | Some c \<Rightarrow> c)"

definition create_po :: "uuid \<Rightarrow> uuid \<Rightarrow> po_line_data list \<Rightarrow> uuid task" where
  "create_po supplier w ls = bind fresh_uuid (\<lambda>number. bind fresh_uuid (\<lambda>i. bind get_now (\<lambda>n.
     bind (add pos_update
       \<lparr>po_id = i, po_number = number, po_supplier = supplier, po_warehouse = w, po_status = ''draft'',
        po_order_date = n, po_expected_delivery = None,
        po_total_amount = fold (\<lambda>d tot. dadd tot (dmul (of_int (pd_line_quantity d)) (line_cost d))) ls 0,
        po_currency = ''USD'', po_run = None, po_notes = None, po_version = 1\<rparr>) (\<lambda>po.
     bind (for_loop (\<lambda>d _. bind fresh_uuid (\<lambda>j. session_add po_lines_update
       \<lparr>pol_line_id = j, pl_po = po_id po, pl_sku = pd_line_sku d, pl_ordered = pd_line_quantity d,
        pl_received = 0, pl_unit_cost = line_cost d, pl_status = ''open''\<rparr>)) ls ()) (\<lambda>_.
     ret (po_id po))))))"

section \<open>The status table\<close>

definition po_statuses :: "string set" where
  "po_statuses = set (map fst PO_TRANSITIONS)"

definition po_rank :: "string \<Rightarrow> nat" where
  "po_rank st = (if st = ''draft'' then 5 else if st = ''submitted'' then 4
     else if st = ''acknowledged'' then 3 else if st = ''partially_received'' then 2
     else if st = ''received'' then 1 else 0)"

lemmas po_table_simps = po_allowed_def allowed_from_def PO_TRANSITIONS_def po_statuses_def po_rank_def

interpretation po_table: ranked_table po_allowed po_statuses po_rank
  by unfold_locales (auto simp: po_table_simps split: if_splits)

section \<open>Receipts\<close>

definition line_ok :: "PurchaseOrderLine \<Rightarrow> bool" where
  "line_ok l \<longleftrightarrow> 0 \<le> pl_received l \<and> pl_received l \<le> pl_ordered l \<and>
     (pl_status l = ''closed'' \<longrightarrow> pl_received l = pl_ordered l)"

definition po_lines_ok :: "session \<Rightarrow> bool" where
  "po_lines_ok s \<longleftrightarrow> distinct (map pol_line_id (lives (po_lines s))) \<and>
     (\<forall>l \<in> set (lives (po_lines s)). line_ok l \<and> pol_line_id l < next_uuid s \<and> pl_po l < next_uuid s) \<and>
     (\<forall>p \<in> set (lives (pos s)). po_id p < next_uuid s)"

definition lines_closed :: "uuid \<Rightarrow> session \<Rightarrow> bool" where
  "lines_closed i s \<longleftrightarrow> (\<forall>l \<in> set (lives (po_lines s)). pl_po l = i \<longrightarrow> pl_status l = ''closed'')"

text \<open>\<open>received\<close> means received: every line of such an order is closed, hence complete.\<close>

definition po_inv :: "session \<Rightarrow> bool" where
  "po_inv s \<longleftrightarrow> po_lines_ok s \<and>
     (\<forall>p \<in> set (lives (pos s)). po_status p = ''received'' \<longrightarrow> lines_closed (po_id p) s)"

lemmas po_inv_defs = po_inv_def po_lines_ok_def lines_closed_def

lemma po_inv_frame:
  "po_inv s \<Longrightarrow> po_inv (s\<lparr>next_uuid := Suc (next_uuid s)\<rparr>)"
  "po_inv s \<Longrightarrow> po_inv (events_update f s)"
  "po_inv s \<Longrightarrow> po_inv (audits_update g s)"
  "po_inv s \<Longrightarrow> po_inv (flush s)"
  by (auto simp: po_inv_defs)

lemma publish_po_event_preserves:
  assumes "pred_option external bus" and "\<And>s. I s \<Longrightarrow> I (s\<lparr>next_uuid := Suc (next_uuid s)\<rparr>)"
    and "\<And>s f. I s \<Longrightarrow> I (events_update f s)" and "\<And>s. I s \<Longrightarrow> I (flush s)"
  shows "preserves I (publish_po_event bus i a x)"
  unfolding publish_po_event_def get_by_id_or_raise_def get_by_id_def
  by (intro hoare_rules preserves_publish) (use assms in auto)

text \<open>Setting the status of an order to anything but \<open>received\<close>.\<close>

lemma po_inv_set_po:
  assumes "po_inv s" and "\<And>p. po_id (f p) = po_id p"
    and "\<And>p. p \<in> set (lives (pos s)) \<Longrightarrow> po_id p = i \<Longrightarrow> po_status (f p) = ''received'' \<Longrightarrow>
      po_status p = ''received'' \<or> lines_closed i s"
  shows "po_inv (pos_update (upd_row po_id i f) s)"
  using assms by (auto simp: po_inv_defs elim!: in_upd_listE) fastforce+

lemma preserves_set_po:
  assumes "\<And>p. po_id (f p) = po_id p" and "\<And>p. po_status (f p) = ''received'' \<Longrightarrow> po_status p = ''received''"
  shows "preserves po_inv (set_po i f)"
  unfolding set_po_def set_obj_def
  by (intro preserves_modify po_inv_set_po) (auto simp: assms)

definition receipts_pending :: "PurchaseOrderLine list \<Rightarrow> session \<Rightarrow> bool" where
  "receipts_pending ls s \<longleftrightarrow> distinct (map pol_line_id ls) \<and> set ls \<subseteq> set (lives (po_lines s))"

definition same_orders :: "session \<Rightarrow> session \<Rightarrow> bool" where
  "same_orders s t \<longleftrightarrow> pos t = pos s \<and> next_uuid t = next_uuid s \<and>
     map (\<lambda>l. (pol_line_id l, pl_po l)) (lives (po_lines t)) = map (\<lambda>l. (pol_line_id l, pl_po l)) (lives (po_lines s))"

lemma po_inv_receive:
  assumes I: "po_inv s" and l: "l \<in> set (lives (po_lines s))"
    and q: "0 \<le> q" "pl_received l + q \<le> pl_ordered l"
  defines "f \<equiv> \<lambda>x. x\<lparr>pl_received := pl_received x + q,
       pl_status := (if pl_ordered x \<le> pl_received x + q then ''closed'' else pl_status x)\<rparr>"
  shows "po_inv (po_lines_update (upd_row pol_line_id (pol_line_id l) f) s)"
proof -
  have d: "distinct (map pol_line_id (lives (po_lines s)))" using I by (simp add: po_inv_defs)
  have S: "set (upd_list pol_line_id (pol_line_id l) f (lives (po_lines s))) = insert (f l) (set (lives (po_lines s)) - {l})"
    by (rule set_upd_list [OF d l])
  have "line_ok (f l)" using I l q by (auto simp: po_inv_defs line_ok_def f_def)
  moreover have "pl_status l = ''closed'' \<Longrightarrow> pl_status (f l) = ''closed''" by (simp add: f_def)
  moreover have "pol_line_id (f x) = pol_line_id x" "pl_po (f x) = pl_po x" for x by (simp_all add: f_def)
  ultimately show ?thesis using I l by (auto simp: po_inv_defs S map_upd_list_same)
qed

lemma receive_line_step:
  assumes "\<And>q. q \<in> ran receipts \<Longrightarrow> 0 \<le> q"
  shows "hoare (\<lambda>t. po_inv t \<and> same_orders s t \<and> receipts_pending (l # ls) t) (receive_line receipts l n)
    (\<lambda>_ t. po_inv t \<and> same_orders s t \<and> receipts_pending ls t) (\<lambda>_ _. True)"
proof (rule hoareI)
  fix u m t assume P: "po_inv u \<and> same_orders s u \<and> receipts_pending (l # ls) u"
    and run: "receive_line receipts l n u = (Inr m, t)"
  show "po_inv t \<and> same_orders s t \<and> receipts_pending ls t"
  proof (cases "receipts (pol_line_id l)")
    case None
    with P run show ?thesis by (auto simp: receive_line_def receipts_pending_def)
  next
    case (Some q)
    let ?f = "\<lambda>x. x\<lparr>pl_received := pl_received x + q,
       pl_status := (if pl_ordered x \<le> pl_received x + q then ''closed'' else pl_status x)\<rparr>"
    from run Some have t: "t = po_lines_update (upd_row pol_line_id (pol_line_id l) ?f) u"
      and le: "pl_received l + q \<le> pl_ordered l"
      by (auto simp: receive_line_def set_po_line_def set_obj_def split: if_splits)
    have l: "l \<in> set (lives (po_lines u))" using P by (simp add: receipts_pending_def)
    have "0 \<le> q" using assms Some by (auto intro: ranI)
    then have "po_inv t" unfolding t by (intro po_inv_receive) (use P l le in auto)
    moreover have "same_orders s t" using P
      by (simp add: t same_orders_def map_upd_list_same)
    moreover have "receipts_pending ls t"
      using P by (force simp: t receipts_pending_def upd_list_def image_iff)
    ultimately show ?thesis by simp
  qed
qed simp

lemma receive_lines:
  assumes "\<And>q. q \<in> ran receipts \<Longrightarrow> 0 \<le> q"
  shows "hoare (\<lambda>t. po_inv t \<and> same_orders s t \<and> receipts_pending ls t) (for_loop (receive_line receipts) ls n)
    (\<lambda>_ t. po_inv t \<and> same_orders s t) (\<lambda>_ _. True)"
  by (rule hoare_weaken [OF hoare_for_loop_rest [where I = "\<lambda>ls _ t. po_inv t \<and> same_orders s t \<and> receipts_pending ls t"
        and E = "\<lambda>_ _. True", OF receive_line_step [OF assms]]]) auto

lemma in_live_lines:
  assumes "l \<in> set ls" and "x \<in> set (lives (po_lines s))" and "pol_line_id x = pol_line_id l"
    and d: "distinct (map pol_line_id (lives (po_lines s)))"
  shows "x \<in> set (live_lines ls s)"
proof -
  have "find (\<lambda>y. pol_line_id y = pol_line_id l) (lives (po_lines s)) = Some x"
    using assms find_key_unique [OF d assms(2)] by simp
  with assms(1) show ?thesis by (auto simp: live_lines_def List.map_filter_def image_iff intro!: bexI [of _ l])
qed

text \<open>After the loop, if every loaded line is closed then every line of the order is.\<close>

lemma all_closed_after:
  assumes C: "clean_session s" and P: "po_inv t" and S: "same_orders s t"
    and closed: "list_all (\<lambda>l. pl_status l = ''closed'') (live_lines (lines_of_po s i) t)"
  shows "lines_closed i t"
  unfolding lines_closed_def
proof (intro ballI impI)
  fix l assume l: "l \<in> set (lives (po_lines t))" and i: "pl_po l = i"
  have "(pol_line_id l, pl_po l) \<in> set (map (\<lambda>l. (pol_line_id l, pl_po l)) (lives (po_lines s)))"
    using S l unfolding same_orders_def by (metis (mono_tags, lifting) image_eqI list.set_map)
  then obtain l0 where "l0 \<in> set (lives (po_lines s))" "pol_line_id l0 = pol_line_id l" "pl_po l0 = i"
    using i by auto
  then have "l0 \<in> set (lines_of_po s i)"
    by (simp add: lines_of_po_def clean_select_where [OF clean_tables(13) [OF C]])
  from in_live_lines [OF this l] P have "l \<in> set (live_lines (lines_of_po s i) t)"
    using \<open>pol_line_id l0 = pol_line_id l\<close> by (simp add: po_inv_defs)
  with closed show "pl_status l = ''closed''" by (simp add: list_all_iff)
qed

section \<open>The walk of a purchase order through its statuses\<close>

definition po_walks :: "session \<Rightarrow> session \<Rightarrow> bool" where
  "po_walks s t \<longleftrightarrow> map po_id (lives (pos t)) = map po_id (lives (pos s)) \<and> (\<forall>p' \<in> set (lives (pos t)). \<exists>p \<in> set (lives (pos s)). po_id p' = po_id p \<and>
     (po_status p' = po_status p \<or> po_status p' \<in> set (po_allowed (po_status p))))"

definition po_keys :: "session \<Rightarrow> bool" where
  "po_keys s \<longleftrightarrow> distinct (map po_id (lives (pos s)))"

lemma po_walks_refl: "pos t = pos s \<Longrightarrow> po_walks s t"
  by (auto simp: po_walks_def)

lemma po_walks_frame:
  "po_walks s u \<Longrightarrow> po_walks s (u\<lparr>next_uuid := n\<rparr>)"
  "po_walks s u \<Longrightarrow> po_walks s (events_update f u)"
  "po_walks s u \<Longrightarrow> po_walks s (audits_update g u)"
  "po_walks s u \<Longrightarrow> po_walks s (flush u)"
  by (simp_all add: po_walks_def)

lemma po_walks_set:
  assumes K: "po_keys s" and po: "po \<in> set (lives (pos s))" and u: "pos u = pos s"
    and f: "\<And>p. po_id (f p) = po_id p" "po_status (f po) = po_status po \<or> po_status (f po) \<in> set (po_allowed (po_status po))"
  shows "po_walks s (pos_update (upd_row po_id (po_id po) f) u)"
proof -
  have "p = po" if "p \<in> set (lives (pos s))" "po_id p = po_id po" for p
    using K po that by (auto simp: po_keys_def distinct_map inj_on_def)
  then show ?thesis using f by (fastforce simp: po_walks_def u map_upd_list_same elim!: in_upd_listE)
qed

lemma get_po_with_lines_Some:
  assumes C: "clean_session s" and run: "get_po_with_lines i s = (Inr (Some (po, ls)), t)"
  shows "t = s" and "po \<in> set (lives (pos s))" and "po_id po = i" and "ls = lines_of_po s i"
proof -
  have "filter (\<lambda>p. po_id p = i) (lives (pos s)) = [po]" "t = s" "ls = lines_of_po s (po_id po)"
    using run by (auto simp: get_po_with_lines_def clean_select_where [OF clean_tables(12) [OF C]]
        scalar_one_or_none_def split: list.splits)
  moreover from this(1) have "po \<in> set (filter (\<lambda>p. po_id p = i) (lives (pos s)))" by simp
  then have "po \<in> set (lives (pos s))" "po_id po = i" by simp_all
  ultimately show "t = s" "po \<in> set (lives (pos s))" "po_id po = i" "ls = lines_of_po s i" by simp_all
qed

lemma get_po_with_lines_pure: "get_po_with_lines i s = (r, t) \<Longrightarrow> t = s"
  by (simp add: get_po_with_lines_def)

lemma bind_get_po_with_lines:
  assumes "bind (get_po_with_lines i) (\<lambda>r. case r of None \<Rightarrow> raise e | Some (po, ls) \<Rightarrow> f po ls) s = (Inr x, t)"
  obtains po ls where "get_po_with_lines i s = (Inr (Some (po, ls)), s)" and "f po ls s = (Inr x, t)"
proof -
  obtain r u where g: "get_po_with_lines i s = (Inr r, u)"
    and f: "(case r of None \<Rightarrow> raise e | Some (po, ls) \<Rightarrow> f po ls) u = (Inr x, t)"
    using assms by (auto simp: bind_Inr_iff)
  have "u = s" by (rule get_po_with_lines_pure [OF g])
  with f g that show thesis by (auto split: option.splits)
qed

text \<open>The last step of the operations: publish, which keeps whatever the update established.\<close>

lemma publish_po_event_keeps:
  assumes "pred_option external bus" and "publish_po_event bus i a x u = (r, t)"
  shows "po_walks s u \<Longrightarrow> po_walks s t" and "po_inv u \<Longrightarrow> po_inv t"
  by (rule preserves_ok [OF publish_po_event_preserves [OF assms(1)] _ assms(2)];
      (rule po_walks_frame po_inv_frame | assumption)+)+

lemma submit_step:
  assumes C: "clean_session s" and K: "po_keys s" and B: "pred_option external bus" and I: "po_inv s"
    and run: "submit bus i s = (Inr j, t)"
  shows "po_walks s t \<and> po_inv t"
proof -
  let ?f = "\<lambda>p. p\<lparr>po_status := ''submitted''\<rparr>"
  from run [unfolded submit_def] obtain po ls where g: "get_po_with_lines i s = (Inr (Some (po, ls)), s)"
    and body: "bind (validate_transition (po_status po) ''submitted'') (\<lambda>_.
       bind (raise_if (ls = []) ValidationError) (\<lambda>_.
       bind (get_by_id sup_id suppliers (po_supplier po)) (\<lambda>sup.
       bind (raise_if (case sup of None \<Rightarrow> True | Some p \<Rightarrow> \<not> sup_is_active p) ValidationError) (\<lambda>_.
       bind (set_po (po_id po) (\<lambda>p. p\<lparr>po_status := ''submitted''\<rparr>)) (\<lambda>_.
       bind (publish_po_event bus (po_id po) ''submitted'' []) (\<lambda>_. ret (po_id po))))))) s = (Inr j, t)"
    by (rule bind_get_po_with_lines)
  from body obtain r where tr: "''submitted'' \<in> set (po_allowed (po_status po))"
    and pub: "publish_po_event bus (po_id po) ''submitted'' [] (pos_update (upd_row po_id (po_id po) ?f) s) = (r, t)"
    by (auto simp: bind_Inr_iff validate_transition_def get_by_id_def set_po_def set_obj_def
        split: option.splits if_splits)
  note po = get_po_with_lines_Some [OF C g]
  have "po_walks s (pos_update (upd_row po_id (po_id po) ?f) s)"
    by (rule po_walks_set [OF K po(2)]) (simp_all add: tr)
  moreover have "po_inv (pos_update (upd_row po_id (po_id po) ?f) s)"
    by (rule po_inv_set_po [OF I]) simp_all
  ultimately show ?thesis using publish_po_event_keeps [OF B pub] by blast
qed

lemma upd_row_twice:
  "(\<And>r. key (f r) = key r) \<Longrightarrow> upd_row key i g (upd_row key i f t) = upd_row key i (\<lambda>r. g (f r)) t"
  by (auto simp: upd_row_def)

lemma acknowledge_step:
  assumes K: "po_keys s" and B: "pred_option external bus" and I: "po_inv s"
    and run: "acknowledge bus i d s = (Inr j, t)"
  shows "po_walks s t \<and> po_inv t"
proof -
  let ?f = "\<lambda>p. case d of None \<Rightarrow> p\<lparr>po_status := ''acknowledged''\<rparr>
    | Some x \<Rightarrow> p\<lparr>po_status := ''acknowledged'', po_expected_delivery := Some x\<rparr>"
  from run obtain po u where g: "get_by_id_or_raise po_id pos i s = (Inr po, u)"
    and body: "bind (validate_transition (po_status po) ''acknowledged'') (\<lambda>_.
     bind (set_po i (\<lambda>p. p\<lparr>po_status := ''acknowledged''\<rparr>)) (\<lambda>_.
     bind (case d of None \<Rightarrow> ret () | Some x \<Rightarrow> set_po i (\<lambda>p. p\<lparr>po_expected_delivery := Some x\<rparr>)) (\<lambda>_.
     bind (publish_po_event bus i ''acknowledged'' []) (\<lambda>_. ret i)))) u = (Inr j, t)"
    by (auto simp: acknowledge_def bind_Inr_iff)
  note po = get_by_id_or_raise_ok [OF g]
  from body obtain r where tr: "''acknowledged'' \<in> set (po_allowed (po_status po))"
    and pub: "publish_po_event bus i ''acknowledged'' [] (pos_update (upd_row po_id i ?f) s) = (r, t)"
    by (cases d) (auto simp: bind_Inr_iff validate_transition_def set_po_def set_obj_def po(1) comp_def
        upd_row_twice split: if_splits)
  have "po_walks s (pos_update (upd_row po_id (po_id po) ?f) s)"
    by (rule po_walks_set [OF K po(2)]) (simp_all add: tr split: option.split)
  moreover have "po_inv (pos_update (upd_row po_id i ?f) s)"
    by (rule po_inv_set_po [OF I]) (simp_all split: option.splits)
  ultimately show ?thesis using publish_po_event_keeps [OF B pub] po(3) by blast
qed

lemma close_cancel_step:
  assumes K: "po_keys s" and I: "po_inv s" and po: "po \<in> set (lives (pos s))" "po_id po = i"
    and f: "\<And>p. po_id (f p) = po_id p" "\<And>p. po_status (f p) = st" "st \<noteq> ''received''"
      "st \<in> set (po_allowed (po_status po))"
  shows "po_walks s (pos_update (upd_row po_id i f) s) \<and> po_inv (pos_update (upd_row po_id i f) s)"
  using po_walks_set [OF K po(1) refl, of f] po_inv_set_po [where f = f and i = i, OF I] f po(2) by auto

lemma close_po_step:
  assumes "po_keys s" and "po_inv s" and run: "close_po i s = (Inr j, t)"
  shows "po_walks s t \<and> po_inv t"
proof -
  from run obtain po u where g: "get_by_id_or_raise po_id pos i s = (Inr po, u)"
    and t: "t = pos_update (upd_row po_id i (\<lambda>p. p\<lparr>po_status := ''closed''\<rparr>)) u"
    and tr: "''closed'' \<in> set (po_allowed (po_status po))"
    by (auto simp: close_po_def bind_Inr_iff validate_transition_def set_po_def set_obj_def split: if_splits)
  note po = get_by_id_or_raise_ok [OF g]
  show ?thesis unfolding t po(1) by (rule close_cancel_step [OF assms(1,2) po(2,3) _ _ _ tr]) simp_all
qed

lemma cancel_po_step:
  assumes "po_keys s" and "po_inv s" and run: "cancel_po i reason s = (Inr j, t)"
  shows "po_walks s t \<and> po_inv t"
proof -
  from run obtain po u where g: "get_by_id_or_raise po_id pos i s = (Inr po, u)"
    and t: "t = pos_update (upd_row po_id i (\<lambda>p. p\<lparr>po_status := ''cancelled'',
              po_notes := Some (''Cancelled: '' @ reason)\<rparr>)) u"
    and tr: "''cancelled'' \<in> set (po_allowed (po_status po))"
    by (auto simp: cancel_po_def bind_Inr_iff validate_transition_def set_po_def set_obj_def split: if_splits)
  note po = get_by_id_or_raise_ok [OF g]
  show ?thesis unfolding t po(1) by (rule close_cancel_step [OF assms(1,2) po(2,3) _ _ _ tr]) simp_all
qed

lemma submit_purchase_order_step:
  assumes "po_keys s" and "po_inv s" and run: "submit_purchase_order i s = (Inr j, t)"
  shows "po_walks s t \<and> po_inv t"
proof -
  from run obtain po u r where g: "get_by_id_or_raise po_id pos i s = (Inr po, u)"
    and aud: "audit_record ''purchase_order'' i ''submitted'' (Some [(''status'', JStr ''draft'')])
       (Some [(''status'', JStr ''submitted'')]) None
       (pos_update (upd_row po_id i (\<lambda>p. p\<lparr>po_status := ''submitted''\<rparr>)) u) = (r, t)"
    and tr: "po_status po = ''draft''"
    by (auto simp: submit_purchase_order_def bind_Inr_iff set_po_def set_obj_def split: if_splits)
  note po = get_by_id_or_raise_ok [OF g]
  have "''submitted'' \<in> set (po_allowed (po_status po))" by (simp add: tr po_table_simps)
  with close_cancel_step [OF assms(1,2) po(2,3), of "\<lambda>p. p\<lparr>po_status := ''submitted''\<rparr>" "''submitted''"]
  have "po_walks s (pos_update (upd_row po_id i (\<lambda>p. p\<lparr>po_status := ''submitted''\<rparr>)) u)"
    "po_inv (pos_update (upd_row po_id i (\<lambda>p. p\<lparr>po_status := ''submitted''\<rparr>)) u)"
    unfolding po(1) by simp_all
  then show ?thesis
    using preserves_ok [OF preserves_audit_record [where I = po_inv] _ aud]
      preserves_ok [OF preserves_audit_record [where I = "po_walks s"] _ aud]
    by (simp add: po_walks_frame po_inv_frame)
qed

lemma record_receipt_step:
  assumes C: "clean_session s" and K: "po_keys s" and B: "pred_option external bus" and I: "po_inv s"
    and q: "\<And>q. q \<in> ran receipts \<Longrightarrow> 0 \<le> q"
    and run: "record_receipt bus i receipts s = (Inr j, t)"
  shows "po_walks s t \<and> po_inv t"
proof -
  from run [unfolded record_receipt_def] obtain po ls where
    g: "get_po_with_lines i s = (Inr (Some (po, ls)), s)"
    and body: "bind (raise_if (po_status po \<notin> {''acknowledged'', ''partially_received''}) WorkflowError) (\<lambda>_.
       bind (for_loop (receive_line receipts) ls 0) (\<lambda>total_received.
       bind (reads (live_lines ls)) (\<lambda>ls'.
       let all_closed = list_all (\<lambda>l. pl_status l = ''closed'') ls';
           any_received = list_ex (\<lambda>l. 0 < pl_received l) ls' in
       bind (if all_closed then set_po (po_id po) (\<lambda>p. p\<lparr>po_status := ''received''\<rparr>)
             else if any_received then set_po (po_id po) (\<lambda>p. p\<lparr>po_status := ''partially_received''\<rparr>)
             else ret ()) (\<lambda>_.
       bind (publish_po_event bus (po_id po) ''receipt_recorded''
               [(''total_received'', JInt total_received)]) (\<lambda>_. ret (po_id po)))))) s = (Inr j, t)"
    by (rule bind_get_po_with_lines)
  note po = get_po_with_lines_Some [OF C g]
  from body obtain n u where st: "po_status po \<in> {''acknowledged'', ''partially_received''}"
    and loop: "for_loop (receive_line receipts) ls 0 s = (Inr n, u)"
    and rest: "bind (if list_all (\<lambda>l. pl_status l = ''closed'') (live_lines ls u)
             then set_po (po_id po) (\<lambda>p. p\<lparr>po_status := ''received''\<rparr>)
             else if list_ex (\<lambda>l. 0 < pl_received l) (live_lines ls u)
             then set_po (po_id po) (\<lambda>p. p\<lparr>po_status := ''partially_received''\<rparr>)
             else ret ()) (\<lambda>_.
       bind (publish_po_event bus (po_id po) ''receipt_recorded'' [(''total_received'', JInt n)])
         (\<lambda>_. ret (po_id po))) u = (Inr j, t)"
    by (auto simp: bind_Inr_iff Let_def split: if_splits)
  have "receipts_pending ls s"
    using I by (auto simp: receipts_pending_def po(4) lines_of_po_def clean_select_where [OF clean_tables(13) [OF C]]
        po_inv_defs intro: distinct_map_filter)
  then have Iu: "po_inv u" and S: "same_orders s u"
    using hoare_ok [OF receive_lines [OF q] _ loop, of s] I by (auto simp: same_orders_def)
  have pu: "pos u = pos s" using S by (simp add: same_orders_def)
  define v where "v = (if list_all (\<lambda>l. pl_status l = ''closed'') (live_lines ls u)
             then pos_update (upd_row po_id (po_id po) (\<lambda>p. p\<lparr>po_status := ''received''\<rparr>)) u
             else if list_ex (\<lambda>l. 0 < pl_received l) (live_lines ls u)
             then pos_update (upd_row po_id (po_id po) (\<lambda>p. p\<lparr>po_status := ''partially_received''\<rparr>)) u
             else u)"
  from rest obtain r where pub: "publish_po_event bus (po_id po) ''receipt_recorded''
      [(''total_received'', JInt n)] v = (r, t)"
    by (auto simp: v_def bind_Inr_iff set_po_def set_obj_def split: if_splits)
  have "po_walks s v"
    using st unfolding v_def
    by (auto intro!: po_walks_set [OF K po(2) pu] po_walks_refl [OF pu] simp: po_table_simps)
  moreover have "po_inv v"
    using all_closed_after [OF C Iu S, of i] po(3,4) Iu unfolding v_def
    by (auto intro!: po_inv_set_po)
  ultimately show ?thesis using publish_po_event_keeps [OF B pub] by blast
qed

lemma create_po_step:
  assumes I: "po_inv s" and K: "po_keys s" and q: "\<forall>d \<in> set ls. 0 \<le> pd_line_quantity d"
    and run: "create_po supp w ls s = (Inr j, t)"
  shows "po_inv t \<and> j = Suc (next_uuid s) \<and>
    (\<exists>p. po_id p = j \<and> po_status p = ''draft'' \<and> lives (pos t) = lives (pos s) @ [p])"
proof -
  define p where "p = \<lparr>po_id = Suc (next_uuid s), po_number = next_uuid s, po_supplier = supp, po_warehouse = w,
    po_status = ''draft'', po_order_date = now s, po_expected_delivery = None,
    po_total_amount = fold (\<lambda>d tot. dadd tot (dmul (of_int (pd_line_quantity d)) (line_cost d))) ls 0,
    po_currency = ''USD'', po_run = None, po_notes = None, po_version = 1\<rparr>"
  define u where "u = flush (pos_update (add_row p) (s\<lparr>next_uuid := Suc (Suc (next_uuid s))\<rparr>))"
  let ?body = "\<lambda>d _. bind fresh_uuid (\<lambda>j. session_add po_lines_update
       \<lparr>pol_line_id = j, pl_po = po_id p, pl_sku = pd_line_sku d, pl_ordered = pd_line_quantity d,
        pl_received = 0, pl_unit_cost = line_cost d, pl_status = ''open''\<rparr>)"
  define J where "J v \<longleftrightarrow> po_lines_ok v \<and> lives (pos v) = lives (pos s) @ [p] \<and> Suc (next_uuid s) < next_uuid v \<and>
     (\<forall>p \<in> set (lives (pos v)). po_status p = ''received'' \<longrightarrow> lines_closed (po_id p) v)" for v
  have Ju: "J u" using I by (fastforce simp: J_def u_def po_inv_defs p_def)
  have "hoare J (?body d x) (\<lambda>_. J) (\<lambda>_ _. False)" if "d \<in> set ls" for d x
    using I q that
    by (fastforce simp: hoare_def session_add_def po_inv_defs line_ok_def p_def J_def)
  then have loop: "hoare J (for_loop ?body ls ()) (\<lambda>_. J) (\<lambda>_ _. False)"
    by (intro hoare_for_loop [where I = "\<lambda>_. J"]) auto
  from hoare_returns [OF loop Ju] obtain y v where v: "for_loop ?body ls () u = (Inr y, v)" and Jv: "J v"
    by auto
  have "create_po supp w ls s = (Inr (Suc (next_uuid s)), v)"
    using v by (simp add: create_po_def add_def session_add_def bind_def p_def [symmetric] u_def [symmetric])
      (simp add: p_def)
  with run Jv show ?thesis by (auto simp: po_inv_def p_def J_def)
qed

section \<open>The purchase order requests\<close>

datatype po_call =
    Submit uuid
  | Acknowledge uuid "instant option"
  | Receive uuid "(uuid \<times> int) list"
  | Close uuid
  | Cancel uuid string
  | Service_submit uuid
  | Create uuid uuid "po_line_data list"

primrec po_perform :: "event_bus option \<Rightarrow> po_call \<Rightarrow> unit task" where
  "po_perform bus (Submit i) = as_request (submit bus i)"
| "po_perform bus (Acknowledge i d) = as_request (acknowledge bus i d)"
| "po_perform bus (Receive i receipts) = as_request (record_receipt bus i (map_of receipts))"
| "po_perform bus (Close i) = as_request (close_po i)"
| "po_perform bus (Cancel i reason) = as_request (cancel_po i reason)"
| "po_perform bus (Service_submit i) = as_request (submit_purchase_order i)"
| "po_perform bus (Create supp w ls) = as_request (create_po supp w ls)"

text \<open>Quantities in a request are not negative.\<close>

fun po_call_ok :: "po_call \<Rightarrow> bool" where
  "po_call_ok (Receive i receipts) = (\<forall>(j, q) \<in> set receipts. 0 \<le> q)"
| "po_call_ok (Create supp w ls) = (\<forall>d \<in> set ls. 0 \<le> pd_line_quantity d)"
| "po_call_ok _ = True"

definition po_requests :: "unit task set" where
  "po_requests = {po_perform bus c |bus c. pred_option external bus \<and> po_call_ok c}"

text \<open>What a commit may do to the orders: each walks along the table, and a new one is a draft.\<close>

definition po_connected :: "PurchaseOrder \<Rightarrow> PurchaseOrder \<Rightarrow> bool" where
  "po_connected p p' \<longleftrightarrow> po_id p' = po_id p \<and>
     (\<exists>xs. xs \<noteq> [] \<and> hd xs = po_status p \<and> last xs = po_status p' \<and> chain po_allowed xs)"

definition po_history :: "session \<Rightarrow> session \<Rightarrow> bool" where
  "po_history s t \<longleftrightarrow> (\<forall>p \<in> set (lives (pos s)). \<exists>p' \<in> set (lives (pos t)). po_connected p p')"

lemma po_connected_refl: "po_connected p p"
  unfolding po_connected_def by (intro conjI refl exI [of _ "[po_status p]"]) simp_all

lemma po_connected_step:
  assumes "po_connected p q" and "po_id r = po_id q"
    and "po_status r = po_status q \<or> po_status r \<in> set (po_allowed (po_status q))"
  shows "po_connected p r"
proof -
  obtain xs where id: "po_id q = po_id p"
    and xs: "xs \<noteq> []" "hd xs = po_status p" "last xs = po_status q" "chain po_allowed xs"
    using assms(1) by (auto simp: po_connected_def)
  define ys where "ys = (if po_status r = last xs then xs else xs @ [po_status r])"
  have "ys \<noteq> [] \<and> hd ys = po_status p \<and> last ys = po_status r \<and> chain po_allowed ys"
    using xs assms(3) chain_append_single [OF xs(1), of po_allowed "po_status r"] by (auto simp: ys_def)
  then show ?thesis unfolding po_connected_def using id assms(2) by (intro conjI exI [of _ ys]) simp_all
qed

lemma po_history_walk:
  assumes H: "po_history s t" and W: "po_walks t u" and K: "po_keys t"
  shows "po_history s u"
  unfolding po_history_def
proof
  fix p assume "p \<in> set (lives (pos s))"
  with H obtain p' where p': "p' \<in> set (lives (pos t))" and c: "po_connected p p'"
    by (auto simp: po_history_def)
  have "po_id p' \<in> po_id ` set (lives (pos u))"
    using W p' unfolding po_walks_def by (metis image_eqI list.set_map)
  then obtain p2 where p2: "p2 \<in> set (lives (pos u))" "po_id p2 = po_id p'" by auto
  with W obtain q where q: "q \<in> set (lives (pos t))" "po_id p2 = po_id q"
    "po_status p2 = po_status q \<or> po_status p2 \<in> set (po_allowed (po_status q))"
    unfolding po_walks_def by blast
  have "q = p'" using K q(1,2) p' p2(2) by (auto simp: po_keys_def distinct_map inj_on_def)
  with q(3) have "po_connected p p2" by (intro po_connected_step [OF c p2(2)]) simp
  with p2(1) show "\<exists>p' \<in> set (lives (pos u)). po_connected p p'" by (rule rev_bexI)
qed

lemma po_history_more: "po_history s t \<Longrightarrow> lives (pos u) = lives (pos t) @ ps \<Longrightarrow> po_history s u"
  by (fastforce simp: po_history_def)

lemma po_history_refl: "po_history s s"
  unfolding po_history_def using po_connected_refl by blast

definition po_db :: "session \<Rightarrow> session \<Rightarrow> bool" where
  "po_db s0 s \<longleftrightarrow> po_inv s \<and> po_keys s \<and> po_history s0 s"

lemma po_db_walk: "po_db s0 s \<Longrightarrow> po_walks s t \<and> po_inv t \<Longrightarrow> po_db s0 t"
  unfolding po_db_def by (auto intro: po_history_walk simp: po_keys_def po_walks_def)

lemma po_db_perform:
  assumes C: "clean_session s" and D: "po_db s0 s" and B: "pred_option external bus" and ok: "po_call_ok c"
    and run: "po_perform bus c s = (Inr (), t)"
  shows "po_db s0 t"
proof (cases c)
  case (Create supp w ls)
  then obtain j where j: "create_po supp w ls s = (Inr j, t)" using run by (auto dest!: as_request_Inr)
  have "po_inv s" "po_keys s" "\<forall>d \<in> set ls. 0 \<le> pd_line_quantity d" using D ok Create by (simp_all add: po_db_def)
  from create_po_step [OF this j] obtain p where "po_inv t" "j = Suc (next_uuid s)"
    "po_id p = j" "lives (pos t) = lives (pos s) @ [p]" by blast
  then show ?thesis using D po_history_more [of s0 s t "[p]"]
    by (fastforce simp: po_db_def po_keys_def po_inv_defs)
next
  case (Receive i receipts)
  have "0 \<le> q" if "q \<in> ran (map_of receipts)" for q
    using that ok Receive by (fastforce simp: ran_def dest: map_of_SomeD)
  note step = record_receipt_step [OF C _ B _ this]
  from Receive run obtain j where "record_receipt bus i (map_of receipts) s = (Inr j, t)"
    by (auto dest!: as_request_Inr)
  from step [OF _ _ _ this] D show ?thesis by (intro po_db_walk [OF D]) (simp add: po_db_def)
next
  case (Submit i)
  then obtain j where "submit bus i s = (Inr j, t)" using run by (auto dest!: as_request_Inr)
  from submit_step [OF C _ B _ this] D show ?thesis by (intro po_db_walk [OF D]) (simp add: po_db_def)
next
  case (Acknowledge i d)
  then obtain j where "acknowledge bus i d s = (Inr j, t)" using run by (auto dest!: as_request_Inr)
  from acknowledge_step [OF _ B _ this] D show ?thesis by (intro po_db_walk [OF D]) (simp add: po_db_def)
next
  case (Close i)
  then obtain j where "close_po i s = (Inr j, t)" using run by (auto dest!: as_request_Inr)
  from close_po_step [OF _ _ this] D show ?thesis by (intro po_db_walk [OF D]) (simp add: po_db_def)
next
  case (Cancel i reason)
  then obtain j where "cancel_po i reason s = (Inr j, t)" using run by (auto dest!: as_request_Inr)
  from cancel_po_step [OF _ _ this] D show ?thesis by (intro po_db_walk [OF D]) (simp add: po_db_def)
next
  case (Service_submit i)
  then obtain j where "submit_purchase_order i s = (Inr j, t)" using run by (auto dest!: as_request_Inr)
  from submit_purchase_order_step [OF _ _ this] D show ?thesis by (intro po_db_walk [OF D]) (simp add: po_db_def)
qed

lemma po_db_frame:
  "po_db s0 s \<Longrightarrow> po_db s0 (flush s)" "po_db s0 s \<Longrightarrow> po_db s0 (new_context n c a r s)"
  by (simp_all add: po_db_def po_inv_frame po_keys_def po_history_def)
    (simp add: po_inv_defs new_context_def)

interpretation po_requests: transactional "po_db s0" po_requests for s0
  by unfold_locales (auto simp: po_requests_def intro: po_db_frame dest: po_db_perform)

section \<open>Properties\<close>

definition demo_supplier :: Supplier where
  "demo_supplier = \<lparr>sup_id = 1, sup_code = ''ACME'', sup_name = ''Acme'', sup_contact_email = None,
     sup_lead_time_days = 7, sup_on_time_rate = None, sup_quality_score = None,
     sup_payment_terms_days = 30, sup_is_preferred = True, sup_is_active = True, sup_metrics = []\<rparr>"

definition demo_po :: PurchaseOrder where
  "demo_po = \<lparr>po_id = 2, po_number = 3, po_supplier = 1, po_warehouse = 4, po_status = ''acknowledged'',
     po_order_date = 0, po_expected_delivery = None, po_total_amount = 20, po_currency = ''USD'',
     po_run = None, po_notes = None, po_version = 1\<rparr>"

definition demo_po_line :: PurchaseOrderLine where
  "demo_po_line = \<lparr>pol_line_id = 5, pl_po = 2, pl_sku = 6, pl_ordered = 10, pl_received = 0,
     pl_unit_cost = 2, pl_status = ''open''\<rparr>"

definition demo_po_session :: session where
  "demo_po_session = empty_session\<lparr>suppliers := [Cell (Some demo_supplier) demo_supplier],
     pos := [Cell (Some demo_po) demo_po], po_lines := [Cell (Some demo_po_line) demo_po_line],
     next_uuid := 10\<rparr>"

definition demo_po_after :: "int \<Rightarrow> session" where
  "demo_po_after q = snd (run_request (po_perform None (Receive 2 [(5, q)])) demo_po_session)"

lemma demo_po_start: "clean_session demo_po_session" "po_inv demo_po_session" "po_keys demo_po_session"
  by (simp_all add: clean_session_def demo_po_session_def empty_session_def flush_def flush_table_def
      po_inv_defs po_keys_def lives_def demo_po_def demo_po_line_def line_ok_def)

lemma demo_po_reachable: "0 \<le> q \<Longrightarrow> reachable po_requests demo_po_session (demo_po_after q)"
  unfolding demo_po_after_def po_requests_def
  by (intro reachable.intros CollectI exI [of _ None] exI [of _ "Receive 2 [(5, q)]"]) simp





end
