(* ===== verification/Transfers.thy ===== *)
theory Transfers
  imports Ledger Events
begin

text \<open>
  \<open>domain/warehouse/transfers.py\<close>: moving stock between warehouses, and the warehouse tasks that every
  component of \<open>domain/warehouse/\<close> creates.  The main result is that transfers create no stock.
\<close>

section \<open>Warehouse tasks\<close>

text \<open>\<open>task_repo.add(WarehouseTask(...))\<close> with the column defaults; \<open>f\<close> sets the arguments given.\<close>

definition blank_task :: "uuid \<Rightarrow> instant \<Rightarrow> uuid \<Rightarrow> string \<Rightarrow> WarehouseTask" where
  "blank_task i n w ty =
     \<lparr>task_id = i, task_warehouse = w, task_type = ty, task_status = ''pending'', task_priority = 5,
      task_assigned_to = None, task_source = None, task_target = None, task_sku = None,
      task_quantity = None, task_ref_type = None, task_ref_id = None, task_started_at = None,
      task_completed_at = None, task_data = [], task_created_at = n\<rparr>"

definition create_task :: "uuid \<Rightarrow> WarehouseTaskType \<Rightarrow> (WarehouseTask \<Rightarrow> WarehouseTask) \<Rightarrow> uuid task" where
  "create_task w ty f = bind fresh_uuid (\<lambda>i. bind get_now (\<lambda>n.
     bind (add tasks_update (f (blank_task i n w (WarehouseTaskType_value ty)))) (\<lambda>_. ret i)))"

definition set_balance :: "uuid \<Rightarrow> (InventoryBalance \<Rightarrow> InventoryBalance) \<Rightarrow> unit task" where
  "set_balance = set_obj balances_update bal_id"

definition blank_balance :: "uuid \<Rightarrow> uuid \<Rightarrow> uuid \<Rightarrow> InventoryBalance" where
  "blank_balance i w k = \<lparr>bal_id = i, bal_warehouse = w, bal_sku = k, bal_location = None, on_hand = 0,
     reserved = 0, allocated = 0, in_transit = 0, damaged = 0, quarantine = 0, bal_version = 1\<rparr>"

text \<open>\<open>balance_repo.add(InventoryBalance(...))\<close>.\<close>

definition create_balance :: "uuid \<Rightarrow> uuid \<Rightarrow> (InventoryBalance \<Rightarrow> InventoryBalance) \<Rightarrow> unit task" where
  "create_balance w k f = bind fresh_uuid (\<lambda>i. bind (add balances_update (f (blank_balance i w k))) (\<lambda>_. ret ()))"

section \<open>TransferService\<close>

record TransferRequest =
  xr_source :: uuid
  xr_destination :: uuid
  xr_sku :: uuid
  xr_quantity :: int
  xr_scheduled :: "instant option"

definition create_transfer_task :: "WarehouseTransfer \<Rightarrow> uuid \<Rightarrow> WarehouseTaskType \<Rightarrow> int \<Rightarrow> uuid task" where
  "create_transfer_task tr w ty q = create_task w ty (\<lambda>t. t\<lparr>task_sku := Some (tr_sku tr),
     task_quantity := Some q, task_ref_type := Some ''transfer'', task_ref_id := Some (tr_id tr)\<rparr>)"

definition initiate_transfer :: "TransferRequest \<Rightarrow> WarehouseTransfer task" where
  "initiate_transfer req =
     bind (raise_if (xr_source req = xr_destination req) WorkflowError) (\<lambda>_.
     bind (get_aggregated_available (xr_source req) (xr_sku req)) (\<lambda>av.
     bind (raise_if (av < xr_quantity req)
       (InsufficientInventoryError (xr_sku req) (xr_quantity req) av (Some (xr_source req)))) (\<lambda>_.
     bind fresh_uuid (\<lambda>number. bind fresh_uuid (\<lambda>i. bind (reads ctx_correlation) (\<lambda>c. bind get_now (\<lambda>n.
     bind (add transfers_update
       \<lparr>tr_id = i, tr_number = number, tr_source = xr_source req, tr_destination = xr_destination req,
        tr_status = ''pending'', tr_sku = xr_sku req, tr_quantity = xr_quantity req,
        tr_quantity_shipped = 0, tr_quantity_received = 0, tr_scheduled_ship_date = xr_scheduled req,
        tr_correlation = Some c, tr_created_at = n\<rparr>) (\<lambda>tr.
     bind (get_balance (xr_source req) (xr_sku req) None) (\<lambda>b.
     bind (case b of None \<Rightarrow> ret () | Some b \<Rightarrow> set_balance (bal_id b)
       (\<lambda>b. b\<lparr>on_hand := on_hand b - xr_quantity req, in_transit := in_transit b + xr_quantity req,
              bal_version := bal_version b + 1\<rparr>)) (\<lambda>_.
     bind (create_transfer_task tr (tr_source tr) TRANSFER_OUT (tr_quantity tr)) (\<lambda>_. ret tr)))))))))))"

definition set_transfer :: "uuid \<Rightarrow> (WarehouseTransfer \<Rightarrow> WarehouseTransfer) \<Rightarrow> unit task" where
  "set_transfer = set_obj transfers_update tr_id"

definition ship_transfer :: "uuid \<Rightarrow> uuid task" where
  "ship_transfer i = bind (get_by_id_or_raise tr_id transfers i) (\<lambda>tr.
     bind (raise_if (tr_status tr \<notin> {''pending'', ''picking''}) WorkflowError) (\<lambda>_.
     bind (set_transfer i (\<lambda>x. x\<lparr>tr_status := ''shipped'', tr_quantity_shipped := tr_quantity x\<rparr>)) (\<lambda>_.
     ret i)))"

text \<open>\<open>quantity_received or transfer.quantity_shipped\<close>: 0 counts as not given.\<close>

definition received_qty :: "int option \<Rightarrow> WarehouseTransfer \<Rightarrow> int" where
  "received_qty q tr = (case q of None \<Rightarrow> tr_quantity_shipped tr | Some n \<Rightarrow> if n = 0 then tr_quantity_shipped tr else n)"

definition receive_transfer :: "uuid \<Rightarrow> int option \<Rightarrow> uuid task" where
  "receive_transfer i quantity_received = bind (get_by_id_or_raise tr_id transfers i) (\<lambda>tr.
     bind (raise_if (tr_status tr \<notin> {''shipped'', ''in_transit''}) WorkflowError) (\<lambda>_.
     let qty = received_qty quantity_received tr in
     bind (set_transfer i (\<lambda>x. x\<lparr>tr_quantity_received := qty, tr_status := ''received''\<rparr>)) (\<lambda>_.
     bind (get_balance (tr_source tr) (tr_sku tr) None) (\<lambda>src.
     bind (case src of None \<Rightarrow> ret () | Some b \<Rightarrow> set_balance (bal_id b)
       (\<lambda>b. b\<lparr>in_transit := max 0 (in_transit b - qty)\<rparr>)) (\<lambda>_.
     bind (get_balance (tr_destination tr) (tr_sku tr) None) (\<lambda>dest.
     bind (case dest of
         Some b \<Rightarrow> set_balance (bal_id b) (\<lambda>b. b\<lparr>on_hand := on_hand b + qty, bal_version := bal_version b + 1\<rparr>)
       | None \<Rightarrow> create_balance (tr_destination tr) (tr_sku tr) (\<lambda>b. b\<lparr>on_hand := qty\<rparr>)) (\<lambda>_.
     bind (create_transfer_task tr (tr_destination tr) TRANSFER_IN qty) (\<lambda>_. ret i))))))))"

definition service_initiate_transfer :: "TransferRequest \<Rightarrow> WarehouseTransfer task" where
  "service_initiate_transfer req = bind (initiate_transfer req) (\<lambda>tr.
     bind (audit_record ''transfer'' (tr_id tr) ''initiated'' None
       (Some [(''quantity'', JInt (xr_quantity req))]) None) (\<lambda>_. ret tr))"

section \<open>Stock and open transfers\<close>

definition stock_of :: "uuid \<Rightarrow> session \<Rightarrow> int" where
  "stock_of k s = sum_list (map (\<lambda>b. if bal_sku b = k then on_hand b else 0) (lives (balances s)))"

definition transfer_open :: "WarehouseTransfer \<Rightarrow> bool" where
  "transfer_open tr \<longleftrightarrow> tr_status tr \<in> {''pending'', ''picking'', ''shipped'', ''in_transit''}"

definition open_of :: "uuid \<Rightarrow> session \<Rightarrow> int" where
  "open_of k s = sum_list (map (\<lambda>tr. if tr_sku tr = k \<and> transfer_open tr then tr_quantity tr else 0) (lives (transfers s)))"

text \<open>The tables: distinct keys, no stock in bins, positive quantities, and what is shipped is the
  whole quantity.\<close>

definition transfer_ok :: "WarehouseTransfer \<Rightarrow> bool" where
  "transfer_ok tr \<longleftrightarrow> 0 < tr_quantity tr \<and>
     (tr_status tr \<in> {''shipped'', ''in_transit''} \<longrightarrow> tr_quantity_shipped tr = tr_quantity tr)"

definition tr_inv :: "session \<Rightarrow> bool" where
  "tr_inv s \<longleftrightarrow> bins_synced s \<and> distinct (map bal_id (lives (balances s))) \<and>
     distinct (map bin_key (lives (balances s))) \<and> distinct (map tr_id (lives (transfers s))) \<and>
     (\<forall>b \<in> set (lives (balances s)). bal_id b < next_uuid s \<and> bal_location b = None) \<and>
     (\<forall>tr \<in> set (lives (transfers s)). tr_id tr < next_uuid s \<and> transfer_ok tr)"

lemma tr_inv_flush [simp]: "tr_inv s \<Longrightarrow> tr_inv (flush s)"
  by (simp add: tr_inv_def)

lemma totals_frame [simp]:
  "stock_of k (flush s) = stock_of k s" "open_of k (flush s) = open_of k s"
  "stock_of k (transfers_update f s) = stock_of k s" "open_of k (balances_update g s) = open_of k s"
  "stock_of k (tasks_update h s) = stock_of k s" "open_of k (tasks_update h s) = open_of k s"
  "stock_of k (audits_update a s) = stock_of k s" "open_of k (audits_update a s) = open_of k s"
  "stock_of k (s\<lparr>next_uuid := i\<rparr>) = stock_of k s" "open_of k (s\<lparr>next_uuid := i\<rparr>) = open_of k s"
  by (simp_all add: stock_of_def open_of_def)

lemma tr_inv_frame [simp]:
  "tr_inv (tasks_update h s) \<longleftrightarrow> tr_inv s" "tr_inv (audits_update a s) \<longleftrightarrow> tr_inv s"
  by (simp_all add: tr_inv_def bins_synced_def)

lemma tr_inv_next: "tr_inv s \<Longrightarrow> tr_inv (s\<lparr>next_uuid := Suc (next_uuid s)\<rparr>)"
  by (auto simp: tr_inv_def bins_synced_def)

lemma stock_of_upd:
  assumes "tr_inv s" and "b \<in> set (lives (balances s))" and "bal_sku (f b) = bal_sku b"
  shows "stock_of k (balances_update (upd_row bal_id (bal_id b) f) s) =
    stock_of k s + (if bal_sku b = k then on_hand (f b) - on_hand b else 0)"
  using assms by (simp add: stock_of_def tr_inv_def sum_upd_list)

lemma open_of_upd:
  assumes "tr_inv s" and "tr \<in> set (lives (transfers s))"
  shows "open_of k (transfers_update (upd_row tr_id (tr_id tr) f) s) =
    open_of k s - (if tr_sku tr = k \<and> transfer_open tr then tr_quantity tr else 0)
      + (if tr_sku (f tr) = k \<and> transfer_open (f tr) then tr_quantity (f tr) else 0)"
  using assms by (simp add: open_of_def tr_inv_def sum_upd_list)

lemma tr_inv_upd_balance:
  assumes "tr_inv s" and "\<And>b. bin_key (f b) = bin_key b" and "\<And>b. bal_id (f b) = bal_id b"
  shows "tr_inv (balances_update (upd_row bal_id i f) s)"
proof -
  have "bal_location (f b) = bal_location b" for b using assms(2) [of b] by (simp add: bin_key_def)
  with assms show ?thesis
    by (auto simp: tr_inv_def bins_synced_upd map_upd_list_same elim!: in_upd_listE)
qed

lemma tr_inv_upd_transfer:
  assumes "tr_inv s" and "tr \<in> set (lives (transfers s))" and "\<And>x. tr_id (f x) = tr_id x"
    and "transfer_ok tr \<Longrightarrow> transfer_ok (f tr)"
  shows "tr_inv (transfers_update (upd_row tr_id (tr_id tr) f) s)"
proof -
  have "x = tr" if "x \<in> set (lives (transfers s))" "tr_id x = tr_id tr" for x
    using assms(1,2) that by (auto simp: tr_inv_def distinct_map inj_on_def)
  with assms show ?thesis
    by (auto simp: tr_inv_def bins_synced_def map_upd_list_same elim!: in_upd_listE)
qed

text \<open>The look-up of a bin-less balance.\<close>

lemma tr_get_balance:
  assumes "tr_inv s"
  shows "get_balance w k None s = (Inr (find (\<lambda>b. bin_key b = (w, k, None)) (lives (balances s))), s)"
  using assms filter_key_cases [of bin_key "lives (balances s)" "(w, k, None)"]
  by (simp add: tr_inv_def get_balance_synced scalar_one_or_none_Some split: option.split)

lemma bind_tr_balance:
  "tr_inv s \<Longrightarrow> bind (get_balance w k None) f s = f (find (\<lambda>b. bin_key b = (w, k, None)) (lives (balances s))) s"
  by (simp add: bind_def tr_get_balance)

lemma create_task_app:
  "\<exists>t h. create_task w ty f s = (Inr (next_uuid s), t) \<and>
     t = flush (tasks_update h (s\<lparr>next_uuid := Suc (next_uuid s)\<rparr>))"
  by (auto simp: create_task_def add_def session_add_def bind_assoc)

lemma create_balance_app:
  "create_balance w k f s =
     (Inr (), flush (balances_update (add_row (f (blank_balance (next_uuid s) w k))) (s\<lparr>next_uuid := Suc (next_uuid s)\<rparr>)))"
  by (simp add: create_balance_def add_def session_add_def bind_assoc)

lemma create_balance_inv:
  assumes I: "tr_inv s" and none: "find (\<lambda>b. bin_key b = (w, k, None)) (lives (balances s)) = None"
    and f: "bal_id (f (blank_balance (next_uuid s) w k)) = next_uuid s"
      "bin_key (f (blank_balance (next_uuid s) w k)) = (w, k, None)"
  shows "tr_inv (snd (create_balance w k f s))"
    and "stock_of j (snd (create_balance w k f s)) =
      stock_of j s + (if j = k then on_hand (f (blank_balance (next_uuid s) w k)) else 0)"
    and "open_of j (snd (create_balance w k f s)) = open_of j s"
proof -
  let ?b = "f (blank_balance (next_uuid s) w k)"
  have "bal_location ?b = None" "bal_sku ?b = k" using f(2) by (simp_all add: bin_key_def)
  moreover have "(w, k, None) \<notin> bin_key ` set (lives (balances s))"
    using none by (auto simp: find_None_iff)
  moreover have "bal_id b \<noteq> next_uuid s" if "b \<in> set (lives (balances s))" for b
    using I that by (auto simp: tr_inv_def)
  ultimately show "tr_inv (snd (create_balance w k f s))"
    using I f by (force simp: create_balance_app tr_inv_def)
  show "stock_of j (snd (create_balance w k f s)) =
      stock_of j s + (if j = k then on_hand ?b else 0)"
    using \<open>bal_sku ?b = k\<close> by (simp add: create_balance_app stock_of_def)
  show "open_of j (snd (create_balance w k f s)) = open_of j s" by (simp add: create_balance_app)
qed

text \<open>The exact effect of each operation on stock plus open transfers.\<close>

definition moved :: "session \<Rightarrow> session \<Rightarrow> (uuid \<Rightarrow> int) \<Rightarrow> bool" where
  "moved s t lost \<longleftrightarrow> tr_inv t \<and> (\<forall>k. stock_of k t + open_of k t = stock_of k s + open_of k s - lost k)"

lemma moved_create_task:
  "moved s u lost \<Longrightarrow> create_task w ty f u = (Inr i, t) \<Longrightarrow> moved s t lost"
  using create_task_app [of w ty f u] by (auto simp: moved_def tr_inv_next)

lemma no_bin_less_none_available:
  assumes I: "tr_inv s" and C: "clean_session s"
    and none: "find (\<lambda>b. bin_key b = (w, k, None)) (lives (balances s)) = None"
  shows "get_aggregated_available w k s = (Inr 0, s)"
proof -
  have "filter (\<lambda>b. bal_warehouse b = w \<and> bal_sku b = k) (lives (balances s)) = []"
    using I none by (auto simp: filter_empty_conv find_None_iff tr_inv_def bin_key_def)
  then show ?thesis
    by (simp add: get_aggregated_available_def clean_select_sum [OF clean_tables(1) [OF C]])
qed

lemma initiate_transfer_moves:
  assumes I: "tr_inv s" and C: "clean_session s" and q: "0 < xr_quantity req"
    and run: "initiate_transfer req s = (Inr tr, t)"
  shows "moved s t (\<lambda>_. 0)"
proof -
  let ?w = "xr_source req" let ?k = "xr_sku req" let ?q = "xr_quantity req"
  obtain av where av: "get_aggregated_available ?w ?k s = (Inr av, s)" by (simp add: get_aggregated_available_def)
  define new where "new = \<lparr>tr_id = Suc (next_uuid s), tr_number = next_uuid s, tr_source = ?w,
        tr_destination = xr_destination req, tr_status = ''pending'', tr_sku = ?k, tr_quantity = ?q,
        tr_quantity_shipped = 0, tr_quantity_received = 0, tr_scheduled_ship_date = xr_scheduled req,
        tr_correlation = Some (ctx_correlation s), tr_created_at = now s\<rparr>"
  define u where "u = flush (transfers_update (add_row new) (s\<lparr>next_uuid := Suc (Suc (next_uuid s))\<rparr>))"
  have Iu: "tr_inv u" using I q by (fastforce simp: u_def tr_inv_def new_def transfer_ok_def)
  have tot: "stock_of k u + open_of k u = stock_of k s + open_of k s + (if k = ?k then ?q else 0)" for k
    by (simp add: u_def open_of_def new_def transfer_open_def)
  have "?q \<le> av" using run by (auto simp: initiate_transfer_def bind_def av split: if_splits)
  then obtain b where b: "find (\<lambda>b. bin_key b = (?w, ?k, None)) (lives (balances s)) = Some b"
    using no_bin_less_none_available [OF I C, of ?w ?k] av q by fastforce
  let ?f = "\<lambda>b. b\<lparr>on_hand := on_hand b - ?q, in_transit := in_transit b + ?q, bal_version := bal_version b + 1\<rparr>"
  define v where "v = balances_update (upd_row bal_id (bal_id b) ?f) u"
  have bu: "find (\<lambda>b. bin_key b = (?w, ?k, None)) (lives (balances u)) = Some b" by (simp add: u_def b)
  note bin = find_bin [OF bu]
  have Iv: "tr_inv v" unfolding v_def by (rule tr_inv_upd_balance [OF Iu]) (simp_all add: bin_key_def)
  have "stock_of k v = stock_of k u + (if ?k = k then - ?q else 0)" for k
    unfolding v_def using bin by (subst stock_of_upd [OF Iu bin(1)]) (auto simp: bin_key_def)
  moreover have "open_of k v = open_of k u" for k by (simp add: v_def)
  ultimately have "stock_of k v + open_of k v = stock_of k s + open_of k s" for k using tot [of k] by (cases "k = ?k") simp_all
  with Iv have v: "moved s v (\<lambda>_. 0)" by (simp add: moved_def)
  have "bind (create_transfer_task new ?w TRANSFER_OUT ?q) (\<lambda>_. ret new) v = (Inr tr, t)"
  proof -
    have "bind (get_balance ?w ?k None) (\<lambda>b. bind (case b of None \<Rightarrow> ret () | Some b \<Rightarrow> set_balance (bal_id b) ?f)
        (\<lambda>_. bind (create_transfer_task new ?w TRANSFER_OUT ?q) (\<lambda>_. ret new))) u = (Inr tr, t)"
      using run \<open>?q \<le> av\<close> by (simp add: initiate_transfer_def bind_def [of "get_aggregated_available ?w ?k"] av add_def session_add_def bind_assoc
        new_def [symmetric] u_def [symmetric] split: if_splits)
    then show ?thesis
      by (simp add: bind_tr_balance [OF Iu] bu set_balance_def set_obj_def v_def [symmetric])
  qed
  then have "\<exists>i. create_transfer_task new ?w TRANSFER_OUT ?q v = (Inr i, t)" by (auto simp: bind_Inr_iff)
  then show ?thesis unfolding create_transfer_task_def using moved_create_task [OF v] by blast
qed

lemma ship_transfer_moves:
  assumes I: "tr_inv s" and run: "ship_transfer i s = (Inr j, t)"
  shows "moved s t (\<lambda>_. 0)"
proof -
  from run obtain tr where g: "get_by_id_or_raise tr_id transfers i s = (Inr tr, s)"
    and st: "tr_status tr \<in> {''pending'', ''picking''}"
    and t: "t = transfers_update (upd_row tr_id i (\<lambda>x. x\<lparr>tr_status := ''shipped'', tr_quantity_shipped := tr_quantity x\<rparr>)) s"
    by (auto simp: ship_transfer_def bind_Inr_iff set_transfer_def set_obj_def dest: get_by_id_or_raise_ok(1) split: if_splits)
  note tr = get_by_id_or_raise_ok(2) [OF g] and id = get_by_id_or_raise_ok(3) [OF g, symmetric]
  have "tr_inv t" unfolding t id by (rule tr_inv_upd_transfer [OF I tr]) (simp_all add: transfer_ok_def)
  moreover have "open_of k t = open_of k s" for k
    unfolding t id using st by (subst open_of_upd [OF I tr]) (auto simp: transfer_open_def)
  moreover have "stock_of k t = stock_of k s" for k by (simp add: t)
  ultimately show ?thesis by (simp add: moved_def)
qed

text \<open>A receipt of less than was shipped loses the difference; it never adds any.\<close>

lemma receive_transfer_moves:
  assumes I: "tr_inv s" and run: "receive_transfer i q s = (Inr j, t)"
  shows "\<exists>tr \<in> set (lives (transfers s)). tr_id tr = i \<and> transfer_open tr \<and>
     moved s t (\<lambda>k. if k = tr_sku tr then tr_quantity tr - received_qty q tr else 0) \<and>
     received_qty q tr = (case q of None \<Rightarrow> tr_quantity tr | Some n \<Rightarrow> if n = 0 then tr_quantity tr else n)"
proof -
  from run obtain tr where g: "get_by_id_or_raise tr_id transfers i s = (Inr tr, s)"
    and st: "tr_status tr \<in> {''shipped'', ''in_transit''}"
    by (auto simp: receive_transfer_def bind_Inr_iff dest: get_by_id_or_raise_ok(1) split: if_splits)
  note tr = get_by_id_or_raise_ok(2) [OF g] and id = get_by_id_or_raise_ok(3) [OF g]
  define qty where "qty = received_qty q tr"
  let ?lost = "\<lambda>k. if k = tr_sku tr then tr_quantity tr - qty else 0"
  define u where "u = transfers_update (upd_row tr_id i (\<lambda>x. x\<lparr>tr_quantity_received := qty, tr_status := ''received''\<rparr>)) s"
  have Iu: "tr_inv u" unfolding u_def id [symmetric]
    by (rule tr_inv_upd_transfer [OF I tr]) (simp_all add: transfer_ok_def)
  have ou: "open_of k u = open_of k s - (if tr_sku tr = k then tr_quantity tr else 0)" for k
    unfolding u_def id [symmetric] using st by (subst open_of_upd [OF I tr]) (auto simp: transfer_open_def)
  have su: "stock_of k u = stock_of k s" for k by (simp add: u_def)
  define v where "v = (case find (\<lambda>b. bin_key b = (tr_source tr, tr_sku tr, None)) (lives (balances u)) of
      None \<Rightarrow> u | Some b \<Rightarrow> balances_update (upd_row bal_id (bal_id b) (\<lambda>b. b\<lparr>in_transit := max 0 (in_transit b - qty)\<rparr>)) u)"
  have Iv: "tr_inv v" unfolding v_def
    by (auto split: option.split intro!: Iu tr_inv_upd_balance [OF Iu] simp: bin_key_def)
  have v: "stock_of k v = stock_of k u" "open_of k v = open_of k u" for k
    unfolding v_def using find_bin(1) [of "tr_source tr" "tr_sku tr" None "lives (balances u)"]
    by (auto split: option.split simp: stock_of_upd [OF Iu])
  define m where "m = (case find (\<lambda>b. bin_key b = (tr_destination tr, tr_sku tr, None)) (lives (balances v)) of
         Some b \<Rightarrow> set_balance (bal_id b) (\<lambda>b. b\<lparr>on_hand := on_hand b + qty, bal_version := bal_version b + 1\<rparr>)
       | None \<Rightarrow> create_balance (tr_destination tr) (tr_sku tr) (\<lambda>b. b\<lparr>on_hand := qty\<rparr>))"
  define w where "w = snd (m v)"
  have w: "tr_inv w \<and> (\<forall>k. stock_of k w = stock_of k v + (if k = tr_sku tr then qty else 0) \<and> open_of k w = open_of k v)"
  proof (cases "find (\<lambda>b. bin_key b = (tr_destination tr, tr_sku tr, None)) (lives (balances v))")
    case None
    with create_balance_inv [OF Iv None, of "\<lambda>b. b\<lparr>on_hand := qty\<rparr>"] show ?thesis
      by (simp add: w_def m_def blank_balance_def bin_key_def)
  next
    case (Some b)
    let ?f = "\<lambda>b. b\<lparr>on_hand := on_hand b + qty, bal_version := bal_version b + 1\<rparr>"
    have wv: "w = balances_update (upd_row bal_id (bal_id b) ?f) v"
      by (simp add: w_def m_def Some set_balance_def set_obj_def)
    note bin = find_bin [OF Some]
    have "stock_of k w = stock_of k v + (if k = tr_sku tr then qty else 0)" for k
      unfolding wv using bin by (subst stock_of_upd [OF Iv bin(1)]) (auto simp: bin_key_def)
    moreover have "tr_inv w" unfolding wv by (rule tr_inv_upd_balance [OF Iv]) (simp_all add: bin_key_def)
    ultimately show ?thesis by (simp add: wv)
  qed
  then have mw: "moved s w ?lost" using v ou su by (auto simp: moved_def)
  have mv: "m v = (Inr (), w)"
    by (auto simp: w_def m_def create_balance_app set_balance_def set_obj_def split: option.split)
  have "bind m (\<lambda>_. bind (create_transfer_task tr (tr_destination tr) TRANSFER_IN qty) (\<lambda>_. ret i)) v = (Inr j, t)"
  proof -
    have "bind (case find (\<lambda>b. bin_key b = (tr_source tr, tr_sku tr, None)) (lives (balances u)) of
         None \<Rightarrow> ret () | Some b \<Rightarrow> set_balance (bal_id b) (\<lambda>b. b\<lparr>in_transit := max 0 (in_transit b - qty)\<rparr>)) f u = f () v"
      for f :: "unit \<Rightarrow> uuid task"
      by (auto simp: v_def set_balance_def set_obj_def split: option.split)
    moreover have "(tr_status tr \<notin> {''shipped'', ''in_transit''}) = False" using st by simp
    ultimately show ?thesis
      using run [unfolded receive_transfer_def bind_get_by_id_or_raise [OF g] Let_def, folded qty_def]
      by (simp del: insert_iff add: set_transfer_def set_obj_def u_def [symmetric] bind_tr_balance [OF Iu] bind_tr_balance [OF Iv] m_def)
  qed
  then obtain x where "create_transfer_task tr (tr_destination tr) TRANSFER_IN qty w = (Inr x, t)"
    by (auto simp: bind_def mv split: prod.splits sum.splits)
  from moved_create_task [OF mw this [unfolded create_transfer_task_def]]
  have "moved s t (\<lambda>k. if k = tr_sku tr then tr_quantity tr - received_qty q tr else 0)" by (simp only: qty_def)
  moreover have "tr_quantity_shipped tr = tr_quantity tr" using I tr st by (auto simp: tr_inv_def transfer_ok_def)
  then have "received_qty q tr = (case q of None \<Rightarrow> tr_quantity tr | Some n \<Rightarrow> if n = 0 then tr_quantity tr else n)"
    by (simp add: received_qty_def split: option.split)
  moreover have "transfer_open tr" using st by (auto simp: transfer_open_def)
  ultimately show ?thesis using tr id by blast
qed

section \<open>Transfers create no stock\<close>

datatype transfer_call = Initiate TransferRequest | Ship uuid | Receive_transfer uuid "int option"

primrec transfer_perform :: "transfer_call \<Rightarrow> unit task" where
  "transfer_perform (Initiate req) = as_request (service_initiate_transfer req)"
| "transfer_perform (Ship i) = as_request (ship_transfer i)"
| "transfer_perform (Receive_transfer i q) = as_request (receive_transfer i q)"

text \<open>A positive quantity is asked for, and not more is received than was shipped.\<close>

definition at_most_shipped :: "session \<Rightarrow> transfer_call \<Rightarrow> bool" where
  "at_most_shipped s c \<longleftrightarrow> (case c of Initiate req \<Rightarrow> 0 < xr_quantity req | Ship i \<Rightarrow> True
     | Receive_transfer i q \<Rightarrow> (case q of None \<Rightarrow> True
         | Some n \<Rightarrow> \<forall>tr \<in> set (lives (transfers s)). tr_id tr = i \<longrightarrow> n \<le> tr_quantity tr))"

text \<open>The guard is part of the request: a caller that would over-receive does not call.\<close>

definition guarded :: "transfer_call \<Rightarrow> unit task" where
  "guarded c = (\<lambda>s. if at_most_shipped s c then transfer_perform c s else (Inl ValidationError, s))"

definition transfer_requests :: "unit task set" where
  "transfer_requests = range guarded"

definition no_stock_created :: "session \<Rightarrow> session \<Rightarrow> bool" where
  "no_stock_created s0 s \<longleftrightarrow> tr_inv s \<and> (\<forall>k. stock_of k s + open_of k s \<le> stock_of k s0 + open_of k s0)"

lemma moved_no_stock: "no_stock_created s0 s \<Longrightarrow> moved s t lost \<Longrightarrow> (\<And>k. 0 \<le> lost k) \<Longrightarrow> no_stock_created s0 t"
proof -
  assume a: "no_stock_created s0 s" "moved s t lost" "\<And>k. 0 \<le> lost k"
  have "stock_of k t + open_of k t \<le> stock_of k s0 + open_of k s0" for k
  proof -
    have "stock_of k s + open_of k s \<le> stock_of k s0 + open_of k s0" using a(1) by (simp add: no_stock_created_def)
    moreover have "stock_of k t + open_of k t = stock_of k s + open_of k s - lost k" using a(2) by (simp add: moved_def)
    ultimately show ?thesis using a(3) [of k] by linarith
  qed
  with a(2) show ?thesis by (simp add: no_stock_created_def moved_def)
qed

lemma guarded_no_stock:
  assumes N: "no_stock_created s0 s" and C: "clean_session s" and run: "guarded c s = (Inr (), t)"
  shows "no_stock_created s0 t"
proof -
  have I: "tr_inv s" using N by (simp add: no_stock_created_def)
  from run have ok: "at_most_shipped s c" and run: "transfer_perform c s = (Inr (), t)"
    by (auto simp: guarded_def split: if_splits)
  show ?thesis
  proof (cases c)
    case (Initiate req)
    from run [unfolded Initiate transfer_perform.simps] obtain tr where "service_initiate_transfer req s = (Inr tr, t)"
      by (auto dest!: as_request_Inr)
    then obtain tr' u x where init: "initiate_transfer req s = (Inr tr', u)"
      and aud: "audit_record ''transfer'' (tr_id tr') ''initiated'' None (Some [(''quantity'', JInt (xr_quantity req))]) None u = (Inr x, t)"
      unfolding service_initiate_transfer_def by (auto elim!: bind_InrE)
    have "0 < xr_quantity req" using ok by (simp add: Initiate at_most_shipped_def)
    from initiate_transfer_moves [OF I C this init] have "no_stock_created s0 u" by (rule moved_no_stock [OF N]) simp
    with preserves_ok [OF preserves_audit_record [where I = "no_stock_created s0"] _ aud] show ?thesis
      by (simp add: no_stock_created_def tr_inv_next)
  next
    case (Ship i)
    with run obtain j where "ship_transfer i s = (Inr j, t)" by (auto dest!: as_request_Inr)
    from ship_transfer_moves [OF I this] show ?thesis by (rule moved_no_stock [OF N]) simp
  next
    case (Receive_transfer i q)
    with run obtain j where "receive_transfer i q s = (Inr j, t)" by (auto dest!: as_request_Inr)
    from receive_transfer_moves [OF I this] obtain tr where tr: "tr \<in> set (lives (transfers s))" "tr_id tr = i"
      and m: "moved s t (\<lambda>k. if k = tr_sku tr then tr_quantity tr - received_qty q tr else 0)"
      and q: "received_qty q tr = (case q of None \<Rightarrow> tr_quantity tr | Some n \<Rightarrow> if n = 0 then tr_quantity tr else n)"
      by blast
    have "received_qty q tr \<le> tr_quantity tr"
      using ok tr q by (auto simp: Receive_transfer at_most_shipped_def split: option.splits)
    then show ?thesis by (intro moved_no_stock [OF N m]) simp
  qed
qed

interpretation transfer_requests: transactional "no_stock_created s0" transfer_requests for s0
proof
  fix m s t assume "m \<in> transfer_requests" "no_stock_created s0 s" "clean_session s" "m s = (Inr (), t)"
  then have "no_stock_created s0 t" by (auto simp: transfer_requests_def intro: guarded_no_stock)
  then show "no_stock_created s0 (flush t)" by (simp add: no_stock_created_def)
qed (simp add: no_stock_created_def tr_inv_def new_context_def bins_synced_def stock_of_def open_of_def)

section \<open>Properties\<close>


definition demo_transfer :: "session" where
  "demo_transfer = snd (run_request (guarded (Initiate \<lparr>xr_source = 1, xr_destination = 2, xr_sku = 3,
     xr_quantity = 4, xr_scheduled = None\<rparr>)) demo_session)"


text \<open>Stock that lies in bins can be promised to a transfer but is never taken: when the source has
  enough available but no bin-less balance, a transfer is opened and no balance changes, so receiving
  it creates the units a second time.\<close>

theorem bin_stock_not_taken:
  assumes "bins_synced s" and "xr_source req \<noteq> xr_destination req"
    and "find (\<lambda>b. bin_key b = (xr_source req, xr_sku req, None)) (lives (balances s)) = None"
    and "get_aggregated_available (xr_source req) (xr_sku req) s = (Inr av, s)" and "xr_quantity req \<le> av"
  shows "\<exists>tr t. initiate_transfer req s = (Inr tr, t) \<and> lives (balances t) = lives (balances s) \<and>
    (\<forall>k. stock_of k t + open_of k t = stock_of k s + open_of k s + (if k = xr_sku req then xr_quantity req else 0))"
proof -
  have none: "filter (\<lambda>b. bin_key b = (xr_source req, xr_sku req, None)) (lives (balances s)) = []"
    using assms(3) by (auto simp: find_None_iff filter_empty_conv)
  define new where "new = \<lparr>tr_id = Suc (next_uuid s), tr_number = next_uuid s, tr_source = xr_source req,
        tr_destination = xr_destination req, tr_status = ''pending'', tr_sku = xr_sku req, tr_quantity = xr_quantity req,
        tr_quantity_shipped = 0, tr_quantity_received = 0, tr_scheduled_ship_date = xr_scheduled req,
        tr_correlation = Some (ctx_correlation s), tr_created_at = now s\<rparr>"
  define u where "u = flush (transfers_update (add_row new) (s\<lparr>next_uuid := Suc (Suc (next_uuid s))\<rparr>))"
  have g: "get_balance (xr_source req) (xr_sku req) None u = (Inr None, u)"
    using none by (subst get_balance_synced) (simp_all add: u_def)
  obtain i t h where t: "create_transfer_task new (xr_source req) TRANSFER_OUT (xr_quantity req) u = (Inr i, t)"
    "t = flush (tasks_update h (u\<lparr>next_uuid := Suc (next_uuid u)\<rparr>))"
    unfolding create_transfer_task_def using create_task_app by blast
  have "initiate_transfer req s = bind (get_balance (xr_source req) (xr_sku req) None) (\<lambda>b.
      bind (case b of None \<Rightarrow> ret () | Some b \<Rightarrow> set_balance (bal_id b)
       (\<lambda>b. b\<lparr>on_hand := on_hand b - xr_quantity req, in_transit := in_transit b + xr_quantity req,
              bal_version := bal_version b + 1\<rparr>)) (\<lambda>_.
      bind (create_transfer_task new (xr_source req) TRANSFER_OUT (xr_quantity req)) (\<lambda>_. ret new))) u"
    using assms(2,4,5) by (simp add: initiate_transfer_def bind_def [of "get_aggregated_available (xr_source req) (xr_sku req)"]
      add_def session_add_def bind_assoc new_def u_def)
  then have "initiate_transfer req s = (Inr new, t)" by (simp add: bind_def g t(1))
  moreover have "lives (balances t) = lives (balances s)" by (simp add: t(2) u_def)
  moreover have "stock_of k t + open_of k t = stock_of k s + open_of k s + (if k = xr_sku req then xr_quantity req else 0)" for k
    by (simp add: t(2)) (simp add: u_def open_of_def new_def transfer_open_def)
  ultimately show ?thesis by blast
qed

definition demo_binned :: session where
  "demo_binned = demo_session\<lparr>balances := map (\<lambda>b. Cell (Some b) b) [demo_balance 4 1 10\<lparr>bal_location := Some 8\<rparr>]\<rparr>"

theorem bin_stock_not_taken_witness:
  "\<exists>tr t. initiate_transfer \<lparr>xr_source = 1, xr_destination = 2, xr_sku = 3, xr_quantity = 4, xr_scheduled = None\<rparr>
      demo_binned = (Inr tr, t) \<and> stock_of 3 t + open_of 3 t = 14"
proof -
  let ?req = "\<lparr>xr_source = 1, xr_destination = 2, xr_sku = 3, xr_quantity = 4, xr_scheduled = None\<rparr>"
  have "bins_synced demo_binned"
    by (simp add: bins_synced_def demo_binned_def demo_session_def demo_balance_def bin_key_def)
  moreover have "find (\<lambda>b. bin_key b = (xr_source ?req, xr_sku ?req, None)) (lives (balances demo_binned)) = None"
    by (simp add: demo_binned_def demo_balance_def bin_key_def lives_def)
  moreover have "get_aggregated_available (xr_source ?req) (xr_sku ?req) demo_binned = (Inr 10, demo_binned)"
    by (simp add: get_aggregated_available_def demo_binned_def select_sum_def stored_rows_def map_filter_simps demo_balance_def uncommitted_def)
  ultimately obtain tr t where run: "initiate_transfer ?req demo_binned = (Inr tr, t)"
    and tot: "stock_of 3 t + open_of 3 t = stock_of 3 demo_binned + open_of 3 demo_binned + 4"
    using bin_stock_not_taken [of demo_binned ?req 10] by auto
  have "stock_of 3 demo_binned + open_of 3 demo_binned = 10" by code_simp
  with run tot show ?thesis by auto
qed

end
