(* ===== verification/Receiving.thy ===== *)
theory Receiving
  imports PurchaseOrders Transfers
begin

text \<open>
  \<open>domain/warehouse/receiving.py\<close> and the receiving and transfer operations of
  \<open>services/warehouse_service.py\<close>.
\<close>

section \<open>ReceivingService\<close>

record ReceivingLine =
  rl_sku :: uuid
  rl_expected :: int
  rl_received :: int
  rl_po_line :: "uuid option"
  rl_damage :: int

datatype receiving_discrepancy = Not_on_po uuid | Over_receipt uuid int int

record ReceivingResult =
  rcv_po :: "uuid option"
  rcv_warehouse :: uuid
  rcv_lines :: "ReceivingLine list"
  rcv_tasks :: "uuid list"
  rcv_total :: int
  rcv_discrepancies :: "receiving_discrepancy list"

definition receive_inventory :: "uuid \<Rightarrow> uuid \<Rightarrow> int \<Rightarrow> int \<Rightarrow> unit task" where
  "receive_inventory w k good_qty damage_qty = bind (get_balance w k None) (\<lambda>b. case b of
     None \<Rightarrow> create_balance w k (\<lambda>b. b\<lparr>on_hand := good_qty, damaged := damage_qty\<rparr>)
   | Some b \<Rightarrow> set_balance (bal_id b) (\<lambda>b. b\<lparr>on_hand := on_hand b + good_qty,
       damaged := damaged b + damage_qty, bal_version := bal_version b + 1\<rparr>))"

definition create_receiving_task :: "uuid \<Rightarrow> uuid \<Rightarrow> int \<Rightarrow> uuid \<Rightarrow> uuid task" where
  "create_receiving_task w k q po = bind (reads ctx_correlation) (\<lambda>c.
     create_task w PUTAWAY (\<lambda>t. t\<lparr>task_sku := Some k, task_quantity := Some q,
       task_ref_type := Some ''purchase_order'', task_ref_id := Some po,
       task_data := [(''correlation_id'', JStr c)]\<rparr>))"

text \<open>The current object of a line that was loaded before.\<close>

definition line_now :: "PurchaseOrderLine \<Rightarrow> session \<Rightarrow> PurchaseOrderLine" where
  "line_now l s = (case find (\<lambda>x. pol_line_id x = pol_line_id l) (lives (po_lines s)) of None \<Rightarrow> l | Some x \<Rightarrow> x)"

definition receive_step ::
  "uuid \<Rightarrow> uuid \<Rightarrow> PurchaseOrderLine list \<Rightarrow> ReceivingLine \<Rightarrow> ReceivingResult \<Rightarrow> ReceivingResult task" where
  "receive_step po w ls recv res = (case find (\<lambda>l. pl_sku l = rl_sku recv) ls of
     None \<Rightarrow> ret (res\<lparr>rcv_discrepancies := rcv_discrepancies res @ [Not_on_po (rl_sku recv)]\<rparr>)
   | Some l \<Rightarrow>
       bind (reads (line_now l)) (\<lambda>pl.
       let remaining = pl_ordered pl - pl_received pl;
           res = (if remaining < rl_received recv then res\<lparr>rcv_discrepancies := rcv_discrepancies res @
                    [Over_receipt (rl_sku recv) (rl_received recv) remaining]\<rparr> else res);
           good_qty = rl_received recv - rl_damage recv in
       bind (receive_inventory w (rl_sku recv) good_qty (rl_damage recv)) (\<lambda>_.
       bind (set_po_line (pol_line_id l) (\<lambda>x. x\<lparr>pl_received := pl_received x + rl_received recv,
               pl_status := (if pl_ordered x \<le> pl_received x + rl_received recv then ''closed'' else pl_status x)\<rparr>)) (\<lambda>_.
       bind (create_receiving_task w (rl_sku recv) good_qty po) (\<lambda>i.
       ret (res\<lparr>rcv_tasks := rcv_tasks res @ [i], rcv_total := rcv_total res + rl_received recv\<rparr>))))))"

definition receive_against_po :: "uuid \<Rightarrow> uuid \<Rightarrow> ReceivingLine list \<Rightarrow> ReceivingResult task" where
  "receive_against_po i w recvs = bind (get_po_with_lines i) (\<lambda>r. case r of
     None \<Rightarrow> raise PyValueError
   | Some (po, ls) \<Rightarrow>
       bind (for_loop (receive_step i w ls) recvs
         \<lparr>rcv_po = Some i, rcv_warehouse = w, rcv_lines = recvs, rcv_tasks = [], rcv_total = 0,
          rcv_discrepancies = []\<rparr>) (\<lambda>res.
       bind (reads (\<lambda>s. map (\<lambda>l. line_now l s) ls)) (\<lambda>ls'.
       bind (if list_all (\<lambda>l. pl_ordered l \<le> pl_received l) ls'
             then set_po (po_id po) (\<lambda>p. p\<lparr>po_status := ''received''\<rparr>)
             else if list_ex (\<lambda>l. 0 < pl_received l) ls'
             then set_po (po_id po) (\<lambda>p. p\<lparr>po_status := ''partially_received''\<rparr>)
             else ret ()) (\<lambda>_. ret res))))"

definition service_receive_po :: "uuid \<Rightarrow> uuid \<Rightarrow> ReceivingLine list \<Rightarrow> ReceivingResult task" where
  "service_receive_po i w recvs = bind (receive_against_po i w recvs) (\<lambda>res.
     bind (audit_record ''purchase_order'' i ''received'' None
       (Some [(''total_received'', JInt (rcv_total res))]) None) (\<lambda>_. ret res))"

section \<open>What a receipt does to the stock\<close>

lemma receive_inventory_existing:
  assumes "find (\<lambda>b. bin_key b = (w, k, None)) (lives (balances s)) = Some b" and "tables_ok s"
  shows "\<exists>t. receive_inventory w k g d s = (Inr (), t) \<and>
    lives (balances t) = upd_list bal_id (bal_id b) (\<lambda>b. b\<lparr>on_hand := on_hand b + g,
      damaged := damaged b + d, bal_version := bal_version b + 1\<rparr>) (lives (balances s))"
  using assms by (simp add: receive_inventory_def bind_def get_balance_ok set_balance_def set_obj_def)

section \<open>Properties\<close>

text \<open>Damaged units are subtracted twice when they are received: the good units alone are added to
  \<open>on_hand\<close>, and the damaged ones, which \<open>available\<close> subtracts from \<open>on_hand\<close>, to \<open>damaged\<close>; a receipt of
  \<open>n\<close> units of which \<open>d\<close> are damaged raises what is uncommitted by \<open>n - 2 * d\<close>.\<close>

theorem damaged_counted_twice:
  assumes "tables_ok s" and "b \<in> set (lives (balances s))" and "bin_key b = (w, k, None)"
  shows "\<exists>t b'. receive_inventory w k (n - d) d s = (Inr (), t) \<and> b' \<in> set (lives (balances t)) \<and>
    bal_id b' = bal_id b \<and> uncommitted b' = uncommitted b + n - 2 * d"
proof -
  have f: "find (\<lambda>b. bin_key b = (w, k, None)) (lives (balances s)) = Some b"
    using find_key_unique [of bin_key "lives (balances s)" b] assms by (simp add: tables_ok_def)
  obtain t where t: "receive_inventory w k (n - d) d s = (Inr (), t)"
    "lives (balances t) = upd_list bal_id (bal_id b) (\<lambda>b. b\<lparr>on_hand := on_hand b + (n - d),
      damaged := damaged b + d, bal_version := bal_version b + 1\<rparr>) (lives (balances s))"
    using receive_inventory_existing [OF f assms(1)] by blast
  let ?b = "b\<lparr>on_hand := on_hand b + (n - d), damaged := damaged b + d, bal_version := bal_version b + 1\<rparr>"
  have "?b \<in> set (lives (balances t))"
    using assms(1,2) by (simp add: t(2) tables_ok_def set_upd_list)
  moreover have "uncommitted ?b = uncommitted b + n - 2 * d" by (simp add: uncommitted_def)
  ultimately show ?thesis using t(1) by (intro exI [of _ t] exI [of _ ?b]) simp
qed

theorem damaged_counted_twice_witness:
  "\<exists>t b'. receive_inventory 1 3 (5 - 2) 2 demo_session = (Inr (), t) \<and> b' \<in> set (lives (balances t)) \<and>
     uncommitted b' = 11"
proof -
  have b: "demo_balance 4 1 10 \<in> set (lives (balances demo_session))" "bin_key (demo_balance 4 1 10) = (1, 3, None)"
    "uncommitted (demo_balance 4 1 10) = 10"
    by (simp_all add: demo_session_def lives_def bin_key_def demo_balance_def uncommitted_def)
  from damaged_counted_twice [OF demo_tables_ok b(1,2), of 5 2] b(3) show ?thesis by auto
qed

text \<open>Receiving ignores where the order stands: whatever its status, cancelled and closed included, a
  purchase order whose lines are then all received becomes \<open>received\<close>.\<close>

theorem receiving_ignores_status:
  assumes "get_po_with_lines i s = (Inr (Some (po, ls)), s)" and "po \<in> set (lives (pos s))"
    and "list_all (\<lambda>l. pl_ordered (line_now l s) \<le> pl_received (line_now l s)) ls"
  shows "\<exists>res t. receive_against_po i w [] s = (Inr res, t) \<and>
    (\<exists>p \<in> set (lives (pos t)). po_id p = po_id po \<and> po_status p = ''received'')"
proof -
  have "receive_against_po i w [] s = (Inr \<lparr>rcv_po = Some i, rcv_warehouse = w, rcv_lines = [], rcv_tasks = [],
      rcv_total = 0, rcv_discrepancies = []\<rparr>, pos_update (upd_row po_id (po_id po) (\<lambda>p. p\<lparr>po_status := ''received''\<rparr>)) s)"
    using assms(3) by (simp add: receive_against_po_def bind_def assms(1) set_po_def set_obj_def list_all_iff)
  moreover have "po\<lparr>po_status := ''received''\<rparr> \<in> set (upd_list po_id (po_id po) (\<lambda>p. p\<lparr>po_status := ''received''\<rparr>) (lives (pos s)))"
    using assms(2) by (force simp: upd_list_def)
  ultimately show ?thesis
    by - (intro exI conjI, assumption, rule bexI [of _ "po\<lparr>po_status := ''received''\<rparr>"], simp_all)
qed

definition demo_cancelled :: session where
  "demo_cancelled = demo_po_session\<lparr>pos := [Cell (Some (demo_po\<lparr>po_status := ''cancelled''\<rparr>)) (demo_po\<lparr>po_status := ''cancelled''\<rparr>)],
     po_lines := [Cell (Some (demo_po_line\<lparr>pl_received := 10\<rparr>)) (demo_po_line\<lparr>pl_received := 10\<rparr>)]\<rparr>"

theorem receiving_ignores_status_witness:
  "\<exists>res t. receive_against_po 2 4 [] demo_cancelled = (Inr res, t) \<and>
     map po_status (lives (pos demo_cancelled)) = [''cancelled''] \<and> list_ex (\<lambda>p. po_status p = ''received'') (lives (pos t))"
proof -
  have g: "get_po_with_lines 2 demo_cancelled = (Inr (Some (demo_po\<lparr>po_status := ''cancelled''\<rparr>, [demo_po_line\<lparr>pl_received := 10\<rparr>])), demo_cancelled)"
    by (simp add: get_po_with_lines_def demo_cancelled_def select_where_def stored_sat_def demo_po_def demo_po_line_def
        lines_of_po_def scalar_one_or_none_def)
  have m: "demo_po\<lparr>po_status := ''cancelled''\<rparr> \<in> set (lives (pos demo_cancelled))"
    by (simp add: demo_cancelled_def lives_def)
  have "list_all (\<lambda>l. pl_ordered (line_now l demo_cancelled) \<le> pl_received (line_now l demo_cancelled)) [demo_po_line\<lparr>pl_received := 10\<rparr>]"
    by (simp add: demo_cancelled_def lives_def line_now_def demo_po_line_def)
  from receiving_ignores_status [OF g m this, of 4] obtain res t where
    "receive_against_po 2 4 [] demo_cancelled = (Inr res, t)" "list_ex (\<lambda>p. po_status p = ''received'') (lives (pos t))"
    by (auto simp: list_ex_iff)
  moreover have "map po_status (lives (pos demo_cancelled)) = [''cancelled'']"
    by (simp add: demo_cancelled_def lives_def)
  ultimately show ?thesis by - (intro exI conjI, assumption+)
qed

end
