(* ===== verification/PickPack.thy ===== *)
theory PickPack
  imports Transfers
begin

text \<open>
  \<open>domain/warehouse/pick_pack.py\<close> and \<open>domain/warehouse/putaway.py\<close>: taking stock out of locations and
  putting it into them.
\<close>

section \<open>PickPackService\<close>

record PickLine =
  pk_order_line :: uuid
  pk_sku :: uuid
  pk_quantity :: int
  pk_location :: "uuid option"

record PickWave =
  pw_id :: uuid
  pw_warehouse :: uuid
  pw_order :: uuid
  pw_lines :: "PickLine list"
  pw_tasks :: "uuid list"
  pw_status :: string

record PackResult =
  pa_order :: uuid
  pa_packages :: int
  pa_weight :: pyfloat
  pa_tasks :: "uuid list"

text \<open>The loop returns at the first location with enough; the bin-less balance is looked up and not
  used.\<close>

definition find_pick_location :: "uuid \<Rightarrow> uuid \<Rightarrow> int \<Rightarrow> WarehouseLocation option task" where
  "find_pick_location w k q = bind (list_pickable w None) (\<lambda>locs.
     bind (for_loop (\<lambda>loc found. case found of Some l \<Rightarrow> ret (Some l)
       | None \<Rightarrow> bind (get_balance w k (Some (loc_id loc))) (\<lambda>b.
           ret (case b of None \<Rightarrow> None | Some b \<Rightarrow> if q \<le> available b then Some loc else None))) locs None) (\<lambda>found.
     case found of Some l \<Rightarrow> ret (Some l)
     | None \<Rightarrow> bind (get_balance w k None) (\<lambda>_. ret None)))"

definition pick_line :: "uuid \<Rightarrow> uuid \<Rightarrow> uuid \<Rightarrow> PickLine \<Rightarrow> PickLine list \<times> uuid list \<Rightarrow> (PickLine list \<times> uuid list) task" where
  "pick_line wave w order l = (\<lambda>(done_lines, ts).
     bind (find_pick_location w (pk_sku l) (pk_quantity l)) (\<lambda>loc. case loc of
       None \<Rightarrow> raise (InsufficientInventoryError (pk_sku l) (pk_quantity l) 0 (Some w))
     | Some loc \<Rightarrow>
         bind (create_task w PICK (\<lambda>t. t\<lparr>task_priority := 3, task_source := Some (loc_id loc),
           task_sku := Some (pk_sku l), task_quantity := Some (pk_quantity l),
           task_ref_type := Some ''order'', task_ref_id := Some order,
           task_data := [(''wave_id'', JUuid wave), (''order_line_id'', JUuid (pk_order_line l))]\<rparr>)) (\<lambda>i.
         ret (done_lines @ [l\<lparr>pk_location := Some (loc_id loc)\<rparr>], ts @ [i]))))"

definition create_pick_wave :: "uuid \<Rightarrow> uuid \<Rightarrow> PickLine list \<Rightarrow> PickWave task" where
  "create_pick_wave w order ls = bind fresh_uuid (\<lambda>wave.
     bind (for_loop (pick_line wave w order) ls ([], [])) (\<lambda>(ls, ts).
     ret \<lparr>pw_id = wave, pw_warehouse = w, pw_order = order, pw_lines = ls, pw_tasks = ts,
          pw_status = ''pending''\<rparr>))"

definition set_task :: "uuid \<Rightarrow> (WarehouseTask \<Rightarrow> WarehouseTask) \<Rightarrow> unit task" where
  "set_task = set_obj tasks_update task_id"

definition take_picked :: "int \<Rightarrow> InventoryBalance \<Rightarrow> InventoryBalance" where
  "take_picked q b = b\<lparr>on_hand := on_hand b - q, allocated := max 0 (allocated b - q), bal_version := bal_version b + 1\<rparr>"

definition complete_pick :: "uuid \<Rightarrow> string \<Rightarrow> unit task" where
  "complete_pick i operator = bind (get_by_id_or_raise task_id tasks i) (\<lambda>t.
     bind (raise_if (task_type t \<noteq> ''pick'') PyValueError) (\<lambda>_.
     bind get_now (\<lambda>n.
     bind (set_task i (\<lambda>t. t\<lparr>task_status := ''completed'', task_assigned_to := Some operator,
       task_completed_at := Some n\<rparr>)) (\<lambda>_.
     case (task_source t, task_sku t, task_quantity t) of
       (Some loc, Some k, Some q) \<Rightarrow>
         if q = 0 then ret ()
         else bind (get_balance (task_warehouse t) k (Some loc)) (\<lambda>b. case b of
           None \<Rightarrow> ret () | Some b \<Rightarrow> set_balance (bal_id b) (take_picked q))
     | _ \<Rightarrow> ret ()))))"

definition create_pack_task :: "uuid \<Rightarrow> uuid \<Rightarrow> int \<Rightarrow> PackResult task" where
  "create_pack_task w order package_count =
     bind (for_loop (\<lambda>i ts. bind (create_task w PACK (\<lambda>t. t\<lparr>task_ref_type := Some ''order'',
         task_ref_id := Some order, task_data := [(''package_index'', JInt (int i + 1)),
           (''total_packages'', JInt package_count)]\<rparr>)) (\<lambda>j. ret (ts @ [j]))) [0..<nat package_count] []) (\<lambda>ts.
     ret \<lparr>pa_order = order, pa_packages = package_count, pa_weight = 0, pa_tasks = ts\<rparr>)"

section \<open>PutawayOptimizer\<close>

record PutawayRecommendation =
  pr_sku :: uuid
  pr_quantity :: int
  pr_source :: "uuid option"
  pr_target :: uuid
  pr_zone :: string
  pr_distance :: pyfloat
  pr_capacity_remaining :: int
  pr_reason :: string

record PutawayPlan =
  pp_warehouse :: uuid
  pp_recommendations :: "PutawayRecommendation list"
  pp_tasks :: "uuid list"

definition ZONE_PRIORITY :: "(string \<times> int) list" where
  "ZONE_PRIORITY = [(''A'', 1), (''B'', 2), (''C'', 3), (''D'', 4), (''STAGING'', 0)]"

definition VELOCITY_ZONE_MAP :: "(string \<times> string) list" where
  "VELOCITY_ZONE_MAP = [(''high'', ''A''), (''medium'', ''B''), (''low'', ''C'')]"

definition get_or :: "('k \<times> 'v) list \<Rightarrow> 'k \<Rightarrow> 'v \<Rightarrow> 'v" where
  "get_or d k v0 = (case map_of d k of None \<Rightarrow> v0 | Some v \<Rightarrow> v)"

text \<open>\<open>int(location.aisle)\<close> raises for an aisle that is not a number: \<open>num\<close> parses it.\<close>

definition distance_score :: "(string \<Rightarrow> int option) \<Rightarrow> WarehouseLocation \<Rightarrow> exn + pyfloat" where
  "distance_score num loc = (let zone_score = of_int (get_or ZONE_PRIORITY (loc_zone loc) 5) in
     case loc_aisle loc of None \<Rightarrow> Inr zone_score
     | Some a \<Rightarrow> if a = [] then Inr zone_score
         else case num a of None \<Rightarrow> Inl PyValueError
           | Some n \<Rightarrow> Inr (fadd zone_score (fmul (fl (of_int n)) (fl (1 / 10)))))"

definition putaway_step ::
  "(string \<Rightarrow> int option) \<Rightarrow> uuid \<Rightarrow> string \<Rightarrow> uuid option \<Rightarrow> WarehouseLocation \<Rightarrow>
   PutawayRecommendation list \<times> int \<Rightarrow> (PutawayRecommendation list \<times> int) task" where
  "putaway_step num k velocity src loc = (\<lambda>(recs, remaining).
     if remaining \<le> 0 then ret (recs, remaining)
     else let capacity = (case loc_capacity_units loc of None \<Rightarrow> 100 | Some c \<Rightarrow> if c = 0 then 100 else c);
              assign_qty = min remaining capacity in
       if assign_qty \<le> 0 then ret (recs, remaining)
       else bind (fetch (\<lambda>_. distance_score num loc)) (\<lambda>d.
         ret (recs @ [\<lparr>pr_sku = k, pr_quantity = assign_qty, pr_source = src, pr_target = loc_id loc,
                pr_zone = loc_zone loc, pr_distance = d, pr_capacity_remaining = capacity - assign_qty,
                pr_reason = ''velocity_'' @ velocity @ ''_zone_'' @ loc_zone loc\<rparr>],
              remaining - assign_qty)))"

definition create_putaway_task :: "uuid \<Rightarrow> PutawayRecommendation \<Rightarrow> uuid task" where
  "create_putaway_task w r = create_task w PUTAWAY (\<lambda>t. t\<lparr>task_source := pr_source r,
     task_target := Some (pr_target r), task_sku := Some (pr_sku r), task_quantity := Some (pr_quantity r),
     task_data := [(''reason'', JStr (pr_reason r)), (''zone'', JStr (pr_zone r))]\<rparr>)"

definition create_putaway_tasks :: "uuid \<Rightarrow> PutawayRecommendation list \<Rightarrow> uuid list task" where
  "create_putaway_tasks w recs = for_loop (\<lambda>r ts. bind (create_putaway_task w r) (\<lambda>i. ret (ts @ [i]))) recs []"

definition plan_putaway ::
  "(string \<Rightarrow> int option) \<Rightarrow> uuid \<Rightarrow> uuid \<Rightarrow> int \<Rightarrow> string \<Rightarrow> uuid option \<Rightarrow> PutawayPlan task" where
  "plan_putaway num w k quantity velocity src =
     bind (list_pickable w (Some (get_or VELOCITY_ZONE_MAP velocity ''B''))) (\<lambda>preferred.
     bind (if preferred = [] then list_pickable w None else ret preferred) (\<lambda>locs.
     bind (for_loop (putaway_step num k velocity src)
             (sort_key (\<lambda>l. get_or ZONE_PRIORITY (loc_zone l) 99) locs) ([], quantity)) (\<lambda>(recs, remaining).
     bind (create_putaway_tasks w recs) (\<lambda>ts.
     ret \<lparr>pp_warehouse = w, pp_recommendations = recs, pp_tasks = ts\<rparr>))))"

definition execute_putaway :: "uuid \<Rightarrow> string \<Rightarrow> unit task" where
  "execute_putaway i operator = bind (get_by_id_or_raise task_id tasks i) (\<lambda>t.
     bind (raise_if (task_type t \<noteq> ''putaway'') PyValueError) (\<lambda>_.
     set_task i (\<lambda>t. t\<lparr>task_status := ''completed'', task_assigned_to := Some operator\<rparr>)))"

definition suggest_consolidation :: "uuid \<Rightarrow> uuid \<Rightarrow> PutawayRecommendation list task" where
  "suggest_consolidation w k = bind (list_pickable w None) (\<lambda>locs.
     ret (map (\<lambda>loc. \<lparr>pr_sku = k, pr_quantity = 0, pr_source = Some (loc_id loc), pr_target = loc_id loc,
         pr_zone = loc_zone loc, pr_distance = 0,
         pr_capacity_remaining = (case loc_capacity_units loc of None \<Rightarrow> 0 | Some c \<Rightarrow> c),
         pr_reason = ''consolidation_candidate''\<rparr>)
       (take 5 (filter (\<lambda>loc. case loc_capacity_units loc of None \<Rightarrow> False | Some c \<Rightarrow> c \<noteq> 0 \<and> c < 50) locs))))"

section \<open>Putaway places what fits\<close>

text \<open>The locations a plan considers: those of the preferred zone, or all when it has none.\<close>

definition pickable :: "uuid \<Rightarrow> string option \<Rightarrow> session \<Rightarrow> WarehouseLocation list" where
  "pickable w zone s = select_where (\<lambda>l. loc_warehouse l = w \<and> loc_is_pickable l \<and>
     (case zone of None \<Rightarrow> True | Some z \<Rightarrow> z = [] \<or> loc_zone l = z)) (locations s)"

definition putaway_locations :: "uuid \<Rightarrow> string \<Rightarrow> session \<Rightarrow> WarehouseLocation list" where
  "putaway_locations w velocity s =
     (let preferred = pickable w (Some (get_or VELOCITY_ZONE_MAP velocity ''B'')) s in
      if preferred = [] then pickable w None s else preferred)"

lemma list_pickable_app: "list_pickable w zone s = (Inr (pickable w zone s), s)"
  by (simp add: list_pickable_def pickable_def)

lemma sum_list_map_sort: "sum_list (map f (sort_key k xs)) = sum_list (map f xs)" for f :: "'a \<Rightarrow> int"
  by (metis mset_map mset_sort sum_mset_sum_list)

definition location_capacity :: "WarehouseLocation \<Rightarrow> int" where
  "location_capacity loc = (case loc_capacity_units loc of None \<Rightarrow> 100 | Some c \<Rightarrow> if c = 0 then 100 else c)"

definition placed :: "PutawayRecommendation list \<Rightarrow> int" where
  "placed recs = sum_list (map pr_quantity recs)"

definition putaway_ok :: "uuid \<Rightarrow> PutawayRecommendation list \<Rightarrow> bool" where
  "putaway_ok k recs \<longleftrightarrow> (\<forall>r \<in> set recs. pr_sku r = k \<and> 0 < pr_quantity r \<and> 0 \<le> pr_capacity_remaining r)"

lemma putaway_ok_snoc:
  "putaway_ok k (recs @ [r]) \<longleftrightarrow>
     putaway_ok k recs \<and> pr_sku r = k \<and> 0 < pr_quantity r \<and> 0 \<le> pr_capacity_remaining r"
  by (auto simp: putaway_ok_def)

text \<open>Walking the locations places as much of the rest as their capacities allow.\<close>

lemma putaway_loop:
  assumes "for_loop (putaway_step num k v src) locs (recs, n) s = (Inr (recs', n'), t)" and "0 \<le> n"
  shows "t = s \<and> 0 \<le> n' \<and> placed recs' + n' = placed recs + n \<and>
    n' = max 0 (n - sum_list (map (\<lambda>l. max 0 (location_capacity l)) locs)) \<and>
    (putaway_ok k recs \<longrightarrow> putaway_ok k recs')"
  using assms
proof (induction locs arbitrary: recs n)
  case (Cons loc locs)
  let ?c = "location_capacity loc"
  from Cons.prems(1) [unfolded for_loop.simps] obtain x u where
    step: "putaway_step num k v src loc (recs, n) s = (Inr x, u)"
    and rest: "for_loop (putaway_step num k v src) locs x u = (Inr (recs', n'), t)"
    by (rule bind_InrE)
  have sum0: "0 \<le> sum_list (map (\<lambda>l. max 0 (location_capacity l)) locs)" by (rule sum_list_nonneg_map) simp
  show ?case
  proof (cases "n \<le> 0 \<or> min n ?c \<le> 0")
    case True
    then have "x = (recs, n)" "u = s" "n = 0 \<or> ?c \<le> 0"
      using step Cons.prems(2) by (auto simp: putaway_step_def location_capacity_def Let_def split: if_splits)
    with Cons.IH [of recs n] rest Cons.prems(2) sum0 show ?thesis by auto
  next
    case False
    then obtain d where x: "x = (recs @ [\<lparr>pr_sku = k, pr_quantity = min n ?c, pr_source = src, pr_target = loc_id loc,
                pr_zone = loc_zone loc, pr_distance = d, pr_capacity_remaining = ?c - min n ?c,
                pr_reason = ''velocity_'' @ v @ ''_zone_'' @ loc_zone loc\<rparr>], n - min n ?c)" and u: "u = s"
      using step by (auto simp: putaway_step_def location_capacity_def Let_def split: if_splits sum.splits)
    note IH = Cons.IH [OF rest [unfolded x u]]
    define S where "S = sum_list (map (\<lambda>l. max 0 (location_capacity l)) locs)"
    have n0: "0 \<le> n - min n ?c" by simp
    have fold: "sum_list (map (\<lambda>l. max 0 (location_capacity l)) (loc # locs)) = max 0 ?c + S"
      by (simp add: S_def)
    have rest_n: "max 0 (n - min n ?c - S) = max 0 (n - (max 0 ?c + S))"
      using False sum0 by (cases "n \<le> ?c") (simp_all add: S_def [symmetric])
    define q where "q = min n ?c"
    have q: "0 < q" "q \<le> ?c" using False by (auto simp: q_def min_def split: if_splits)
    from IH [OF n0, folded S_def q_def] obtain t: "t = s" and n1: "0 \<le> n'" and
      pl0: "placed recs' + n' = placed (recs @ [\<lparr>pr_sku = k, pr_quantity = q, pr_source = src, pr_target = loc_id loc,
          pr_zone = loc_zone loc, pr_distance = d, pr_capacity_remaining = ?c - q,
          pr_reason = ''velocity_'' @ v @ ''_zone_'' @ loc_zone loc\<rparr>]) + (n - q)" and
      n2: "n' = max 0 (n - q - S)" and
      ok0: "putaway_ok k (recs @ [\<lparr>pr_sku = k, pr_quantity = q, pr_source = src, pr_target = loc_id loc,
          pr_zone = loc_zone loc, pr_distance = d, pr_capacity_remaining = ?c - q,
          pr_reason = ''velocity_'' @ v @ ''_zone_'' @ loc_zone loc\<rparr>]) \<longrightarrow> putaway_ok k recs'" by blast
    have pl: "placed recs' + n' = placed recs + n" using pl0 by (simp add: placed_def)
    have ok: "putaway_ok k recs \<longrightarrow> putaway_ok k recs'" 
      using ok0 q unfolding putaway_ok_snoc by simp
    show ?thesis unfolding fold rest_n [symmetric]
      using t n1 pl ok n2 by (simp only: q_def)
  qed
qed auto

lemma create_putaway_tasks_app:
  "\<exists>ts t. create_putaway_tasks w recs s = (Inr ts, t) \<and> length ts = length recs"
proof -
  have "\<exists>ts t. for_loop (\<lambda>r ts. bind (create_putaway_task w r) (\<lambda>i. ret (ts @ [i]))) recs acc s = (Inr ts, t) \<and>
      length ts = length acc + length recs" for acc
  proof (induction recs arbitrary: acc s)
    case (Cons r recs)
    obtain u where "create_putaway_task w r s = (Inr (next_uuid s), u)"
      unfolding create_putaway_task_def using create_task_app by blast
    with Cons.IH [of "acc @ [next_uuid s]" u] show ?case by (auto simp: bind_def)
  qed simp
  from this [of "[]"] show ?thesis by (simp add: create_putaway_tasks_def)
qed

section \<open>Completing a pick\<close>

definition completed :: "string \<Rightarrow> instant \<Rightarrow> WarehouseTask \<Rightarrow> WarehouseTask" where
  "completed operator n t = t\<lparr>task_status := ''completed'', task_assigned_to := Some operator, task_completed_at := Some n\<rparr>"

lemma complete_pick_step:
  assumes T: "tables_ok s" and tk: "get_by_key task_id i (tasks s) = Some tk" and "task_type tk = ''pick''"
    and "task_source tk = Some loc" and "task_sku tk = Some k" and "task_quantity tk = Some q" and "q \<noteq> 0"
    and b: "b \<in> set (lives (balances s))" "bin_key b = (task_warehouse tk, k, Some loc)"
  shows "\<exists>t. complete_pick i operator s = (Inr (), t) \<and> tables_ok t \<and>
    lives (balances t) = upd_list bal_id (bal_id b) (take_picked q) (lives (balances s)) \<and>
    get_by_key task_id i (tasks t) = Some (completed operator (now s) tk)"
proof -
  let ?u = "tasks_update (upd_row task_id i (completed operator (now s))) s"
  let ?t = "balances_update (upd_row bal_id (bal_id b) (take_picked q)) ?u"
  have U: "tables_ok ?u" using T by (simp add: tables_ok_def bins_synced_def)
  have id: "task_id tk = i" using get_by_key_Some [OF tk] by simp
  have "find (\<lambda>x. bin_key x = (task_warehouse tk, k, Some loc)) (lives (balances ?u)) = Some b"
    using find_key_unique [of bin_key "lives (balances s)" b] T b by (simp add: tables_ok_def)
  then have "complete_pick i operator s = (Inr (), ?t)"
    using tk assms(3-7) by (simp add: complete_pick_def get_by_id_or_raise_def get_by_id_def bind_assoc set_task_def
        set_obj_def completed_def [symmetric] bind_def [of "get_balance _ _ _"] get_balance_ok [OF U] set_balance_def)
  moreover have "tables_ok ?t"
    by (rule tables_ok_upd_balance [OF U]) (simp_all add: take_picked_def bin_key_def)
  moreover have "get_by_key task_id i (tasks ?t) = Some (completed operator (now s) tk)"
    using tk id by (simp add: get_by_key_upd_row completed_def)
  ultimately show ?thesis by (intro exI [of _ ?t]) simp
qed

section \<open>Properties\<close>


definition demo_location :: "uuid \<Rightarrow> int \<Rightarrow> WarehouseLocation" where
  "demo_location i c = \<lparr>loc_id = i, loc_warehouse = 1, loc_code = ''L'', loc_zone = ''B'', loc_aisle = None,
     loc_rack = None, loc_level = None, loc_type = ''bin'', loc_capacity_units = Some c, loc_is_pickable = True\<rparr>"

definition demo_bins :: session where
  "demo_bins = empty_session\<lparr>locations := map (\<lambda>x. Cell (Some x) x) [demo_location 2 30, demo_location 3 50],
     balances := [Cell (Some (demo_balance 4 1 10\<lparr>bal_location := Some 2\<rparr>)) (demo_balance 4 1 10\<lparr>bal_location := Some 2\<rparr>)],
     tasks := [Cell (Some (blank_task 5 0 1 ''pick''\<lparr>task_source := Some 2, task_sku := Some 3, task_quantity := Some 6\<rparr>))
       (blank_task 5 0 1 ''pick''\<lparr>task_source := Some 2, task_sku := Some 3, task_quantity := Some 6\<rparr>)],
     next_uuid := 10\<rparr>"


text \<open>A pick task can be completed twice: nothing looks at its status, so each completion takes the
  quantity from the location again, below zero if need be.\<close>

theorem pick_completed_twice:
  assumes "tables_ok s" and "get_by_key task_id i (tasks s) = Some tk" and "task_type tk = ''pick''"
    and "task_source tk = Some loc" and "task_sku tk = Some k" and "task_quantity tk = Some q" and "q \<noteq> 0"
    and "b \<in> set (lives (balances s))" and "bin_key b = (task_warehouse tk, k, Some loc)"
  shows "\<exists>t u b'. complete_pick i op1 s = (Inr (), t) \<and> complete_pick i op2 t = (Inr (), u) \<and>
    b' \<in> set (lives (balances u)) \<and> bal_id b' = bal_id b \<and> on_hand b' = on_hand b - 2 * q"
proof -
  obtain t where t: "complete_pick i op1 s = (Inr (), t)" "tables_ok t"
    "lives (balances t) = upd_list bal_id (bal_id b) (take_picked q) (lives (balances s))"
    "get_by_key task_id i (tasks t) = Some (completed op1 (now s) tk)"
    using complete_pick_step [OF assms] by blast
  have b: "take_picked q b \<in> set (lives (balances t))"
    using assms(1,8) by (simp add: t(3) tables_ok_def set_upd_list)
  have "bin_key (take_picked q b) = (task_warehouse (completed op1 (now s) tk), k, Some loc)"
    using assms(9) by (simp add: take_picked_def completed_def bin_key_def)
  from complete_pick_step [OF t(2,4) _ _ _ _ assms(7) b this, of op2] assms(3-6) obtain u where
    u: "complete_pick i op2 t = (Inr (), u)"
    "lives (balances u) = upd_list bal_id (bal_id (take_picked q b)) (take_picked q) (lives (balances t))"
    by (auto simp: completed_def)
  have "take_picked q (take_picked q b) \<in> set (lives (balances u))"
    using t(2) b by (simp add: u(2) tables_ok_def set_upd_list)
  moreover have "bal_id (take_picked q (take_picked q b)) = bal_id b"
    "on_hand (take_picked q (take_picked q b)) = on_hand b - 2 * q"
    by (simp_all add: take_picked_def)
  ultimately show ?thesis using t(1) u(1) by blast
qed

theorem pick_completed_twice_witness:
  "\<exists>t u b'. complete_pick 5 ''op'' demo_bins = (Inr (), t) \<and> complete_pick 5 ''op'' t = (Inr (), u) \<and>
     b' \<in> set (lives (balances u)) \<and> on_hand b' = - 2"
proof -
  define tk where "tk = blank_task 5 0 1 ''pick''\<lparr>task_source := Some 2, task_sku := Some 3, task_quantity := Some 6\<rparr>"
  define b where "b = demo_balance 4 1 10\<lparr>bal_location := Some 2\<rparr>"
  have T: "tables_ok demo_bins"
    by (simp add: tables_ok_def bins_synced_def demo_bins_def demo_balance_def bin_key_def lives_def empty_session_def)
  have k: "get_by_key task_id 5 (tasks demo_bins) = Some tk"
    by (simp add: demo_bins_def get_by_key_def tk_def blank_task_def)
  have b: "b \<in> set (lives (balances demo_bins))" "bin_key b = (task_warehouse tk, 3, Some 2)" "on_hand b = 10"
    by (simp_all add: b_def tk_def demo_bins_def lives_def demo_balance_def bin_key_def blank_task_def)
  have f: "task_type tk = ''pick''" "task_source tk = Some 2" "task_sku tk = Some 3" "task_quantity tk = Some 6"
    by (simp_all add: tk_def blank_task_def)
  from pick_completed_twice [OF T k f _ b(1,2), of "''op''" "''op''"] b(3) show ?thesis by auto
qed

end
