(* ===== verification/Cache.thy ===== *)
theory Cache
  imports Events
begin

text \<open>
  \<open>cache/redis_cache.py\<close>.  The Redis client is not part of the program: its four commands are the
  fields of \<open>redis\<close>, operations on the state of the server that may raise.  The text of a JSON
  document stands for the value it denotes, so \<open>json.dumps\<close> and \<open>json.loads\<close> are the identity;
  Python's \<open>None\<close> and the document \<open>null\<close> are both \<open>JNull\<close>.  A key is the template of
  \<open>CacheKey\<close> with the strings put into it.
\<close>

section \<open>Keys and the client\<close>

datatype CacheKey =
    INVENTORY json json
  | NETWORK_VISIBILITY json
  | ROUTING json
  | FORECAST json json
  | SAFETY_STOCK json json

record 'r redis =
  rd_get :: "CacheKey \<Rightarrow> ('r, exn, json option) op"
  rd_setex :: "CacheKey \<Rightarrow> int \<Rightarrow> json \<Rightarrow> ('r, exn, unit) op"
  rd_delete :: "CacheKey list \<Rightarrow> ('r, exn, unit) op"
  rd_scan :: "(CacheKey \<Rightarrow> bool) \<Rightarrow> ('r, exn, CacheKey list) op"

section \<open>RedisCache\<close>

definition cache_get :: "'r redis \<Rightarrow> CacheKey \<Rightarrow> ('r, exn, json) op" where
  "cache_get rd key = bind (rd_get rd key) (\<lambda>raw. ret (case raw of None \<Rightarrow> JNull | Some v \<Rightarrow> v))"

text \<open>\<open>ttl_seconds or default\<close>: a time of 0 counts as not given.\<close>

definition cache_set :: "'r redis \<Rightarrow> Settings \<Rightarrow> CacheKey \<Rightarrow> json \<Rightarrow> int option \<Rightarrow> ('r, exn, unit) op" where
  "cache_set rd cfg key v ttl_seconds =
     (let ttl = (case ttl_seconds of None \<Rightarrow> cache_ttl_inventory_seconds cfg
                 | Some t \<Rightarrow> if t = 0 then cache_ttl_inventory_seconds cfg else t)
      in rd_setex rd key ttl v)"

definition cache_delete :: "'r redis \<Rightarrow> CacheKey \<Rightarrow> ('r, exn, unit) op" where
  "cache_delete rd key = rd_delete rd [key]"

definition get_inventory :: "'r redis \<Rightarrow> json \<Rightarrow> json \<Rightarrow> ('r, exn, json) op" where
  "get_inventory rd w k = cache_get rd (INVENTORY w k)"

definition set_inventory :: "'r redis \<Rightarrow> Settings \<Rightarrow> json \<Rightarrow> json \<Rightarrow> pydict \<Rightarrow> ('r, exn, unit) op" where
  "set_inventory rd cfg w k data =
     cache_set rd cfg (INVENTORY w k) (JObj data) (Some (cache_ttl_inventory_seconds cfg))"

definition inventory_keys :: "json \<Rightarrow> json \<Rightarrow> CacheKey list" where
  "inventory_keys w k = [INVENTORY w k, NETWORK_VISIBILITY k, SAFETY_STOCK w k]"

definition invalidate_inventory :: "'r redis \<Rightarrow> json \<Rightarrow> json \<Rightarrow> ('r, exn, unit) op" where
  "invalidate_inventory rd w k = rd_delete rd (inventory_keys w k)"

definition invalidate_routing :: "'r redis \<Rightarrow> json \<Rightarrow> ('r, exn, unit) op" where
  "invalidate_routing rd order = cache_delete rd (ROUTING order)"

definition invalidate_forecast :: "'r redis \<Rightarrow> json \<Rightarrow> json \<Rightarrow> ('r, exn, unit) op" where
  "invalidate_forecast rd w k = cache_delete rd (FORECAST w k)"

text \<open>A pattern is the set of keys it matches.\<close>

definition invalidate_pattern :: "'r redis \<Rightarrow> (CacheKey \<Rightarrow> bool) \<Rightarrow> ('r, exn, int) op" where
  "invalidate_pattern rd pattern = bind (rd_scan rd pattern) (\<lambda>keys.
     for_loop (\<lambda>key count. bind (rd_delete rd [key]) (\<lambda>_. ret (count + 1))) keys 0)"

definition get_or_set ::
  "'r redis \<Rightarrow> Settings \<Rightarrow> CacheKey \<Rightarrow> ('r, exn, json) op \<Rightarrow> int option \<Rightarrow> ('r, exn, json) op" where
  "get_or_set rd cfg key factory ttl_seconds = bind (cache_get rd key) (\<lambda>cached.
     if cached \<noteq> JNull then ret cached
     else bind factory (\<lambda>v. bind (cache_set rd cfg key v ttl_seconds) (\<lambda>_. ret v)))"

section \<open>What Redis promises\<close>

text \<open>
  The documented behaviour of the four commands, on a server that answers and while no key
  expires: \<open>content\<close> is what the server holds.
\<close>

definition redis_contract :: "'r redis \<Rightarrow> ('r \<Rightarrow> CacheKey \<Rightarrow> json option) \<Rightarrow> bool" where
  "redis_contract rd content \<longleftrightarrow>
     (\<forall>key r. rd_get rd key r = (Inr (content r key), r)) \<and>
     (\<forall>key ttl v r. 0 < ttl \<longrightarrow>
        (\<exists>r'. rd_setex rd key ttl v r = (Inr (), r') \<and> content r' = (content r)(key \<mapsto> v))) \<and>
     (\<forall>keys r. \<exists>r'. rd_delete rd keys r = (Inr (), r') \<and>
        content r' = (\<lambda>key. if key \<in> set keys then None else content r key)) \<and>
     (\<forall>pattern r. \<exists>keys. rd_scan rd pattern r = (Inr keys, r) \<and>
        set keys = {key. pattern key \<and> content r key \<noteq> None})"

text \<open>A server that keeps its keys in an association list fulfils it.\<close>

definition table_redis :: "(CacheKey \<times> json) list redis" where
  "table_redis = \<lparr>rd_get = (\<lambda>key. reads (\<lambda>r. map_of r key)),
     rd_setex = (\<lambda>key ttl v. bind (raise_if (ttl \<le> 0) PyValueError) (\<lambda>_. modify (\<lambda>r. (key, v) # r))),
     rd_delete = (\<lambda>keys. modify (filter (\<lambda>(key, v). key \<notin> set keys))),
     rd_scan = (\<lambda>pattern. reads (\<lambda>r. filter pattern (remdups (map fst r))))\<rparr>"

lemma map_of_delete_keys:
  "map_of (filter (\<lambda>(key, v). key \<notin> A) r) = (\<lambda>key. if key \<in> A then None else map_of r key)"
  by (induction r) (auto simp: fun_eq_iff)

lemma table_redis_contract: "redis_contract table_redis map_of"
  by (auto simp: redis_contract_def table_redis_def map_of_delete_keys map_of_eq_None_iff)

lemma contractD:
  assumes "redis_contract rd content"
  shows "rd_get rd key r = (Inr (content r key), r)"
    and "0 < ttl \<Longrightarrow> \<exists>r'. rd_setex rd key ttl v r = (Inr (), r') \<and> content r' = (content r)(key \<mapsto> v)"
    and "\<exists>r'. rd_delete rd keys r = (Inr (), r') \<and> content r' = (\<lambda>key. if key \<in> set keys then None else content r key)"
    and "\<exists>keys. rd_scan rd pattern r = (Inr keys, r) \<and> set keys = {key. pattern key \<and> content r key \<noteq> None}"
  using assms by (simp_all add: redis_contract_def)

lemma cache_get_app:
  "redis_contract rd content \<Longrightarrow>
   cache_get rd key r = (Inr (case content r key of None \<Rightarrow> JNull | Some v \<Rightarrow> v), r)"
  by (simp add: cache_get_def bind_def contractD)

text \<open>A time to live that is not negative.\<close>

definition ttl_ok :: "Settings \<Rightarrow> int option \<Rightarrow> bool" where
  "ttl_ok cfg ttl \<longleftrightarrow> 0 < cache_ttl_inventory_seconds cfg \<and> (case ttl of None \<Rightarrow> True | Some t \<Rightarrow> 0 \<le> t)"

lemma cache_set_app:
  assumes "redis_contract rd content" and "ttl_ok cfg ttl"
  shows "\<exists>r'. cache_set rd cfg key v ttl r = (Inr (), r') \<and> content r' = (content r)(key \<mapsto> v)"
proof -
  let ?t = "case ttl of None \<Rightarrow> cache_ttl_inventory_seconds cfg
    | Some t \<Rightarrow> if t = 0 then cache_ttl_inventory_seconds cfg else t"
  have "0 < ?t" using assms(2) by (auto simp: ttl_ok_def split: option.split)
  from contractD(2) [OF assms(1) this] show ?thesis by (simp add: cache_set_def)
qed

lemma cache_delete_app:
  "redis_contract rd content \<Longrightarrow> \<exists>r'. rd_delete rd keys r = (Inr (), r') \<and>
     content r' = (\<lambda>key. if key \<in> set keys then None else content r key)"
  by (rule contractD(3))

lemma delete_loop:
  assumes C: "redis_contract rd content"
  shows "\<exists>r'. for_loop (\<lambda>key count. bind (rd_delete rd [key]) (\<lambda>_. ret (count + 1))) keys n r =
      (Inr (n + int (length keys)), r') \<and>
    content r' = (\<lambda>key. if key \<in> set keys then None else content r key)"
proof (induction keys arbitrary: n r)
  case (Cons key keys)
  obtain u where u: "rd_delete rd [key] r = (Inr (), u)"
    "content u = (\<lambda>x. if x \<in> set [key] then None else content r x)"
    using cache_delete_app [OF C] by blast
  from Cons.IH [of "n + 1" u] u show ?case
    by (force simp: bind_def fun_eq_iff)
qed simp

lemma invalidate_pattern_app:
  assumes C: "redis_contract rd content"
  shows "\<exists>n r'. invalidate_pattern rd pattern r = (Inr n, r') \<and>
    content r' = (\<lambda>key. if pattern key then None else content r key)"
proof -
  obtain keys where keys: "rd_scan rd pattern r = (Inr keys, r)"
    "set keys = {key. pattern key \<and> content r key \<noteq> None}"
    using contractD(4) [OF C] by blast
  obtain r' where r': "for_loop (\<lambda>key count. bind (rd_delete rd [key]) (\<lambda>_. ret (count + 1))) keys 0 r =
      (Inr (0 + int (length keys)), r')"
    "content r' = (\<lambda>key. if key \<in> set keys then None else content r key)"
    using delete_loop [OF C] by blast
  have "content r' = (\<lambda>key. if pattern key then None else content r key)"
    unfolding r'(2) keys(2) by (auto simp: fun_eq_iff)
  with keys(1) r'(1) show ?thesis by (simp add: invalidate_pattern_def bind_def)
qed

section \<open>Round trips\<close>



end
