(* ===== verification/CycleCount.thy ===== *)
theory CycleCount
  imports Transfers Cache
begin

text \<open>
  \<open>domain/warehouse/cycle_count.py\<close>: counting sessions and what becomes of their variances.  The
  session object is mutated by the service, so its operations run on the pair of that object and
  the database session.
\<close>

section \<open>Lines and sessions\<close>

datatype CycleCountStatus = SCHEDULED | IN_PROGRESS | COMPLETED | VARIANCE_REVIEW | ADJUSTED | CANCELLED

record CycleCountLine =
  cl_location :: uuid
  cl_sku :: uuid
  cl_expected :: int
  cl_counted :: "int option"

definition variance :: "CycleCountLine \<Rightarrow> int option" where
  "variance l = map_option (\<lambda>c. c - cl_expected l) (cl_counted l)"

definition has_variance :: "CycleCountLine \<Rightarrow> bool" where
  "has_variance l \<longleftrightarrow> (case variance l of None \<Rightarrow> False | Some v \<Rightarrow> v \<noteq> 0)"

record CycleCountSession =
  cc_id :: uuid
  cc_warehouse :: uuid
  cc_status :: CycleCountStatus
  cc_lines :: "CycleCountLine list"
  cc_tasks :: "uuid list"
  cc_started_at :: "instant option"
  cc_completed_at :: "instant option"

definition total_variance :: "CycleCountSession \<Rightarrow> int" where
  "total_variance cc = sum_list (List.map_filter variance (cc_lines cc))"

definition lines_with_variance :: "CycleCountSession \<Rightarrow> CycleCountLine list" where
  "lines_with_variance cc = filter has_variance (cc_lines cc)"

section \<open>CycleCountService\<close>

type_synonym 'a count_task = "(CycleCountSession \<times> session, exn, 'a) op"

definition VARIANCE_THRESHOLD_REVIEW :: int where "VARIANCE_THRESHOLD_REVIEW = 50"

definition schedule_balance :: "uuid \<Rightarrow> uuid \<Rightarrow> InventoryBalance \<Rightarrow> CycleCountSession \<Rightarrow> CycleCountSession task" where
  "schedule_balance w loc b cc =
     bind (create_task w CYCLE_COUNT (\<lambda>t. t\<lparr>task_source := Some loc, task_sku := Some (bal_sku b),
       task_quantity := Some (on_hand b), task_ref_type := Some ''cycle_count'',
       task_ref_id := Some (cc_id cc), task_data := [(''expected'', JInt (on_hand b))]\<rparr>)) (\<lambda>i.
     ret (cc\<lparr>cc_lines := cc_lines cc @ [\<lparr>cl_location = loc, cl_sku = bal_sku b,
                cl_expected = on_hand b, cl_counted = None\<rparr>],
              cc_tasks := cc_tasks cc @ [i]\<rparr>))"

definition schedule_location :: "uuid \<Rightarrow> uuid \<Rightarrow> CycleCountSession \<Rightarrow> CycleCountSession task" where
  "schedule_location w loc cc = bind (get_by_id loc_id locations loc) (\<lambda>r. case r of
     None \<Rightarrow> ret cc
   | Some _ \<Rightarrow> bind (list_by_warehouse w) (\<lambda>bs.
       for_loop (schedule_balance w loc) (filter (\<lambda>b. bal_location b = Some loc) bs) cc))"

definition schedule_count :: "uuid \<Rightarrow> uuid list \<Rightarrow> CycleCountSession task" where
  "schedule_count w location_ids = bind fresh_uuid (\<lambda>i.
     for_loop (schedule_location w) location_ids
       \<lparr>cc_id = i, cc_warehouse = w, cc_status = SCHEDULED, cc_lines = [], cc_tasks = [],
        cc_started_at = None, cc_completed_at = None\<rparr>)"

text \<open>\<open>next(...)\<close> takes the first line of the location and SKU.\<close>

definition counts :: "uuid \<Rightarrow> uuid \<Rightarrow> CycleCountLine \<Rightarrow> bool" where
  "counts loc k l \<longleftrightarrow> cl_location l = loc \<and> cl_sku l = k"

fun update_first :: "('a \<Rightarrow> bool) \<Rightarrow> ('a \<Rightarrow> 'a) \<Rightarrow> 'a list \<Rightarrow> 'a list" where
  "update_first P f [] = []"
| "update_first P f (x # xs) = (if P x then f x # xs else x # update_first P f xs)"

definition record_count :: "uuid \<Rightarrow> uuid \<Rightarrow> int \<Rightarrow> CycleCountLine count_task" where
  "record_count loc k counted = bind (reads (\<lambda>(cc, s). find (counts loc k) (cc_lines cc))) (\<lambda>l. case l of
     None \<Rightarrow> raise PyValueError
   | Some l \<Rightarrow>
       bind (modify (map_prod (\<lambda>cc. cc\<lparr>cc_status := IN_PROGRESS,
         cc_lines := update_first (counts loc k) (\<lambda>l. l\<lparr>cl_counted := Some counted\<rparr>) (cc_lines cc)\<rparr>) id)) (\<lambda>_.
       ret (l\<lparr>cl_counted := Some counted\<rparr>)))"

text \<open>\<open>line.counted_quantity or balance.on_hand\<close>: a count of 0 leaves the stock as it is.\<close>

definition counted_or :: "CycleCountLine \<Rightarrow> int \<Rightarrow> int" where
  "counted_or l current = (case cl_counted l of None \<Rightarrow> current | Some c \<Rightarrow> if c = 0 then current else c)"

definition adjusted_event :: "uuid \<Rightarrow> CycleCountLine \<Rightarrow> string option \<Rightarrow> string \<Rightarrow> instant \<Rightarrow> DomainEventPayload" where
  "adjusted_event w l override c n =
     \<lparr>dp_event_type = EventType_value INVENTORY_ADJUSTED, dp_aggregate_type = ''inventory'',
      dp_aggregate_id = cl_sku l,
      dp_payload = [(''warehouse_id'', JUuid w), (''sku_id'', JUuid (cl_sku l)),
        (''quantity_delta'', opt_json JInt (variance l)), (''reason'', JStr ''cycle_count''),
        (''manual_override'', JBool (override \<noteq> None))],
      dp_correlation = c, dp_causation = None, dp_metadata = [], dp_occurred_at = n\<rparr>"

definition adjust_line :: "EventHandler option option \<Rightarrow> uuid \<Rightarrow> string option \<Rightarrow> CycleCountLine \<Rightarrow> int \<Rightarrow> int task" where
  "adjust_line bus w override l adjusted =
     bind (get_balance w (cl_sku l) (Some (cl_location l))) (\<lambda>b. case b of
       None \<Rightarrow> ret adjusted
     | Some b \<Rightarrow>
         let after = counted_or l (on_hand b) in
         bind (set_balance (bal_id b) (\<lambda>x. x\<lparr>on_hand := after, bal_version := bal_version x + 1\<rparr>)) (\<lambda>_.
         bind (record_inventory_change w (cl_sku l) ''cycle_count_adjustment''
           [(''on_hand'', JInt (on_hand b))] [(''on_hand'', JInt after)]) (\<lambda>_.
         bind (case bus of None \<Rightarrow> ret ()
           | Some x \<Rightarrow> bind (reads ctx_correlation) (\<lambda>c. bind get_now (\<lambda>n.
               bind (publish x (adjusted_event w l override c n)) (\<lambda>_. ret ())))) (\<lambda>_.
         ret (adjusted + 1)))))"

definition apply_adjustments :: "EventHandler option option \<Rightarrow> int count_task" where
  "apply_adjustments bus = bind (on_session (reads ctx_override)) (\<lambda>override.
     bind (reads fst) (\<lambda>cc.
     on_session (for_loop (adjust_line bus (cc_warehouse cc) override) (lines_with_variance cc) 0)))"

definition set_count_status :: "CycleCountStatus \<Rightarrow> unit count_task" where
  "set_count_status st = modify (map_prod (\<lambda>cc. cc\<lparr>cc_status := st\<rparr>) id)"

definition complete_session :: "EventHandler option option \<Rightarrow> bool \<Rightarrow> unit count_task" where
  "complete_session bus auto_adjust = bind (reads fst) (\<lambda>cc.
     bind (raise_if (filter (\<lambda>l. cl_counted l = None) (cc_lines cc) \<noteq> []) PyValueError) (\<lambda>_.
     bind (on_session get_now) (\<lambda>n.
     bind (modify (map_prod (\<lambda>cc. cc\<lparr>cc_completed_at := Some n\<rparr>) id)) (\<lambda>_.
     let variance_lines = lines_with_variance cc in
     if variance_lines = [] then set_count_status COMPLETED
     else let max_variance = max_list0 (map (\<lambda>l. \<bar>case variance l of None \<Rightarrow> 0 | Some v \<Rightarrow> v\<bar>) variance_lines) in
       if VARIANCE_THRESHOLD_REVIEW < max_variance then set_count_status VARIANCE_REVIEW
       else if auto_adjust then bind (apply_adjustments bus) (\<lambda>_. set_count_status ADJUSTED)
       else set_count_status VARIANCE_REVIEW))))"

text \<open>\<open>int(len(locations) * class_a_pct)\<close> is a floating-point product, truncated.\<close>

definition generate_abc_count_schedule :: "uuid \<Rightarrow> pyfloat \<Rightarrow> uuid list task" where
  "generate_abc_count_schedule w class_a_pct = bind (list_pickable w None) (\<lambda>locs.
     if locs = [] then ret []
     else let count_a = nat (max 1 (py_int (fmul (of_nat (length locs)) class_a_pct)));
              zone_a = filter (\<lambda>l. loc_zone l = ''A'') locs
          in ret (map loc_id (take count_a (if zone_a \<noteq> [] then zone_a else locs))))"

section \<open>What an adjustment does to the stock\<close>

text \<open>The pass over the balances that the adjustments amount to.\<close>

definition line_bin :: "uuid \<Rightarrow> CycleCountLine \<Rightarrow> uuid \<times> uuid \<times> uuid option" where
  "line_bin w l = (w, cl_sku l, Some (cl_location l))"

definition adjust_stock :: "uuid \<Rightarrow> CycleCountLine \<Rightarrow> InventoryBalance list \<Rightarrow> InventoryBalance list" where
  "adjust_stock w l bs = map (\<lambda>b. if bin_key b = line_bin w l
     then b\<lparr>on_hand := counted_or l (on_hand b), bal_version := bal_version b + 1\<rparr> else b) bs"

definition external_bus :: "EventHandler option option \<Rightarrow> bool" where
  "external_bus bus \<longleftrightarrow> (case bus of None \<Rightarrow> True | Some x \<Rightarrow> external x)"

definition holds_stock :: "InventoryBalance list \<Rightarrow> session \<Rightarrow> bool" where
  "holds_stock bs s \<longleftrightarrow> tables_ok s \<and> lives (balances s) = bs"

lemma holds_stock_frame:
  "holds_stock bs s \<Longrightarrow> holds_stock bs (s\<lparr>next_uuid := Suc (next_uuid s)\<rparr>)"
  "holds_stock bs s \<Longrightarrow> holds_stock bs (audits_update f s)"
  "holds_stock bs s \<Longrightarrow> holds_stock bs (events_update g s)"
  by (auto simp: holds_stock_def tables_ok_def bins_synced_def less_Suc_eq)

lemma holds_stock_flush: "holds_stock bs s \<Longrightarrow> holds_stock bs (flush s)"
  by (simp add: holds_stock_def)

lemma preserves_stock:
  "preserves (holds_stock bs) (record_inventory_change w k a x y)"
  "external xadd \<Longrightarrow> preserves (holds_stock bs) (publish xadd e)"
  unfolding record_inventory_change_def
  by (rule preserves_audit_record preserves_publish; simp add: holds_stock_frame holds_stock_flush)+

lemma upd_list_as_bin:
  assumes "distinct (map bal_id bs)" and "distinct (map bin_key bs)" and "b \<in> set bs"
  shows "upd_list bal_id (bal_id b) f bs = map (\<lambda>x. if bin_key x = bin_key b then f x else x) bs"
  unfolding upd_list_def
proof (rule map_cong [OF refl])
  fix x assume "x \<in> set bs"
  then have "bal_id x = bal_id b \<longleftrightarrow> bin_key x = bin_key b"
    using assms by (metis (no_types, lifting) distinct_map inj_on_contraD)
  then show "(if bal_id x = bal_id b then f x else x) = (if bin_key x = bin_key b then f x else x)" by simp
qed

lemma adjust_line_stock:
  assumes "external_bus bus"
  shows "hoare (holds_stock bs) (adjust_line bus w override l n)
    (\<lambda>_. holds_stock (adjust_stock w l bs)) (\<lambda>_ _. True)"
proof (rule hoareI)
  fix s m t
  assume H: "holds_stock bs s" and run: "adjust_line bus w override l n s = (Inr m, t)"
  then have T: "tables_ok s" and bs: "lives (balances s) = bs" by (simp_all add: holds_stock_def)
  note g = get_balance_ok [OF T, of w "cl_sku l" "Some (cl_location l)", unfolded bs]
  show "holds_stock (adjust_stock w l bs) t"
  proof (cases "find (\<lambda>b. bin_key b = (w, cl_sku l, Some (cl_location l))) bs")
    case None
    then have "adjust_stock w l bs = bs"
      by (auto simp: adjust_stock_def line_bin_def find_None_iff intro!: map_idI)
    moreover have "t = s" using run None by (simp add: adjust_line_def bind_def g)
    ultimately show ?thesis using H by simp
  next
    case (Some b)
    note b = find_bin [OF Some]
    let ?f = "\<lambda>x. x\<lparr>on_hand := counted_or l (on_hand b), bal_version := bal_version x + 1\<rparr>"
    let ?u = "balances_update (upd_row bal_id (bal_id b) ?f) s"
    have D: "distinct (map bal_id bs)" "distinct (map bin_key bs)"
      using T by (simp_all add: tables_ok_def bs)
    have same: "x = b" if "x \<in> set bs" "bin_key x = line_bin w l" for x
      using D(2) b that by (metis distinct_map inj_onD line_bin_def)
    have "upd_list bal_id (bal_id b) ?f bs = adjust_stock w l bs"
      unfolding upd_list_as_bin [OF D b(1)] adjust_stock_def b(2) line_bin_def [symmetric]
      by (rule map_cong [OF refl]) (auto dest: same)
    then have U: "holds_stock (adjust_stock w l bs) ?u"
      using tables_ok_upd_balance [OF T] by (simp add: holds_stock_def bs bin_key_def)
    let ?rest = "bind (record_inventory_change w (cl_sku l) ''cycle_count_adjustment''
           [(''on_hand'', JInt (on_hand b))] [(''on_hand'', JInt (counted_or l (on_hand b)))]) (\<lambda>_.
         bind (case bus of None \<Rightarrow> ret ()
           | Some x \<Rightarrow> bind (reads ctx_correlation) (\<lambda>c. bind get_now (\<lambda>n.
               bind (publish x (adjusted_event w l override c n)) (\<lambda>_. ret ())))) (\<lambda>_.
         ret (n + 1)))"
    have "?rest ?u = (Inr m, t)"
      using run by (simp add: adjust_line_def bind_def g Some set_balance_def set_obj_def Let_def)
    moreover have "preserves (holds_stock (adjust_stock w l bs)) ?rest"
      using assms by (intro hoare_rules preserves_stock) (auto simp: external_bus_def)
    ultimately show ?thesis using U by (auto dest: preserves_ok)
  qed
qed simp

lemma adjust_lines_stock:
  assumes "external_bus bus"
  shows "hoare (holds_stock bs) (for_loop (adjust_line bus w override) ls n)
    (\<lambda>_. holds_stock (fold (adjust_stock w) ls bs)) (\<lambda>_ _. True)"
proof (induction ls arbitrary: bs n)
  case (Cons l ls)
  show ?case unfolding for_loop.simps fold.simps comp_def
    by (rule hoare_bind [OF adjust_line_stock [OF assms]]) (rule Cons.IH)
qed (simp add: hoare_ret)

section \<open>The outcome of a count\<close>

definition max_variance :: "CycleCountSession \<Rightarrow> int" where
  "max_variance cc = max_list0 (map (\<lambda>l. \<bar>case variance l of None \<Rightarrow> 0 | Some v \<Rightarrow> v\<bar>) (lines_with_variance cc))"

lemma apply_adjustments_app:
  "apply_adjustments bus (cc, s) = (case for_loop (adjust_line bus (cc_warehouse cc) (ctx_override s)) (lines_with_variance cc) 0 s of
     (r, t) \<Rightarrow> (r, (cc, t)))"
  by (simp add: apply_adjustments_def on_session_def bind_def split: prod.split)

lemma complete_session_counted:
  assumes "filter (\<lambda>l. cl_counted l = None) (cc_lines cc) = []"
  shows "complete_session bus auto_adjust (cc, s) =
    (if lines_with_variance cc = [] then set_count_status COMPLETED
      else if 50 < max_variance cc then set_count_status VARIANCE_REVIEW
      else if auto_adjust then bind (apply_adjustments bus) (\<lambda>_. set_count_status ADJUSTED)
      else set_count_status VARIANCE_REVIEW) (cc\<lparr>cc_completed_at := Some (now s)\<rparr>, s)"
  unfolding complete_session_def VARIANCE_THRESHOLD_REVIEW_def Let_def max_variance_def [symmetric]
  using assms by (simp add: on_session_def bind_def)


definition demo_count :: "int \<Rightarrow> CycleCountSession" where
  "demo_count c = \<lparr>cc_id = 50, cc_warehouse = 1, cc_status = IN_PROGRESS,
     cc_lines = [\<lparr>cl_location = 8, cl_sku = 3, cl_expected = 10, cl_counted = Some c\<rparr>], cc_tasks = [],
     cc_started_at = None, cc_completed_at = None\<rparr>"

lemma demo_binned_ok: "tables_ok demo_binned"
  by (simp add: tables_ok_def bins_synced_def demo_binned_def demo_session_def demo_balance_def bin_key_def
      lives_def empty_session_def)

lemma demo_count_runs: "case fst (complete_session None True (demo_count c, demo_binned)) of Inl e \<Rightarrow> False | Inr u \<Rightarrow> True"
  if "c = 0 \<or> c = 7"
  using that by (elim disjE; hypsubst) code_simp+


text \<open>A bin that is counted empty keeps its stock: when every variance of a session is a count of
  zero, completing the session leaves every quantity on hand as it was, and the session is
  nevertheless marked as adjusted.\<close>

theorem zero_count_ignored:
  assumes "tables_ok s" and "external_bus bus"
    and zero: "list_all (\<lambda>l. cl_counted l = Some 0) (lines_with_variance cc)"
    and run: "complete_session bus True (cc, s) = (Inr (), (cc', s'))"
    and "lines_with_variance cc \<noteq> []" and "max_variance cc \<le> 50"
  shows "cc_status cc' = ADJUSTED \<and> map on_hand (lives (balances s')) = map on_hand (lives (balances s))"
proof -
  have counted: "filter (\<lambda>l. cl_counted l = None) (cc_lines cc) = []"
    using run by (simp add: complete_session_def split: if_splits)
  let ?cc = "cc\<lparr>cc_completed_at := Some (now s)\<rparr>"
  have "bind (apply_adjustments bus) (\<lambda>_. set_count_status ADJUSTED) (?cc, s) = (Inr (), (cc', s'))"
    using run assms(5,6) unfolding complete_session_counted [OF counted] by simp
  moreover have "lines_with_variance ?cc = lines_with_variance cc" by (simp add: lines_with_variance_def)
  ultimately obtain m where m: "for_loop (adjust_line bus (cc_warehouse cc) (ctx_override s)) (lines_with_variance cc) 0 s = (Inr m, s')"
    and cc': "cc' = ?cc\<lparr>cc_status := ADJUSTED\<rparr>"
    by (auto simp: bind_def apply_adjustments_app set_count_status_def split: prod.splits sum.splits)
  have "map on_hand (fold (adjust_stock w) ls bs) = map on_hand bs"
    if "list_all (\<lambda>l. cl_counted l = Some 0) ls" for w ls bs
    using that by (induction ls arbitrary: bs) (simp_all add: adjust_stock_def counted_or_def cong: map_cong)
  with zero hoare_ok [OF adjust_lines_stock [OF assms(2)] _ m] assms(1) cc' show ?thesis
    by (force simp: holds_stock_def)
qed

theorem zero_count_ignored_witness:
  "\<exists>cc' s'. complete_session None True (demo_count 0, demo_binned) = (Inr (), (cc', s')) \<and>
     cc_status cc' = ADJUSTED \<and> map on_hand (lives (balances s')) = [10]"
proof -
  obtain r cc' s' where run: "complete_session None True (demo_count 0, demo_binned) = (r, (cc', s'))"
    by (metis prod.collapse)
  with demo_count_runs [of 0] have r: "r = Inr ()" by (auto split: sum.splits)
  have z: "lines_with_variance (demo_count 0) = cc_lines (demo_count 0)" "max_variance (demo_count 0) = 10"
    by (simp_all add: demo_count_def lines_with_variance_def has_variance_def variance_def max_variance_def max_list0_def)
  have "map on_hand (lives (balances demo_binned)) = [10]"
    by (simp add: demo_binned_def demo_balance_def lives_def)
  with zero_count_ignored [OF demo_binned_ok _ _ run [unfolded r]] run r z show ?thesis
    by (simp add: external_bus_def) (simp add: demo_count_def)
qed

end
