(* ===== verification/InventoryServices.thy ===== *)
theory InventoryServices
  imports Reconciliation Transfers Cache
begin

text \<open>
  \<open>services/inventory_service.py\<close>, \<open>services/inventory_sync_service.py\<close> and \<open>events/handlers.py\<close>:
  the services that put the allocation engine, the reconciler, the event bus and the cache
  together.
\<close>

section \<open>InventoryService\<close>

text \<open>
  \<open>services/inventory_service.py\<close>.  The cache and the event bus are optional.  With a cache the
  service runs on the pair of the server's state and the database session.
\<close>

type_synonym ('r, 'a) cached_task = "('r \<times> session, exn, 'a) op"

definition on_cache :: "('r, exn, 'a) op \<Rightarrow> ('r, 'a) cached_task" where
  "on_cache m = (\<lambda>(r, s). case m r of (x, r') \<Rightarrow> (x, (r', s)))"

definition with_cache :: "'r redis option \<Rightarrow> ('r redis \<Rightarrow> ('r, exn, unit) op) \<Rightarrow> ('r, unit) cached_task" where
  "with_cache cache m = (case cache of None \<Rightarrow> ret () | Some rd \<Rightarrow> on_cache (m rd))"

definition allocation_event :: "AllocationRequest \<Rightarrow> uuid \<times> int \<Rightarrow> string \<Rightarrow> instant \<Rightarrow> DomainEventPayload" where
  "allocation_event req a c n =
     \<lparr>dp_event_type = EventType_value ALLOCATION_CREATED, dp_aggregate_type = ''order'',
      dp_aggregate_id = ar_order req,
      dp_payload = [(''order_line_id'', JUuid (ar_order_line req)), (''warehouse_id'', JUuid (fst a)),
        (''quantity'', JInt (snd a))],
      dp_correlation = c, dp_causation = None, dp_metadata = [], dp_occurred_at = n\<rparr>"

definition publish_allocation :: "EventHandler option \<Rightarrow> AllocationRequest \<Rightarrow> uuid \<times> int \<Rightarrow> unit task" where
  "publish_allocation x req a = bind (reads ctx_correlation) (\<lambda>c. bind get_now (\<lambda>n.
     bind (publish x (allocation_event req a c n)) (\<lambda>_. ret ())))"

definition allocate_for_order_line ::
  "'r redis option \<Rightarrow> EventHandler option option \<Rightarrow> AllocationRequest \<Rightarrow> ('r, AllocationResult) cached_task" where
  "allocate_for_order_line cache bus req = bind (on_session (allocate req)) (\<lambda>result.
     bind (for_loop (\<lambda>(w, q) _. with_cache cache (\<lambda>rd. invalidate_inventory rd (JUuid w) (JUuid (ar_sku req))))
       (al_allocations result) ()) (\<lambda>_.
     bind (case bus of None \<Rightarrow> ret ()
       | Some x \<Rightarrow> on_session (for_loop (\<lambda>a _. publish_allocation x req a) (al_allocations result) ())) (\<lambda>_.
     ret result)))"

definition visibility_rows :: "(uuid \<times> int \<times> int \<times> int) list \<Rightarrow> json" where
  "visibility_rows vs = JArr (map (\<lambda>(w, h, r, a). JObj [(''warehouse_id'', JUuid w), (''on_hand'', JInt h),
     (''reserved'', JInt r), (''available'', JInt a)]) vs)"

definition service_network_visibility ::
  "'r redis option \<Rightarrow> Settings \<Rightarrow> uuid \<Rightarrow> bool \<Rightarrow> ('r, json) cached_task" where
  "service_network_visibility cache cfg k use_cache =
     bind (case cache of Some rd \<Rightarrow> if use_cache then on_cache (cache_get rd (NETWORK_VISIBILITY (JUuid k))) else ret JNull
           | None \<Rightarrow> ret JNull) (\<lambda>cached.
     if cached \<noteq> JNull then ret cached
     else bind (on_session (get_network_visibility k)) (\<lambda>vs.
       bind (with_cache cache (\<lambda>rd. cache_set rd cfg (NETWORK_VISIBILITY (JUuid k)) (visibility_rows vs) (Some 60))) (\<lambda>_.
       ret (visibility_rows vs))))"

definition adjust_inventory ::
  "'r redis option \<Rightarrow> uuid \<Rightarrow> uuid \<Rightarrow> int \<Rightarrow> ('r, unit) cached_task" where
  "adjust_inventory cache w k quantity_delta =
     bind (on_session (bind (get_balance w k None) (\<lambda>b.
       bind (case b of
           Some b \<Rightarrow> bind (set_balance (bal_id b) (\<lambda>x. x\<lparr>on_hand := on_hand x + quantity_delta,
               bal_version := bal_version x + 1\<rparr>)) (\<lambda>_. ret (on_hand b + quantity_delta))
         | None \<Rightarrow> bind (create_balance w k (\<lambda>x. x\<lparr>on_hand := max 0 quantity_delta\<rparr>)) (\<lambda>_.
             ret (max 0 quantity_delta))) (\<lambda>after.
       record_inventory_change w k ''adjustment''
         [(''on_hand'', JInt (case b of None \<Rightarrow> 0 | Some b \<Rightarrow> on_hand b))] [(''on_hand'', JInt after)])))) (\<lambda>_.
     with_cache cache (\<lambda>rd. invalidate_inventory rd (JUuid w) (JUuid k)))"

section \<open>InventorySyncService\<close>

record SyncResult =
  sy_warehouse :: uuid
  sy_skus_synced :: int
  sy_found :: int
  sy_repaired :: int
  sy_cache_invalidated :: bool
  sy_errors :: "exn list"

record NetworkSyncReport =
  ns_started_at :: instant
  ns_completed_at :: "instant option"
  ns_results :: "SyncResult list"
  ns_discrepancies :: int
  ns_repaired :: int

definition ns_is_healthy :: "NetworkSyncReport \<Rightarrow> bool" where
  "ns_is_healthy r \<longleftrightarrow> ns_discrepancies r = 0 \<or> ns_repaired r = ns_discrepancies r"

text \<open>Only a \<open>ReconciliationError\<close> is caught; anything else leaves the loop.\<close>

definition repair_one ::
  "(uuid list \<Rightarrow> uuid list) \<Rightarrow> uuid \<Rightarrow> ReconciliationDiscrepancy \<Rightarrow> int \<times> exn list \<Rightarrow> (int \<times> exn list) task" where
  "repair_one so w disc = (\<lambda>(repaired, errs).
     if dc_type disc \<noteq> ''reservation_mismatch'' then ret (repaired, errs)
     else try_except
       (bind (auto_repair_reservation_mismatch so w (dc_sku disc)) (\<lambda>success.
          ret (if success then repaired + 1 else repaired, errs)))
       (\<lambda>e. if e = ReconciliationError then ret (repaired, errs @ [e]) else raise e))"

definition reconciliation_event :: "uuid \<Rightarrow> int \<Rightarrow> int \<Rightarrow> string \<Rightarrow> instant \<Rightarrow> DomainEventPayload" where
  "reconciliation_event w found repaired c n =
     \<lparr>dp_event_type = EventType_value INVENTORY_ADJUSTED, dp_aggregate_type = ''warehouse'',
      dp_aggregate_id = w,
      dp_payload = [(''sync_type'', JStr ''reconciliation''), (''discrepancies'', JInt found),
        (''repaired'', JInt repaired)],
      dp_correlation = c, dp_causation = None, dp_metadata = [], dp_occurred_at = n\<rparr>"

text \<open>The patterns \<open>inv:{warehouse_id}:*\<close> and \<open>netvis:*\<close>.\<close>

definition inv_pattern :: "uuid \<Rightarrow> CacheKey \<Rightarrow> bool" where
  "inv_pattern w key \<longleftrightarrow> (case key of INVENTORY w' k \<Rightarrow> w' = JUuid w | _ \<Rightarrow> False)"

definition netvis_pattern :: "CacheKey \<Rightarrow> bool" where
  "netvis_pattern key \<longleftrightarrow> (case key of NETWORK_VISIBILITY k \<Rightarrow> True | _ \<Rightarrow> False)"

text \<open>The correlation identifier of the event is a new UUID; \<open>show_uuid\<close> is \<open>str\<close> of one.\<close>

definition sync_warehouse ::
  "(uuid \<Rightarrow> string) \<Rightarrow> (uuid list \<Rightarrow> uuid list) \<Rightarrow> 'r redis option \<Rightarrow> EventHandler option option \<Rightarrow>
   uuid \<Rightarrow> bool \<Rightarrow> ('r, SyncResult) cached_task" where
  "sync_warehouse show_uuid so cache bus w auto_repair =
     bind (on_session (reconcile_warehouse so w)) (\<lambda>rep.
     bind (on_session (if auto_repair then for_loop (repair_one so w) (rr_discrepancies rep) (0, [])
                       else ret (0, []))) (\<lambda>(repaired, errs).
     bind (case cache of None \<Rightarrow> ret False
           | Some rd \<Rightarrow> on_cache (bind (invalidate_pattern rd (inv_pattern w)) (\<lambda>count.
               bind (invalidate_pattern rd netvis_pattern) (\<lambda>_. ret (0 \<le> count))))) (\<lambda>cache_invalidated.
     bind (case bus of None \<Rightarrow> ret ()
           | Some x \<Rightarrow> if rr_discrepancies rep = [] then ret ()
               else on_session (bind fresh_uuid (\<lambda>c. bind get_now (\<lambda>n.
                 bind (publish x (reconciliation_event w (int (length (rr_discrepancies rep))) repaired (show_uuid c) n))
                   (\<lambda>_. ret ()))))) (\<lambda>_.
     ret \<lparr>sy_warehouse = w, sy_skus_synced = rr_skus_checked rep,
          sy_found = int (length (rr_discrepancies rep)), sy_repaired = repaired,
          sy_cache_invalidated = cache_invalidated, sy_errors = errs\<rparr>))))"

definition sync_network ::
  "(uuid \<Rightarrow> string) \<Rightarrow> (uuid list \<Rightarrow> uuid list) \<Rightarrow> 'r redis option \<Rightarrow> EventHandler option option \<Rightarrow>
   bool \<Rightarrow> ('r, NetworkSyncReport) cached_task" where
  "sync_network show_uuid so cache bus auto_repair =
     bind (on_session get_now) (\<lambda>n. bind (on_session list_active_warehouses) (\<lambda>whs.
     bind (for_loop (\<lambda>wh rep. bind (sync_warehouse show_uuid so cache bus (wh_id wh) auto_repair) (\<lambda>r.
         ret (rep\<lparr>ns_results := ns_results rep @ [r], ns_discrepancies := ns_discrepancies rep + sy_found r,
                  ns_repaired := ns_repaired rep + sy_repaired r\<rparr>))) whs
       \<lparr>ns_started_at = n, ns_completed_at = None, ns_results = [], ns_discrepancies = 0, ns_repaired = 0\<rparr>) (\<lambda>rep.
     bind (on_session get_now) (\<lambda>n'. ret (rep\<lparr>ns_completed_at := Some n'\<rparr>)))))"

definition verify_sku_across_network :: "uuid \<Rightarrow> json task" where
  "verify_sku_across_network k = bind (get_network_visibility k) (\<lambda>vs.
     ret (JObj [(''sku_id'', JUuid k), (''warehouses'', JInt (int (length vs))),
       (''total_on_hand'', JInt (sum_list (map (\<lambda>(w, h, r, a). h) vs))),
       (''total_available'', JInt (sum_list (map (\<lambda>(w, h, r, a). a) vs))),
       (''by_warehouse'', JArr (map (\<lambda>(w, h, r, a). JObj [(''warehouse_id'', JUuid w),
          (''on_hand'', JInt h), (''available'', JInt a)]) vs))]))"

section \<open>Event handlers\<close>

text \<open>
  A handler runs on the database session; its cache, if there is one, is the client's delete
  command, seen from the session like the other external calls of the bus.
\<close>

type_synonym handler_cache = "(CacheKey list \<Rightarrow> unit task) option"

definition drop_keys :: "handler_cache \<Rightarrow> CacheKey list \<Rightarrow> unit task" where
  "drop_keys cache keys = (case cache of None \<Rightarrow> ret () | Some del \<Rightarrow> del keys)"

text \<open>\<open>uuid.UUID(x)\<close> accepts the string of a UUID; for another string it raises \<open>ValueError\<close>, for
  another value some other exception.\<close>

definition to_uuid :: "json \<Rightarrow> uuid task" where
  "to_uuid v = (case v of JUuid i \<Rightarrow> ret i | JStr _ \<Rightarrow> raise PyValueError | _ \<Rightarrow> raise PyTypeError)"

definition payload_get :: "DomainEventPayload \<Rightarrow> string \<Rightarrow> json" where
  "payload_get e k = dict_get (dp_payload e) k JNull"

definition drop_inventory :: "handler_cache \<Rightarrow> DomainEventPayload \<Rightarrow> unit task" where
  "drop_inventory cache e =
     (let w = payload_get e ''warehouse_id''; k = payload_get e ''sku_id'' in
      if truthy w \<and> truthy k then drop_keys cache (inventory_keys w k) else ret ())"

definition handle_adjusted :: "handler_cache \<Rightarrow> EventHandler" where
  "handle_adjusted cache e = drop_inventory cache e"

definition handle_reserved :: EventHandler where
  "handle_reserved e = bind fresh_uuid (\<lambda>d.
     bind (to_uuid (dict_get (dp_payload e) ''reservation_id'' (JUuid d))) (\<lambda>i.
     bind (audit_record ''inventory_reservation'' i ''reserved'' None (Some (dp_payload e)) None) (\<lambda>_. ret ())))"

definition handle_allocation_created :: "handler_cache \<Rightarrow> EventHandler" where
  "handle_allocation_created cache e =
     (let w = payload_get e ''warehouse_id''; k = payload_get e ''sku_id'' in
      if truthy w \<and> truthy k
      then bind (drop_keys cache (inventory_keys w k)) (\<lambda>_.
           drop_keys cache [ROUTING (dict_get (dp_payload e) ''order_id'' (JStr []))])
      else ret ())"

definition handle_state_changed :: EventHandler where
  "handle_state_changed e = (case map_of (dp_payload e) ''shipment_id'' of
     None \<Rightarrow> raise PyKeyError
   | Some v \<Rightarrow> bind (to_uuid v) (\<lambda>i.
       bind (audit_record ''shipment'' i ''state_transition''
         (Some [(''status'', dict_get (dp_payload e) ''previous_status'' (JStr ''unknown''))])
         (Some [(''status'', dict_get (dp_payload e) ''new_status'' (JStr ''unknown''))]) None) (\<lambda>_. ret ())))"

text \<open>This one only logs.\<close>

definition handle_created :: EventHandler where
  "handle_created e = ret ()"

definition DRIFT_ALERT_THRESHOLD :: pyfloat where "DRIFT_ALERT_THRESHOLD = 1 / 4"

definition json_greater :: "json \<Rightarrow> pyfloat \<Rightarrow> bool task" where
  "json_greater v x = (case v of JInt n \<Rightarrow> ret (x < of_int n) | JFloat y \<Rightarrow> ret (x < y)
     | JBool b \<Rightarrow> ret (x < (if b then 1 else 0)) | _ \<Rightarrow> raise PyTypeError)"

definition handle_updated :: "handler_cache \<Rightarrow> EventHandler" where
  "handle_updated cache e =
     bind (json_greater (dict_get (dp_payload e) ''drift_score'' (JInt 0)) DRIFT_ALERT_THRESHOLD) (\<lambda>_.
     let w = payload_get e ''warehouse_id''; k = payload_get e ''sku_id'' in
     if truthy w \<and> truthy k then drop_keys cache [FORECAST w k] else ret ())"

definition handle_order_routed :: "handler_cache \<Rightarrow> EventHandler" where
  "handle_order_routed cache e =
     (let order = payload_get e ''order_id'' in
      bind (if truthy order then drop_keys cache [ROUTING order] else ret ()) (\<lambda>_.
      bind (if truthy order then to_uuid order else fresh_uuid) (\<lambda>i.
      bind (audit_record ''order'' i ''routed'' None (Some (dp_payload e)) None) (\<lambda>_. ret ()))))"

definition register_all_handlers :: "handler_cache \<Rightarrow> bus \<Rightarrow> bus" where
  "register_all_handlers cache b =
     subscribe (EventType_value ORDER_ROUTED) (handle_order_routed cache)
     (subscribe (EventType_value FORECAST_UPDATED) (handle_updated cache)
     (subscribe (EventType_value SHIPMENT_CREATED) handle_created
     (subscribe (EventType_value SHIPMENT_STATE_CHANGED) handle_state_changed
     (subscribe (EventType_value ALLOCATION_CREATED) (handle_allocation_created cache)
     (subscribe (EventType_value INVENTORY_RESERVED) handle_reserved
     (subscribe (EventType_value INVENTORY_ADJUSTED) (handle_adjusted cache) b))))))"

section \<open>The handlers only write the audit trail\<close>

definition external_cache :: "handler_cache \<Rightarrow> bool" where
  "external_cache cache \<longleftrightarrow> (case cache of None \<Rightarrow> True | Some del \<Rightarrow> \<forall>keys s. snd (del keys s) = s)"

definition log_is :: "DomainEvent table \<Rightarrow> session \<Rightarrow> bool" where
  "log_is evs s \<longleftrightarrow> clean (events s) \<and> events s = evs"

lemma preserves_log_audit: "preserves (log_is evs) (audit_record ty i a b f m)"
  by (rule preserves_audit_record; clarsimp simp: log_is_def flush_table_fixed)

lemma preserves_drop_keys: "external_cache cache \<Longrightarrow> preserves I (drop_keys cache keys)"
  by (rule preservesI) (simp add: external_cache_def drop_keys_def split: option.splits)

lemma preserves_to_uuid [hoare_rules]: "preserves I (to_uuid v)"
  by (cases v) (auto simp: to_uuid_def intro: hoare_rules)

lemma preserves_json_greater [hoare_rules]: "preserves I (json_greater v x)"
  by (cases v) (auto simp: json_greater_def intro: hoare_rules)

lemma preserves_log_fresh: "preserves (log_is evs) fresh_uuid"
  by (rule preserves_fresh_uuid) (clarsimp simp: log_is_def)

lemmas handler_defs = handle_adjusted_def handle_reserved_def handle_allocation_created_def
  handle_state_changed_def handle_created_def handle_updated_def handle_order_routed_def
  drop_inventory_def Let_def

lemma handlers_log:
  assumes "external_cache cache"
  shows "preserves (log_is evs) (handle_adjusted cache e)"
    and "preserves (log_is evs) (handle_reserved e)"
    and "preserves (log_is evs) (handle_allocation_created cache e)"
    and "preserves (log_is evs) (handle_state_changed e)"
    and "preserves (log_is evs) (handle_created e)"
    and "preserves (log_is evs) (handle_updated cache e)"
    and "preserves (log_is evs) (handle_order_routed cache e)"
  unfolding handler_defs
  by (intro hoare_rules preserves_log_audit preserves_log_fresh preserves_drop_keys assms)+

lemma quietI: "(\<And>evs e. preserves (log_is evs) (h e)) \<Longrightarrow> quiet h"
  unfolding quiet_def by (metis log_is_def preservesD)

text \<open>So delivery is at most once for the program's own bus, whatever the payloads are.\<close>

lemma registered_bus_quiet:
  assumes "external_cache cache"
  shows "quiet_bus (register_all_handlers cache (\<lambda>_. None))"
proof -
  have "quiet (handle_adjusted cache)" "quiet handle_reserved" "quiet (handle_allocation_created cache)"
    "quiet handle_state_changed" "quiet handle_created" "quiet (handle_updated cache)"
    "quiet (handle_order_routed cache)"
    by (rule quietI; rule handlers_log [OF assms])+
  then show ?thesis
    by (simp add: quiet_bus_def register_all_handlers_def subscribe_def handlers_for_def)
qed

section \<open>Synchronising a warehouse repairs it\<close>

text \<open>A warehouse whose stock is all held at the warehouse level.\<close>

definition no_bins :: "uuid \<Rightarrow> session \<Rightarrow> bool" where
  "no_bins w s \<longleftrightarrow> (\<forall>b \<in> set (lives (balances s)). bal_warehouse b = w \<longrightarrow> bal_location b = None)"

definition stocked :: "uuid \<Rightarrow> session \<Rightarrow> uuid set" where
  "stocked w s = bal_sku ` {b \<in> set (lives (balances s)). bal_warehouse b = w}"

lemma reserved_total_no_bins: "no_bins w s \<Longrightarrow> reserved_total w k s = reserved_qty w k s"
proof -
  assume nb: "no_bins w s"
  have "filter (\<lambda>b. bal_warehouse b = w \<and> bal_sku b = k) bs = filter (\<lambda>b. bin_key b = (w, k, None)) bs"
    if "set bs \<subseteq> set (lives (balances s))" for bs
    using that nb by (induction bs) (auto simp: no_bins_def bin_key_def)
  then show ?thesis by (simp add: reserved_total_def total_of_def reserved_qty_def sum_filter_as_if [symmetric])
qed

lemma stocked_bin:
  assumes "no_bins w s" and "k \<in> stocked w s"
  obtains b where "find (\<lambda>b. bin_key b = (w, k, None)) (lives (balances s)) = Some b"
proof -
  from assms obtain b where "b \<in> set (lives (balances s))" "bin_key b = (w, k, None)"
    by (auto simp: stocked_def no_bins_def bin_key_def)
  then have "find (\<lambda>b. bin_key b = (w, k, None)) (lives (balances s)) \<noteq> None"
    by (auto simp: find_None_iff)
  then show thesis using that by blast
qed

lemma auto_repair_returns:
  assumes "tables_ok s" and "find (\<lambda>b. bin_key b = (w, k, None)) (lives (balances s)) = Some b"
  shows "\<exists>res t. auto_repair_reservation_mismatch so w k s = (Inr res, t)"
proof -
  obtain rep where "reconcile_warehouse so w s = (Inr rep, s)" by (simp add: reconcile_warehouse_app Let_def)
  then show ?thesis
    using assms by (auto simp: auto_repair_reservation_mismatch_def bind_def get_balance_ok set_obj_def split: list.split)
qed

definition mismatch :: "ReconciliationDiscrepancy \<Rightarrow> bool" where
  "mismatch d \<longleftrightarrow> dc_type d = ''reservation_mismatch''"

text \<open>What the repairs keep, and what they make of the reserved amounts.\<close>

definition repairing :: "uuid \<Rightarrow> session \<Rightarrow> session \<Rightarrow> bool" where
  "repairing w s t \<longleftrightarrow> tables_ok t \<and> clean (reservations t) \<and> no_bins w t \<and> stocked w t = stocked w s \<and>
     (\<forall>w' k. active_qty w' k t = active_qty w' k s)"

definition repaired_amounts :: "uuid \<Rightarrow> uuid set \<Rightarrow> session \<Rightarrow> session \<Rightarrow> bool" where
  "repaired_amounts w ks s t \<longleftrightarrow>
     (\<forall>w' k. reserved_qty w' k t = (if w' = w \<and> k \<in> ks then active_qty w k s else reserved_qty w' k s))"

lemma no_bins_keys:
  "no_bins w s \<longleftrightarrow> (\<forall>(w', k, l) \<in> set (map bin_key (lives (balances s))). w' = w \<longrightarrow> l = None)"
  "stocked w s = {k. \<exists>l. (w, k, l) \<in> set (map bin_key (lives (balances s)))}"
  by (force simp: no_bins_def stocked_def bin_key_def)+

lemma upd_frame:
  assumes "\<And>b. bin_key (f b) = bin_key b"
  shows "no_bins w (balances_update (upd_row bal_id i f) s) = no_bins w s"
    and "stocked w (balances_update (upd_row bal_id i f) s) = stocked w s"
  using map_upd_list_same [where g = bin_key and f = f and key = bal_id, OF assms]
  by (simp_all only: no_bins_keys lives_simps) (simp_all)

lemma repair_one_mismatch:
  assumes so: "set_order so" and R: "repairing w s0 s" and d: "mismatch d" "dc_sku d \<in> stocked w s"
    and ne: "active_qty w (dc_sku d) s \<noteq> reserved_qty w (dc_sku d) s"
  shows "\<exists>t. repair_one so w d (n, errs) s = (Inr (n + 1, errs), t) \<and> repairing w s0 t \<and>
    repaired_amounts w {dc_sku d} s t"
proof -
  let ?k = "dc_sku d"
  have T: "tables_ok s" and nb: "no_bins w s" and C: "comparable s"
    using R by (simp_all add: repairing_def comparable_def tables_ok_def)
  obtain b where b: "find (\<lambda>b. bin_key b = (w, ?k, None)) (lives (balances s)) = Some b"
    using stocked_bin [OF nb d(2)] .
  obtain res t where run: "auto_repair_reservation_mismatch so w ?k s = (Inr res, t)"
    using auto_repair_returns [OF T b] by blast
  have "(\<exists>b \<in> set (lives (balances s)). bal_warehouse b = w \<and> bal_sku b = ?k) \<and>
      active_qty w ?k s \<noteq> reserved_total w ?k s"
    using d(2) ne by (auto simp: reserved_total_no_bins [OF nb] stocked_def)
  with auto_repair_app [OF C so T run] b have res: "res"
    and t: "t = balances_update (upd_row bal_id (bal_id b)
             (\<lambda>b. b\<lparr>reserved := active_qty w ?k s, bal_version := bal_version b + 1\<rparr>)) s"
    by auto
  note upd = upd_reserved_exact [where v = "active_qty w ?k s", OF T b, folded t]
  have "repairing w s0 t"
    using R upd by (simp add: repairing_def t upd_frame bin_key_def)
  moreover have "repaired_amounts w {?k} s t" using upd(3) by (auto simp: repaired_amounts_def)
  ultimately show ?thesis
    using run d(1) res by (simp add: repair_one_def mismatch_def try_except_app bind_def)
qed

lemma repair_one_other: "\<not> mismatch d \<Longrightarrow> repair_one so w d x s = (Inr x, s)"
  by (cases x) (simp add: repair_one_def mismatch_def)

lemma repair_loop:
  assumes "set_order so" and "repairing w s0 s" and "distinct (map dc_sku (filter mismatch ds))"
    and "\<forall>d \<in> set (filter mismatch ds). dc_sku d \<in> stocked w s \<and> active_qty w (dc_sku d) s \<noteq> reserved_qty w (dc_sku d) s"
  shows "\<exists>t. for_loop (repair_one so w) ds (n, errs) s = (Inr (n + int (length (filter mismatch ds)), errs), t) \<and>
    repairing w s0 t \<and> repaired_amounts w (dc_sku ` set (filter mismatch ds)) s t"
  using assms(2-4)
proof (induction ds arbitrary: n s)
  case Nil
  then show ?case by (simp add: repaired_amounts_def)
next
  case (Cons d ds)
  show ?case
  proof (cases "mismatch d")
    case True
    obtain u where u: "repair_one so w d (n, errs) s = (Inr (n + 1, errs), u)" "repairing w s0 u"
      "repaired_amounts w {dc_sku d} s u"
      using repair_one_mismatch [OF assms(1) Cons.prems(1) True, of n errs] Cons.prems(3) True by auto
    have st: "stocked w u = stocked w s" "\<And>w' k. active_qty w' k u = active_qty w' k s"
      using Cons.prems(1) u(2) by (simp_all add: repairing_def)
    have "\<forall>d' \<in> set (filter mismatch ds). dc_sku d' \<in> stocked w u \<and>
        active_qty w (dc_sku d') u \<noteq> reserved_qty w (dc_sku d') u"
    proof
      fix d' assume d': "d' \<in> set (filter mismatch ds)"
      then have "dc_sku d' \<noteq> dc_sku d" using Cons.prems(2) True by (auto simp: image_iff)
      with d' Cons.prems(3) u(3) show "dc_sku d' \<in> stocked w u \<and>
        active_qty w (dc_sku d') u \<noteq> reserved_qty w (dc_sku d') u"
        by (auto simp: st repaired_amounts_def)
    qed
    with Cons.IH [OF u(2), of "n + 1"] Cons.prems(2) True obtain t where
      t: "for_loop (repair_one so w) ds (n + 1, errs) u = (Inr (n + 1 + int (length (filter mismatch ds)), errs), t)"
      "repairing w s0 t" "repaired_amounts w (dc_sku ` set (filter mismatch ds)) u t" by auto
    have "repaired_amounts w (dc_sku ` set (filter mismatch (d # ds))) s t"
      using u(3) t(3) True by (auto simp: repaired_amounts_def st)
    with t u(1) True show ?thesis by (simp add: bind_def)
  next
    case False
    with Cons.IH [OF Cons.prems(1), of n] Cons.prems(2,3) show ?thesis
      by (simp add: bind_def repair_one_other)
  qed
qed

text \<open>The mismatches of a report are for distinct SKUs: exactly those that disagree.\<close>

lemma mismatch_of_sku:
  "map dc_sku (filter mismatch (sku_discrepancies w bs tot k)) =
     (if tot \<noteq> total_of reserved (filter (\<lambda>b. bal_sku b = k) bs) then [k] else [])"
  by (auto simp: sku_discrepancies_def Let_def mismatch_def reservation_mismatch_def negative_available_def filter_empty_conv)

lemma map_filter_concat:
  "map f (filter P (concat (map g xs))) = concat (map (\<lambda>x. map f (filter P (g x))) xs)"
  by (induction xs) simp_all

lemma concat_singletons: "concat (map (\<lambda>x. if P x then [x] else []) xs) = filter P xs"
  by (induction xs) simp_all

lemma report_mismatches:
  assumes C: "clean_session s" and so: "set_order so" and nb: "no_bins w s"
    and rep: "reconcile_warehouse so w s = (Inr rep, s)"
  shows "distinct (map dc_sku (filter mismatch (rr_discrepancies rep)))"
    and "dc_sku ` set (filter mismatch (rr_discrepancies rep)) =
      {k \<in> stocked w s. active_qty w k s \<noteq> reserved_qty w k s}"
proof -
  let ?bs = "filter (\<lambda>b. bal_warehouse b = w) (lives (balances s))"
  let ?ks = "so (map bal_sku ?bs)"
  have bs: "select_where (\<lambda>b. bal_warehouse b = w) (balances s) = ?bs"
    by (rule comparable_warehouse [OF clean_comparable [OF C]])
  have tot: "total_of reserved (filter (\<lambda>b. bal_warehouse b = w \<and> bal_sku b = k) (lives (balances s))) = reserved_qty w k s" for k
    using reserved_total_no_bins [OF nb, of k] by (simp add: reserved_total_def)
  have "rr_discrepancies rep = concat (map (\<lambda>k. sku_discrepancies w ?bs (active_qty w k s) k) ?ks)"
    using rep by (auto simp: reconcile_warehouse_app Let_def extend_report_def empty_report_def bs
        active_sum_clean [OF clean_tables(2) [OF C]])
  then have m: "map dc_sku (filter mismatch (rr_discrepancies rep)) =
      filter (\<lambda>k. active_qty w k s \<noteq> reserved_qty w k s) ?ks"
    by (simp add: map_filter_concat mismatch_of_sku tot concat_singletons)
  have ks: "distinct ?ks" "set ?ks = stocked w s"
    using so by (auto simp: set_order_def stocked_def)
  show "distinct (map dc_sku (filter mismatch (rr_discrepancies rep)))" using ks(1) by (simp add: m)
  have "dc_sku ` set (filter mismatch (rr_discrepancies rep)) = set (map dc_sku (filter mismatch (rr_discrepancies rep)))"
    by simp
  also have "\<dots> = {k \<in> stocked w s. active_qty w k s \<noteq> reserved_qty w k s}"
    unfolding m using ks(2) by auto
  finally show "dc_sku ` set (filter mismatch (rr_discrepancies rep)) =
      {k \<in> stocked w s. active_qty w k s \<noteq> reserved_qty w k s}" .
qed

text \<open>A cache that answers, and a bus without a Redis client, never raise.\<close>

definition cache_answers :: "'r redis option \<Rightarrow> bool" where
  "cache_answers cache \<longleftrightarrow> (case cache of None \<Rightarrow> True | Some rd \<Rightarrow> \<exists>content. redis_contract rd content)"

definition local_bus :: "EventHandler option option \<Rightarrow> bool" where
  "local_bus bus \<longleftrightarrow> (case bus of None \<Rightarrow> True | Some x \<Rightarrow> x = None)"

lemma publish_local_app:
  "\<exists>ev t h. publish None e s = (Inr ev, t) \<and> t = flush (events_update h (s\<lparr>next_uuid := Suc (next_uuid s)\<rparr>))"
  by (auto simp: publish_def get_next_sequence_def Let_def add_def session_add_def bind_assoc)

text \<open>C32: Synchronising a warehouse with automatic repair always returns, whatever order the SKUs are
  walked in, and repairs exactly what is wrong: for a warehouse whose stock is not split over bins
  the number of repairs is the number of stocked SKUs whose reservations and reserved amounts
  disagree, there are no errors, afterwards no stocked SKU disagrees, and no other warehouse, no
  other SKU and no reservation is changed.\<close>

theorem sync_repairs_warehouse:
  assumes C: "clean_session s" and so: "set_order so" and T: "tables_ok s" and nb: "no_bins w s"
    and "cache_answers cache" and "local_bus bus"
  shows "\<exists>res r' t. sync_warehouse show_uuid so cache bus w True (r, s) = (Inr res, (r', t)) \<and>
    sy_repaired res = int (card {k \<in> stocked w s. active_qty w k s \<noteq> reserved_qty w k s}) \<and>
    sy_errors res = [] \<and> (\<forall>k \<in> stocked w s. active_qty w k t = reserved_qty w k t) \<and>
    (\<forall>w' k. active_qty w' k t = active_qty w' k s \<and>
       (w' \<noteq> w \<or> k \<notin> stocked w s \<longrightarrow> reserved_qty w' k t = reserved_qty w' k s))"
proof -
  obtain rep where rep: "reconcile_warehouse so w s = (Inr rep, s)"
    by (simp add: reconcile_warehouse_app Let_def)
  let ?ms = "filter mismatch (rr_discrepancies rep)"
  let ?wrong = "{k \<in> stocked w s. active_qty w k s \<noteq> reserved_qty w k s}"
  note ms = report_mismatches [OF C so nb rep]
  have "repairing w s s" using clean_tables(2) [OF C] T nb by (simp add: repairing_def)
  moreover have "\<forall>d \<in> set ?ms. dc_sku d \<in> stocked w s \<and> active_qty w (dc_sku d) s \<noteq> reserved_qty w (dc_sku d) s"
    using ms(2) by blast
  ultimately obtain t where
    loop: "for_loop (repair_one so w) (rr_discrepancies rep) (0, []) s = (Inr (int (length ?ms), []), t)"
    and R: "repairing w s t" and A: "repaired_amounts w ?wrong s t"
    using repair_loop [OF so _ ms(1), of w s s 0 "[]"] by (auto simp: ms(2) [symmetric])
  have len: "length ?ms = card ?wrong"
    unfolding ms(2) [symmetric] using ms(1) by (metis distinct_card length_map list.set_map)
  obtain c r' where cache: "(case cache of None \<Rightarrow> ret False
           | Some rd \<Rightarrow> on_cache (bind (invalidate_pattern rd (inv_pattern w)) (\<lambda>count.
               bind (invalidate_pattern rd netvis_pattern) (\<lambda>_. ret (0 \<le> count))))) (r, t) = (Inr c, (r', t))"
  proof (cases cache)
    case (Some rd)
    then obtain content where rd: "redis_contract rd content"
      using assms(5) by (auto simp: cache_answers_def)
    obtain n r1 where n: "invalidate_pattern rd (inv_pattern w) r = (Inr n, r1)"
      using invalidate_pattern_app [OF rd] by blast
    obtain m r2 where "invalidate_pattern rd netvis_pattern r1 = (Inr m, r2)"
      using invalidate_pattern_app [OF rd] by blast
    with n Some that show ?thesis by (simp add: on_cache_def bind_def)
  qed (use that [of False r] in simp)
  obtain u where bus: "(case bus of None \<Rightarrow> ret ()
           | Some x \<Rightarrow> if rr_discrepancies rep = [] then ret ()
               else on_session (bind fresh_uuid (\<lambda>c. bind get_now (\<lambda>n.
                 bind (publish x (reconciliation_event w (int (length (rr_discrepancies rep))) (int (length ?ms)) (show_uuid c) n))
                   (\<lambda>_. ret ()))))) (r', t) = (Inr (), (r', u))"
    and u: "\<And>w k. active_qty w k u = active_qty w k t" "\<And>w k. reserved_qty w k u = reserved_qty w k t"
  proof (cases "bus = None \<or> rr_discrepancies rep = []")
    case True
    then show ?thesis using that [of t] by (auto split: option.split)
  next
    case False
    then have b: "bus = Some None" using assms(6) by (auto simp: local_bus_def split: option.splits)
    let ?t = "t\<lparr>next_uuid := Suc (next_uuid t)\<rparr>"
    obtain ev v h where v: "publish None (reconciliation_event w (int (length (rr_discrepancies rep))) (int (length ?ms))
        (show_uuid (next_uuid t)) (now t)) ?t = (Inr ev, v)"
      and h: "v = flush (events_update h (?t\<lparr>next_uuid := Suc (next_uuid ?t)\<rparr>))"
      using publish_local_app by blast
    have "active_qty w k v = active_qty w k t" "reserved_qty w k v = reserved_qty w k t" for w k
      by (simp_all add: h active_qty_def reserved_qty_def)
    moreover have "bind fresh_uuid (\<lambda>c. bind get_now (\<lambda>n.
                 bind (publish None (reconciliation_event w (int (length (rr_discrepancies rep))) (int (length ?ms)) (show_uuid c) n))
                   (\<lambda>_. ret ()))) t = (Inr (), v)"
      using v by (simp add: bind_def)
    ultimately show ?thesis using that [of v] False b by (simp add: on_session_def)
  qed
  have "sync_warehouse show_uuid so cache bus w True (r, s) =
      (Inr \<lparr>sy_warehouse = w, sy_skus_synced = rr_skus_checked rep,
          sy_found = int (length (rr_discrepancies rep)), sy_repaired = int (length ?ms),
          sy_cache_invalidated = c, sy_errors = []\<rparr>, (r', u))"
    unfolding sync_warehouse_def using rep loop cache bus by (simp add: bind_def on_session_def)
  moreover have "active_qty w' k u = active_qty w' k s" for w' k using R by (simp add: u repairing_def)
  moreover have "reserved_qty w' k u = (if w' = w \<and> k \<in> ?wrong then active_qty w k s else reserved_qty w' k s)" for w' k
    using A by (simp add: u repaired_amounts_def)
  ultimately show ?thesis using len by auto
qed

theorem sync_repairs_warehouse_witness:
  "\<exists>res r' t. sync_warehouse (\<lambda>_. []) remdups (Some table_redis) (Some None) 1 True ([], demo_unbalanced) = (Inr res, (r', t)) \<and>
     sy_repaired res = 1 \<and> reserved_qty 1 3 t = 7"
proof -
  have q: "active_qty 1 3 demo_unbalanced = 7" "reserved_qty 1 3 demo_unbalanced = 9" by code_simp+
  have st: "stocked 1 demo_unbalanced = {3}" "no_bins 1 demo_unbalanced"
    by (auto simp: no_bins_keys demo_unbalanced_def demo_balance_def lives_def bin_key_def)
  have wrong: "{k \<in> stocked 1 demo_unbalanced. active_qty 1 k demo_unbalanced \<noteq> reserved_qty 1 k demo_unbalanced} = {3}"
    unfolding st(1) using q by auto
  have "cache_answers (Some table_redis)" "local_bus (Some None)"
    using table_redis_contract by (auto simp: cache_answers_def local_bus_def)
  from sync_repairs_warehouse [OF demo_unbalanced_ok(1) set_order_remdups demo_unbalanced_ok(2) st(2) this]
  obtain res r' t where "sync_warehouse (\<lambda>_. []) remdups (Some table_redis) (Some None) 1 True ([], demo_unbalanced) = (Inr res, (r', t))"
    "sy_repaired res = int (card {k \<in> stocked 1 demo_unbalanced. active_qty 1 k demo_unbalanced \<noteq> reserved_qty 1 k demo_unbalanced})"
    and after: "\<forall>k \<in> stocked 1 demo_unbalanced. active_qty 1 k t = reserved_qty 1 k t"
    and same: "\<forall>w' k. active_qty w' k t = active_qty w' k demo_unbalanced \<and>
       (w' \<noteq> 1 \<or> k \<notin> stocked 1 demo_unbalanced \<longrightarrow> reserved_qty w' k t = reserved_qty w' k demo_unbalanced)"
    by blast
  moreover have "reserved_qty 1 3 t = 7"
    using after same q(1) unfolding st(1) by (metis singletonI)
  ultimately show ?thesis unfolding wrong by simp
qed

end
