(* ===== verification/Validators.thy ===== *)
theory Validators
  imports Reconciliation
begin

text \<open>
  \<open>core/validators.py\<close>: the business rules.  A validator fills a \<open>ValidationResult\<close> object, which
  is the state its checks run on; it may raise when a dynamic value has the wrong type.  Messages
  are not modelled, the context of an issue is.
\<close>

section \<open>Comparing dynamic values\<close>

text \<open>Python compares numbers by value, whatever their types, and dictionaries without regard to
  the order of their keys.\<close>

fun json_number :: "json \<Rightarrow> rat option" where
  "json_number (JInt n) = Some (of_int n)"
| "json_number (JFloat x) = Some x"
| "json_number (JBool b) = Some (if b then 1 else 0)"
| "json_number _ = None"

lemma size_in_dict: "(k, v) \<in> set d \<Longrightarrow> size v < Suc (size_list (size_prod (\<lambda>_. 0) size) d)"
  by (induction d) auto

lemma list_all2_left_cong [fundef_cong]:
  "xs = xs' \<Longrightarrow> ys = ys' \<Longrightarrow> (\<And>x y. x \<in> set xs' \<Longrightarrow> P x y = Q x y) \<Longrightarrow> list_all2 P xs ys = list_all2 Q xs' ys'"
  by (simp add: list_all2_iff) (metis (no_types, lifting) case_prod_conv set_zip_leftD surj_pair)

function json_eq :: "json \<Rightarrow> json \<Rightarrow> bool" where
  "json_eq a b = (case (a, b) of
     (JNull, JNull) \<Rightarrow> True
   | (JStr s, JStr t) \<Rightarrow> s = t
   | (JUuid i, JUuid j) \<Rightarrow> i = j
   | (JArr xs, JArr ys) \<Rightarrow> list_all2 json_eq xs ys
   | (JObj d, JObj e) \<Rightarrow> length d = length e \<and>
       list_all (\<lambda>kv. case map_of e (fst kv) of None \<Rightarrow> False | Some w \<Rightarrow> json_eq (snd kv) w) d
   | _ \<Rightarrow> json_number a \<noteq> None \<and> json_number a = json_number b)"
  by pat_completeness auto
termination
  by (relation "measure (\<lambda>(a, b). size a)")
    (auto simp: size_list_estimation' less_Suc_eq_le dest: size_in_dict)

fun has_duplicate :: "('a \<Rightarrow> 'a \<Rightarrow> bool) \<Rightarrow> 'a list \<Rightarrow> bool" where
  "has_duplicate eq [] \<longleftrightarrow> False"
| "has_duplicate eq (x # xs) \<longleftrightarrow> list_ex (eq x) xs \<or> has_duplicate eq xs"

section \<open>Results\<close>

record ValidationIssue =
  vi_code :: string
  vi_severity :: string
  vi_field_name :: "string option"
  vi_context :: pydict

record ValidationResult =
  vr_is_valid :: bool
  vr_issues :: "ValidationIssue list"

type_synonym 'a check = "(ValidationResult, exn, 'a) op"

text \<open>Keyword arguments other than the first two go into the context, \<open>field_name\<close> included.\<close>

definition add_error :: "string \<Rightarrow> pydict \<Rightarrow> unit check" where
  "add_error code context = modify (\<lambda>r. r\<lparr>vr_is_valid := False,
     vr_issues := vr_issues r @ [\<lparr>vi_code = code, vi_severity = ''error'', vi_field_name = None, vi_context = context\<rparr>]\<rparr>)"

definition add_warning :: "string \<Rightarrow> pydict \<Rightarrow> unit check" where
  "add_warning code context = modify (\<lambda>r. r\<lparr>
     vr_issues := vr_issues r @ [\<lparr>vi_code = code, vi_severity = ''warning'', vi_field_name = None, vi_context = context\<rparr>]\<rparr>)"

definition error_if :: "bool \<Rightarrow> string \<Rightarrow> pydict \<Rightarrow> unit check" where
  "error_if b code context = (if b then add_error code context else ret ())"

definition validated :: "unit check \<Rightarrow> exn + ValidationResult" where
  "validated m = (case m \<lparr>vr_is_valid = True, vr_issues = []\<rparr> of (Inl e, r) \<Rightarrow> Inl e | (Inr _, r) \<Rightarrow> Inr r)"

section \<open>OrderValidator\<close>

definition MAX_LINES :: nat where "MAX_LINES = 500"
definition MAX_QUANTITY_PER_LINE :: int where "MAX_QUANTITY_PER_LINE = 10000"
definition MAX_PRIORITY :: int where "MAX_PRIORITY = 10"

text \<open>Comparing a value that is not a number with an integer raises.\<close>

definition number_of :: "json \<Rightarrow> rat check" where
  "number_of v = (case json_number v of None \<Rightarrow> raise PyTypeError | Some q \<Rightarrow> ret q)"

definition check_order_line :: "nat \<times> pydict \<Rightarrow> unit \<Rightarrow> unit check" where
  "check_order_line = (\<lambda>(i, line) _. bind (number_of (dict_get line ''quantity'' (JInt 0))) (\<lambda>qty.
     error_if (qty \<le> 0 \<or> of_int MAX_QUANTITY_PER_LINE < qty) ''INVALID_QUANTITY'' [(''line_index'', JInt (int i))]))"

definition validate_create :: "string \<Rightarrow> pydict list \<Rightarrow> pydict \<Rightarrow> int \<Rightarrow> exn + ValidationResult" where
  "validate_create external_order_id lines ship_to priority = validated (
     bind (error_if (external_order_id = [] \<or> 128 < length external_order_id) ''INVALID_ORDER_ID'' []) (\<lambda>_.
     bind (error_if (lines = []) ''NO_LINES'' []) (\<lambda>_.
     bind (error_if (MAX_LINES < length lines) ''TOO_MANY_LINES'' []) (\<lambda>_.
     bind (for_loop check_order_line (enumerate 0 lines) ()) (\<lambda>_.
     bind (error_if (filter (\<lambda>k. k \<notin> fst ` set ship_to) [''city'', ''state'', ''postal_code''] \<noteq> []) ''INCOMPLETE_ADDRESS'' []) (\<lambda>_.
     error_if (priority < 1 \<or> MAX_PRIORITY < priority) ''INVALID_PRIORITY'' []))))))"

definition validate_status_transition :: "string \<Rightarrow> string \<Rightarrow> exn + ValidationResult" where
  "validate_status_transition current target = validated (
     error_if (current \<in> {''delivered'', ''cancelled''}) ''TERMINAL_STATE'' [])"

section \<open>ShipmentValidator\<close>

definition validate_addresses :: "pydict \<Rightarrow> pydict \<Rightarrow> exn + ValidationResult" where
  "validate_addresses origin destination = validated (
     bind (if json_eq (JObj origin) (JObj destination) then add_warning ''SAME_ORIGIN_DEST'' [] else ret ()) (\<lambda>_.
     for_loop (\<lambda>(label, addr) _. error_if (\<not> truthy (dict_get addr ''city'' JNull)) ''MISSING_CITY'' [(''field_name'', JStr label)])
       [(''origin'', origin), (''destination'', destination)] ()))"

definition validate_weight :: "decimal option \<Rightarrow> decimal \<Rightarrow> exn + ValidationResult" where
  "validate_weight weight_kg max_kg = validated (
     bind (error_if (case weight_kg of None \<Rightarrow> False | Some x \<Rightarrow> max_kg < x) ''WEIGHT_EXCEEDED'' []) (\<lambda>_.
     error_if (case weight_kg of None \<Rightarrow> False | Some x \<Rightarrow> x \<le> 0) ''INVALID_WEIGHT'' []))"

text \<open>\<open>set(statuses)\<close> raises on a list or a dictionary.\<close>

definition hashable :: "json \<Rightarrow> bool" where
  "hashable v \<longleftrightarrow> (case v of JArr _ \<Rightarrow> False | JObj _ \<Rightarrow> False | _ \<Rightarrow> True)"

definition validate_state_history :: "pydict list \<Rightarrow> exn + ValidationResult" where
  "validate_state_history history = validated (
     if history = [] then ret ()
     else let statuses = map (\<lambda>h. dict_get h ''status'' JNull) history in
       bind (raise_if (\<not> list_all hashable statuses) PyTypeError) (\<lambda>_.
       if has_duplicate json_eq statuses then add_warning ''DUPLICATE_STATUS_IN_HISTORY'' [] else ret ()))"

section \<open>InventoryValidator\<close>

definition validate_balance :: "int \<Rightarrow> int \<Rightarrow> int \<Rightarrow> int \<Rightarrow> int \<Rightarrow> exn + ValidationResult" where
  "validate_balance on_hand_q reserved_q allocated_q damaged_q quarantine_q = validated (
     bind (for_loop (\<lambda>(name, val) _. error_if (val < 0) ''NEGATIVE_BALANCE'' [(''field_name'', JStr name)])
       [(''on_hand'', on_hand_q), (''reserved'', reserved_q), (''allocated'', allocated_q),
        (''damaged'', damaged_q), (''quarantine'', quarantine_q)] ()) (\<lambda>_.
     let committed = reserved_q + allocated_q + damaged_q + quarantine_q in
     bind (error_if (on_hand_q < committed) ''OVERCOMMITTED''
       [(''on_hand'', JInt on_hand_q), (''committed'', JInt committed)]) (\<lambda>_.
     error_if (on_hand_q - committed < 0) ''NEGATIVE_AVAILABLE'' [])))"

definition validate_adjustment :: "int \<Rightarrow> int \<Rightarrow> string \<Rightarrow> exn + ValidationResult" where
  "validate_adjustment current delta reason = validated (
     bind (error_if (reason = []) ''MISSING_REASON'' []) (\<lambda>_.
     error_if (current + delta < 0) ''ADJUSTMENT_BELOW_ZERO'' []))"

section \<open>ProcurementValidator\<close>

text \<open>\<open>Decimal(str(x))\<close> of a dynamic value is the parameter \<open>to_decimal\<close>; it raises when the text is
  not a number.\<close>

definition check_po_line :: "(json \<Rightarrow> decimal option) \<Rightarrow> nat \<times> pydict \<Rightarrow> unit \<Rightarrow> unit check" where
  "check_po_line to_decimal = (\<lambda>(i, line) _.
     bind (number_of (dict_get line ''quantity'' (JInt 0))) (\<lambda>qty.
     bind (error_if (qty \<le> 0) ''INVALID_PO_QTY'' [(''line_index'', JInt (int i))]) (\<lambda>_.
     bind (case to_decimal (dict_get line ''unit_cost'' (JStr ''0'')) of None \<Rightarrow> raise PyValueError | Some c \<Rightarrow> ret c) (\<lambda>cost.
     error_if (cost < 0) ''INVALID_UNIT_COST'' [(''line_index'', JInt (int i))]))))"

definition validate_po_lines :: "(json \<Rightarrow> decimal option) \<Rightarrow> pydict list \<Rightarrow> exn + ValidationResult" where
  "validate_po_lines to_decimal lines = validated (
     bind (error_if (lines = []) ''NO_PO_LINES'' []) (\<lambda>_.
     for_loop (check_po_line to_decimal) (enumerate 0 lines) ()))"

definition validate_supplier_active :: "bool \<Rightarrow> exn + ValidationResult" where
  "validate_supplier_active is_active = validated (error_if (\<not> is_active) ''INACTIVE_SUPPLIER'' [])"

section \<open>TransferValidator\<close>

definition validate_transfer :: "uuid \<Rightarrow> uuid \<Rightarrow> int \<Rightarrow> int \<Rightarrow> exn + ValidationResult" where
  "validate_transfer source_id dest_id quantity avail = validated (
     bind (error_if (source_id = dest_id) ''SAME_WAREHOUSE'' []) (\<lambda>_.
     bind (error_if (quantity \<le> 0) ''INVALID_QUANTITY'' []) (\<lambda>_.
     error_if (avail < quantity) ''INSUFFICIENT_STOCK'' [(''requested'', JInt quantity), (''available'', JInt avail)])))"

section \<open>What a valid result means\<close>

definition noted :: "bool \<Rightarrow> string \<Rightarrow> pydict \<Rightarrow> ValidationResult \<Rightarrow> ValidationResult" where
  "noted b code c r = (if b then r\<lparr>vr_is_valid := False, vr_issues := vr_issues r @
     [\<lparr>vi_code = code, vi_severity = ''error'', vi_field_name = None, vi_context = c\<rparr>]\<rparr> else r)"

lemma noted_simps [simp]:
  "vr_is_valid (noted b code c r) \<longleftrightarrow> vr_is_valid r \<and> \<not> b"
  "vr_issues (noted b code c r) = [] \<longleftrightarrow> vr_issues r = [] \<and> \<not> b"
  by (simp_all add: noted_def)

lemma error_if_app [simp]: "error_if b code c r = (Inr (), noted b code c r)"
  by (simp add: error_if_def add_error_def noted_def)

lemma bind_error_if [simp]: "bind (error_if b code c) f r = f () (noted b code c r)"
  by (simp add: bind_def)

lemma validate_balance_iff:
  "\<exists>r. validate_balance (on_hand b) (reserved b) (allocated b) (damaged b) (quarantine b) = Inr r \<and>
     (vr_is_valid r \<longleftrightarrow> bal_ok b) \<and> (vr_issues r = [] \<longleftrightarrow> bal_ok b)"
  by (auto simp: validate_balance_def validated_def bal_ok_def Let_def bind_assoc)

lemma validate_transfer_iff:
  "\<exists>r. validate_transfer w w' n a = Inr r \<and> (vr_is_valid r \<longleftrightarrow> w \<noteq> w' \<and> 0 < n \<and> n \<le> a)"
  by (auto simp: validate_transfer_def validated_def)

lemma order_lines_loop:
  assumes "list_all (\<lambda>l. json_number (dict_get l ''quantity'' (JInt 0)) \<noteq> None) lines"
  shows "\<exists>r'. for_loop check_order_line (enumerate n lines) () r = (Inr (), r') \<and>
    (vr_is_valid r' \<longleftrightarrow> vr_is_valid r \<and> list_all (\<lambda>l. case json_number (dict_get l ''quantity'' (JInt 0)) of
       None \<Rightarrow> False | Some q \<Rightarrow> 0 < q \<and> q \<le> 10000) lines)"
  using assms
proof (induction lines arbitrary: n r)
  case (Cons l ls)
  then obtain q where q: "json_number (dict_get l ''quantity'' (JInt 0)) = Some q" by auto
  let ?r = "noted (q \<le> 0 \<or> of_int MAX_QUANTITY_PER_LINE < q) ''INVALID_QUANTITY'' [(''line_index'', JInt (int n))] r"
  obtain r' where "for_loop check_order_line (enumerate (Suc n) ls) () ?r = (Inr (), r')"
    "vr_is_valid r' \<longleftrightarrow> vr_is_valid ?r \<and> list_all (\<lambda>l. case json_number (dict_get l ''quantity'' (JInt 0)) of
       None \<Rightarrow> False | Some q \<Rightarrow> 0 < q \<and> q \<le> 10000) ls"
    using Cons.IH [of "Suc n" ?r] Cons.prems by auto
  moreover have "check_order_line (n, l) () r = (Inr (), ?r)"
    by (simp add: check_order_line_def number_of_def q)
  ultimately show ?case
    by (auto simp: bind_def q MAX_QUANTITY_PER_LINE_def not_le not_less)
qed simp

text \<open>The order validator accepts exactly the orders that meet every rule.\<close>

definition order_rules :: "string \<Rightarrow> pydict list \<Rightarrow> pydict \<Rightarrow> int \<Rightarrow> bool" where
  "order_rules external_order_id lines ship_to priority \<longleftrightarrow>
     0 < length external_order_id \<and> length external_order_id \<le> 128 \<and>
     0 < length lines \<and> length lines \<le> 500 \<and>
     list_all (\<lambda>l. case json_number (dict_get l ''quantity'' (JInt 0)) of
       None \<Rightarrow> False | Some q \<Rightarrow> 0 < q \<and> q \<le> 10000) lines \<and>
     {''city'', ''state'', ''postal_code''} \<subseteq> fst ` set ship_to \<and> 1 \<le> priority \<and> priority \<le> 10"

lemma validate_create_iff:
  assumes "list_all (\<lambda>l. json_number (dict_get l ''quantity'' (JInt 0)) \<noteq> None) lines"
  shows "\<exists>r. validate_create i lines ship_to priority = Inr r \<and>
     (vr_is_valid r \<longleftrightarrow> order_rules i lines ship_to priority)"
proof -
  let ?r = "noted (MAX_LINES < length lines) ''TOO_MANY_LINES'' []
    (noted (lines = []) ''NO_LINES'' [] (noted (i = [] \<or> 128 < length i) ''INVALID_ORDER_ID'' []
      \<lparr>vr_is_valid = True, vr_issues = []\<rparr>))"
  obtain r' where "for_loop check_order_line (enumerate 0 lines) () ?r = (Inr (), r')"
    "vr_is_valid r' \<longleftrightarrow> vr_is_valid ?r \<and> list_all (\<lambda>l. case json_number (dict_get l ''quantity'' (JInt 0)) of
       None \<Rightarrow> False | Some q \<Rightarrow> 0 < q \<and> q \<le> 10000) lines"
    using order_lines_loop [OF assms, of 0 ?r] by blast
  then show ?thesis
    by (simp add: validate_create_def validated_def bind_def [of "for_loop _ _ _"] filter_empty_conv)
      (auto simp: order_rules_def MAX_LINES_def MAX_PRIORITY_def)
qed

section \<open>Properties\<close>



end
