(* ===== verification/OrderRouting.thy ===== *)
theory OrderRouting
  imports Ledger
begin

text \<open>
  \<open>domain/fulfillment/routing.py\<close>: which warehouses fulfil an order.  Candidates are evaluated from
  the stock, a strategy selects at most two of them, and a plan is stored for each.
\<close>

section \<open>OrderRouter\<close>

record RoutingCandidate =
  rc_warehouse :: uuid
  rc_code :: string
  rc_total_available :: int
  rc_cost :: decimal
  rc_transit_days :: int
  rc_priority :: int
  rc_can_fulfill_all :: bool
  rc_line_coverage :: "(uuid \<times> int) list"

record RoutingDecision =
  rd_order :: uuid
  rd_strategy :: string
  rd_candidates :: "RoutingCandidate list"
  rd_selected :: "uuid list"
  rd_is_split :: bool
  rd_total_cost :: decimal
  rd_score :: pyfloat

definition STRATEGIES :: "string list" where
  "STRATEGIES = [''cost_optimized'', ''speed_optimized'', ''single_warehouse'', ''balanced'']"

text \<open>The loop over the lines: coverage, total and whether every line is covered.\<close>

definition cover_line ::
  "uuid \<Rightarrow> OrderLine \<Rightarrow> (uuid \<times> int) list \<times> int \<times> bool \<Rightarrow> ((uuid \<times> int) list \<times> int \<times> bool) task" where
  "cover_line w l = (\<lambda>(coverage, total, full).
     bind (get_aggregated_available w (ol_sku l)) (\<lambda>av.
     let needed = ol_quantity_ordered l - ol_quantity_allocated l;
         covered = min av needed
     in ret (coverage @ [(ol_id l, covered)], total + covered, full \<and> \<not> covered < needed)))"

definition evaluate_warehouse ::
  "OrderLine list \<Rightarrow> Warehouse \<Rightarrow> RoutingCandidate list \<Rightarrow> RoutingCandidate list task" where
  "evaluate_warehouse ls wh cs = bind (for_loop (cover_line (wh_id wh)) ls ([], 0, True)) (\<lambda>(coverage, total, full).
     if total = 0 then ret cs
     else ret (cs @ [\<lparr>rc_warehouse = wh_id wh, rc_code = wh_code wh, rc_total_available = total,
       rc_cost = of_int (wh_priority wh * 10 + 50), rc_transit_days = wh_priority wh + 2,
       rc_priority = wh_priority wh, rc_can_fulfill_all = full, rc_line_coverage = coverage\<rparr>]))"

definition evaluate_candidates :: "OrderLine list \<Rightarrow> RoutingCandidate list task" where
  "evaluate_candidates ls = bind list_active_warehouses (\<lambda>whs. for_loop (evaluate_warehouse ls) whs [])"

text \<open>No candidate has an attribute \<open>routing_score\<close>, so the last strategy sorts by what is available.\<close>

definition select_warehouses :: "RoutingCandidate list \<Rightarrow> string \<Rightarrow> bool \<Rightarrow> RoutingCandidate list" where
  "select_warehouses cs strategy allow_partial =
     (if strategy = ''single_warehouse'' then
        (case py_min_by rc_cost (filter rc_can_fulfill_all cs) of
           Some c \<Rightarrow> [c]
         | None \<Rightarrow> if allow_partial then (case py_max_by rc_total_available cs of None \<Rightarrow> [] | Some c \<Rightarrow> [c]) else [])
      else if strategy = ''speed_optimized'' then take 2 (sort_key rc_transit_days cs)
      else if strategy = ''cost_optimized'' then take 2 (sort_key rc_cost cs)
      else take 2 (sort_key (\<lambda>c. - rc_total_available c) cs))"

definition total_cost :: "RoutingCandidate list \<Rightarrow> decimal" where
  "total_cost cs = fold (\<lambda>c tot. dadd tot (rc_cost c)) cs 0"

definition compute_routing_score :: "RoutingCandidate list \<Rightarrow> string \<Rightarrow> exn + pyfloat" where
  "compute_routing_score selected strategy =
     (if selected = [] then Inr 0
      else let coverage = sum_list (map rc_total_available selected);
               cost_sum = fadd 1 (fl (total_cost selected));
               speed_sum = fadd 1 (fl (of_int (sum_list (map rc_transit_days selected)) / of_nat (length selected)))
           in if cost_sum = 0 \<or> speed_sum = 0 then Inl PyZeroDivisionError
              else let cost_factor = fdiv 1 cost_sum; speed_factor = fdiv 1 speed_sum in
                if strategy = ''speed_optimized''
                then Inr (fadd (fmul (fl (of_int coverage)) (fl (3 / 10))) (fmul speed_factor (fl (7 / 10))))
                else Inr (fadd (fmul (fl (of_int coverage)) (fl (5 / 10))) (fmul cost_factor (fl (5 / 10)))))"

definition new_plan :: "uuid \<Rightarrow> uuid \<Rightarrow> RoutingDecision \<Rightarrow> RoutingCandidate \<Rightarrow> FulfillmentPlan" where
  "new_plan i order d c =
     \<lparr>fp_id = i, fp_order = order, fp_warehouse = rc_warehouse c, fp_status = ''planned'',
      fp_planned_ship_date = None, fp_estimated_cost = Some (rc_cost c),
      fp_routing_score = Some (round4 (rd_score d)), fp_line_coverage = rc_line_coverage c,
      fp_strategy = rd_strategy d, fp_is_partial = (\<not> rc_can_fulfill_all c)\<rparr>"

definition create_fulfillment_plan :: "uuid \<Rightarrow> RoutingDecision \<Rightarrow> RoutingCandidate \<Rightarrow> unit task" where
  "create_fulfillment_plan order d c = bind (get_active_plan order (rc_warehouse c)) (\<lambda>existing. case existing of
     Some _ \<Rightarrow> ret ()
   | None \<Rightarrow> bind fresh_uuid (\<lambda>i. bind (add plans_update (new_plan i order d c)) (\<lambda>_. ret ())))"

definition create_fulfillment_plans :: "uuid \<Rightarrow> RoutingCandidate list \<Rightarrow> RoutingDecision \<Rightarrow> unit task" where
  "create_fulfillment_plans order selected d = for_loop (\<lambda>c _. create_fulfillment_plan order d c) selected ()"

definition decision_of :: "uuid \<Rightarrow> string \<Rightarrow> RoutingCandidate list \<Rightarrow> RoutingCandidate list \<Rightarrow> pyfloat \<Rightarrow> RoutingDecision" where
  "decision_of order strategy cs selected score =
     \<lparr>rd_order = order, rd_strategy = strategy, rd_candidates = cs, rd_selected = map rc_warehouse selected,
      rd_is_split = (1 < length selected), rd_total_cost = total_cost selected, rd_score = score\<rparr>"

definition known_strategy :: "string \<Rightarrow> string" where
  "known_strategy strategy = (if strategy \<notin> set STRATEGIES then ''cost_optimized'' else strategy)"

definition route_order :: "uuid \<Rightarrow> string \<Rightarrow> RoutingDecision task" where
  "route_order order strategy0 = bind (get_order_with_lines order) (\<lambda>r. case r of
     None \<Rightarrow> raise RoutingConflictError
   | Some (ord, ls) \<Rightarrow>
       let strategy = known_strategy strategy0 in
       bind (evaluate_candidates ls) (\<lambda>cs.
       bind (raise_if (cs = []) RoutingConflictError) (\<lambda>_.
       let selected = select_warehouses cs strategy (ord_allow_partial ord) in
       bind (raise_if (selected = []) RoutingConflictError) (\<lambda>_.
       bind (fetch (\<lambda>_. compute_routing_score selected strategy)) (\<lambda>score.
       let d = decision_of order strategy cs selected score in
       bind (create_fulfillment_plans order selected d) (\<lambda>_. ret d))))))"

section \<open>The candidates are a function of the stock\<close>

definition available_at :: "session \<Rightarrow> uuid \<Rightarrow> uuid \<Rightarrow> int" where
  "available_at s w k = max 0 (select_sum uncommitted (\<lambda>b. bal_warehouse b = w \<and> bal_sku b = k) (balances s))"

definition needed :: "OrderLine \<Rightarrow> int" where
  "needed l = ol_quantity_ordered l - ol_quantity_allocated l"

definition candidate_of :: "session \<Rightarrow> OrderLine list \<Rightarrow> Warehouse \<Rightarrow> RoutingCandidate" where
  "candidate_of s ls wh = \<lparr>rc_warehouse = wh_id wh, rc_code = wh_code wh,
     rc_total_available = sum_list (map (\<lambda>l. min (available_at s (wh_id wh) (ol_sku l)) (needed l)) ls),
     rc_cost = of_int (wh_priority wh * 10 + 50), rc_transit_days = wh_priority wh + 2,
     rc_priority = wh_priority wh,
     rc_can_fulfill_all = list_all (\<lambda>l. needed l \<le> available_at s (wh_id wh) (ol_sku l)) ls,
     rc_line_coverage = map (\<lambda>l. (ol_id l, min (available_at s (wh_id wh) (ol_sku l)) (needed l))) ls\<rparr>"

definition candidates_of :: "session \<Rightarrow> OrderLine list \<Rightarrow> RoutingCandidate list" where
  "candidates_of s ls = filter (\<lambda>c. rc_total_available c \<noteq> 0)
     (map (candidate_of s ls) (select_ordered wh_priority wh_is_active (warehouses s)))"

lemma cover_lines_app:
  "for_loop (cover_line w) ls (cov, tot, full) s = (Inr (cov @ map (\<lambda>l. (ol_id l, min (available_at s w (ol_sku l)) (needed l))) ls,
     tot + sum_list (map (\<lambda>l. min (available_at s w (ol_sku l)) (needed l)) ls),
     full \<and> list_all (\<lambda>l. needed l \<le> available_at s w (ol_sku l)) ls), s)"
proof (induction ls arbitrary: cov tot full)
  case (Cons l ls)
  have "cover_line w l (cov, tot, full) s = (Inr (cov @ [(ol_id l, min (available_at s w (ol_sku l)) (needed l))],
      tot + min (available_at s w (ol_sku l)) (needed l), full \<and> needed l \<le> available_at s w (ol_sku l)), s)"
    by (auto simp: cover_line_def get_aggregated_available_def available_at_def needed_def Let_def)
  with Cons show ?case by (simp add: bind_def)
qed simp

lemma evaluate_candidates_app: "evaluate_candidates ls s = (Inr (candidates_of s ls), s)"
proof -
  have "for_loop (evaluate_warehouse ls) whs cs s =
      (Inr (cs @ filter (\<lambda>c. rc_total_available c \<noteq> 0) (map (candidate_of s ls) whs)), s)" for whs cs
  proof (induction whs arbitrary: cs)
    case (Cons wh whs)
    have "evaluate_warehouse ls wh cs s =
        (Inr (cs @ filter (\<lambda>c. rc_total_available c \<noteq> 0) [candidate_of s ls wh]), s)"
      by (simp add: evaluate_warehouse_def bind_def cover_lines_app candidate_of_def)
    with Cons show ?case by (simp add: bind_def)
  qed simp
  then show ?thesis by (simp add: evaluate_candidates_def list_active_warehouses_def candidates_of_def)
qed

section \<open>The selection\<close>

lemma select_at_most_two: "length (select_warehouses cs strategy p) \<le> 2"
  by (simp add: select_warehouses_def split: option.split)

lemma sort_key_Nil_iff [simp]: "sort_key k cs = [] \<longleftrightarrow> cs = []"
  by (metis length_0_conv length_sort)

lemma first_two: "set (take 2 (sort_key k cs)) \<subseteq> set cs"
  by (metis set_sort set_take_subset)

lemma select_subset: "set (select_warehouses cs strategy p) \<subseteq> set cs"
proof (cases "strategy = ''single_warehouse''")
  case True
  show ?thesis
  proof (cases "py_min_by rc_cost (filter rc_can_fulfill_all cs)")
    case None
    have sel: "select_warehouses cs strategy p = (if p then (case py_max_by rc_total_available cs of None \<Rightarrow> [] | Some c \<Rightarrow> [c]) else [])"
      unfolding select_warehouses_def True None by simp
    show ?thesis
    proof (cases "py_max_by rc_total_available cs")
      case None
      show ?thesis unfolding sel None option.case by (cases p) auto
    next
      case (Some c)
      show ?thesis unfolding sel Some option.case using py_max_by_Some [OF Some] by (cases p) auto
    qed
  next
    case (Some c)
    with True py_min_by_Some [OF this] show ?thesis by (simp add: select_warehouses_def)
  qed
qed (simp add: select_warehouses_def first_two)

lemma select_nonempty: "cs \<noteq> [] \<Longrightarrow> strategy \<noteq> ''single_warehouse'' \<Longrightarrow> select_warehouses cs strategy p \<noteq> []"
  by (simp add: select_warehouses_def)

lemma select_cheapest:
  assumes "c \<in> set (select_warehouses cs ''cost_optimized'' p)" and "d \<in> set cs"
    and "d \<notin> set (select_warehouses cs ''cost_optimized'' p)"
  shows "rc_cost c \<le> rc_cost d"
proof -
  let ?sorted = "sort_key rc_cost cs"
  have "set ?sorted = set (take 2 ?sorted) \<union> set (drop 2 ?sorted)"
    by (metis append_take_drop_id set_append)
  then have "d \<in> set (drop 2 ?sorted)" using assms(2,3) by (auto simp: select_warehouses_def)
  with assms(1) show ?thesis by (auto simp: select_warehouses_def intro: sort_key_take_least)
qed

lemma select_single:
  assumes "select_warehouses cs ''single_warehouse'' p = [c]" and "\<exists>d \<in> set cs. rc_can_fulfill_all d"
  shows "rc_can_fulfill_all c \<and> (\<forall>d \<in> set cs. rc_can_fulfill_all d \<longrightarrow> rc_cost c \<le> rc_cost d)"
proof -
  obtain c' where c': "py_min_by rc_cost (filter rc_can_fulfill_all cs) = Some c'"
    using assms(2) by (metis py_min_by_eq_None filter_empty_conv option.exhaust)
  with assms(1) have "c = c'" by (simp add: select_warehouses_def)
  with py_min_by_Some [OF c'] show ?thesis by auto
qed

section \<open>The score exists\<close>

lemma total_cost_nonneg:
  assumes "list_all (\<lambda>c. 0 \<le> rc_cost c) cs"
  shows "0 \<le> total_cost cs"
proof -
  have "0 \<le> fold (\<lambda>c tot. dadd tot (rc_cost c)) cs tot" if "0 \<le> tot" for tot :: rat
    using assms that by (induction cs arbitrary: tot) (simp_all add: dadd_def dec28_nonneg)
  then show ?thesis by (simp add: total_cost_def)
qed

lemma one_plus_positive: "0 \<le> x \<Longrightarrow> 0 < fadd 1 (fl x)"
proof -
  assume "0 \<le> x"
  then have "fl 1 \<le> fl (1 + fl x)" by (intro fl_mono) (simp add: fl_nonneg)
  moreover have "fl 1 = 1" using fl_of_int [of 1] by simp
  ultimately show ?thesis by (simp add: fadd_def)
qed

lemma routing_score_exists:
  assumes "list_all (\<lambda>c. 0 \<le> rc_priority c \<and> rc_cost c = of_int (rc_priority c * 10 + 50) \<and>
      rc_transit_days c = rc_priority c + 2) cs"
  shows "\<exists>x. compute_routing_score cs strategy = Inr x"
proof (cases "cs = []")
  case False
  have "list_all (\<lambda>c. 0 \<le> rc_cost c) cs" using assms by (auto simp: list_all_iff)
  then have c: "0 < fadd 1 (fl (total_cost cs))" by (intro one_plus_positive total_cost_nonneg)
  have "0 \<le> sum_list (map rc_transit_days cs)"
    using assms by (intro sum_list_nonneg_map) (auto simp: list_all_iff)
  then have "(0::rat) \<le> of_int (sum_list (map rc_transit_days cs)) / of_nat (length cs)"
    by (simp add: zero_le_divide_iff)
  then have "0 < fadd 1 (fl (of_int (sum_list (map rc_transit_days cs)) / of_nat (length cs)))"
    by (rule one_plus_positive)
  with c False show ?thesis unfolding compute_routing_score_def Let_def by simp
qed (simp add: compute_routing_score_def)

section \<open>The plans that routing stores\<close>

definition active_plan :: "uuid \<Rightarrow> uuid \<Rightarrow> FulfillmentPlan \<Rightarrow> bool" where
  "active_plan i w p \<longleftrightarrow> fp_order p = i \<and> fp_warehouse p = w \<and> fp_status p \<in> {''planned'', ''executing''}"

definition active_plans :: "uuid \<Rightarrow> uuid \<Rightarrow> session \<Rightarrow> FulfillmentPlan list" where
  "active_plans i w s = filter (active_plan i w) (lives (plans s))"

text \<open>An order has at most one active plan per warehouse.\<close>

definition plans_ok :: "session \<Rightarrow> bool" where
  "plans_ok s \<longleftrightarrow> (\<forall>i w. length (active_plans i w s) \<le> 1)"

definition planned_for :: "uuid \<Rightarrow> uuid list \<Rightarrow> session \<Rightarrow> session \<Rightarrow> bool" where
  "planned_for i ws s t \<longleftrightarrow> clean_session t \<and> plans_ok t \<and> (\<forall>w \<in> set ws. length (active_plans i w t) = 1) \<and>
     (\<exists>ps. lives (plans t) = lives (plans s) @ ps \<and> (\<forall>p \<in> set ps. fp_order p = i \<and> fp_warehouse p \<in> set ws))"

lemma create_plan_app:
  assumes C: "clean_session s" and P: "plans_ok s"
  shows "\<exists>t. create_fulfillment_plan i d c s = (Inr (), t) \<and> planned_for i [rc_warehouse c] s t"
proof -
  let ?w = "rc_warehouse c"
  have sel: "select_where (\<lambda>p. fp_order p = i \<and> fp_warehouse p = ?w \<and> fp_status p \<in> {''planned'', ''executing''}) (plans s)
      = active_plans i ?w s"
    by (simp add: clean_select_where [OF clean_tables(10) [OF C]] active_plans_def active_plan_def [abs_def])
  show ?thesis
  proof (cases "active_plans i ?w s")
    case Nil
    let ?t = "flush (plans_update (add_row (new_plan (next_uuid s) i d c)) (s\<lparr>next_uuid := Suc (next_uuid s)\<rparr>))"
    have act: "active_plans j w ?t = active_plans j w s @ (if j = i \<and> w = ?w then [new_plan (next_uuid s) i d c] else [])" for j w
      by (auto simp: active_plans_def active_plan_def new_plan_def)
    have "plans_ok ?t" using P Nil unfolding plans_ok_def act by auto
    moreover have "create_fulfillment_plan i d c s = (Inr (), ?t)"
      unfolding create_fulfillment_plan_def get_active_plan_def bind_fetch sel Nil
      by (simp add: scalar_one_or_none_def add_def session_add_def bind_assoc)
    moreover have "length (active_plans i ?w ?t) = 1" unfolding act using Nil by simp
    ultimately show ?thesis by (simp add: planned_for_def) (simp add: new_plan_def)
  next
    case (Cons p ps)
    then have one: "active_plans i ?w s = [p]"
      using P unfolding plans_ok_def by (metis le_zero_eq length_0_conv length_Cons not_less_eq_eq One_nat_def)
    have "create_fulfillment_plan i d c s = (Inr (), s)"
      unfolding create_fulfillment_plan_def get_active_plan_def bind_fetch sel one
      by (simp add: scalar_one_or_none_def)
    with C P one show ?thesis by (auto simp: planned_for_def)
  qed
qed

lemma create_plans_app:
  assumes "clean_session s" and "plans_ok s"
  shows "\<exists>t. create_fulfillment_plans i cs d s = (Inr (), t) \<and> planned_for i (map rc_warehouse cs) s t"
  using assms
proof (induction cs arbitrary: s)
  case Nil
  then show ?case by (simp add: create_fulfillment_plans_def planned_for_def)
next
  case (Cons c cs)
  obtain u where u: "create_fulfillment_plan i d c s = (Inr (), u)" "planned_for i [rc_warehouse c] s u"
    using create_plan_app [OF Cons.prems] by blast
  then obtain t where t: "create_fulfillment_plans i cs d u = (Inr (), t)" "planned_for i (map rc_warehouse cs) u t"
    using Cons.IH [of u] by (auto simp: planned_for_def)
  obtain ps where ps: "lives (plans u) = lives (plans s) @ ps" "\<forall>p \<in> set ps. fp_order p = i \<and> fp_warehouse p = rc_warehouse c"
    using u(2) by (auto simp: planned_for_def)
  obtain qs where qs: "lives (plans t) = lives (plans u) @ qs" "\<forall>p \<in> set qs. fp_order p = i \<and> fp_warehouse p \<in> set (map rc_warehouse cs)"
    using t(2) by (auto simp: planned_for_def)
  have "length (active_plans i (rc_warehouse c) u) = 1" using u(2) by (simp add: planned_for_def)
  then have "1 \<le> length (active_plans i (rc_warehouse c) t)" by (simp add: active_plans_def qs(1))
  moreover have "length (active_plans i (rc_warehouse c) t) \<le> 1" using t(2) by (simp add: planned_for_def plans_ok_def)
  ultimately have "length (active_plans i (rc_warehouse c) t) = 1" by simp
  moreover have "lives (plans t) = lives (plans s) @ (ps @ qs)" by (simp add: ps qs)
  moreover have "\<forall>p \<in> set (ps @ qs). fp_order p = i \<and> fp_warehouse p \<in> set (map rc_warehouse (c # cs))"
    using ps(2) qs(2) by auto
  ultimately have "planned_for i (map rc_warehouse (c # cs)) s t"
    using t(2) unfolding planned_for_def by (intro conjI exI [of _ "ps @ qs"]) auto
  with u(1) t(1) show ?case by (simp add: create_fulfillment_plans_def bind_def)
qed

section \<open>Properties\<close>

definition priorities_ok :: "session \<Rightarrow> bool" where
  "priorities_ok s \<longleftrightarrow> (\<forall>wh \<in> set (lives (warehouses s)). 0 \<le> wh_priority wh)"

lemma candidates_score:
  assumes "priorities_ok s" and "set cs \<subseteq> set (candidates_of s ls)"
  shows "list_all (\<lambda>c. 0 \<le> rc_priority c \<and> rc_cost c = of_int (rc_priority c * 10 + 50) \<and>
      rc_transit_days c = rc_priority c + 2) cs"
proof -
  have "0 \<le> rc_priority c \<and> rc_cost c = of_int (rc_priority c * 10 + 50) \<and> rc_transit_days c = rc_priority c + 2"
    if "c \<in> set (candidates_of s ls)" for c
    using that assms(1) select_ordered_subset [of wh_priority wh_is_active "warehouses s"]
    by (auto simp: candidates_of_def candidate_of_def priorities_ok_def)
  with assms(2) show ?thesis by (auto simp: list_all_iff)
qed


definition demo_order :: Order where
  "demo_order = \<lparr>ord_id = 6, ord_external_id = ''A'', ord_customer = ''C'', ord_status = ''received'',
     ord_priority = 5, ord_ship_to = [], ord_requested_ship_date = None,
     ord_routing_strategy = ''cost_optimized'', ord_allow_partial = True, ord_correlation = None,
     ord_version = 1, ord_created_at = 0\<rparr>"

definition demo_line :: OrderLine where
  "demo_line = \<lparr>ol_id = 7, ol_order = 6, ol_sku = 3, ol_quantity_ordered = 4, ol_quantity_allocated = 0,
     ol_quantity_shipped = 0, ol_unit_price = 1, ol_backorder_quantity = 0\<rparr>"

definition demo_ordered :: session where
  "demo_ordered = demo_session\<lparr>orders := [Cell (Some demo_order) demo_order],
     order_lines := [Cell (Some demo_line) demo_line]\<rparr>"

lemma demo_ordered_ok: "clean_session demo_ordered" "plans_ok demo_ordered" "priorities_ok demo_ordered"
  "get_order_with_lines 6 demo_ordered = (Inr (Some (demo_order, [demo_line])), demo_ordered)"
  by (simp_all add: demo_ordered_def demo_session_def empty_session_def clean_session_def flush_def flush_table_def
      plans_ok_def active_plans_def priorities_ok_def lives_def demo_warehouse_def get_order_with_lines_def
      select_where_def stored_sat_def demo_order_def demo_line_def lines_of_order_def scalar_one_or_none_def)


end
