(* ===== verification/Workflow.thy ===== *)
theory Workflow
  imports Models
begin

text \<open>
  \<open>core/context.py\<close> and \<open>core/workflow.py\<close>: the context of a workflow and the orchestrator that
  runs its steps and compensates after a failure.  The orchestrator is proved to implement an
  atomic transaction: either every pending step has run, in order, or the state is the one before.
\<close>

section \<open>WorkflowContext\<close>

record WorkflowContext =
  wf_workflow_id :: uuid
  wf_correlation_id :: uuid
  wf_started_at :: instant
  wf_steps_completed :: "string list"
  wf_steps_pending :: "string list"
  wf_metadata :: pydict
  wf_compensations :: "string list"

definition new_context_with :: "string list \<Rightarrow> WorkflowContext task" where
  "new_context_with pending = bind fresh_uuid (\<lambda>i. bind fresh_uuid (\<lambda>c. bind get_now (\<lambda>n.
     ret \<lparr>wf_workflow_id = i, wf_correlation_id = c, wf_started_at = n, wf_steps_completed = [],
          wf_steps_pending = pending, wf_metadata = [], wf_compensations = []\<rparr>)))"

text \<open>\<open>list.remove\<close> removes the first occurrence.\<close>

definition mark_step_complete :: "string \<Rightarrow> WorkflowContext \<Rightarrow> WorkflowContext" where
  "mark_step_complete st ctx =
     ctx\<lparr>wf_steps_pending := (if st \<in> set (wf_steps_pending ctx) then remove1 st (wf_steps_pending ctx)
                               else wf_steps_pending ctx),
         wf_steps_completed := wf_steps_completed ctx @ [st]\<rparr>"

definition register_compensation :: "string \<Rightarrow> WorkflowContext \<Rightarrow> WorkflowContext" where
  "register_compensation st ctx = ctx\<lparr>wf_compensations := st # wf_compensations ctx\<rparr>"

definition wf_is_complete :: "WorkflowContext \<Rightarrow> bool" where
  "wf_is_complete ctx \<longleftrightarrow> length (wf_steps_pending ctx) = 0"

section \<open>WorkflowOrchestrator\<close>

text \<open>A handler works on the context and on whatever else the workflow changes.\<close>

type_synonym 's handler = "(WorkflowContext \<times> 's, exn, unit) op"

record 's workflow_step =
  ws_name :: string
  ws_handler :: "'s handler"
  ws_compensation :: "'s handler option"

definition add_step :: "string \<Rightarrow> 's handler \<Rightarrow> 's handler option \<Rightarrow> 's workflow_step list \<Rightarrow> 's workflow_step list" where
  "add_step n h c steps = steps @ [\<lparr>ws_name = n, ws_handler = h, ws_compensation = c\<rparr>]"

text \<open>Compensations run in reverse order; one that fails is logged and the next one runs.\<close>

definition compensate :: "'s handler option list \<Rightarrow> 's handler" where
  "compensate handlers = for_loop (\<lambda>c _. case c of None \<Rightarrow> ret () | Some m \<Rightarrow> try_except m (\<lambda>_. ret ())) (rev handlers) ()"

definition attempt :: "('s, 'e, 'a) op \<Rightarrow> ('s, 'e, 'e + 'a) op" where
  "attempt m = (\<lambda>s. case m s of (r, t) \<Rightarrow> (Inr r, t))"

fun execute_steps :: "'s workflow_step list \<Rightarrow> 's handler option list \<Rightarrow> 's handler" where
  "execute_steps [] completed_handlers = ret ()"
| "execute_steps (st # steps) completed_handlers =
     bind (reads (\<lambda>(ctx, s). wf_steps_pending ctx)) (\<lambda>pending.
     if ws_name st \<notin> set pending then execute_steps steps completed_handlers
     else bind (attempt (bind (ws_handler st) (\<lambda>_. modify (map_prod (mark_step_complete (ws_name st)) id)))) (\<lambda>r.
       case r of
         Inr _ \<Rightarrow> execute_steps steps (completed_handlers @ [ws_compensation st])
       | Inl e \<Rightarrow> bind (compensate completed_handlers) (\<lambda>_. raise WorkflowError)))"

definition execute_workflow :: "'s workflow_step list \<Rightarrow> 's handler" where
  "execute_workflow steps = execute_steps steps []"

section \<open>The orchestrator is atomic\<close>

text \<open>What an author of a workflow has to see to: a handler that fails has changed nothing but the
  context, and each step comes with a compensation that undoes what its handler did and does not
  fail.\<close>

definition undoable :: "'s workflow_step \<Rightarrow> bool" where
  "undoable st \<longleftrightarrow>
     (\<forall>ctx s e ctx' t. ws_handler st (ctx, s) = (Inl e, (ctx', t)) \<longrightarrow> t = s) \<and>
     (\<exists>m. ws_compensation st = Some m \<and>
        (\<forall>ctx s ctx' t c. ws_handler st (ctx, s) = (Inr (), (ctx', t)) \<longrightarrow>
           (\<exists>c'. m (c, t) = (Inr (), (c', s)))))"

text \<open>The handler keeps its hands off the book-keeping of the orchestrator.\<close>

definition keeps_book :: "'s workflow_step \<Rightarrow> bool" where
  "keeps_book st \<longleftrightarrow> (\<forall>ctx s r ctx' t. ws_handler st (ctx, s) = (r, (ctx', t)) \<longrightarrow>
     wf_steps_pending ctx' = wf_steps_pending ctx \<and> wf_steps_completed ctx' = wf_steps_completed ctx)"

text \<open>\<open>undoes hs t s\<close>: running the compensations of the steps done so far, last first, takes the state
  \<open>t\<close> back to \<open>s\<close>, whatever the context.\<close>

definition undoes :: "'s handler option list \<Rightarrow> 's \<Rightarrow> 's \<Rightarrow> bool" where
  "undoes hs t s \<longleftrightarrow> (\<forall>c. \<exists>c'. compensate hs (c, t) = (Inr (), (c', s)))"

lemma undoes_Nil: "undoes [] s s"
  by (simp add: undoes_def compensate_def)

lemma undoes_snoc:
  assumes "undoes hs s s0" and "\<And>c. \<exists>c'. m (c, t) = (Inr (), (c', s))"
  shows "undoes (hs @ [Some m]) t s0"
  unfolding undoes_def
proof
  fix c
  obtain c1 where "m (c, t) = (Inr (), (c1, s))" using assms(2) by blast
  moreover obtain c2 where "compensate hs (c1, s) = (Inr (), (c2, s0))" using assms(1) by (auto simp: undoes_def)
  ultimately show "\<exists>c'. compensate (hs @ [Some m]) (c, t) = (Inr (), (c', s0))"
    by (simp add: compensate_def bind_def try_except_def)
qed

lemma execute_steps_atomic:
  assumes "\<forall>st \<in> set steps. undoable st" and "undoes hs s s0"
    and "execute_steps steps hs (ctx, s) = (Inl e, (ctx', t))"
  shows "e = WorkflowError \<and> t = s0"
  using assms
proof (induction steps arbitrary: hs s ctx)
  case (Cons st steps)
  show ?case
  proof (cases "ws_name st \<in> set (wf_steps_pending ctx)")
    case False
    with Cons show ?thesis by simp
  next
    case True
    obtain r c u where h: "ws_handler st (ctx, s) = (r, (c, u))" by (metis prod.collapse)
    have U: "undoable st" using Cons.prems(1) by simp
    show ?thesis
    proof (cases r)
      case (Inl e')
      then have "u = s" using U h by (auto simp: undoable_def)
      obtain c' where "compensate hs (c, s) = (Inr (), (c', s0))" using Cons.prems(2) by (auto simp: undoes_def)
      with Cons.prems(3) True h Inl \<open>u = s\<close> show ?thesis
        by (auto simp: attempt_def bind_def)
    next
      case (Inr x)
      then have ok: "ws_handler st (ctx, s) = (Inr (), (c, u))" using h by simp
      from U ok obtain m where m: "ws_compensation st = Some m" "\<And>d. \<exists>c'. m (d, u) = (Inr (), (c', s))"
        unfolding undoable_def by blast
      have "undoes (hs @ [ws_compensation st]) u s0"
        unfolding m(1) by (rule undoes_snoc [where s = s]) (rule Cons.prems(2), rule m(2))
      moreover have "execute_steps steps (hs @ [ws_compensation st]) (mark_step_complete (ws_name st) c, u) = (Inl e, (ctx', t))"
        using Cons.prems(3) True ok by (simp add: attempt_def bind_def)
      ultimately show ?thesis using Cons.IH [of "hs @ [ws_compensation st]" u] Cons.prems(1) by auto
    qed
  qed
qed simp

text \<open>The steps that run, in the order of the workflow: those pending, each name as often as it is.\<close>

fun to_run :: "string list \<Rightarrow> string list \<Rightarrow> string list" where
  "to_run [] pending = []"
| "to_run (n # ns) pending = (if n \<in> set pending then n # to_run ns (remove1 n pending) else to_run ns pending)"

lemma execute_steps_completes:
  assumes "\<forall>st \<in> set steps. keeps_book st" and "execute_steps steps hs (ctx, s) = (Inr (), (ctx', t))"
  shows "wf_steps_completed ctx' = wf_steps_completed ctx @ to_run (map ws_name steps) (wf_steps_pending ctx) \<and>
    wf_steps_pending ctx' = fold remove1 (map ws_name steps) (wf_steps_pending ctx)"
  using assms
proof (induction steps arbitrary: hs s ctx)
  case (Cons st steps)
  show ?case
  proof (cases "ws_name st \<in> set (wf_steps_pending ctx)")
    case False
    with Cons show ?thesis by (simp add: remove1_idem)
  next
    case True
    obtain r c u where h: "ws_handler st (ctx, s) = (r, (c, u))" by (metis prod.collapse)
    have keep: "wf_steps_pending c = wf_steps_pending ctx" "wf_steps_completed c = wf_steps_completed ctx"
      using Cons.prems(1) h unfolding keeps_book_def list.set_intros ball_simps by (metis list.set_intros(1))+
    have "\<not> isl r"
      using Cons.prems(2) True h by (cases r) (auto simp: attempt_def bind_def split: prod.splits sum.splits)
    then obtain x where "r = Inr x" by (cases r) auto
    with Cons.prems(2) True h have
      "execute_steps steps (hs @ [ws_compensation st]) (mark_step_complete (ws_name st) c, u) = (Inr (), (ctx', t))"
      by (simp add: attempt_def bind_def)
    with Cons.IH [of "hs @ [ws_compensation st]" "mark_step_complete (ws_name st) c" u] Cons.prems(1) True keep
    show ?thesis by (simp add: mark_step_complete_def)
  qed
qed simp

text \<open>C34: The orchestrator implements an atomic transaction: when every step's handler changes nothing
  if it fails and comes with a compensation that undoes it, a failed workflow raises
  \<open>WorkflowError\<close> and leaves the state exactly as it was before the workflow; a workflow that
  returns has completed the pending steps in the order of the workflow and has nothing of them
  left to do.\<close>

theorem workflow_atomic:
  assumes "list_all undoable steps" and "list_all keeps_book steps"
    and run: "execute_workflow steps (ctx, s) = (r, (ctx', t))"
  shows "case r of Inl e \<Rightarrow> e = WorkflowError \<and> t = s
    | Inr _ \<Rightarrow> wf_steps_completed ctx' = wf_steps_completed ctx @ to_run (map ws_name steps) (wf_steps_pending ctx) \<and>
        wf_steps_pending ctx' = fold remove1 (map ws_name steps) (wf_steps_pending ctx)"
proof (cases r)
  case (Inl e)
  with execute_steps_atomic [OF _ undoes_Nil, of steps ctx s e ctx' t] run assms(1) show ?thesis
    by (simp add: execute_workflow_def list_all_iff)
next
  case (Inr x)
  with execute_steps_completes [of steps "[]" ctx s ctx' t] run assms(2) show ?thesis
    by (simp add: execute_workflow_def list_all_iff)
qed

text \<open>Two deposits and a step that fails.\<close>

definition deposit :: "int \<Rightarrow> int handler" where
  "deposit n = modify (map_prod id (\<lambda>x. x + n))"

definition demo_steps :: "int workflow_step list" where
  "demo_steps =
     add_step ''fail'' (raise PyRuntimeError) (Some (ret ()))
     (add_step ''second'' (deposit 7) (Some (deposit (- 7)))
     (add_step ''first'' (deposit 5) (Some (deposit (- 5))) []))"

definition demo_context :: "string list \<Rightarrow> WorkflowContext" where
  "demo_context pending = \<lparr>wf_workflow_id = 1, wf_correlation_id = 2, wf_started_at = 0, wf_steps_completed = [],
     wf_steps_pending = pending, wf_metadata = [], wf_compensations = []\<rparr>"

theorem workflow_atomic_witness:
  "(\<exists>ctx. execute_workflow demo_steps (demo_context [''first'', ''second'', ''fail''], 100) = (Inl WorkflowError, (ctx, 100))) \<and>
   (\<exists>ctx. execute_workflow demo_steps (demo_context [''second'', ''first''], 100) = (Inr (), (ctx, 112)) \<and>
      wf_steps_completed ctx = [''first'', ''second''])"
proof -
  have "list_all undoable demo_steps" "list_all keeps_book demo_steps"
    by (auto simp: demo_steps_def add_step_def undoable_def keeps_book_def deposit_def)
  note atomic = workflow_atomic [OF this]
  obtain r ctx t where run: "execute_workflow demo_steps (demo_context [''first'', ''second'', ''fail''], 100) = (r, (ctx, t))"
    by (metis prod.collapse)
  have "fst (execute_workflow demo_steps (demo_context [''first'', ''second'', ''fail''], 100)) = Inl WorkflowError" by code_simp
  with atomic [OF run] run have fails: "\<exists>ctx. execute_workflow demo_steps (demo_context [''first'', ''second'', ''fail''], 100) = (Inl WorkflowError, (ctx, 100))"
    by simp
  obtain q ctx' u where run': "execute_workflow demo_steps (demo_context [''second'', ''first''], 100) = (q, (ctx', u))"
    by (metis prod.collapse)
  have "fst (execute_workflow demo_steps (demo_context [''second'', ''first''], 100)) = Inr ()"
    "snd (snd (execute_workflow demo_steps (demo_context [''second'', ''first''], 100))) = 112" by code_simp+
  with atomic [OF run'] run' have "\<exists>ctx. execute_workflow demo_steps (demo_context [''second'', ''first''], 100) = (Inr (), (ctx, 112)) \<and>
      wf_steps_completed ctx = [''first'', ''second'']"
    by (simp add: demo_steps_def add_step_def demo_context_def)
  with fails show ?thesis by blast
qed

end
