(* ===== verification/Planning.thy ===== *)
theory Planning
  imports OrderRouting Workflow Events
begin

text \<open>
  \<open>domain/fulfillment/planning.py\<close>: the planner, which routes an order, allocates its lines
  warehouse by warehouse and reports what was planned.
\<close>

section \<open>FulfillmentPlanner\<close>

record FulfillmentLinePlan =
  fl_order_line :: uuid
  fl_sku :: uuid
  fl_quantity :: int
  fl_warehouse :: uuid
  fl_reservation :: "uuid option"

record FulfillmentPlanResult =
  fr_order :: uuid
  fr_status :: string
  fr_lines :: "FulfillmentLinePlan list"
  fr_is_partial :: bool
  fr_backorder_lines :: "uuid list"
  fr_planned_ship_date :: "instant option"
  fr_workflow_id :: "uuid option"

definition WORKFLOW_STEPS :: "string list" where
  "WORKFLOW_STEPS = [''validate_order'', ''route_order'', ''allocate_inventory'',
     ''create_fulfillment_plan'', ''schedule_shipment'']"

text \<open>The workflow context is state beside the session, and local to the call that creates it.\<close>

type_synonym 'a flow = "(WorkflowContext \<times> session, exn, 'a) op"

definition step_done :: "string \<Rightarrow> unit flow" where
  "step_done st = modify (map_prod (mark_step_complete st) id)"

definition in_context :: "WorkflowContext \<Rightarrow> 'a flow \<Rightarrow> 'a task" where
  "in_context ctx m = (\<lambda>s. case m (ctx, s) of (r, (c, t)) \<Rightarrow> (r, t))"

definition put_order :: "uuid \<Rightarrow> (Order \<Rightarrow> Order) \<Rightarrow> unit task" where
  "put_order = set_obj orders_update ord_id"

definition put_line :: "uuid \<Rightarrow> (OrderLine \<Rightarrow> OrderLine) \<Rightarrow> unit task" where
  "put_line = set_obj order_lines_update ol_id"

text \<open>What an attribute access on a line object sees.\<close>

definition current_line :: "OrderLine \<Rightarrow> OrderLine task" where
  "current_line l = reads (\<lambda>s. case find (\<lambda>x. ol_id x = ol_id l) (lives (order_lines s)) of
     None \<Rightarrow> l | Some x \<Rightarrow> x)"

definition validate_order :: "uuid \<Rightarrow> (Order \<times> OrderLine list) flow" where
  "validate_order i = bind (on_session (get_order_with_lines i)) (\<lambda>r. case r of
     None \<Rightarrow> raise WorkflowError
   | Some (ord, ls) \<Rightarrow>
       bind (raise_if (ls = []) WorkflowError) (\<lambda>_.
       bind (raise_if (ord_status ord \<in> {''shipped'', ''delivered'', ''cancelled''}) WorkflowError) (\<lambda>_.
       bind (on_session (put_order (ord_id ord) (\<lambda>x. x\<lparr>ord_status := ''validating''\<rparr>))) (\<lambda>_.
       bind (step_done ''validate_order'') (\<lambda>_. ret (ord, ls))))))"

definition planner_route :: "uuid \<Rightarrow> string \<Rightarrow> RoutingDecision flow" where
  "planner_route i strategy = bind (on_session (OrderRouting.route_order i strategy)) (\<lambda>d.
     bind (step_done ''route_order'') (\<lambda>_. ret d))"

definition line_request :: "Order \<Rightarrow> uuid \<Rightarrow> OrderLine \<Rightarrow> AllocationRequest" where
  "line_request ord w l = \<lparr>ar_order = ord_id ord, ar_order_line = ol_id l, ar_sku = ol_sku l,
     ar_quantity = ol_quantity_ordered l - ol_quantity_allocated l, ar_preferred = Some w,
     ar_allow_split = ord_allow_partial ord\<rparr>"

definition book_line :: "AllocationResult \<Rightarrow> OrderLine \<Rightarrow> OrderLine" where
  "book_line r l = l\<lparr>ol_quantity_allocated := ol_quantity_allocated l + al_total r,
     ol_backorder_quantity := al_backorder r\<rparr>"

text \<open>Whatever the engine raises is logged and forgotten.\<close>

definition allocate_line :: "Order \<Rightarrow> uuid \<Rightarrow> OrderLine \<Rightarrow> AllocationResult list \<Rightarrow> AllocationResult list task" where
  "allocate_line ord w l0 results = bind (current_line l0) (\<lambda>l.
     if ol_quantity_ordered l - ol_quantity_allocated l \<le> 0 then ret results
     else try_except
       (bind (allocate (line_request ord w l)) (\<lambda>r.
        bind (put_line (ol_id l) (book_line r)) (\<lambda>_. ret (results @ [r]))))
       (\<lambda>_. ret results))"

definition allocate_lines :: "Order \<Rightarrow> OrderLine list \<Rightarrow> uuid list \<Rightarrow> AllocationResult list task" where
  "allocate_lines ord ls ws = for_loop (\<lambda>w. for_loop (allocate_line ord w) ls) ws []"

definition allocate_inventory :: "Order \<Rightarrow> OrderLine list \<Rightarrow> RoutingDecision \<Rightarrow> AllocationResult list flow" where
  "allocate_inventory ord ls routing =
     bind (on_session (allocate_lines ord ls (rd_selected routing))) (\<lambda>results.
     bind (step_done ''allocate_inventory'') (\<lambda>_. ret results))"

text \<open>The SKU of every planned line is the nil UUID, and each names the first reservation.\<close>

definition line_plans :: "AllocationResult \<Rightarrow> FulfillmentLinePlan list" where
  "line_plans r = map (\<lambda>(w, q). \<lparr>fl_order_line = al_order_line r, fl_sku = 0, fl_quantity = q, fl_warehouse = w,
     fl_reservation = (case al_reservation_ids r of [] \<Rightarrow> None | i # _ \<Rightarrow> Some i)\<rparr>) (al_allocations r)"

definition add_result :: "AllocationResult \<Rightarrow> FulfillmentPlanResult \<Rightarrow> FulfillmentPlanResult" where
  "add_result r result =
     (let result' = result\<lparr>fr_lines := fr_lines result @ line_plans r\<rparr>
      in if 0 < al_backorder r
         then result'\<lparr>fr_is_partial := True, fr_backorder_lines := fr_backorder_lines result' @ [al_order_line r]\<rparr>
         else result')"

definition build_plan :: "uuid \<Rightarrow> AllocationResult list \<Rightarrow> FulfillmentPlanResult flow" where
  "build_plan i results = bind (on_session get_now) (\<lambda>n.
     let result = fold add_result results
       \<lparr>fr_order = i, fr_status = ''fulfillment_planned'', fr_lines = [], fr_is_partial = False,
        fr_backorder_lines = [], fr_planned_ship_date = Some (n + days 2), fr_workflow_id = None\<rparr> in
     bind (step_done ''create_fulfillment_plan'') (\<lambda>_.
     bind (step_done ''schedule_shipment'') (\<lambda>_. ret result)))"

definition update_order_status :: "Order \<Rightarrow> FulfillmentPlanResult \<Rightarrow> unit flow" where
  "update_order_status ord result = on_session (put_order (ord_id ord)
     (\<lambda>x. x\<lparr>ord_status := (if fr_is_partial result then ''partially_allocated'' else ''fulfillment_planned'')\<rparr>))"

definition plan_flow :: "uuid \<Rightarrow> FulfillmentPlanResult flow" where
  "plan_flow i =
     bind (validate_order i) (\<lambda>(ord, ls).
     bind (planner_route i (ord_routing_strategy ord)) (\<lambda>routing.
     bind (allocate_inventory ord ls routing) (\<lambda>results.
     bind (build_plan i results) (\<lambda>result.
     bind (update_order_status ord result) (\<lambda>_.
     bind (reads (\<lambda>(ctx, s). wf_workflow_id ctx)) (\<lambda>w.
     ret (result\<lparr>fr_workflow_id := Some w\<rparr>)))))))"

definition plan_fulfillment :: "uuid \<Rightarrow> FulfillmentPlanResult task" where
  "plan_fulfillment i = bind (new_context_with WORKFLOW_STEPS) (\<lambda>ctx. bind (reads ctx_correlation) (\<lambda>c.
     in_context (ctx\<lparr>wf_metadata := [(''order_id'', JUuid i), (''correlation_id'', JStr c)]\<rparr>)
       (try_except (plan_flow i) (\<lambda>_. raise WorkflowError))))"

definition handle_partial_fulfillment :: "uuid \<Rightarrow> bool \<Rightarrow> FulfillmentPlanResult task" where
  "handle_partial_fulfillment i accept_partial = bind (plan_fulfillment i) (\<lambda>result.
     if fr_is_partial result \<and> \<not> accept_partial then
       bind (release_reservations i) (\<lambda>_.
       bind (get_by_id_or_raise ord_id orders i) (\<lambda>ord.
       bind (put_order (ord_id ord) (\<lambda>x. x\<lparr>ord_status := ''backordered''\<rparr>)) (\<lambda>_.
       raise WorkflowError)))
     else ret result)"

section \<open>What the lines of the order have to do with the result\<close>

definition booked :: "AllocationResult list \<Rightarrow> uuid \<Rightarrow> int" where
  "booked rs i = sum_list (map al_total (filter (\<lambda>r. al_order_line r = i) rs))"

definition planned :: "FulfillmentPlanResult \<Rightarrow> uuid \<Rightarrow> int" where
  "planned result i = sum_list (map fl_quantity (filter (\<lambda>l. fl_order_line l = i) (fr_lines result)))"

text \<open>The lines of \<open>L\<close> after the results \<open>rs\<close>: each has gained what was booked for it, within what
  was ordered.\<close>

definition line_step :: "AllocationResult list \<Rightarrow> OrderLine \<Rightarrow> OrderLine \<Rightarrow> bool" where
  "line_step rs l l' \<longleftrightarrow> ol_id l' = ol_id l \<and> ol_quantity_ordered l' = ol_quantity_ordered l \<and>
     ol_quantity_allocated l' = ol_quantity_allocated l + booked rs (ol_id l) \<and>
     (ol_quantity_allocated l \<le> ol_quantity_ordered l \<longrightarrow> ol_quantity_allocated l' \<le> ol_quantity_ordered l)"

definition lines_booked :: "OrderLine list \<Rightarrow> AllocationResult list \<Rightarrow> session \<Rightarrow> bool" where
  "lines_booked L rs s \<longleftrightarrow> list_all2 (line_step rs) L (lives (order_lines s)) \<and>
     list_all (\<lambda>r. sum_list (map snd (al_allocations r)) = al_total r) rs"

definition same_orders :: "OrderLine list \<Rightarrow> Order list \<Rightarrow> session \<Rightarrow> bool" where
  "same_orders L os s \<longleftrightarrow> lives (order_lines s) = L \<and> lives (orders s) = os"

lemma same_orders_frame [simp]:
  "same_orders L os (s\<lparr>next_uuid := n\<rparr>) = same_orders L os s"
  "same_orders L os (flush s) = same_orders L os s"
  "same_orders L os (reservations_update f s) = same_orders L os s"
  "same_orders L os (balances_update g s) = same_orders L os s"
  "same_orders L os (plans_update h s) = same_orders L os s"
  by (simp_all add: same_orders_def)

lemma allocate_same_orders: "preserves (same_orders L os) (allocate req)"
  unfolding allocate_def allocate_step_def create_reservation_def apply_allocation_def get_balance_def
    add_def session_add_def set_obj_def Let_def
  by (intro hoare_rules preserves_modify) simp_all

lemma route_same_orders: "preserves (same_orders L os) (OrderRouting.route_order i st)"
proof -
  have "preserves (same_orders L os) (evaluate_candidates ls)" for ls
    by (rule preservesI) (simp add: evaluate_candidates_app)
  then show ?thesis
    unfolding OrderRouting.route_order_def get_order_with_lines_def create_fulfillment_plans_def
      create_fulfillment_plan_def get_active_plan_def add_def session_add_def Let_def
    by (intro hoare_rules preserves_modify) simp_all
qed

lemma booked_snoc: "booked (rs @ [r]) i = booked rs i + (if al_order_line r = i then al_total r else 0)"
  by (simp add: booked_def)

lemma lines_booked_ids: "lines_booked L rs s \<Longrightarrow> map ol_id (lives (order_lines s)) = map ol_id L"
  by (auto simp: lines_booked_def line_step_def list_all2_conv_all_nth intro!: nth_equalityI)

lemma lines_booked_cong: "same_orders (lives (order_lines s)) os t \<Longrightarrow> lines_booked L rs t = lines_booked L rs s"
  by (simp add: lines_booked_def same_orders_def)

lemma line_step_book:
  assumes "line_step rs x y" and "al_order_line r = ol_id y"
    and "al_total r \<le> ol_quantity_ordered y - ol_quantity_allocated y"
  shows "line_step (rs @ [r]) x (book_line r y)"
  using assms by (auto simp: line_step_def book_line_def booked_snoc)

lemma lines_booked_book:
  assumes B: "lines_booked L rs s" and D: "distinct (map ol_id L)"
    and l: "find (\<lambda>x. ol_id x = i) (lives (order_lines s)) = Some l"
    and r: "al_order_line r = ol_id l" "al_total r \<le> ol_quantity_ordered l - ol_quantity_allocated l"
      "sum_list (map snd (al_allocations r)) = al_total r"
  shows "lines_booked L (rs @ [r]) (order_lines_update (upd_row ol_id (ol_id l) (book_line r)) s)"
proof -
  let ?M = "lives (order_lines s)"
  have lM: "l \<in> set ?M" using l by (auto dest: find_SomeD)
  have uniq: "y = l" if "y \<in> set ?M" "ol_id y = ol_id l" for y
    using that lM D lines_booked_ids [OF B] by (metis distinct_map inj_on_def)
  have "line_step (rs @ [r]) x (if ol_id y = ol_id l then book_line r y else y)"
    if y: "y \<in> set ?M" and st: "line_step rs x y" for x y
  proof (cases "ol_id y = ol_id l")
    case True
    then have "y = l" using uniq y by blast
    with line_step_book [OF st] r show ?thesis by simp
  qed (use st r(1) in \<open>auto simp: line_step_def booked_snoc\<close>)
  moreover have "list_all2 (line_step rs) L ?M" using B by (simp add: lines_booked_def)
  ultimately have "list_all2 (\<lambda>x y. line_step (rs @ [r]) x (if ol_id y = ol_id l then book_line r y else y)) L ?M"
    by (rule list.rel_mono_strong [rotated]) blast
  with B r(3) show ?thesis by (simp add: lines_booked_def upd_list_def list.rel_map)
qed

lemma lines_booked_foreign:
  assumes "lines_booked L rs s" and "al_order_line r \<notin> ol_id ` set L"
    and "sum_list (map snd (al_allocations r)) = al_total r"
  shows "lines_booked L (rs @ [r]) s"
  using assms by (auto simp: lines_booked_def line_step_def booked_snoc elim!: list.rel_mono_strong)

lemma allocate_line_booked:
  assumes B: "lines_booked L rs s" and D: "distinct (map ol_id L)"
  shows "\<exists>rs' t. allocate_line ord w l0 rs s = (Inr rs', t) \<and> lines_booked L rs' t \<and> lives (orders t) = lives (orders s)"
proof -
  obtain l where cur: "current_line l0 s = (Inr l, s)" and l: "l = (case find (\<lambda>x. ol_id x = ol_id l0) (lives (order_lines s)) of None \<Rightarrow> l0 | Some x \<Rightarrow> x)"
    by (simp add: current_line_def)
  show ?thesis
  proof (cases "ol_quantity_ordered l - ol_quantity_allocated l \<le> 0")
    case True
    with B cur show ?thesis by (simp add: allocate_line_def bind_def)
  next
    case False
    obtain z u where run: "allocate (line_request ord w l) s = (z, u)" by (metis prod.collapse)
    have u: "same_orders (lives (order_lines s)) (lives (orders s)) u"
      using preservesD [OF allocate_same_orders, of "lives (order_lines s)" "lives (orders s)" s "line_request ord w l"] run
      by (simp add: same_orders_def)
    have Bu: "lines_booked L rs u" using B lines_booked_cong [OF u] by simp
    show ?thesis
    proof (cases z)
      case (Inl e)
      with run cur False Bu u show ?thesis
        by (simp add: allocate_line_def bind_def try_except_def same_orders_def)
    next
      case (Inr r)
      let ?t = "order_lines_update (upd_row ol_id (ol_id l) (book_line r)) u"
      have acc: "accounted (line_request ord w l) (r\<lparr>al_backorder := 0\<rparr>, al_backorder r)"
        using allocate_accounted run Inr by blast
      then have r: "al_order_line r = ol_id l" "al_total r \<le> ol_quantity_ordered l - ol_quantity_allocated l"
        "sum_list (map snd (al_allocations r)) = al_total r"
        using False by (auto simp: accounted_def line_request_def)
      have "lines_booked L (rs @ [r]) ?t"
      proof (cases "find (\<lambda>x. ol_id x = ol_id l0) (lives (order_lines u))")
        case None
        then have "l = l0" using l u by (simp add: same_orders_def)
        with None have "ol_id l \<notin> ol_id ` set (lives (order_lines u))" by (auto simp: find_None_iff)
        moreover from this have "lives (order_lines ?t) = lives (order_lines u)" by (simp add: upd_list_absent)
        moreover have "ol_id ` set (lives (order_lines u)) = ol_id ` set L"
          using lines_booked_ids [OF Bu] by (metis list.set_map)
        ultimately show ?thesis
          using lines_booked_foreign [OF Bu, of r] r by (simp add: lines_booked_def)
      next
        case (Some x)
        then have "x = l" using l u by (simp add: same_orders_def)
        with lines_booked_book [OF Bu D] Some r show ?thesis by blast
      qed
      with run cur False Inr u show ?thesis
        by (simp add: allocate_line_def bind_def try_except_def same_orders_def put_line_def set_obj_def)
    qed
  qed
qed

lemma allocate_lines_booked:
  assumes "lines_booked L rs s" and "distinct (map ol_id L)"
  shows "\<exists>rs' t. for_loop (allocate_line ord w) ls rs s = (Inr rs', t) \<and> lines_booked L rs' t \<and> lives (orders t) = lives (orders s)"
  using assms(1)
proof (induction ls arbitrary: rs s)
  case (Cons l ls)
  obtain rs1 u where u: "allocate_line ord w l rs s = (Inr rs1, u)" "lines_booked L rs1 u" "lives (orders u) = lives (orders s)"
    using allocate_line_booked [OF Cons.prems assms(2)] by blast
  from Cons.IH [OF u(2)] u show ?case by (auto simp: bind_def)
qed simp

lemma allocate_all_booked:
  assumes "lines_booked L rs s" and "distinct (map ol_id L)"
  shows "\<exists>rs' t. for_loop (\<lambda>w. for_loop (allocate_line ord w) ls) ws rs s = (Inr rs', t) \<and> lines_booked L rs' t \<and>
    lives (orders t) = lives (orders s)"
  using assms(1)
proof (induction ws arbitrary: rs s)
  case (Cons w ws)
  obtain rs1 u where u: "for_loop (allocate_line ord w) ls rs s = (Inr rs1, u)" "lines_booked L rs1 u" "lives (orders u) = lives (orders s)"
    using allocate_lines_booked [OF Cons.prems assms(2)] by blast
  from Cons.IH [OF u(2)] u show ?case by (auto simp: bind_def)
qed simp

section \<open>The plan reports what was booked\<close>

lemma planned_line_plans:
  "sum_list (map snd (al_allocations r)) = al_total r \<Longrightarrow>
   sum_list (map fl_quantity (filter (\<lambda>l. fl_order_line l = i) (line_plans r))) = (if al_order_line r = i then al_total r else 0)"
  by (auto simp: line_plans_def filter_map o_def case_prod_unfold)

lemma add_result_facts:
  "fr_lines (add_result r x) = fr_lines x @ line_plans r"
  "fr_is_partial (add_result r x) \<longleftrightarrow> fr_is_partial x \<or> 0 < al_backorder r"
  "fr_backorder_lines (add_result r x) = fr_backorder_lines x @ (if 0 < al_backorder r then [al_order_line r] else [])"
  "fr_order (add_result r x) = fr_order x"
  by (simp_all add: add_result_def Let_def)

lemma fold_add_result:
  assumes "list_all (\<lambda>r. sum_list (map snd (al_allocations r)) = al_total r) rs"
  shows "planned (fold add_result rs x) i = planned x i + booked rs i"
    and "fr_is_partial x \<longleftrightarrow> fr_backorder_lines x \<noteq> [] \<Longrightarrow>
      fr_is_partial (fold add_result rs x) \<longleftrightarrow> fr_backorder_lines (fold add_result rs x) \<noteq> []"
  using assms
  by (induction rs arbitrary: x) (auto simp: planned_def booked_def add_result_facts planned_line_plans)

section \<open>Planning as a whole\<close>

lemma validate_order_ok:
  assumes "validate_order i (ctx, s) = (Inr (ord, ls), (c, u))" and "clean (orders s)"
  shows "ord_id ord = i" and "lives (order_lines u) = lives (order_lines s)"
    and "lives (orders u) = upd_list ord_id i (\<lambda>x. x\<lparr>ord_status := ''validating''\<rparr>) (lives (orders s))"
proof -
  obtain q where q: "get_order_with_lines i s = (q, s)" by (simp add: get_order_with_lines_def)
  have "q = Inr (Some (ord, ls)) \<and>
      u = orders_update (upd_row ord_id (ord_id ord) (\<lambda>x. x\<lparr>ord_status := ''validating''\<rparr>)) s"
    using assms(1) q
    by (cases q) (auto simp: validate_order_def bind_def on_session_def step_done_def put_order_def
        set_obj_def split: option.splits if_splits)
  with q have "get_order_with_lines i s = (Inr (Some (ord, ls)), s)"
    and u: "u = orders_update (upd_row ord_id (ord_id ord) (\<lambda>x. x\<lparr>ord_status := ''validating''\<rparr>)) s" by auto
  then have "scalar_one_or_none (filter (\<lambda>x. ord_id x = i) (lives (orders s))) = Inr (Some ord)"
    by (auto simp: get_order_with_lines_def clean_select_where [OF assms(2)] map_sum_def split: sum.splits)
  then have "ord \<in> set (filter (\<lambda>x. ord_id x = i) (lives (orders s)))"
    by (simp only: scalar_one_or_none_Some) simp
  then show "ord_id ord = i" by simp
  with u show "lives (order_lines u) = lives (order_lines s)"
    "lives (orders u) = upd_list ord_id i (\<lambda>x. x\<lparr>ord_status := ''validating''\<rparr>) (lives (orders s))" by simp_all
qed

lemma lines_booked_Nil: "lines_booked (lives (order_lines s)) [] s"
  by (simp add: lines_booked_def line_step_def booked_def list_all2_refl)

definition planned_outcome :: "uuid \<Rightarrow> session \<Rightarrow> FulfillmentPlanResult \<Rightarrow> session \<Rightarrow> bool" where
  "planned_outcome i s r t \<longleftrightarrow>
     lives (orders t) = upd_list ord_id i (\<lambda>x. x\<lparr>ord_status :=
       (if fr_is_partial r then ''partially_allocated'' else ''fulfillment_planned'')\<rparr>) (lives (orders s)) \<and>
     list_all2 (\<lambda>l l'. ol_id l' = ol_id l \<and> ol_quantity_ordered l' = ol_quantity_ordered l \<and>
         ol_quantity_allocated l' = ol_quantity_allocated l + planned r (ol_id l) \<and>
         (ol_quantity_allocated l \<le> ol_quantity_ordered l \<longrightarrow> ol_quantity_allocated l' \<le> ol_quantity_ordered l))
       (lives (order_lines s)) (lives (order_lines t)) \<and>
     (fr_is_partial r \<longleftrightarrow> fr_backorder_lines r \<noteq> [])"

lemma plan_flow_outcome:
  assumes run: "plan_flow i (ctx, s) = (Inr r, (c, t))" and C: "clean (orders s)"
    and D: "distinct (map ol_id (lives (order_lines s)))"
  shows "planned_outcome i s r t"
proof -
  let ?L = "lives (order_lines s)"
  from run obtain ord ls c1 s1 d c2 s2 rs c3 s3 res c4 s4 c5 w where
    v: "validate_order i (ctx, s) = (Inr (ord, ls), (c1, s1))" and
    rt: "planner_route i (ord_routing_strategy ord) (c1, s1) = (Inr d, (c2, s2))" and
    al: "allocate_inventory ord ls d (c2, s2) = (Inr rs, (c3, s3))" and
    bp: "build_plan i rs (c3, s3) = (Inr res, (c4, s4))" and
    up: "update_order_status ord res (c4, s4) = (Inr (), (c5, t))" and
    r: "r = res\<lparr>fr_workflow_id := Some w\<rparr>"
    unfolding plan_flow_def by (auto elim!: bind_InrE split: prod.splits)
  note v' = validate_order_ok [OF v C]
  let ?os = "lives (orders s1)"
  have s2: "same_orders ?L ?os s2"
    using rt preservesD [OF route_same_orders, of ?L ?os s1 i "ord_routing_strategy ord"] v'(2)
    by (auto simp: planner_route_def bind_Inr_iff on_session_def step_done_def same_orders_def split: prod.splits)
  have B2: "lines_booked ?L [] s2"
    using lines_booked_Nil [of s2] s2 by (simp add: same_orders_def)
  obtain rs' t' where "allocate_lines ord ls (rd_selected d) s2 = (Inr rs', t')" "lines_booked ?L rs' t'" "lives (orders t') = lives (orders s2)"
    using allocate_all_booked [OF B2 D] unfolding allocate_lines_def by blast
  with al have B3: "lines_booked ?L rs s3" and o3: "lives (orders s3) = ?os"
    using s2 by (auto simp: allocate_inventory_def bind_Inr_iff on_session_def step_done_def same_orders_def)
  from bp obtain n where s4: "s4 = s3" and res: "res = fold add_result rs
       \<lparr>fr_order = i, fr_status = ''fulfillment_planned'', fr_lines = [], fr_is_partial = False,
        fr_backorder_lines = [], fr_planned_ship_date = Some n, fr_workflow_id = None\<rparr>"
    by (auto simp: build_plan_def bind_Inr_iff on_session_def step_done_def)
  have sums: "list_all (\<lambda>r. sum_list (map snd (al_allocations r)) = al_total r) rs"
    using B3 by (simp add: lines_booked_def)
  have p: "planned r j = booked rs j" for j
    unfolding r res using fold_add_result(1) [OF sums] by (simp add: planned_def)
  have b: "fr_is_partial r \<longleftrightarrow> fr_backorder_lines r \<noteq> []"
    unfolding r res using fold_add_result(2) [OF sums] by simp
  have t: "t = orders_update (upd_row ord_id i (\<lambda>x. x\<lparr>ord_status :=
      (if fr_is_partial r then ''partially_allocated'' else ''fulfillment_planned'')\<rparr>)) s3"
    using up v'(1) s4 by (auto simp: update_order_status_def on_session_def put_order_def set_obj_def r)
  have "lives (orders t) = upd_list ord_id i (\<lambda>x. x\<lparr>ord_status :=
      (if fr_is_partial r then ''partially_allocated'' else ''fulfillment_planned'')\<rparr>) (lives (orders s))"
    unfolding t lives_simps session.simps o3 v'(3) by (simp add: o3 v'(3)) (simp add: upd_list_def)
  moreover have "list_all2 (line_step rs) ?L (lives (order_lines t))"
    using B3 by (simp add: t lines_booked_def)
  ultimately show ?thesis using b
    by (auto simp: planned_outcome_def p line_step_def elim!: list.rel_mono_strong)
qed

section \<open>A failure that is swallowed\<close>

lemma prefer_warehouse_first:
  assumes "sc \<in> set scs" and "ws_warehouse sc = w"
  obtains sc' rest where "prefer_warehouse (Some w) scs = sc' # rest" and "ws_warehouse sc' = w" and "sc' \<in> set scs"
proof -
  let ?k = "\<lambda>sc. (ws_warehouse sc \<noteq> w, - composite_score sc)"
  obtain sc' rest where srt: "sort_key ?k scs = sc' # rest"
    using assms(1) by (cases "sort_key ?k scs") auto
  have "sorted (map ?k (sc' # rest))" unfolding srt [symmetric] by simp
  moreover have S: "set (sc' # rest) = set scs" unfolding srt [symmetric] by simp
  ultimately have "?k sc' \<le> ?k sc" using assms(1) by force
  then have "ws_warehouse sc' = w" using assms(2) by (auto simp: less_eq_prod_def split: if_splits)
  moreover have "sc' \<in> set scs" using S by auto
  ultimately show ?thesis using that srt by (simp add: prefer_warehouse_def)
qed

lemma allocate_leaks:
  assumes n: "0 < ar_quantity req" and pref: "ar_preferred req = Some w"
    and act: "w \<in> wh_id ` set (select_where wh_is_active (warehouses s))"
    and stale: "ar_quantity req \<le> available_at s w (ar_sku req)"
    and T: "bins_synced s" and b: "get_balance w (ar_sku req) None s = (Inr (Some b), s)"
    and short: "available b < ar_quantity req"
  shows "\<exists>e r t. allocate req s = (Inl e, t) \<and> lives (reservations t) = lives (reservations s) @ [r] \<and>
     active_at w (ar_sku req) r \<and> res_order_line r = ar_order_line req \<and> res_quantity r = ar_quantity req \<and>
     lives (order_lines t) = lives (order_lines s) \<and> lives (balances t) = lives (balances s)"
proof -
  let ?k = "ar_sku req" and ?n = "ar_quantity req"
  let ?ranked = "sort_key (\<lambda>w. - composite_score w) (scores_of ?k s)"
  have "set (select_ordered wh_priority wh_is_active (warehouses s)) = set (select_where wh_is_active (warehouses s))"
    by (rule select_ordered_set)
  with act obtain wh where "wh \<in> set (select_ordered wh_priority wh_is_active (warehouses s))" "wh_id wh = w" by auto
  then have "score_of ?k s wh \<in> set ?ranked" "ws_warehouse (score_of ?k s wh) = w"
    by (simp_all add: scores_of_def) (simp add: score_of_def)
  then obtain sc' rest where pw: "prefer_warehouse (Some w) ?ranked = sc' # rest" and w: "ws_warehouse sc' = w"
    and in_: "sc' \<in> set ?ranked" by (rule prefer_warehouse_first)
  have av: "ws_available sc' = available_at s w ?k"
    using in_ w by (auto simp: scores_of_def score_of_def available_at_def)
  obtain r where r: "create_reservation req w ?n s = (Inr r, flush (reservations_update (add_row r) (s\<lparr>next_uuid := Suc (next_uuid s)\<rparr>)))"
      "active_at w ?k r" "res_order_line r = ar_order_line req" "res_quantity r = ?n"
    by (simp add: create_reservation_app Let_def active_at_def)
  let ?u = "flush (reservations_update (add_row r) (s\<lparr>next_uuid := Suc (next_uuid s)\<rparr>))"
  have "get_balance w ?k None ?u = (Inr (Some b), ?u)"
    using b by (simp add: get_balance_synced T)
  then have "apply_allocation w ?k ?n ?u = (Inl (InsufficientInventoryError ?k ?n (available b) (Some w)), ?u)"
    using short by (simp add: apply_allocation_def bind_def)
  then have "allocate_step req sc' (empty_result req, ?n) s = (Inl (InsufficientInventoryError ?k ?n (available b) (Some w)), ?u)"
    using n stale r(1) by (simp add: allocate_step_def w av Let_def bind_def)
  then have "allocate req s = (Inl (InsufficientInventoryError ?k ?n (available b) (Some w)), ?u)"
    by (simp add: allocate_def bind_def rank_warehouses_app Let_def pref pw)
  moreover have "lives (reservations ?u) = lives (reservations s) @ [r]" "lives (order_lines ?u) = lives (order_lines s)"
    "lives (balances ?u) = lives (balances s)" by simp_all
  ultimately show ?thesis using r(2-) by blast
qed

section \<open>A run of the planner\<close>

text \<open>One warehouse with ten units, and an order of two lines, eight and five units of the same SKU.\<close>

definition twin_line :: "uuid \<Rightarrow> int \<Rightarrow> OrderLine" where
  "twin_line i n = demo_line\<lparr>ol_id := i, ol_quantity_ordered := n\<rparr>"

definition demo_twin :: session where
  "demo_twin = empty_session\<lparr>warehouses := [Cell (Some (demo_warehouse 1 1)) (demo_warehouse 1 1)],
     balances := [Cell (Some (demo_balance 4 1 10)) (demo_balance 4 1 10)],
     orders := [Cell (Some demo_order) demo_order],
     order_lines := [Cell (Some (twin_line 7 8)) (twin_line 7 8), Cell (Some (twin_line 8 5)) (twin_line 8 5)],
     next_uuid := 10\<rparr>"

lemma allocate_single:
  assumes "scores_of (ar_sku req) s = [sc]"
  shows "allocate req s = bind (allocate_step req sc (empty_result req, ar_quantity req)) (\<lambda>(result, remaining).
       bind (raise_if (al_total result = 0) (InsufficientInventoryError (ar_sku req) (ar_quantity req) (ws_available sc) None)) (\<lambda>_.
       ret (result\<lparr>al_backorder := remaining\<rparr>))) s"
proof -
  have "prefer_warehouse p [sc] = [sc]" for p by (cases p) (simp_all add: prefer_warehouse_def)
  then show ?thesis using assms by (simp add: allocate_def bind_def rank_warehouses_app Let_def split: prod.split sum.split)
qed

text \<open>The run, step by step: routing stores a plan, the first line is held, the second fails.\<close>

definition twin_routed :: "FulfillmentPlan \<Rightarrow> session" where
  "twin_routed p = demo_twin\<lparr>orders := [Cell (Some (demo_order\<lparr>ord_status := ''validating''\<rparr>)) (demo_order\<lparr>ord_status := ''validating''\<rparr>)],
     plans := [Cell (Some p) p], next_uuid := 13\<rparr>"

definition twin_first :: AllocationResult where
  "twin_first = \<lparr>al_order_line = 7, al_allocations = [(1, 8)], al_total = 8, al_backorder = 0, al_reservation_ids = [13]\<rparr>"

definition twin_hold :: InventoryReservation where
  "twin_hold = \<lparr>res_id = 13, res_order = 6, res_order_line = 7, res_warehouse = 1, res_sku = 3, res_quantity = 8,
     res_status = ''active'', res_expires_at = minutes RESERVATION_TTL_MINUTES, res_correlation = Some ''''\<rparr>"

definition twin_held :: "FulfillmentPlan \<Rightarrow> session" where
  "twin_held p = (twin_routed p)\<lparr>reservations := [Cell (Some twin_hold) twin_hold],
     balances := [Cell (Some (demo_balance 4 1 10)) ((demo_balance 4 1 10)\<lparr>reserved := 8, bal_version := 2\<rparr>)],
     order_lines := [Cell (Some (twin_line 7 8)) ((twin_line 7 8)\<lparr>ol_quantity_allocated := 8\<rparr>), Cell (Some (twin_line 8 5)) (twin_line 8 5)],
     next_uuid := 14\<rparr>"

lemma twin_score: "scores_of 3 (twin_routed p) = [\<lparr>ws_warehouse = 1, ws_available = 10, ws_distance_score = 1/2, ws_cost_score = 1/2,
     ws_priority_score = fdiv 1 (fl 1)\<rparr>]"
    by (simp add: scores_of_def score_of_def twin_routed_def demo_twin_def empty_session_def select_ordered_def
        stored_sat_def stored_key_def demo_warehouse_def  select_sum_def stored_rows_def demo_balance_def
        uncommitted_def map_filter_simps)

lemmas twin_defs = twin_held_def twin_routed_def demo_twin_def empty_session_def twin_line_def demo_line_def demo_order_def demo_balance_def
  demo_warehouse_def twin_hold_def

lemma twin_step:
  "ws_warehouse sc = 1 \<Longrightarrow> ws_available sc = 10 \<Longrightarrow>
   allocate_step (line_request demo_order 1 (twin_line 7 8)) sc (empty_result (line_request demo_order 1 (twin_line 7 8)), 8) (twin_routed p) =
    (Inr (twin_first, 0), balances_update (upd_row bal_id 4 (\<lambda>b. b\<lparr>reserved := reserved b + 8, bal_version := bal_version b + 1\<rparr>))
       (flush (reservations_update (add_row twin_hold) (twin_routed p\<lparr>next_uuid := 14\<rparr>))))"
  by (simp add: allocate_step_def create_reservation_app Let_def bind_def apply_allocation_def get_balance_def twin_defs
     line_request_def empty_result_def select_where_def stored_sat_def flush_def flush_table_def scalar_one_or_none_def available_def
     set_obj_def upd_row_def add_row_def twin_first_def)

lemma twin_held: "allocate_line demo_order 1 (twin_line 7 8) [] (twin_routed p) = (Inr [twin_first], twin_held p)"
proof -
  define req where "req = line_request demo_order 1 (twin_line 7 8)"
  have sk: "ar_sku req = 3" "ar_quantity req = 8"
    by (simp_all add: req_def line_request_def twin_defs)
  obtain sc where sc: "scores_of (ar_sku req) (twin_routed p) = [sc]" "ws_warehouse sc = 1" "ws_available sc = 10"
    unfolding sk twin_score by simp
  have step: "allocate_step req sc (empty_result req, 8) (twin_routed p) = (Inr (twin_first, 0),
     balances_update (upd_row bal_id 4 (\<lambda>b. b\<lparr>reserved := reserved b + 8, bal_version := bal_version b + 1\<rparr>))
       (flush (reservations_update (add_row twin_hold) (twin_routed p\<lparr>next_uuid := 14\<rparr>))))"
    using twin_step [OF sc(2,3)] by (simp add: req_def)
  have "allocate req (twin_routed p) = (Inr twin_first,
     balances_update (upd_row bal_id 4 (\<lambda>b. b\<lparr>reserved := reserved b + 8, bal_version := bal_version b + 1\<rparr>))
       (flush (reservations_update (add_row twin_hold) (twin_routed p\<lparr>next_uuid := 14\<rparr>))))"
    unfolding allocate_single [OF sc(1)] by (simp add: bind_def step sk twin_first_def)
  moreover have "current_line (twin_line 7 8) (twin_routed p) = (Inr (twin_line 7 8), twin_routed p)"
    by (simp add: current_line_def twin_defs lives_def)
  moreover have "put_line 7 (book_line twin_first) (balances_update (upd_row bal_id 4 (\<lambda>b. b\<lparr>reserved := reserved b + 8, bal_version := bal_version b + 1\<rparr>))
       (flush (reservations_update (add_row twin_hold) (twin_routed p\<lparr>next_uuid := 14\<rparr>)))) = (Inr (), twin_held p)"
    by (simp add: put_line_def set_obj_def upd_row_def twin_defs flush_def flush_table_def add_row_def book_line_def twin_first_def)
  moreover have "\<not> ol_quantity_ordered (twin_line 7 8) - ol_quantity_allocated (twin_line 7 8) \<le> 0" "ol_id (twin_line 7 8) = 7"
    by (simp_all add: twin_defs)
  ultimately show ?thesis by (simp add: allocate_line_def bind_def try_except_def req_def)
qed

lemma twin_dropped: "\<exists>t. allocate_line demo_order 1 (twin_line 8 5) [twin_first] (twin_held p) = (Inr [twin_first], t)"
proof -
  have req: "ar_quantity (line_request demo_order 1 (twin_line 8 5)) = 5" "ar_sku (line_request demo_order 1 (twin_line 8 5)) = 3"
    "ar_preferred (line_request demo_order 1 (twin_line 8 5)) = Some 1"
    by (simp_all add: line_request_def twin_defs)
  have h: "1 \<in> wh_id ` set (select_where wh_is_active (warehouses (twin_held p)))"
    "5 \<le> available_at (twin_held p) 1 3" "bins_synced (twin_held p)"
    "get_balance 1 3 None (twin_held p) = (Inr (Some ((demo_balance 4 1 10)\<lparr>reserved := 8, bal_version := 2\<rparr>)), twin_held p)"
    "available ((demo_balance 4 1 10)\<lparr>reserved := 8, bal_version := 2\<rparr>) < 5"
    "current_line (twin_line 8 5) (twin_held p) = (Inr (twin_line 8 5), twin_held p)"
    "\<not> ol_quantity_ordered (twin_line 8 5) - ol_quantity_allocated (twin_line 8 5) \<le> 0"
    by (simp_all add: twin_defs current_line_def lives_def
        select_where_def stored_sat_def available_at_def select_sum_def stored_rows_def 
        uncommitted_def map_filter_simps bins_synced_def bin_key_def get_balance_def scalar_one_or_none_def available_def)
  obtain e t where "allocate (line_request demo_order 1 (twin_line 8 5)) (twin_held p) = (Inl e, t)"
    using allocate_leaks [of "line_request demo_order 1 (twin_line 8 5)" 1 "twin_held p"] h(1-5) unfolding req by force
  with h(6,7) show ?thesis by (simp add: allocate_line_def bind_def try_except_def)
qed

definition twin_candidate :: RoutingCandidate where
  "twin_candidate = \<lparr>rc_warehouse = 1, rc_code = ''WH'', rc_total_available = 13, rc_cost = 60, rc_transit_days = 3,
     rc_priority = 1, rc_can_fulfill_all = True, rc_line_coverage = [(7, 8), (8, 5)]\<rparr>"

definition twin_validated :: session where
  "twin_validated = demo_twin\<lparr>orders := [Cell (Some demo_order) (demo_order\<lparr>ord_status := ''validating''\<rparr>)], next_uuid := 12\<rparr>"

lemma twin_lines: "get_order_with_lines 6 (demo_twin\<lparr>next_uuid := 12\<rparr>) = (Inr (Some (demo_order, [twin_line 7 8, twin_line 8 5])), demo_twin\<lparr>next_uuid := 12\<rparr>)"
  "get_order_with_lines 6 twin_validated = (Inr (Some (demo_order\<lparr>ord_status := ''validating''\<rparr>, [twin_line 7 8, twin_line 8 5])), twin_validated)"
  by (simp_all add: get_order_with_lines_def twin_defs twin_validated_def select_where_def stored_sat_def scalar_one_or_none_def lines_of_order_def)

lemma twin_candidates: "candidates_of twin_validated [twin_line 7 8, twin_line 8 5] = [twin_candidate]"
  by (simp add: candidates_of_def candidate_of_def twin_validated_def twin_defs select_ordered_def stored_sat_def stored_key_def
    available_at_def select_sum_def stored_rows_def uncommitted_def map_filter_simps needed_def twin_candidate_def)

lemma twin_route: "\<exists>d p. OrderRouting.route_order 6 ''cost_optimized'' twin_validated = (Inr d, twin_routed p) \<and> rd_selected d = [1]"
proof -
  have sel: "select_warehouses [twin_candidate] ''cost_optimized'' b = [twin_candidate]" for b
    by (simp add: select_warehouses_def)
  obtain score where score: "compute_routing_score [twin_candidate] ''cost_optimized'' = Inr score"
    using routing_score_exists [of "[twin_candidate]"] by (auto simp: twin_candidate_def)
  let ?d = "decision_of 6 ''cost_optimized'' [twin_candidate] [twin_candidate] score"
  have "create_fulfillment_plans 6 [twin_candidate] ?d twin_validated = (Inr (), twin_routed (new_plan 12 6 ?d twin_candidate))"
    by (simp add: create_fulfillment_plans_def create_fulfillment_plan_def bind_def get_active_plan_def scalar_one_or_none_def select_where_def
      twin_validated_def twin_defs add_def session_add_def add_row_def flush_def flush_table_def)
  then have "OrderRouting.route_order 6 ''cost_optimized'' twin_validated = (Inr ?d, twin_routed (new_plan 12 6 ?d twin_candidate))"
    unfolding OrderRouting.route_order_def
    by (simp add: bind_def twin_lines evaluate_candidates_app twin_candidates known_strategy_def STRATEGIES_def sel score Let_def)
  moreover have "rd_selected ?d = [1]" by (simp add: decision_of_def twin_candidate_def)
  ultimately show ?thesis by blast
qed

lemma twin_plan:
  "\<exists>r t. plan_fulfillment 6 demo_twin = (Inr r, t) \<and> \<not> fr_is_partial r \<and> planned r 7 = 8 \<and> planned r 8 = 0"
proof -
  obtain d p where d: "OrderRouting.route_order 6 ''cost_optimized'' twin_validated = (Inr d, twin_routed p)" "rd_selected d = [1]"
    using twin_route by blast
  obtain t where t: "allocate_line demo_order 1 (twin_line 8 5) [twin_first] (twin_held p) = (Inr [twin_first], t)"
    using twin_dropped by blast
  have al: "allocate_lines demo_order [twin_line 7 8, twin_line 8 5] [1] (twin_routed p) = (Inr [twin_first], t)"
    by (simp add: allocate_lines_def bind_def twin_held t del: One_nat_def)
  have val: "validate_order 6 (ctx, demo_twin\<lparr>next_uuid := 12\<rparr>) =
      (Inr (demo_order, [twin_line 7 8, twin_line 8 5]), (mark_step_complete ''validate_order'' ctx, twin_validated))" for ctx
    by (simp add: validate_order_def bind_def on_session_def twin_lines step_done_def put_order_def set_obj_def upd_row_def)
      (simp add: twin_validated_def twin_defs upd_row_def)
  have st: "ord_routing_strategy demo_order = ''cost_optimized''" by (simp add: demo_order_def)
  have n: "next_uuid demo_twin = 10" by (simp add: twin_defs)
  show ?thesis
    by (simp add: plan_fulfillment_def new_context_with_def bind_assoc bind_def n in_context_def try_except_def plan_flow_def val
      planner_route_def on_session_def st d step_done_def allocate_inventory_def al build_plan_def update_order_status_def put_order_def set_obj_def del: One_nat_def)
     (simp add: twin_first_def add_result_def Let_def line_plans_def planned_def)
qed
section \<open>Properties\<close>

text \<open>C36: Planning an order either raises \<open>WorkflowError\<close>, whatever went wrong inside, or returns a
  result that agrees with the database: the order gets the status the result stands for, every
  order line has gained exactly the quantity the result plans for it and is not allocated beyond
  what was ordered, and the plan is partial exactly when it names a line on backorder.\<close>

theorem planning_books_lines:
  assumes C: "clean_session s" and D: "distinct (map ol_id (lives (order_lines s)))"
  shows "case plan_fulfillment i s of (Inl e, t) \<Rightarrow> e = WorkflowError | (Inr r, t) \<Rightarrow> planned_outcome i s r t"
proof -
  obtain ctx n where run: "plan_fulfillment i s =
      in_context ctx (try_except (plan_flow i) (\<lambda>_. raise WorkflowError)) (s\<lparr>next_uuid := n\<rparr>)"
    by (simp add: plan_fulfillment_def new_context_with_def bind_assoc bind_def)
  obtain z c t where flow: "plan_flow i (ctx, s\<lparr>next_uuid := n\<rparr>) = (z, (c, t))" by (metis prod.collapse)
  show ?thesis
  proof (cases z)
    case (Inl e)
    with run flow show ?thesis by (simp add: in_context_def try_except_def)
  next
    case (Inr r)
    have "planned_outcome i (s\<lparr>next_uuid := n\<rparr>) r t"
      by (rule plan_flow_outcome [OF flow [unfolded Inr]]) (use clean_tables(8) [OF C] D in simp_all)
    with run flow Inr show ?thesis by (simp add: in_context_def try_except_def planned_outcome_def)
  qed
qed

text \<open>The second line is not served, and the order counts as planned in full.\<close>

theorem planning_books_lines_witness:
  "\<exists>r t. plan_fulfillment 6 demo_twin = (Inr r, t) \<and> map ord_status (lives (orders t)) = [''fulfillment_planned''] \<and>
     map ol_quantity_allocated (lives (order_lines t)) = [8, 0]"
proof -
  obtain r t where run: "plan_fulfillment 6 demo_twin = (Inr r, t)" "\<not> fr_is_partial r" "planned r 7 = 8" "planned r 8 = 0"
    using twin_plan by blast
  have D: "clean_session demo_twin" "distinct (map ol_id (lives (order_lines demo_twin)))"
    by (simp_all add: clean_session_def flush_def flush_table_def twin_defs lives_def)
  have L: "lives (order_lines demo_twin) = [twin_line 7 8, twin_line 8 5]" "lives (orders demo_twin) = [demo_order]"
    by (simp_all add: demo_twin_def lives_def)
  have ids: "ol_id (twin_line i n) = i" "ol_quantity_allocated (twin_line i n) = 0" for i n by (simp_all add: twin_line_def demo_line_def)
  have "planned_outcome 6 demo_twin r t" using planning_books_lines [OF D, of 6] run(1) by simp
  with run(2-4) show ?thesis unfolding run(1) planned_outcome_def L
    by (auto simp: list_all2_Cons1 ids demo_order_def)
qed

text \<open>The planner swallows what the allocation engine raises.  When the stock of a warehouse that
  a line wants was taken earlier in the same session and not flushed since, the engine still
  sees it, reserves it and fails: the line gets nothing and the result does not mention it, but
  an active reservation stays behind that no balance accounts for.\<close>

theorem swallowed_failure_leaks:
  assumes cur: "current_line l0 s = (Inr l, s)"
    and n: "n = ol_quantity_ordered l - ol_quantity_allocated l" "0 < n"
    and act: "w \<in> wh_id ` set (select_where wh_is_active (warehouses s))"
    and stale: "n \<le> available_at s w (ol_sku l)"
    and T: "bins_synced s" and b: "get_balance w (ol_sku l) None s = (Inr (Some b), s)" "available b < n"
  shows "\<exists>t. allocate_line ord w l0 results s = (Inr results, t) \<and>
    lives (order_lines t) = lives (order_lines s) \<and>
    active_qty w (ol_sku l) t = active_qty w (ol_sku l) s + n \<and>
    reserved_qty w (ol_sku l) t = reserved_qty w (ol_sku l) s"
proof -
  let ?req = "line_request ord w l"
  have req: "ar_quantity ?req = n" "ar_sku ?req = ol_sku l" "ar_preferred ?req = Some w"
    by (simp_all add: line_request_def n(1))
  obtain e r t where t: "allocate ?req s = (Inl e, t)" "lives (reservations t) = lives (reservations s) @ [r]"
     "active_at w (ol_sku l) r" "res_quantity r = n"
     "lives (order_lines t) = lives (order_lines s)" "lives (balances t) = lives (balances s)"
    using allocate_leaks [of ?req w s b] n act stale T b unfolding req by metis
  then have "allocate_line ord w l0 results s = (Inr results, t)"
    using cur n by (simp add: allocate_line_def bind_def try_except_def)
  with t show ?thesis by (simp add: active_qty_def reserved_qty_def)
qed

text \<open>The session after the first line.\<close>

definition twin_reserved :: session where
  "twin_reserved = balances_update (upd_row bal_id 4 (\<lambda>b. b\<lparr>reserved := 8\<rparr>)) demo_twin"

theorem swallowed_failure_leaks_witness:
  "\<exists>t. allocate_line demo_order 1 (twin_line 8 5) [] twin_reserved = (Inr [], t) \<and>
    active_qty 1 3 t = 5 \<and> reserved_qty 1 3 t = 8"
proof -
  have h: "current_line (twin_line 8 5) twin_reserved = (Inr (twin_line 8 5), twin_reserved)"
    "5 = ol_quantity_ordered (twin_line 8 5) - ol_quantity_allocated (twin_line 8 5)" "(0::int) < 5"
    "1 \<in> wh_id ` set (select_where wh_is_active (warehouses twin_reserved))"
    "5 \<le> available_at twin_reserved 1 (ol_sku (twin_line 8 5))" "bins_synced twin_reserved"
    "get_balance 1 (ol_sku (twin_line 8 5)) None twin_reserved = (Inr (Some ((demo_balance 4 1 10)\<lparr>reserved := 8\<rparr>)), twin_reserved)"
    "available ((demo_balance 4 1 10)\<lparr>reserved := 8\<rparr>) < 5"
    "active_qty 1 3 twin_reserved = 0" "reserved_qty 1 3 twin_reserved = 8" "ol_sku (twin_line 8 5) = 3"
    by (simp_all add: twin_reserved_def demo_twin_def twin_line_def demo_line_def current_line_def lives_def upd_row_def
        select_where_def stored_sat_def demo_warehouse_def available_at_def select_sum_def stored_rows_def demo_balance_def
        uncommitted_def map_filter_simps bins_synced_def bin_key_def get_balance_def scalar_one_or_none_def available_def
        active_qty_def reserved_qty_def empty_session_def)
  show ?thesis using swallowed_failure_leaks [OF h(1-8), of demo_order "[]"] h(9-11) by auto
qed

end
