(* ===== verification/DependencyGraph.thy ===== *)
theory DependencyGraph
  imports Models
begin

text \<open>
  \<open>core/dependency_graph.py\<close>: the graph of dependencies between the entities of a workflow.  The graph
  itself is networkx's, which is not part of the program: its calls are the record \<open>networkx\<close>, and
  the locale \<open>networkx_graph\<close> states what networkx documents about them.
\<close>

section \<open>The graph library\<close>

record 'g networkx =
  nx_empty :: 'g
  nx_add_node :: "uuid \<Rightarrow> pydict \<Rightarrow> 'g \<Rightarrow> 'g"
  nx_add_edge :: "uuid \<Rightarrow> uuid \<Rightarrow> pydict \<Rightarrow> 'g \<Rightarrow> 'g"
  nx_is_dag :: "'g \<Rightarrow> bool"
  nx_simple_cycles :: "'g \<Rightarrow> uuid list list"
  nx_ancestors :: "'g \<Rightarrow> uuid \<Rightarrow> exn + uuid list"
  nx_descendants :: "'g \<Rightarrow> uuid \<Rightarrow> exn + uuid list"
  nx_nodes :: "'g \<Rightarrow> uuid list"
  nx_data :: "'g \<Rightarrow> uuid \<Rightarrow> pydict option"
  nx_in_degree :: "'g \<Rightarrow> uuid \<Rightarrow> nat"
  nx_out_degree :: "'g \<Rightarrow> uuid \<Rightarrow> nat"
  nx_topological_sort :: "'g \<Rightarrow> uuid list"

section \<open>DependencyGraph\<close>

datatype NodeType = ORDER | ALLOCATION | FULFILLMENT_PLAN | SHIPMENT | PURCHASE_ORDER | TRANSFER | WAREHOUSE_TASK

primrec NodeType_value :: "NodeType \<Rightarrow> string" where
  "NodeType_value ORDER = ''order''"
| "NodeType_value ALLOCATION = ''allocation''"
| "NodeType_value FULFILLMENT_PLAN = ''fulfillment_plan''"
| "NodeType_value SHIPMENT = ''shipment''"
| "NodeType_value PURCHASE_ORDER = ''purchase_order''"
| "NodeType_value TRANSFER = ''transfer''"
| "NodeType_value WAREHOUSE_TASK = ''warehouse_task''"

record DependencyNode =
  dn_id :: uuid
  dn_type :: NodeType
  dn_status :: string
  dn_metadata :: pydict

text \<open>\<open>**node.metadata\<close> raises when a key of it is also given by name (or is the name of a parameter).\<close>

definition node_attributes :: "DependencyNode \<Rightarrow> pydict" where
  "node_attributes nd =
     [(''node_type'', JStr (NodeType_value (dn_type nd))), (''status'', JStr (dn_status nd))] @ dn_metadata nd"

definition dg_add_node :: "'g networkx \<Rightarrow> DependencyNode \<Rightarrow> ('g, exn, unit) op" where
  "dg_add_node nx nd =
     bind (raise_if (set (map fst (dn_metadata nd)) \<inter> {''node_type'', ''status'', ''node_for_adding'', ''self''} \<noteq> {}) PyTypeError)
       (\<lambda>_. modify (nx_add_node nx (dn_id nd) (node_attributes nd)))"

definition dg_add_dependency :: "'g networkx \<Rightarrow> uuid \<Rightarrow> uuid \<Rightarrow> string \<Rightarrow> ('g, exn, unit) op" where
  "dg_add_dependency nx dependent_id dependency_id relation =
     modify (nx_add_edge nx dependency_id dependent_id [(''relation'', JStr relation)])"

definition validate_no_cycles :: "'g networkx \<Rightarrow> ('g, exn, unit) op" where
  "validate_no_cycles nx = bind (reads (nx_is_dag nx)) (\<lambda>dag. raise_if (\<not> dag) DependencyGraphError)"

definition get_upstream :: "'g networkx \<Rightarrow> uuid \<Rightarrow> ('g, exn, uuid list) op" where
  "get_upstream nx i = fetch (\<lambda>g. nx_ancestors nx g i)"

definition get_downstream :: "'g networkx \<Rightarrow> uuid \<Rightarrow> ('g, exn, uuid list) op" where
  "get_downstream nx i = fetch (\<lambda>g. nx_descendants nx g i)"

definition find_orphan_nodes :: "'g networkx \<Rightarrow> ('g, exn, uuid list) op" where
  "find_orphan_nodes nx = reads (\<lambda>g. filter (\<lambda>n. nx_in_degree nx g n = 0 \<and> nx_out_degree nx g n = 0) (nx_nodes nx g))"

text \<open>An issue names the allocation that is not confirmed.\<close>

definition unconfirmed :: "pydict \<Rightarrow> bool" where
  "unconfirmed d \<longleftrightarrow> dict_get d ''node_type'' JNull = JStr (NodeType_value ALLOCATION) \<and>
     dict_get d ''status'' JNull \<noteq> JStr ''confirmed''"

definition validate_shipment_dependencies :: "'g networkx \<Rightarrow> uuid \<Rightarrow> ('g, exn, uuid list) op" where
  "validate_shipment_dependencies nx i = bind (get_upstream nx i) (\<lambda>upstream.
     reads (\<lambda>g. filter (\<lambda>n. unconfirmed (case nx_data nx g n of None \<Rightarrow> [] | Some d \<Rightarrow> d)) upstream))"

definition topological_order :: "'g networkx \<Rightarrow> ('g, exn, uuid list) op" where
  "topological_order nx = bind (validate_no_cycles nx) (\<lambda>_. reads (nx_topological_sort nx))"

section \<open>What networkx documents\<close>

text \<open>
  A directed graph has attributes for its nodes and a set of edges.  Adding a node that is there
  updates its attributes, adding an edge adds its ends; \<open>ancestors\<close> and \<open>descendants\<close> raise for an
  unknown node and leave out the node itself.
\<close>

definition merged :: "pydict option \<Rightarrow> pydict \<Rightarrow> string \<rightharpoonup> json" where
  "merged old d = (case old of None \<Rightarrow> Map.empty | Some e \<Rightarrow> map_of e) ++ map_of d"

locale networkx_graph =
  fixes nx :: "'g networkx" and edges :: "'g \<Rightarrow> (uuid \<times> uuid) set"
  assumes empty_graph: "nx_data nx (nx_empty nx) n = None" "edges (nx_empty nx) = {}"
    and add_node: "\<exists>e. nx_data nx (nx_add_node nx n d g) n = Some e \<and> map_of e = merged (nx_data nx g n) d"
      "n' \<noteq> n \<Longrightarrow> nx_data nx (nx_add_node nx n d g) n' = nx_data nx g n'"
      "edges (nx_add_node nx n d g) = edges g"
    and add_edge: "nx_data nx (nx_add_edge nx u v d g) n =
        (if nx_data nx g n = None \<and> n \<in> {u, v} then Some [] else nx_data nx g n)"
      "edges (nx_add_edge nx u v d g) = insert (u, v) (edges g)"
    and is_dag: "nx_is_dag nx g \<longleftrightarrow> acyclic (edges g)"
    and ancestors: "nx_data nx g n \<noteq> None \<Longrightarrow> \<exists>ns. nx_ancestors nx g n = Inr ns \<and> set ns = {m. (m, n) \<in> (edges g)\<^sup>+} - {n}"
      "nx_data nx g n = None \<Longrightarrow> isl (nx_ancestors nx g n)"
    and descendants: "nx_data nx g n \<noteq> None \<Longrightarrow> \<exists>ns. nx_descendants nx g n = Inr ns \<and> set ns = {m. (n, m) \<in> (edges g)\<^sup>+} - {n}"
      "nx_data nx g n = None \<Longrightarrow> isl (nx_descendants nx g n)"
    and nodes: "set (nx_nodes nx g) = {n. nx_data nx g n \<noteq> None}"
    and degrees: "nx_in_degree nx g n = 0 \<longleftrightarrow> (\<forall>m. (m, n) \<notin> edges g)" "nx_out_degree nx g n = 0 \<longleftrightarrow> (\<forall>m. (n, m) \<notin> edges g)"
begin

lemma validate_no_cycles_app:
  "validate_no_cycles nx g = (if acyclic (edges g) then Inr () else Inl DependencyGraphError, g)"
  by (simp add: validate_no_cycles_def is_dag)

lemma orphans_exact:
  "\<exists>ns. find_orphan_nodes nx g = (Inr ns, g) \<and>
     set ns = {n. nx_data nx g n \<noteq> None \<and> (\<forall>m. (m, n) \<notin> edges g \<and> (n, m) \<notin> edges g)}"
  by (auto simp: find_orphan_nodes_def nodes degrees)

lemma validate_shipment_app:
  assumes "nx_data nx g i \<noteq> None"
  shows "\<exists>ns. validate_shipment_dependencies nx i g = (Inr ns, g) \<and>
    set ns = {n. (n, i) \<in> (edges g)\<^sup>+ \<and> n \<noteq> i \<and> unconfirmed (case nx_data nx g n of None \<Rightarrow> [] | Some d \<Rightarrow> d)}"
proof -
  obtain ns where "nx_ancestors nx g i = Inr ns" "set ns = {m. (m, i) \<in> (edges g)\<^sup>+} - {i}"
    using ancestors(1) [OF assms] by blast
  then show ?thesis by (auto simp: validate_shipment_dependencies_def get_upstream_def)
qed

end

section \<open>The graph a sequence of calls builds\<close>

datatype call = AddNode DependencyNode | AddDependency uuid uuid string

fun graph_call :: "'g networkx \<Rightarrow> call \<Rightarrow> ('g, exn, unit) op" where
  "graph_call nx (AddNode nd) = dg_add_node nx nd"
| "graph_call nx (AddDependency a b relation) = dg_add_dependency nx a b relation"

definition graph_calls :: "'g networkx \<Rightarrow> call list \<Rightarrow> ('g, exn, unit) op" where
  "graph_calls nx calls = for_loop (\<lambda>c _. graph_call nx c) calls ()"

text \<open>What the calls say: \<open>(b, a)\<close> is required when \<open>a\<close> was declared to depend on \<open>b\<close>, and the node
  of an entity is the last one added for it.\<close>

definition requires :: "call list \<Rightarrow> (uuid \<times> uuid) set" where
  "requires calls = {(b, a). \<exists>relation. AddDependency a b relation \<in> set calls}"

fun node_of :: "uuid \<Rightarrow> call \<Rightarrow> DependencyNode option" where
  "node_of i (AddNode nd) = (if dn_id nd = i then Some nd else None)"
| "node_of i (AddDependency a b relation) = None"

definition last_node :: "call list \<Rightarrow> uuid \<Rightarrow> DependencyNode option" where
  "last_node calls i = fold (\<lambda>c nd. case node_of i c of None \<Rightarrow> nd | Some nd' \<Rightarrow> Some nd') calls None"

fun names :: "call \<Rightarrow> uuid set" where
  "names (AddNode nd) = {dn_id nd}"
| "names (AddDependency a b relation) = {a, b}"

lemma last_node_snoc [simp]:
  "last_node (calls @ [c]) i = (case node_of i c of None \<Rightarrow> last_node calls i | Some nd \<Rightarrow> Some nd)"
  unfolding last_node_def by simp

lemma requires_snoc [simp]:
  "requires (calls @ [AddNode nd]) = requires calls"
  "requires (calls @ [AddDependency a b relation]) = insert (b, a) (requires calls)"
  by (auto simp: requires_def)

text \<open>The attributes of a node speak of the last node added for it.\<close>

definition data_of :: "DependencyNode option \<Rightarrow> pydict option \<Rightarrow> bool" where
  "data_of nd d \<longleftrightarrow> (case nd of
     None \<Rightarrow> (case d of None \<Rightarrow> True | Some e \<Rightarrow> map_of e ''node_type'' = None \<and> map_of e ''status'' = None)
   | Some nd \<Rightarrow> (case d of None \<Rightarrow> False | Some e \<Rightarrow>
       map_of e ''node_type'' = Some (JStr (NodeType_value (dn_type nd))) \<and> map_of e ''status'' = Some (JStr (dn_status nd))))"

lemma node_type_distinct:
  "NodeType_value t = ''allocation'' \<longleftrightarrow> t = ALLOCATION" "''allocation'' = NodeType_value t \<longleftrightarrow> t = ALLOCATION"
  by (cases t; simp)+

lemma data_of_unconfirmed:
  "data_of nd d \<Longrightarrow> unconfirmed (case d of None \<Rightarrow> [] | Some e \<Rightarrow> e) \<longleftrightarrow>
     (\<exists>x. nd = Some x \<and> dn_type x = ALLOCATION \<and> dn_status x \<noteq> ''confirmed'')"
  by (auto simp: data_of_def unconfirmed_def dict_get_def node_type_distinct split: option.splits)

context networkx_graph begin

lemma graph_calls_build:
  assumes "graph_calls nx calls (nx_empty nx) = (Inr (), g)"
  shows "edges g = requires calls \<and> (\<forall>i. data_of (last_node calls i) (nx_data nx g i)) \<and>
    (\<forall>i. nx_data nx g i \<noteq> None \<longleftrightarrow> (\<exists>c \<in> set calls. i \<in> names c))"
  using assms
proof (induction calls arbitrary: g rule: rev_induct)
  case Nil
  then have "g = nx_empty nx" by (simp add: graph_calls_def)
  then show ?case by (simp add: empty_graph requires_def data_of_def last_node_def)
next
  case (snoc c calls)
  from snoc.prems obtain h where h: "graph_calls nx calls (nx_empty nx) = (Inr (), h)" and g: "graph_call nx c h = (Inr (), g)"
    unfolding graph_calls_def for_loop_append by (auto simp: bind_def split: prod.splits sum.splits)
  note IH = snoc.IH [OF h]
  show ?case
  proof (cases c)
    case (AddNode nd)
    let ?i = "dn_id nd"
    from g AddNode have g': "g = nx_add_node nx ?i (node_attributes nd) h"
      and keys: "''node_type'' \<notin> fst ` set (dn_metadata nd)" "''status'' \<notin> fst ` set (dn_metadata nd)"
      by (auto simp: dg_add_node_def split: if_splits)
    obtain e where e: "nx_data nx g ?i = Some e" "map_of e = merged (nx_data nx h ?i) (node_attributes nd)"
      using add_node(1) unfolding g' by blast
    have "data_of (Some nd) (nx_data nx g ?i)"
      using e by (simp add: data_of_def merged_def node_attributes_def)
    then have D: "data_of (Some nd) (Some e)" by (simp add: e(1))
    have d: "nx_data nx g j = (if j = ?i then Some e else nx_data nx h j)" for j
      using e(1) add_node(2) [of j ?i "node_attributes nd" h] by (simp add: g')
    have E: "edges g = edges h" unfolding g' by (rule add_node(3))
    show ?thesis unfolding AddNode d E requires_snoc last_node_snoc using IH D by (auto split: if_splits)
  next
    case (AddDependency a b relation)
    with g have g': "g = nx_add_edge nx b a [(''relation'', JStr relation)] h" by (simp add: dg_add_dependency_def)
    have "data_of x (if d = None \<and> P then Some [] else d)" if "data_of x d" for x d P
      using that by (auto simp: data_of_def split: option.splits)
    with IH AddDependency show ?thesis unfolding g' add_edge by auto
  qed
qed

lemma shipment_dependencies:
  assumes "graph_calls nx calls (nx_empty nx) = (Inr (), g)" and "\<exists>c \<in> set calls. i \<in> names c"
  shows "\<exists>issues. validate_shipment_dependencies nx i g = (Inr issues, g) \<and>
    set issues = {a. (a, i) \<in> (requires calls)\<^sup>+ \<and> a \<noteq> i \<and>
      (\<exists>nd. last_node calls a = Some nd \<and> dn_type nd = ALLOCATION \<and> dn_status nd \<noteq> ''confirmed'')}"
proof -
  note B = graph_calls_build [OF assms(1)]
  have "nx_data nx g i \<noteq> None" using B assms(2) by blast
  note V = validate_shipment_app [OF this]
  have "unconfirmed (case nx_data nx g a of None \<Rightarrow> [] | Some d \<Rightarrow> d) \<longleftrightarrow>
      (\<exists>nd. last_node calls a = Some nd \<and> dn_type nd = ALLOCATION \<and> dn_status nd \<noteq> ''confirmed'')" for a
    using B by (intro data_of_unconfirmed) blast
  with V B show ?thesis by simp
qed

end

section \<open>A graph in two lists\<close>

text \<open>Node attributes and edges, the newest first.\<close>

type_synonym table_graph = "(uuid \<times> pydict) list \<times> (uuid \<times> uuid) list"

definition tg_ensure :: "uuid \<Rightarrow> (uuid \<times> pydict) list \<Rightarrow> (uuid \<times> pydict) list" where
  "tg_ensure n ns = (if map_of ns n = None then (n, []) # ns else ns)"

definition tg_edges :: "table_graph \<Rightarrow> (uuid \<times> uuid) set" where
  "tg_edges g = set (snd g)"

definition tg_up :: "table_graph \<Rightarrow> uuid \<Rightarrow> uuid list" where
  "tg_up g n = filter (\<lambda>m. m \<noteq> n \<and> (m, n) \<in> (set (snd g))\<^sup>+) (remdups (map fst (snd g)))"

definition tg_down :: "table_graph \<Rightarrow> uuid \<Rightarrow> uuid list" where
  "tg_down g n = filter (\<lambda>m. m \<noteq> n \<and> (n, m) \<in> (set (snd g))\<^sup>+) (remdups (map snd (snd g)))"

fun tg_sort :: "nat \<Rightarrow> (uuid \<times> uuid) list \<Rightarrow> uuid list \<Rightarrow> uuid list" where
  "tg_sort 0 es ns = ns"
| "tg_sort (Suc k) es ns = (case find (\<lambda>n. \<not> list_ex (\<lambda>(u, v). v = n \<and> List.member ns u) es) ns of
     None \<Rightarrow> ns | Some n \<Rightarrow> n # tg_sort k es (remove1 n ns))"

definition table_networkx :: "table_graph networkx" where
  "table_networkx = \<lparr>nx_empty = ([], []),
     nx_add_node = (\<lambda>n d (ns, es). ((n, d @ (case map_of ns n of None \<Rightarrow> [] | Some e \<Rightarrow> e)) # ns, es)),
     nx_add_edge = (\<lambda>u v d (ns, es). (tg_ensure v (tg_ensure u ns), (u, v) # es)),
     nx_is_dag = (\<lambda>g. list_all (\<lambda>(u, v). (u, u) \<notin> (set (snd g))\<^sup>+) (snd g)),
     nx_simple_cycles = (\<lambda>g. []),
     nx_ancestors = (\<lambda>g n. if map_of (fst g) n = None then Inl PyValueError else Inr (tg_up g n)),
     nx_descendants = (\<lambda>g n. if map_of (fst g) n = None then Inl PyValueError else Inr (tg_down g n)),
     nx_nodes = (\<lambda>g. remdups (map fst (fst g))),
     nx_data = (\<lambda>g n. map_of (fst g) n),
     nx_in_degree = (\<lambda>g n. length (filter (\<lambda>(u, v). v = n) (remdups (snd g)))),
     nx_out_degree = (\<lambda>g n. length (filter (\<lambda>(u, v). u = n) (remdups (snd g)))),
     nx_topological_sort = (\<lambda>g. tg_sort (length (fst g)) (snd g) (remdups (map fst (fst g))))\<rparr>"

lemma tg_dag: "list_all (\<lambda>(u, v). (u, u) \<notin> (set es)\<^sup>+) es \<longleftrightarrow> acyclic (set es)"
proof
  assume L: "list_all (\<lambda>(u, v). (u, u) \<notin> (set es)\<^sup>+) es"
  show "acyclic (set es)" unfolding acyclic_def
  proof (intro allI notI)
    fix x assume "(x, x) \<in> (set es)\<^sup>+"
    moreover from this obtain y where "(x, y) \<in> set es" by (meson converse_tranclE)
    ultimately show False using L by (auto simp: list_all_iff)
  qed
qed (auto simp: acyclic_def list_all_iff)

lemma set_tg_up: "set (tg_up g n) = {m. (m, n) \<in> (tg_edges g)\<^sup>+} - {n}"
proof -
  have "m \<in> fst ` set (snd g)" if "(m, n) \<in> (set (snd g))\<^sup>+" for m
    using that by (cases rule: converse_tranclE) force+
  then show ?thesis by (auto simp: tg_up_def tg_edges_def)
qed

lemma set_tg_down: "set (tg_down g n) = {m. (n, m) \<in> (tg_edges g)\<^sup>+} - {n}"
proof -
  have "m \<in> snd ` set (snd g)" if "(n, m) \<in> (set (snd g))\<^sup>+" for m
    using that by (cases rule: tranclE) force+
  then show ?thesis by (auto simp: tg_down_def tg_edges_def)
qed

lemma tg_nodes: "set (remdups (map fst ns)) = {n. map_of ns n \<noteq> None}"
  by (auto simp: map_of_eq_None_iff)

interpretation table_graph: networkx_graph table_networkx tg_edges
proof unfold_locales
  fix g n show "nx_data table_networkx g n \<noteq> None \<Longrightarrow> \<exists>ns. nx_ancestors table_networkx g n = Inr ns \<and>
      set ns = {m. (m, n) \<in> (tg_edges g)\<^sup>+} - {n}"
    by (simp add: table_networkx_def set_tg_up)
  show "nx_data table_networkx g n \<noteq> None \<Longrightarrow> \<exists>ns. nx_descendants table_networkx g n = Inr ns \<and>
      set ns = {m. (n, m) \<in> (tg_edges g)\<^sup>+} - {n}"
    by (simp add: table_networkx_def set_tg_down)
  show "set (nx_nodes table_networkx g) = {n. nx_data table_networkx g n \<noteq> None}"
    unfolding table_networkx_def networkx.simps by (rule tg_nodes)
  show "nx_is_dag table_networkx g \<longleftrightarrow> acyclic (tg_edges g)"
    unfolding table_networkx_def networkx.simps tg_edges_def by (rule tg_dag)
  show "nx_in_degree table_networkx g n = 0 \<longleftrightarrow> (\<forall>m. (m, n) \<notin> tg_edges g)"
    "nx_out_degree table_networkx g n = 0 \<longleftrightarrow> (\<forall>m. (n, m) \<notin> tg_edges g)"
    by (auto simp: table_networkx_def tg_edges_def filter_empty_conv)
qed (auto simp: table_networkx_def tg_edges_def tg_ensure_def merged_def split: option.splits)

section \<open>Properties\<close>

text \<open>C37: The check before a shipment leaves is exact: for a graph built by any sequence of calls, it
  names exactly the allocations the shipment depends on, directly or through other entities, whose
  last recorded status is not confirmed; and the graph passes the check for cycles exactly when
  the declared dependencies have none.\<close>

theorem shipment_check_exact:
  assumes "networkx_graph nx edges" and "graph_calls nx calls (nx_empty nx) = (Inr (), g)"
    and "list_ex (\<lambda>c. i \<in> names c) calls"
  shows "\<exists>issues. validate_shipment_dependencies nx i g = (Inr issues, g) \<and>
    set issues = {a. (a, i) \<in> (requires calls)\<^sup>+ \<and> a \<noteq> i \<and>
      (\<exists>nd. last_node calls a = Some nd \<and> dn_type nd = ALLOCATION \<and> dn_status nd \<noteq> ''confirmed'')} \<and>
    fst (validate_no_cycles nx g) = (if acyclic (requires calls) then Inr () else Inl DependencyGraphError)"
  using networkx_graph.shipment_dependencies [OF assms(1,2), of i] assms(3)
    networkx_graph.graph_calls_build [OF assms(1,2)] networkx_graph.validate_no_cycles_app [OF assms(1), of g]
  by (auto simp: list_ex_iff)

text \<open>Shipment 1 needs order 2, which needs the allocations 3 (confirmed), 4 (confirmed later on) and 5.\<close>

definition demo_calls :: "call list" where
  "demo_calls = (let node = \<lambda>i t st. AddNode \<lparr>dn_id = i, dn_type = t, dn_status = st, dn_metadata = []\<rparr> in
     [node 1 SHIPMENT ''planned'', node 2 ORDER ''picking'', node 3 ALLOCATION ''confirmed'', node 4 ALLOCATION ''active'',
      node 5 ALLOCATION ''active'', node 6 ALLOCATION ''active'', AddDependency 1 2 ''requires'', AddDependency 2 3 ''requires'',
      AddDependency 2 4 ''requires'', AddDependency 2 5 ''requires'', node 4 ALLOCATION ''confirmed''])"

theorem shipment_check_exact_witness:
  "\<exists>g. graph_calls table_networkx demo_calls ([], []) = (Inr (), g) \<and>
     validate_shipment_dependencies table_networkx 1 g = (Inr [5], g)"
proof -
  have e: "nx_empty table_networkx = ([], [])" by (simp add: table_networkx_def)
  obtain z g where run: "graph_calls table_networkx demo_calls ([], []) = (z, g)" by (metis prod.collapse)
  have "fst (graph_calls table_networkx demo_calls ([], [])) = Inr ()" by code_simp
  with run have g: "graph_calls table_networkx demo_calls ([], []) = (Inr (), g)" by simp
  have m: "list_ex (\<lambda>c. 1 \<in> names c) demo_calls" by code_simp
  from shipment_check_exact [OF table_graph.networkx_graph_axioms g [folded e] m]
  obtain issues where issues: "validate_shipment_dependencies table_networkx 1 g = (Inr issues, g)" by blast
  have "fst (validate_shipment_dependencies table_networkx 1 (snd (graph_calls table_networkx demo_calls ([], [])))) = Inr [5]"
    by code_simp
  with g issues show ?thesis by simp
qed

end
