(* ===== verification/FulfillmentFlow.thy ===== *)
theory FulfillmentFlow
  imports Planning DependencyGraph Shipments RoutePlanning
begin

text \<open>
  \<open>services/fulfillment_service.py\<close> and \<open>domain/fulfillment/workflow.py\<close>: the fulfillment service and the
  end-to-end workflow of an order, from validation to carriers, with its compensation.
\<close>

section \<open>FulfillmentService\<close>

text \<open>A line of the request: a dictionary.  \<open>parse\<close> is \<open>uuid.UUID\<close> on a string that is not one that
  \<open>str\<close> made, \<open>dec\<close> is \<open>Decimal(str(x))\<close> on a dynamic value.\<close>

definition required_key :: "pydict \<Rightarrow> string \<Rightarrow> exn + json" where
  "required_key d k = (case map_of d k of None \<Rightarrow> Inl PyKeyError | Some v \<Rightarrow> Inr v)"

definition line_of :: "(json \<Rightarrow> exn + uuid) \<Rightarrow> (json \<Rightarrow> exn + decimal) \<Rightarrow> uuid \<Rightarrow> pydict \<Rightarrow> uuid \<Rightarrow> exn + OrderLine" where
  "line_of parse dec order d i =
     (case required_key d ''sku_id'' of Inl e \<Rightarrow> Inl e | Inr v \<Rightarrow>
      case (case v of JUuid u \<Rightarrow> Inr u | _ \<Rightarrow> parse v) of Inl e \<Rightarrow> Inl e | Inr k \<Rightarrow>
      case required_key d ''quantity'' of Inl e \<Rightarrow> Inl e | Inr q \<Rightarrow>
      case json_int q of Inl e \<Rightarrow> Inl e | Inr n \<Rightarrow>
      case dec (dict_get d ''unit_price'' (JStr ''0'')) of Inl e \<Rightarrow> Inl e | Inr price \<Rightarrow>
      Inr \<lparr>ol_id = i, ol_order = order, ol_sku = k, ol_quantity_ordered = n, ol_quantity_allocated = 0,
           ol_quantity_shipped = 0, ol_unit_price = price, ol_backorder_quantity = 0\<rparr>)"

definition create_order ::
  "(json \<Rightarrow> exn + uuid) \<Rightarrow> (json \<Rightarrow> exn + decimal) \<Rightarrow> string \<Rightarrow> string \<Rightarrow> pydict \<Rightarrow> pydict list \<Rightarrow> int \<Rightarrow> bool \<Rightarrow> string \<Rightarrow>
   uuid task" where
  "create_order parse dec external_id customer ship_to ls priority allow_partial strategy =
     bind fresh_uuid (\<lambda>i. bind get_now (\<lambda>n.
     bind (add orders_update \<lparr>ord_id = i, ord_external_id = external_id, ord_customer = customer,
        ord_status = ''received'', ord_priority = priority, ord_ship_to = ship_to, ord_requested_ship_date = None,
        ord_routing_strategy = strategy, ord_allow_partial = allow_partial, ord_correlation = None,
        ord_version = 1, ord_created_at = n\<rparr>) (\<lambda>ord.
     bind (for_loop (\<lambda>d _. bind fresh_uuid (\<lambda>j. bind (fetch (\<lambda>_. line_of parse dec (ord_id ord) d j)) (\<lambda>l.
        session_add order_lines_update l))) ls ()) (\<lambda>_.
     bind (audit_record ''order'' (ord_id ord) ''created'' None
        (Some [(''external_order_id'', JStr external_id), (''status'', JStr ''received'')]) None) (\<lambda>_.
     ret (ord_id ord))))))"

definition process_order :: "uuid \<Rightarrow> FulfillmentPlanResult task" where
  "process_order i = bind (plan_fulfillment i) (\<lambda>result.
     bind (audit_record ''order'' i ''fulfillment_planned'' None
        (Some [(''status'', JStr (fr_status result)), (''is_partial'', JBool (fr_is_partial result))]) None) (\<lambda>_.
     ret result))"

text \<open>\<open>strategy or order.routing_strategy\<close>.\<close>

definition service_route_order :: "uuid \<Rightarrow> string option \<Rightarrow> RoutingDecision task" where
  "service_route_order i strategy = bind (get_by_id_or_raise ord_id orders i) (\<lambda>ord.
     OrderRouting.route_order i (case strategy of None \<Rightarrow> ord_routing_strategy ord
       | Some st \<Rightarrow> if st = [] then ord_routing_strategy ord else st))"

text \<open>The attributes of a shipment the generator has just returned.\<close>

definition shipment_of :: "uuid \<Rightarrow> session \<Rightarrow> Shipment option" where
  "shipment_of i s = find (\<lambda>sh. sh_id sh = i) (lives (shipments s))"

definition with_shipment :: "uuid \<Rightarrow> (Shipment \<Rightarrow> 'a task) \<Rightarrow> 'a task" where
  "with_shipment i f = bind (reads (shipment_of i)) (\<lambda>r. case r of None \<Rightarrow> raise (NotFoundError i) | Some sh \<Rightarrow> f sh)"

definition generate_shipments :: "uuid \<Rightarrow> uuid list task" where
  "generate_shipments i = bind (generate_for_order i) (\<lambda>shs.
     bind (for_loop (\<lambda>sh _. with_shipment sh (\<lambda>x.
       bind (record_shipment_transition sh ''none'' (sh_status x)) (\<lambda>_. ret ()))) shs ()) (\<lambda>_. ret shs))"

section \<open>OrderFulfillmentWorkflow\<close>

text \<open>The services outside the repository, and the optional event bus.\<close>

record 'g flow_env =
  fe_nx :: "'g networkx"
  fe_bus :: "EventHandler option option"
  fe_cfg :: Settings
  fe_distance :: distance
  fe_tour :: tour
  fe_parse :: "string \<Rightarrow> pyfloat option"

text \<open>A run works on its context, on the dependency graph of the workflow object, and on the session.\<close>

type_synonym ('g, 'a) flow_task = "((WorkflowContext \<times> 'g) \<times> session, exn, 'a) op"

definition flow_step :: "string \<Rightarrow> ('g, unit) flow_task" where
  "flow_step st = modify (map_prod (map_prod (mark_step_complete st) id) id)"

definition on_graph :: "('g, exn, 'a) op \<Rightarrow> ('g, 'a) flow_task" where
  "on_graph m = (\<lambda>((ctx, g), s). case m g of (r, h) \<Rightarrow> (r, ((ctx, h), s)))"

definition notify :: "'g flow_env \<Rightarrow> EventType \<Rightarrow> string \<Rightarrow> uuid \<Rightarrow> pydict \<Rightarrow> unit task" where
  "notify env ty agg i payload = (case fe_bus env of None \<Rightarrow> ret ()
     | Some x \<Rightarrow> bind (reads ctx_correlation) (\<lambda>c. bind get_now (\<lambda>n.
         bind (publish x \<lparr>dp_event_type = EventType_value ty, dp_aggregate_type = agg, dp_aggregate_id = i,
           dp_payload = payload, dp_correlation = c, dp_causation = None, dp_metadata = [], dp_occurred_at = n\<rparr>)
         (\<lambda>_. ret ()))))"

definition step_validate :: "'g flow_env \<Rightarrow> uuid \<Rightarrow> ('g, Order) flow_task" where
  "step_validate env i = bind (on_session (get_order_with_lines i)) (\<lambda>r. case r of
     None \<Rightarrow> raise WorkflowError
   | Some (ord, ls) \<Rightarrow>
       bind (raise_if (ord_status ord \<in> {''cancelled'', ''delivered''}) WorkflowError) (\<lambda>_.
       bind (on_graph (dg_add_node (fe_nx env) \<lparr>dn_id = ord_id ord, dn_type = NodeType.ORDER,
          dn_status = ord_status ord, dn_metadata = []\<rparr>)) (\<lambda>_.
       bind (flow_step ''validate'') (\<lambda>_. ret ord))))"

definition plan_summary :: "FulfillmentPlanResult \<Rightarrow> pydict" where
  "plan_summary result = [(''status'', JStr (fr_status result)), (''is_partial'', JBool (fr_is_partial result))]"

definition step_plan :: "'g flow_env \<Rightarrow> uuid \<Rightarrow> ('g, FulfillmentPlanResult) flow_task" where
  "step_plan env i = bind (on_session (plan_fulfillment i)) (\<lambda>result.
     bind (flow_step ''plan'') (\<lambda>_.
     bind (on_session (notify env EventType.FULFILLMENT_PLANNED ''order'' i (plan_summary result))) (\<lambda>_. ret result)))"

definition step_generate_shipments :: "'g flow_env \<Rightarrow> uuid \<Rightarrow> ('g, uuid list) flow_task" where
  "step_generate_shipments env i = bind (on_session (generate_for_order i)) (\<lambda>shs.
     bind (flow_step ''generate_shipments'') (\<lambda>_.
     bind (on_session (for_loop (\<lambda>sh _. with_shipment sh (\<lambda>x. notify env SHIPMENT_CREATED ''shipment'' sh
        [(''shipment_number'', JUuid (sh_number x)), (''order_id'', JUuid i)])) shs ())) (\<lambda>_. ret shs)))"

definition step_shipment :: "'g flow_env \<Rightarrow> uuid \<Rightarrow> ('g, unit) flow_task" where
  "step_shipment env sh =
     bind (on_session (with_shipment sh ret)) (\<lambda>x.
     bind (on_graph (dg_add_node (fe_nx env) \<lparr>dn_id = sh, dn_type = SHIPMENT, dn_status = sh_status x, dn_metadata = []\<rparr>)) (\<lambda>_.
     bind (on_session (plan_routes (fe_cfg env) (fe_distance env) (fe_tour env) (fe_parse env) sh)) (\<lambda>_.
     bind (on_session (assign_carrier sh)) (\<lambda>_. ret ()))))"

definition step_finalize :: "Order \<Rightarrow> ('g, unit) flow_task" where
  "step_finalize ord = bind (on_session (put_order (ord_id ord) (\<lambda>x. x\<lparr>ord_status := ''fulfillment_planned''\<rparr>))) (\<lambda>_.
     bind (flow_step ''plan_routes'') (\<lambda>_. bind (flow_step ''assign_carriers'') (\<lambda>_. flow_step ''finalize'')))"

definition compensate_order :: "uuid \<Rightarrow> ('g, unit) flow_task" where
  "compensate_order i = bind (reads (\<lambda>((ctx, g), s). wf_steps_completed ctx)) (\<lambda>done.
     if ''allocate'' \<in> set done then bind (on_session (release_reservations i)) (\<lambda>_. ret ()) else ret ())"

definition order_status :: "Order \<Rightarrow> session \<Rightarrow> string" where
  "order_status ord s = (case find (\<lambda>x. ord_id x = ord_id ord) (lives (orders s)) of None \<Rightarrow> ord_status ord | Some x \<Rightarrow> ord_status x)"

definition order_flow :: "'g flow_env \<Rightarrow> uuid \<Rightarrow> ('g, pydict) flow_task" where
  "order_flow env i =
     bind (step_validate env i) (\<lambda>ord.
     bind (step_plan env i) (\<lambda>result.
     bind (flow_step ''allocate'') (\<lambda>_.
     bind (step_generate_shipments env i) (\<lambda>shs.
     bind (for_loop (\<lambda>sh _. step_shipment env sh) shs ()) (\<lambda>_.
     bind (on_graph (validate_no_cycles (fe_nx env))) (\<lambda>_.
     bind (step_finalize ord) (\<lambda>_.
     bind (reads (\<lambda>((ctx, g), s). (wf_workflow_id ctx, order_status ord s))) (\<lambda>(w, st).
     ret [(''order_id'', JUuid i), (''workflow_id'', JUuid w), (''plan'', JObj (plan_summary result)),
          (''shipments'', JArr (map JUuid shs)), (''status'', JStr st)]))))))))"

definition FLOW_STEPS :: "string list" where
  "FLOW_STEPS = [''validate'', ''plan'', ''allocate'', ''generate_shipments'', ''plan_routes'', ''assign_carriers'', ''finalize'']"

definition execute_order :: "'g flow_env \<Rightarrow> uuid \<Rightarrow> ('g \<times> session, exn, pydict) op" where
  "execute_order env i = bind (on_session (new_context_with FLOW_STEPS)) (\<lambda>ctx (g, s).
     case try_except (order_flow env i) (\<lambda>_. bind (compensate_order i) (\<lambda>_. raise WorkflowError))
       ((ctx\<lparr>wf_metadata := [(''order_id'', JUuid i)]\<rparr>, g), s) of
     (r, ((c, h), t)) \<Rightarrow> (r, (h, t)))"

end
