(* ===== verification/Placement.thy ===== *)
theory Placement
  imports Repositories
begin

text \<open>
  \<open>domain/optimization/placement.py\<close>: which units to move between warehouses.  The greedy matching of
  surplus and deficit is proved to move as much as any feasible plan can, without taking a
  warehouse below its reserve or filling one beyond its reorder point.
\<close>

section \<open>InventoryPlacementOptimizer\<close>

record PlacementRecommendation =
  pr_sku :: uuid
  pr_source :: "uuid option"
  pr_target :: uuid
  pr_quantity :: int
  pr_reason :: string
  pr_savings :: decimal
  pr_fill_rate :: pyfloat

record PlacementPlan =
  pp_id :: uuid
  pp_recommendations :: "PlacementRecommendation list"
  pp_units :: int
  pp_savings :: decimal
  pp_priority :: int

definition TRANSFER_COST_PER_UNIT :: decimal where "TRANSFER_COST_PER_UNIT = 1 / 2"
definition STOCKOUT_PENALTY :: decimal where "STOCKOUT_PENALTY = 25"

definition reorder_of :: "SafetyStockPolicy option \<Rightarrow> int" where
  "reorder_of p = (case p of None \<Rightarrow> 50 | Some p \<Rightarrow> pol_reorder_point p)"

definition safety_of :: "SafetyStockPolicy option \<Rightarrow> int" where
  "safety_of p = (case p of None \<Rightarrow> 25 | Some p \<Rightarrow> pol_safety_stock_qty p)"

type_synonym amounts = "(uuid \<times> int) list"

definition classify :: "uuid \<Rightarrow> uuid \<times> int \<times> int \<times> int \<Rightarrow> amounts \<times> amounts \<Rightarrow> (amounts \<times> amounts) task" where
  "classify k = (\<lambda>(w, h, r, available) (surplus, deficit).
     bind (get_policy w k) (\<lambda>policy.
     let reorder = reorder_of policy; safety = safety_of policy in
     if reorder + safety * 2 < available then ret (surplus @ [(w, available - reorder - safety)], deficit)
     else if available < reorder then ret (surplus, deficit @ [(w, reorder - available)])
     else ret (surplus, deficit)))"

definition recommend :: "uuid \<Rightarrow> uuid \<Rightarrow> uuid \<Rightarrow> int \<Rightarrow> PlacementPlan \<Rightarrow> PlacementPlan" where
  "recommend k source target q plan =
     (let savings = dsub STOCKOUT_PENALTY (dmul TRANSFER_COST_PER_UNIT (of_int q)) in
      plan\<lparr>pp_recommendations := pp_recommendations plan @
             [\<lparr>pr_sku = k, pr_source = Some source, pr_target = target, pr_quantity = q,
               pr_reason = ''rebalance_to_reorder_point'', pr_savings = savings, pr_fill_rate = fl (5 / 100)\<rparr>],
           pp_units := pp_units plan + q, pp_savings := dadd (pp_savings plan) savings\<rparr>)"

text \<open>The inner loop walks the list that \<open>surplus\<close> was when it started; the assignment to \<open>surplus\<close> in its
  body makes a new list for the next deficit.\<close>

definition draw_from :: "uuid \<Rightarrow> uuid \<Rightarrow> uuid \<times> int \<Rightarrow> PlacementPlan \<times> int \<times> amounts \<Rightarrow> PlacementPlan \<times> int \<times> amounts" where
  "draw_from k target = (\<lambda>(source, sur_qty) (plan, def_qty, surplus).
     if sur_qty \<le> 0 then (plan, def_qty, surplus)
     else let q = min def_qty sur_qty in
       if q \<le> 0 then (plan, def_qty, surplus)
       else (recommend k source target q plan, def_qty - q,
             map (\<lambda>(w, n). (w, if w = source then n - q else n)) surplus))"

definition fill_deficit :: "uuid \<Rightarrow> uuid \<times> int \<Rightarrow> PlacementPlan \<times> amounts \<Rightarrow> PlacementPlan \<times> amounts" where
  "fill_deficit k = (\<lambda>(target, def_qty) (plan, surplus).
     case fold (draw_from k target) surplus (plan, def_qty, surplus) of (plan', d, surplus') \<Rightarrow> (plan', surplus'))"

definition prioritise :: "PlacementPlan \<Rightarrow> PlacementPlan" where
  "prioritise plan = (if 100 < pp_units plan then plan\<lparr>pp_priority := 2\<rparr>
     else if 0 < pp_units plan then plan\<lparr>pp_priority := 4\<rparr> else plan)"

definition analyze_network :: "uuid \<Rightarrow> PlacementPlan task" where
  "analyze_network k = bind fresh_uuid (\<lambda>i.
     let plan = \<lparr>pp_id = i, pp_recommendations = [], pp_units = 0, pp_savings = 0, pp_priority = 5\<rparr> in
     bind (get_network_visibility k) (\<lambda>visibility.
     if length visibility < 2 then ret plan
     else bind list_active_warehouses (\<lambda>whs.
          bind (for_loop (classify k) visibility ([], [])) (\<lambda>(surplus, deficit).
          ret (prioritise (fst (fold (fill_deficit k) deficit (plan, surplus))))))))"

text \<open>\<open>so\<close> is the order in which the database returns the rows of \<open>SELECT DISTINCT\<close>.\<close>

definition analyze_all_skus :: "(uuid list \<Rightarrow> uuid list) \<Rightarrow> nat \<Rightarrow> PlacementPlan list task" where
  "analyze_all_skus so limit = bind (reads (\<lambda>s. take limit (so (map bal_sku (stored_rows (balances s)))))) (\<lambda>ks.
     bind (for_loop (\<lambda>k plans. bind (analyze_network k) (\<lambda>plan.
        ret (if pp_recommendations plan = [] then plans else plans @ [plan]))) ks [])
     (\<lambda>plans. ret (sort_key pp_priority plans)))"

definition estimate_fill_rate_impact :: "uuid \<Rightarrow> uuid \<Rightarrow> int \<Rightarrow> pyfloat task" where
  "estimate_fill_rate_impact k w units = bind (get_aggregated_available w k) (\<lambda>available.
     bind (get_policy w k) (\<lambda>policy.
     let rate = (\<lambda>n. min 1 (fl (of_int n / of_int (max (reorder_of policy) 1))))
     in ret (fsub (rate (available + units)) (rate available))))"

section \<open>The greedy matching\<close>

text \<open>Only the quantities matter: what the loops recommend, as triples of source, target and quantity.\<close>

definition moves :: "PlacementPlan \<Rightarrow> (uuid \<times> uuid \<times> int) list" where
  "moves plan = map (\<lambda>r. (the (pr_source r), pr_target r, pr_quantity r)) (pp_recommendations plan)"

definition taken_from :: "uuid \<Rightarrow> (uuid \<times> uuid \<times> int) list \<Rightarrow> int" where
  "taken_from w ms = sum_list (map (\<lambda>(s, t, q). if s = w then q else 0) ms)"

definition given_to :: "uuid \<Rightarrow> (uuid \<times> uuid \<times> int) list \<Rightarrow> int" where
  "given_to w ms = sum_list (map (\<lambda>(s, t, q). if t = w then q else 0) ms)"

definition moved :: "(uuid \<times> uuid \<times> int) list \<Rightarrow> int" where
  "moved ms = sum_list (map (\<lambda>(s, t, q). q) ms)"

definition total :: "amounts \<Rightarrow> int" where
  "total xs = sum_list (map (\<lambda>(w, n). max 0 n) xs)"

lemma moves_recommend [simp]: "moves (recommend k s t q plan) = moves plan @ [(s, t, q)]"
  "pp_units (recommend k s t q plan) = pp_units plan + q"
  by (simp_all add: moves_def recommend_def Let_def)

lemma move_sums [simp]:
  "taken_from w [] = 0" "given_to w [] = 0" "moved [] = 0"
  "taken_from w (ms @ ns) = taken_from w ms + taken_from w ns"
  "given_to w (ms @ ns) = given_to w ms + given_to w ns"
  "moved (ms @ ns) = moved ms + moved ns"
  "taken_from w [(s, t, q)] = (if s = w then q else 0)"
  "given_to w [(s, t, q)] = (if t = w then q else 0)"
  "moved [(s, t, q)] = q"
  by (simp_all add: taken_from_def given_to_def moved_def)

text \<open>What drawing \<open>d\<close> units from the sources \<open>xs\<close> leaves of them, and what it draws.\<close>

fun draw :: "int \<Rightarrow> amounts \<Rightarrow> amounts" where
  "draw d [] = []"
| "draw d ((w, n) # xs) = (let q = max 0 (min d n) in (w, n - q) # draw (d - q) xs)"

lemma draw_sources [simp]: "map fst (draw d xs) = map fst xs"
  by (induction d xs rule: draw.induct) (simp_all add: Let_def)

lemma total_draw: "0 \<le> d \<Longrightarrow> total (draw d xs) = total xs - min d (total xs)"
proof (induction d xs rule: draw.induct)
  case (2 d w n xs)
  let ?q = "max 0 (min d n)"
  have "0 \<le> d - ?q" using 2(2) by simp
  with 2(1) [OF refl] have "total (draw (d - ?q) xs) = total xs - min (d - ?q) (total xs)" by simp
  moreover have "0 \<le> total xs" by (auto simp: total_def intro!: sum_list_nonneg)
  ultimately show ?case using 2(2) by (simp add: total_def Let_def) linarith
qed (simp add: total_def)

lemma total_nonneg: "0 \<le> total xs"
  by (auto simp: total_def intro!: sum_list_nonneg)

definition amount :: "uuid \<Rightarrow> amounts \<Rightarrow> int" where
  "amount w xs = sum_list (map (\<lambda>(v, n). if v = w then n else 0) xs)"

lemma amount_simps [simp]:
  "amount w [] = 0" "amount w ((v, n) # xs) = (if v = w then n else 0) + amount w xs"
  by (simp_all add: amount_def)

lemma amount_absent: "w \<notin> fst ` set xs \<Longrightarrow> amount w xs = 0"
  by (induction xs) auto

lemma draw_amount:
  "0 \<le> d \<Longrightarrow> distinct (map fst xs) \<Longrightarrow> min 0 (amount w xs) \<le> amount w (draw d xs) \<and> amount w (draw d xs) \<le> amount w xs"
proof (induction d xs rule: draw.induct)
  case (2 d v n xs)
  have "amount v (draw e xs) = 0" "amount v xs = 0" for e
    using 2(3) by (simp_all add: amount_absent flip: set_map)
  with 2 show ?case by (auto simp: Let_def)
qed simp

text \<open>A batch of moves that turns the stock \<open>xs\<close> of the sources into \<open>ys\<close>.\<close>

definition batch :: "(uuid \<times> uuid \<times> int) list \<Rightarrow> amounts \<Rightarrow> amounts \<Rightarrow> bool" where
  "batch ms xs ys \<longleftrightarrow> map fst ys = map fst xs \<and> total ys = total xs - moved ms \<and>
     list_all (\<lambda>(s, t, q). 0 < q) ms \<and> (\<forall>w. taken_from w ms = amount w xs - amount w ys) \<and>
     (\<forall>w. min 0 (amount w xs) \<le> amount w ys)"

lemma fold_draw:
  assumes "distinct (map fst (pre @ xs))" and "0 \<le> d"
  shows "\<exists>plan' ms. fold (draw_from k t) xs (plan, d, pre @ xs) = (plan', d - moved ms, pre @ draw d xs) \<and>
    moves plan' = moves plan @ ms \<and> pp_units plan' = pp_units plan + moved ms \<and>
    moved ms = min d (total xs) \<and> list_all (\<lambda>(s, t', q). 0 < q \<and> t' = t) ms \<and>
    (\<forall>w. taken_from w ms = amount w xs - amount w (draw d xs))"
  using assms
proof (induction xs arbitrary: pre plan d)
  case Nil
  then show ?case by (intro exI [of _ plan] exI [of _ "[]"]) (simp add: total_def)
next
  case (Cons x xs)
  obtain w n where x: "x = (w, n)" by force
  let ?q = "max 0 (min d n)"
  let ?plan = "if 0 < ?q then recommend k w t ?q plan else plan" and ?ms = "if 0 < ?q then [(w, t, ?q)] else []"
  have upd: "map (\<lambda>(v, m). (v, if v = w then m - q else m)) (pre @ x # xs) = (pre @ [(w, n - q)]) @ xs" for q
    using Cons.prems(1) by (auto simp: x intro!: map_idI) (metis fst_conv image_eqI)+
  have step: "draw_from k t x (plan, d, pre @ x # xs) = (?plan, d - ?q, (pre @ [(w, n - ?q)]) @ xs)"
  proof (cases "0 < ?q")
    case True
    then have q: "?q = min d n" by auto
    then have "\<not> n \<le> 0" "\<not> min d n \<le> 0" using True by auto
    then have "draw_from k t x (plan, d, pre @ x # xs) = (recommend k w t (min d n) plan, d - min d n,
        map (\<lambda>(v, m). (v, if v = w then m - min d n else m)) (pre @ x # xs))"
      unfolding x draw_from_def prod.case Let_def by simp
    with True show ?thesis unfolding upd q by simp
  next
    case False
    then have "?q = 0" "n \<le> 0 \<or> min d n \<le> 0" by auto
    then show ?thesis unfolding x draw_from_def prod.case Let_def by auto
  qed
  have "distinct (map fst ((pre @ [(w, n - ?q)]) @ xs))" "0 \<le> d - ?q" using Cons.prems by (auto simp: x)
  from Cons.IH [OF this, of ?plan] obtain plan' ms where IH:
    "fold (draw_from k t) xs (?plan, d - ?q, (pre @ [(w, n - ?q)]) @ xs) = (plan', d - ?q - moved ms, (pre @ [(w, n - ?q)]) @ draw (d - ?q) xs)"
    "moves plan' = moves ?plan @ ms" "pp_units plan' = pp_units ?plan + moved ms" "moved ms = min (d - ?q) (total xs)"
    "list_all (\<lambda>(s, t', q). 0 < q \<and> t' = t) ms" "\<forall>v. taken_from v ms = amount v xs - amount v (draw (d - ?q) xs)" by blast
  have "fold (draw_from k t) (x # xs) (plan, d, pre @ x # xs) = (plan', d - moved (?ms @ ms), pre @ draw d (x # xs))"
    using IH(1) by (simp add: step) (simp add: x Let_def)
  moreover have "moves plan' = moves plan @ (?ms @ ms)" "pp_units plan' = pp_units plan + moved (?ms @ ms)"
    using IH(2,3) by auto
  moreover have "moved (?ms @ ms) = min d (total (x # xs))"
    using IH(4) Cons.prems(2) total_nonneg [of xs] by (auto simp: x total_def min_def max_def)
  moreover have "list_all (\<lambda>(s, t', q). 0 < q \<and> t' = t) (?ms @ ms)" using IH(5) by auto
  moreover have "\<forall>v. taken_from v (?ms @ ms) = amount v (x # xs) - amount v (draw d (x # xs))"
    using IH(6) by (auto simp: x Let_def)
  ultimately show ?case by blast
qed

lemma moves_nonneg: "list_all (\<lambda>(s, t, q). 0 < q) ms \<Longrightarrow> 0 \<le> taken_from w ms \<and> 0 \<le> given_to w ms"
  by (induction ms) (auto simp: taken_from_def given_to_def)

lemma given_to_one: "list_all (\<lambda>(s, t', q). 0 < q \<and> t' = t) ms \<Longrightarrow> given_to w ms = (if w = t then moved ms else 0)"
  by (induction ms) (auto simp: given_to_def moved_def)

lemma fill_deficit_app:
  assumes "distinct (map fst xs)" and "0 \<le> d"
  shows "\<exists>plan' ms. fill_deficit k (t, d) (plan, xs) = (plan', draw d xs) \<and>
    moves plan' = moves plan @ ms \<and> pp_units plan' = pp_units plan + moved ms \<and>
    moved ms = min d (total xs) \<and> batch ms xs (draw d xs) \<and> (\<forall>w. given_to w ms = (if w = t then moved ms else 0))"
proof -
  obtain plan' ms where f: "fold (draw_from k t) xs (plan, d, xs) = (plan', d - moved ms, draw d xs)"
    "moves plan' = moves plan @ ms" "pp_units plan' = pp_units plan + moved ms" "moved ms = min d (total xs)"
    "list_all (\<lambda>(s, t', q). 0 < q \<and> t' = t) ms" "\<forall>w. taken_from w ms = amount w xs - amount w (draw d xs)"
    using fold_draw [of "[]" xs d k t plan] assms by auto
  have "list_all (\<lambda>(s, t, q). 0 < q) ms" using f(5) by (auto simp: list_all_iff)
  then have "batch ms xs (draw d xs)"
    using f(4,6) assms draw_amount [OF assms(2,1)] by (simp add: batch_def total_draw)
  with f given_to_one [OF f(5)] show ?thesis by (simp add: fill_deficit_def)
qed

lemma fill_all_app:
  assumes "distinct (map fst xs)" and "list_all (\<lambda>(w, n). 0 \<le> n) ds"
  shows "\<exists>plan' xs' ms. fold (fill_deficit k) ds (plan, xs) = (plan', xs') \<and>
    moves plan' = moves plan @ ms \<and> pp_units plan' = pp_units plan + moved ms \<and>
    moved ms = min (total ds) (total xs) \<and> batch ms xs xs' \<and> (\<forall>w. given_to w ms \<le> amount w ds)"
  using assms
proof (induction ds arbitrary: plan xs)
  case Nil
  have "total [] = 0" by (simp add: total_def)
  then show ?case using total_nonneg [of xs]
    by (intro exI [of _ plan] exI [of _ xs] exI [of _ "[]"]) (simp add: batch_def)
next
  case (Cons x ds)
  obtain t d where x: "x = (t, d)" by force
  have d: "0 \<le> d" and ds: "list_all (\<lambda>(w, n). 0 \<le> n) ds" using Cons.prems(2) by (simp_all add: x)
  obtain p1 ms1 where 1: "fill_deficit k (t, d) (plan, xs) = (p1, draw d xs)"
    "moves p1 = moves plan @ ms1" "pp_units p1 = pp_units plan + moved ms1" "moved ms1 = min d (total xs)"
    "batch ms1 xs (draw d xs)" "\<forall>w. given_to w ms1 = (if w = t then moved ms1 else 0)"
    using fill_deficit_app [OF Cons.prems(1) d] by blast
  have "distinct (map fst (draw d xs))" using Cons.prems(1) by simp
  from Cons.IH [OF this ds, of p1] obtain p2 xs' ms2 where 2: "fold (fill_deficit k) ds (p1, draw d xs) = (p2, xs')"
    "moves p2 = moves p1 @ ms2" "pp_units p2 = pp_units p1 + moved ms2" "moved ms2 = min (total ds) (total (draw d xs))"
    "batch ms2 (draw d xs) xs'" "\<forall>w. given_to w ms2 \<le> amount w ds" by blast
  have "moved (ms1 @ ms2) = min (total (x # ds)) (total xs)"
    using 1(4) 2(4) d total_nonneg [of xs] total_nonneg [of ds] total_draw [OF d, of xs] by (simp add: x total_def)
  moreover have "batch (ms1 @ ms2) xs xs'" unfolding batch_def
  proof (intro conjI allI)
    fix w
    show "min 0 (amount w xs) \<le> amount w xs'"
      using 1(5) 2(5) by (auto simp: batch_def intro: order_trans [rotated])
  qed (use 1(5) 2(5) in \<open>auto simp: batch_def\<close>)
  moreover have "\<forall>w. given_to w (ms1 @ ms2) \<le> amount w (x # ds)"
    using 1(4,6) 2(6) d by (auto simp: x min_def intro: add_mono)
  ultimately show ?case using 1(1-3) 2(1-3) by (intro exI [of _ p2] exI [of _ xs'] exI [of _ "ms1 @ ms2"]) (simp add: x)
qed

section \<open>The plan for a SKU\<close>

definition policy_at :: "session \<Rightarrow> uuid \<Rightarrow> uuid \<Rightarrow> SafetyStockPolicy option" where
  "policy_at s k w = (case select_where (\<lambda>p. pol_warehouse p = w \<and> pol_sku p = k) (policies s) of [] \<Rightarrow> None | p # _ \<Rightarrow> Some p)"

definition single_policies :: "uuid \<Rightarrow> session \<Rightarrow> bool" where
  "single_policies k s \<longleftrightarrow> (\<forall>w. length (select_where (\<lambda>p. pol_warehouse p = w \<and> pol_sku p = k) (policies s)) \<le> 1)"

definition surplus_at :: "session \<Rightarrow> uuid \<Rightarrow> amounts" where
  "surplus_at s k = map (\<lambda>(w, h, r, av). (w, av - reorder_of (policy_at s k w) - safety_of (policy_at s k w)))
     (filter (\<lambda>(w, h, r, av). reorder_of (policy_at s k w) + safety_of (policy_at s k w) * 2 < av) (network_visibility k s))"

definition deficit_at :: "session \<Rightarrow> uuid \<Rightarrow> amounts" where
  "deficit_at s k = map (\<lambda>(w, h, r, av). (w, reorder_of (policy_at s k w) - av))
     (filter (\<lambda>(w, h, r, av). \<not> reorder_of (policy_at s k w) + safety_of (policy_at s k w) * 2 < av \<and>
        av < reorder_of (policy_at s k w)) (network_visibility k s))"

lemma get_policy_app: "single_policies k s \<Longrightarrow> get_policy w k s = (Inr (policy_at s k w), s)"
proof -
  let ?ps = "select_where (\<lambda>p. pol_warehouse p = w \<and> pol_sku p = k) (policies s)"
  assume "single_policies k s"
  then have "length ?ps \<le> 1" by (simp add: single_policies_def)
  then have "?ps = [] \<or> (\<exists>p. ?ps = [p])" by (cases ?ps) auto
  then show ?thesis by (auto simp: get_policy_def policy_at_def scalar_one_or_none_def)
qed

lemma classify_app:
  assumes "single_policies k s"
  shows "for_loop (classify k) vis (sur, def) s =
    (Inr (sur @ map (\<lambda>(w, h, r, av). (w, av - reorder_of (policy_at s k w) - safety_of (policy_at s k w)))
        (filter (\<lambda>(w, h, r, av). reorder_of (policy_at s k w) + safety_of (policy_at s k w) * 2 < av) vis),
      def @ map (\<lambda>(w, h, r, av). (w, reorder_of (policy_at s k w) - av))
        (filter (\<lambda>(w, h, r, av). \<not> reorder_of (policy_at s k w) + safety_of (policy_at s k w) * 2 < av \<and>
          av < reorder_of (policy_at s k w)) vis)), s)"
proof (induction vis arbitrary: sur "def")
  case (Cons v vis)
  obtain w h r av where v: "v = (w, h, r, av)" by (metis prod.collapse)
  from Cons show ?case by (simp add: v classify_def bind_def get_policy_app [OF assms] Let_def)
qed simp

lemma visibility_distinct: "distinct (map fst (network_visibility k s))"
  by (simp add: network_visibility_def Let_def o_def)

lemma amount_member: "distinct (map fst xs) \<Longrightarrow> (w, n) \<in> set xs \<Longrightarrow> amount w xs = n"
  by (induction xs) (auto simp: amount_absent rev_image_eqI)

lemma prioritise_moves [simp]: "moves (prioritise plan) = moves plan" "pp_units (prioritise plan) = pp_units plan"
  by (simp_all add: prioritise_def moves_def)

lemma distinct_filtered:
  "distinct (map fst xs) \<Longrightarrow> (\<And>x. fst (f x) = fst x) \<Longrightarrow> distinct (map fst (map f (filter P xs)))"
  by (induction xs) (auto simp: o_def image_iff)

text \<open>C38: A placement plan is feasible and moves as much as any feasible plan could: every move carries a
  positive quantity, the total is the smaller of all surplus and all deficit, no warehouse that gives
  falls below its reorder point plus safety stock, none that receives is filled beyond its reorder
  point, and none does both.\<close>

theorem placement_feasible_and_maximal:
  assumes P: "single_policies k s" and two: "2 \<le> length (network_visibility k s)"
  shows "\<exists>plan t. analyze_network k s = (Inr plan, t) \<and>
    pp_units plan = min (total (deficit_at s k)) (total (surplus_at s k)) \<and>
    pp_units plan = moved (moves plan) \<and> list_all (\<lambda>(src, tgt, q). 0 < q) (moves plan) \<and>
    list_all (\<lambda>(w, h, r, av).
       (taken_from w (moves plan) \<noteq> 0 \<longrightarrow> given_to w (moves plan) = 0 \<and>
          reorder_of (policy_at s k w) + safety_of (policy_at s k w) \<le> av - taken_from w (moves plan)) \<and>
       (given_to w (moves plan) \<noteq> 0 \<longrightarrow> av + given_to w (moves plan) \<le> reorder_of (policy_at s k w)))
     (network_visibility k s)"
proof -
  let ?V = "network_visibility k s" and ?sur = "surplus_at s k" and ?def = "deficit_at s k"
  let ?p0 = "\<lparr>pp_id = next_uuid s, pp_recommendations = [], pp_units = 0, pp_savings = 0, pp_priority = 5\<rparr>"
  have P': "single_policies k (s\<lparr>next_uuid := n\<rparr>)" and pol: "policy_at (s\<lparr>next_uuid := n\<rparr>) = policy_at s"
    and V': "network_visibility k (s\<lparr>next_uuid := n\<rparr>) = ?V" for n
    using P by (simp_all add: single_policies_def policy_at_def fun_eq_iff network_visibility_def)
  have dsur: "distinct (map fst ?sur)" and ddef: "distinct (map fst ?def)"
    unfolding surplus_at_def deficit_at_def by (rule distinct_filtered [OF visibility_distinct]; auto)+
  have "list_all (\<lambda>(w, n). 0 \<le> n) ?def" by (auto simp: deficit_at_def list_all_iff)
  from fill_all_app [OF dsur this, of k ?p0] obtain plan sur' ms where f:
    "fold (fill_deficit k) ?def (?p0, ?sur) = (plan, sur')" "moves plan = ms" "pp_units plan = moved ms"
    "moved ms = min (total ?def) (total ?sur)" "batch ms ?sur sur'" "\<forall>w. given_to w ms \<le> amount w ?def"
    by (auto simp: moves_def)
  have run: "analyze_network k s = (Inr (prioritise plan), s\<lparr>next_uuid := Suc (next_uuid s)\<rparr>)"
    using two f(1) by (simp add: analyze_network_def get_network_visibility_def V' list_active_warehouses_def
        bind_def classify_app [OF P'] pol not_less Let_def surplus_at_def deficit_at_def)
  have pos: "list_all (\<lambda>(src, tgt, q). 0 < q) ms" using f(5) by (simp add: batch_def)
  have nn: "0 \<le> taken_from w ms" "0 \<le> given_to w ms" for w
    using moves_nonneg [OF pos] by blast+
  have row: "(taken_from w ms \<noteq> 0 \<longrightarrow> given_to w ms = 0 \<and> reorder_of (policy_at s k w) + safety_of (policy_at s k w) \<le> av - taken_from w ms) \<and>
       (given_to w ms \<noteq> 0 \<longrightarrow> av + given_to w ms \<le> reorder_of (policy_at s k w))"
    if in_: "(w, h, r, av) \<in> set ?V" for w h r av
  proof -
    let ?full = "reorder_of (policy_at s k w) + safety_of (policy_at s k w) * 2 < av"
    let ?low = "\<not> ?full \<and> av < reorder_of (policy_at s k w)"
    have other: "(h', r', av') = (h, r, av)" if "(w, h', r', av') \<in> set ?V" for h' r' av'
      using that in_ visibility_distinct [of k s] by (metis eq_key_imp_eq_value)
    have "amount w ?sur = (if ?full then av - reorder_of (policy_at s k w) - safety_of (policy_at s k w) else 0)"
    proof (cases ?full)
      case True
      then have "(w, av - reorder_of (policy_at s k w) - safety_of (policy_at s k w)) \<in> set ?sur"
        using in_ by (force simp: surplus_at_def)
      with amount_member [OF dsur] True show ?thesis by simp
    next
      case False
      then have "w \<notin> fst ` set ?sur" using other by (force simp: surplus_at_def)
      with False show ?thesis by (simp add: amount_absent)
    qed
    moreover have "amount w ?def = (if ?low then reorder_of (policy_at s k w) - av else 0)"
    proof (cases ?low)
      case True
      then have "(w, reorder_of (policy_at s k w) - av) \<in> set ?def"
        using in_ by (force simp: deficit_at_def)
      with amount_member [OF ddef] True show ?thesis by simp
    next
      case False
      then have "w \<notin> fst ` set ?def" using other by (force simp: deficit_at_def)
      with False show ?thesis by (simp add: amount_absent)
    qed
    moreover have "taken_from w ms \<le> max 0 (amount w ?sur)" using f(5) by (auto simp: batch_def) (smt (verit))
    ultimately show ?thesis using f(6) nn [of w] by (smt (verit))
  qed
  show ?thesis
    using run f(2-4) pos row by (intro exI [of _ "prioritise plan"] exI) (auto simp: list_all_iff)
qed

text \<open>Three warehouses with 500, 10 and 20 units and no policy: 40 and 30 units are moved.\<close>

definition demo_stock :: session where
  "demo_stock = empty_session\<lparr>balances := map (\<lambda>(i, n). let b = \<lparr>bal_id = i, bal_warehouse = i, bal_sku = 3,
     bal_location = None, on_hand = n, reserved = 0, allocated = 0, in_transit = 0, damaged = 0, quarantine = 0,
     bal_version = 1\<rparr> in Cell (Some b) b) [(1, 500), (2, 10), (5, 20)]\<rparr>"

theorem placement_feasible_and_maximal_witness:
  "\<exists>plan t. analyze_network 3 demo_stock = (Inr plan, t) \<and> pp_units plan = 70"
proof -
  have P: "single_policies 3 demo_stock"
    by (simp add: single_policies_def demo_stock_def empty_session_def select_where_def)
  have "length (network_visibility 3 demo_stock) = 3" "total (deficit_at demo_stock 3) = 70" "total (surplus_at demo_stock 3) = 425"
    by code_simp+
  with placement_feasible_and_maximal [OF P] show ?thesis by auto
qed

end
