(* ===== verification/SupplierWork.thy ===== *)
theory SupplierWork
  imports PurchaseOrders Transport
begin

text \<open>
  \<open>domain/procurement/supplier_qualification.py\<close> and \<open>domain/procurement/vendor_performance.py\<close>.  The
  sum of floats is CPython's since 3.12, which carries a compensation for the rounding; \<open>isof\<close> is
  \<open>datetime.isoformat\<close>.
\<close>

section \<open>The sum of floats\<close>

definition sum_step :: "pyfloat \<Rightarrow> pyfloat \<times> pyfloat \<Rightarrow> pyfloat \<times> pyfloat" where
  "sum_step x = (\<lambda>(f, c). let t = fadd f x in
     (t, if \<bar>x\<bar> \<le> \<bar>f\<bar> then fadd c (fadd (fsub f t) x) else fadd c (fadd (fsub x t) f)))"

definition py_float_sum :: "pyfloat list \<Rightarrow> pyfloat" where
  "py_float_sum xs = (case xs of [] \<Rightarrow> 0
     | x # xs \<Rightarrow> (case fold sum_step xs (fadd 0 x, 0) of (f, c) \<Rightarrow> fadd f c))"

section \<open>SupplierQualificationService\<close>

datatype QualificationStatus =
  PENDING | DOCUMENTS_RECEIVED | AUDIT_SCHEDULED | AUDIT_PASSED | QUALIFIED | REJECTED | SUSPENDED

primrec QualificationStatus_value :: "QualificationStatus \<Rightarrow> string" where
  "QualificationStatus_value PENDING = ''pending''"
| "QualificationStatus_value DOCUMENTS_RECEIVED = ''documents_received''"
| "QualificationStatus_value AUDIT_SCHEDULED = ''audit_scheduled''"
| "QualificationStatus_value AUDIT_PASSED = ''audit_passed''"
| "QualificationStatus_value QUALIFIED = ''qualified''"
| "QualificationStatus_value REJECTED = ''rejected''"
| "QualificationStatus_value SUSPENDED = ''suspended''"

record QualificationCriterion =
  qc_name :: string
  qc_weight :: pyfloat
  qc_score :: pyfloat
  qc_passed :: bool
  qc_notes :: string

record SupplierQualification =
  sq_supplier :: uuid
  sq_status :: QualificationStatus
  sq_criteria :: "QualificationCriterion list"
  sq_overall :: pyfloat
  sq_qualified_at :: "instant option"
  sq_reviewer :: "string option"

definition is_qualified :: "SupplierQualification \<Rightarrow> bool" where
  "is_qualified q \<longleftrightarrow> sq_status q = QUALIFIED"

definition fresh_criterion :: "string \<Rightarrow> pyfloat \<Rightarrow> QualificationCriterion" where
  "fresh_criterion n w = \<lparr>qc_name = n, qc_weight = w, qc_score = 0, qc_passed = False, qc_notes = []\<rparr>"

definition DEFAULT_CRITERIA :: "QualificationCriterion list" where
  "DEFAULT_CRITERIA =
    [fresh_criterion ''financial_stability'' (fl (25 / 100)),
     fresh_criterion ''quality_certifications'' (fl (20 / 100)),
     fresh_criterion ''delivery_track_record'' (fl (25 / 100)),
     fresh_criterion ''capacity_assessment'' (fl (15 / 100)),
     fresh_criterion ''compliance_documentation'' (fl (15 / 100))]"

definition MIN_QUALIFICATION_SCORE :: pyfloat where "MIN_QUALIFICATION_SCORE = fl (75 / 100)"

text \<open>The qualification object is not stored: it is state beside the session.\<close>

type_synonym 'a qualification_task = "(SupplierQualification \<times> session, exn, 'a) op"

definition set_supplier :: "uuid \<Rightarrow> (Supplier \<Rightarrow> Supplier) \<Rightarrow> unit task" where
  "set_supplier = set_obj suppliers_update sup_id"

definition initiate_qualification :: "uuid \<Rightarrow> SupplierQualification task" where
  "initiate_qualification i = bind (get_by_id_or_raise sup_id suppliers i) (\<lambda>p.
     ret \<lparr>sq_supplier = i, sq_status = PENDING,
          sq_criteria = map (\<lambda>c. fresh_criterion (qc_name c) (qc_weight c)) DEFAULT_CRITERIA,
          sq_overall = 0, sq_qualified_at = None, sq_reviewer = None\<rparr>)"

definition score_one :: "pyfloat \<Rightarrow> string \<Rightarrow> QualificationCriterion \<Rightarrow> QualificationCriterion" where
  "score_one score notes c = (let x = min 1 (max 0 score) in
     c\<lparr>qc_score := x, qc_passed := (fl (6 / 10) \<le> x), qc_notes := notes\<rparr>)"

text \<open>The loop stops at the first criterion of that name.\<close>

fun score_first :: "string \<Rightarrow> pyfloat \<Rightarrow> string \<Rightarrow> QualificationCriterion list \<Rightarrow> QualificationCriterion list" where
  "score_first n score notes [] = []"
| "score_first n score notes (c # cs) =
     (if qc_name c = n then score_one score notes c # cs else c # score_first n score notes cs)"

text \<open>\<open>round(x, 4)\<close> of a float is the float nearest to \<open>x\<close> rounded to four decimals.\<close>

definition calculate_overall_score :: "QualificationCriterion list \<Rightarrow> pyfloat" where
  "calculate_overall_score cs = fl (round4 (py_float_sum (map (\<lambda>c. fmul (qc_score c) (qc_weight c)) cs)))"

definition score_criterion :: "string \<Rightarrow> pyfloat \<Rightarrow> string \<Rightarrow> SupplierQualification \<Rightarrow> SupplierQualification" where
  "score_criterion n score notes q =
     (let cs = score_first n score notes (sq_criteria q)
      in q\<lparr>sq_criteria := cs, sq_overall := calculate_overall_score cs\<rparr>)"

text \<open>\<open>Decimal(str(overall_score))\<close> is the four-decimal number again.\<close>

definition complete_qualification :: "string \<Rightarrow> unit qualification_task" where
  "complete_qualification reviewer = bind (reads fst) (\<lambda>q.
     if MIN_QUALIFICATION_SCORE \<le> sq_overall q then
       bind (on_session get_now) (\<lambda>n.
       bind (modify (map_prod (\<lambda>q. q\<lparr>sq_status := QUALIFIED, sq_qualified_at := Some n, sq_reviewer := Some reviewer\<rparr>) id)) (\<lambda>_.
       bind (on_session (get_by_id_or_raise sup_id suppliers (sq_supplier q))) (\<lambda>p.
       on_session (set_supplier (sup_id p) (\<lambda>x. x\<lparr>sup_is_preferred := (fl (85 / 100) \<le> sq_overall q),
          sup_quality_score := Some (round4 (sq_overall q))\<rparr>)))))
     else modify (map_prod (\<lambda>q. q\<lparr>sq_status := REJECTED, sq_reviewer := Some reviewer\<rparr>) id))"

text \<open>\<open>d[k] = v\<close> and \<open>d.pop(k, None)\<close> on a copy of the dictionary.\<close>

definition dict_set :: "string \<Rightarrow> json \<Rightarrow> pydict \<Rightarrow> pydict" where
  "dict_set k v d = (if k \<in> fst ` set d then map (\<lambda>(k', v'). (k', if k' = k then v else v')) d else d @ [(k, v)])"

definition dict_pop :: "string \<Rightarrow> pydict \<Rightarrow> pydict" where
  "dict_pop k d = filter (\<lambda>(k', v). k' \<noteq> k) d"

definition suspend_supplier :: "(instant \<Rightarrow> string) \<Rightarrow> uuid \<Rightarrow> string \<Rightarrow> uuid task" where
  "suspend_supplier isof i reason = bind (get_by_id_or_raise sup_id suppliers i) (\<lambda>p. bind get_now (\<lambda>n.
     bind (set_supplier i (\<lambda>x. x\<lparr>sup_is_active := False, sup_is_preferred := False,
       sup_metrics := dict_set ''suspended_at'' (JStr (isof n)) (dict_set ''suspension_reason'' (JStr reason) (sup_metrics x))\<rparr>)) (\<lambda>_.
     ret i)))"

definition reactivate_supplier :: "(instant \<Rightarrow> string) \<Rightarrow> uuid \<Rightarrow> string \<Rightarrow> uuid task" where
  "reactivate_supplier isof i reviewer = bind (get_by_id_or_raise sup_id suppliers i) (\<lambda>p. bind get_now (\<lambda>n.
     bind (set_supplier i (\<lambda>x. x\<lparr>sup_is_active := True,
       sup_metrics := dict_pop ''suspension_reason'' (dict_set ''reactivated_by'' (JStr reviewer)
         (dict_set ''reactivated_at'' (JStr (isof n)) (sup_metrics x)))\<rparr>)) (\<lambda>_.
     ret i)))"

definition rate_or :: "decimal option \<Rightarrow> pyfloat \<Rightarrow> pyfloat" where
  "rate_or r d = (case r of None \<Rightarrow> d | Some x \<Rightarrow> if x = 0 then d else fl x)"

definition list_suppliers_needing_review :: "pyfloat \<Rightarrow> Supplier list task" where
  "list_suppliers_needing_review min_score = bind (list_by_performance_threshold 0) (\<lambda>ps.
     ret (filter (\<lambda>p. sup_is_active p \<and> rate_or (sup_quality_score p) 0 < min_score) ps))"

definition blended_quality :: "Supplier \<Rightarrow> decimal" where
  "blended_quality p = round4 (fadd (fmul (rate_or (sup_on_time_rate p) (fl (8 / 10))) (fl (5 / 10)))
     (fmul (rate_or (sup_quality_score p) (fl (8 / 10))) (fl (5 / 10))))"

definition bulk_score_from_performance :: "int task" where
  "bulk_score_from_performance = bind list_preferred (\<lambda>ps.
     for_loop (\<lambda>p updated. bind (set_supplier (sup_id p) (\<lambda>x. x\<lparr>sup_quality_score := Some (blended_quality x)\<rparr>)) (\<lambda>_.
       ret (updated + 1))) ps 0)"

section \<open>VendorPerformanceTracker\<close>

record VendorMetrics =
  vm_supplier :: uuid
  vm_code :: string
  vm_on_time :: pyfloat
  vm_quality :: pyfloat
  vm_lead_time :: pyfloat
  vm_total_pos :: json
  vm_total_value :: decimal
  vm_composite :: pyfloat
  vm_trend :: string

record PerformanceReport =
  pf_suppliers :: "VendorMetrics list"
  pf_start :: instant
  pf_end :: instant
  pf_top :: "uuid list"
  pf_under :: "uuid list"

definition ON_TIME_THRESHOLD :: pyfloat where "ON_TIME_THRESHOLD = fl (90 / 100)"
definition QUALITY_THRESHOLD :: pyfloat where "QUALITY_THRESHOLD = fl (85 / 100)"

definition composite_of :: "Supplier \<Rightarrow> pyfloat" where
  "composite_of p = (let lead = fl (of_int (sup_lead_time_days p)) in
     fadd (fadd (fmul (rate_or (sup_on_time_rate p) (fl (8 / 10))) (fl (5 / 10)))
                (fmul (rate_or (sup_quality_score p) (fl (8 / 10))) (fl (3 / 10))))
          (fmul (fdiv 1 (if lead < 1 then 1 else lead)) (fl (2 / 10))))"

definition trend_of :: "pyfloat \<Rightarrow> pyfloat \<Rightarrow> string" where
  "trend_of composite prev = (if fadd prev (fl (5 / 100)) < composite then ''improving''
     else if composite < fsub prev (fl (5 / 100)) then ''declining'' else ''stable'')"

definition json_float :: "json \<Rightarrow> exn + pyfloat" where
  "json_float v = (case v of JInt n \<Rightarrow> Inr (fl (of_int n)) | JBool b \<Rightarrow> Inr (of_bool b) | JFloat x \<Rightarrow> Inr x | _ \<Rightarrow> Inl PyTypeError)"

text \<open>\<open>dec\<close> is \<open>Decimal(str(x))\<close> on a dynamic value.\<close>

definition compute_metrics ::
  "(instant \<Rightarrow> string) \<Rightarrow> (json \<Rightarrow> exn + decimal) \<Rightarrow> instant \<Rightarrow> Supplier \<Rightarrow> VendorMetrics task" where
  "compute_metrics isof dec end_at p =
     (let composite = composite_of p; metrics = sup_metrics p in
      bind (fetch (\<lambda>_. json_float (dict_get metrics ''composite_score'' (JFloat composite)))) (\<lambda>prev.
      let trend = trend_of composite prev in
      bind (set_supplier (sup_id p) (\<lambda>x. x\<lparr>sup_metrics := dict_set ''trend'' (JStr trend)
        (dict_set ''last_evaluated'' (JStr (isof end_at)) (dict_set ''composite_score'' (JFloat composite) metrics))\<rparr>)) (\<lambda>_.
      bind (fetch (\<lambda>_. dec (dict_get metrics ''total_value'' (JInt 0)))) (\<lambda>tv.
      ret \<lparr>vm_supplier = sup_id p, vm_code = sup_code p, vm_on_time = rate_or (sup_on_time_rate p) (fl (8 / 10)),
           vm_quality = rate_or (sup_quality_score p) (fl (8 / 10)), vm_lead_time = fl (of_int (sup_lead_time_days p)),
           vm_total_pos = dict_get metrics ''total_pos'' (JInt 0), vm_total_value = tv,
           vm_composite = composite, vm_trend = trend\<rparr>))))"

definition generate_report ::
  "(instant \<Rightarrow> string) \<Rightarrow> (json \<Rightarrow> exn + decimal) \<Rightarrow> int \<Rightarrow> PerformanceReport task" where
  "generate_report isof dec period_days = bind get_now (\<lambda>n.
     bind (list_by_performance_threshold 0) (\<lambda>ps.
     bind (for_loop (\<lambda>p ms. bind (compute_metrics isof dec n p) (\<lambda>m. ret (ms @ [m]))) ps []) (\<lambda>ms.
     let metrics = sort_key (\<lambda>m. - vm_composite m) ms in
     ret \<lparr>pf_suppliers = metrics, pf_start = n - days period_days, pf_end = n,
          pf_top = map vm_supplier (take 5 metrics),
          pf_under = map vm_supplier (filter (\<lambda>m. vm_on_time m < ON_TIME_THRESHOLD \<or> vm_quality m < QUALITY_THRESHOLD) metrics)\<rparr>)))"

definition update_supplier_scores :: "(instant \<Rightarrow> string) \<Rightarrow> (json \<Rightarrow> exn + decimal) \<Rightarrow> int task" where
  "update_supplier_scores isof dec = bind (generate_report isof dec 90) (\<lambda>report.
     for_loop (\<lambda>m updated. bind (get_by_id sup_id suppliers (vm_supplier m)) (\<lambda>p. case p of
         None \<Rightarrow> ret updated
       | Some p \<Rightarrow> bind (set_supplier (sup_id p) (\<lambda>x. x\<lparr>sup_on_time_rate := Some (round4 (vm_on_time m)),
            sup_quality_score := Some (round4 (vm_quality m))\<rparr>)) (\<lambda>_. ret (updated + 1))))
       (pf_suppliers report) 0)"

end
