(* ===== verification/CostCapacity.thy ===== *)
theory CostCapacity
  imports Transport
begin

text \<open>
  \<open>domain/optimization/cost.py\<close> and \<open>domain/optimization/capacity.py\<close>: what an order or a shipment
  costs, and how full the warehouses are.
\<close>

section \<open>CostOptimizer\<close>

record CostComponent =
  cc_category :: string
  cc_amount :: decimal
  cc_unit :: string
  cc_quantity :: int

record CostBreakdown =
  cb_reference :: uuid
  cb_type :: string
  cb_components :: "CostComponent list"

definition breakdown_total :: "CostBreakdown \<Rightarrow> decimal" where
  "breakdown_total b = fold (\<lambda>c t. dadd t (cc_amount c)) (cb_components b) 0"

record CostOptimizationResult =
  co_original :: decimal
  co_optimized :: decimal
  co_savings :: decimal
  co_savings_pct :: pyfloat
  co_recommendations :: "string list"

definition PICK_COST_PER_LINE :: decimal where "PICK_COST_PER_LINE = 3 / 2"
definition PACK_COST_PER_PACKAGE :: decimal where "PACK_COST_PER_PACKAGE = 3"
definition STORAGE_COST_PER_UNIT_DAY :: decimal where "STORAGE_COST_PER_UNIT_DAY = 2 / 100"
definition BASE_SHIPPING_COST :: decimal where "BASE_SHIPPING_COST = 15"

definition usd :: "string \<Rightarrow> decimal \<Rightarrow> int \<Rightarrow> CostComponent" where
  "usd category amnt q = \<lparr>cc_category = category, cc_amount = amnt, cc_unit = ''USD'', cc_quantity = q\<rparr>"

definition order_components :: "OrderLine list \<Rightarrow> CostComponent list" where
  "order_components ls =
     (let line_count = int (length ls); total_units = sum_list (map ol_quantity_ordered ls) in
      [usd ''picking'' (dmul PICK_COST_PER_LINE (of_int line_count)) line_count,
       usd ''packing'' PACK_COST_PER_PACKAGE 1,
       usd ''storage'' (dmul (dmul STORAGE_COST_PER_UNIT_DAY (of_int total_units)) 3) total_units,
       usd ''shipping'' BASE_SHIPPING_COST 1] @
      map (\<lambda>l. usd ''product'' (dmul (ol_unit_price l) (of_int (ol_quantity_ordered l))) (ol_quantity_ordered l)) ls)"

definition analyze_order_cost :: "uuid \<Rightarrow> CostBreakdown task" where
  "analyze_order_cost i = bind (get_order_with_lines i) (\<lambda>r. case r of
     None \<Rightarrow> raise PyValueError
   | Some (ord, ls) \<Rightarrow> ret \<lparr>cb_reference = i, cb_type = ''order'', cb_components = order_components ls\<rparr>)"

definition optimize_order_fulfillment_cost :: "uuid \<Rightarrow> CostOptimizationResult task" where
  "optimize_order_fulfillment_cost i = bind (analyze_order_cost i) (\<lambda>original.
     bind list_active_warehouses (\<lambda>whs. bind list_active_carriers (\<lambda>cs.
     let recommendations =
       (case find (\<lambda>c. cc_category c = ''picking'') (cb_components original) of
          None \<Rightarrow> []
        | Some c \<Rightarrow> if 3 < cc_quantity c then [''Consolidate pick lines to reduce per-line picking cost''] else []) @
       (if 1 < length whs then [''Evaluate single-warehouse fulfillment to reduce split shipment costs''] else []) @
       (case py_min_by (\<lambda>c. or_default (car_cost_per_kg c) 999) cs of
          None \<Rightarrow> []
        | Some cheapest \<Rightarrow> [''Consider carrier '' @ car_code cheapest @ '' for cost savings'']);
         total = breakdown_total original;
         optimized = dadd (dsub total BASE_SHIPPING_COST) (dmul BASE_SHIPPING_COST (85 / 100));
         savings = dsub total optimized
     in ret \<lparr>co_original = total, co_optimized = optimized, co_savings = savings,
          co_savings_pct = (if 0 < total then fl (dmul (ddiv savings total) 100) else 0),
          co_recommendations = recommendations\<rparr>)))"

definition carrier_components :: "decimal \<Rightarrow> Carrier option \<Rightarrow> CostComponent list" where
  "carrier_components weight c = (case c of None \<Rightarrow> []
     | Some c \<Rightarrow> (case car_cost_per_kg c of None \<Rightarrow> []
        | Some rate \<Rightarrow> if rate = 0 then [] else [usd ''carrier_rate'' (dmul rate weight) 1]))"

definition analyze_shipment_cost :: "uuid \<Rightarrow> CostBreakdown task" where
  "analyze_shipment_cost i = bind (get_by_id_or_raise sh_id shipments i) (\<lambda>sh.
     let weight = weight_of sh in
     bind (case sh_carrier sh of None \<Rightarrow> ret None | Some c \<Rightarrow> get_by_id car_id carriers c) (\<lambda>carrier.
     ret \<lparr>cb_reference = i, cb_type = ''shipment'', cb_components =
       [usd ''weight_based'' (dmul weight (5 / 2)) 1] @ carrier_components weight carrier @ [usd ''handling'' 5 1]\<rparr>))"

definition compare_carrier_costs :: "uuid \<Rightarrow> (string \<times> decimal) list task" where
  "compare_carrier_costs i = bind (get_by_id_or_raise sh_id shipments i) (\<lambda>sh.
     bind list_active_carriers (\<lambda>cs.
     ret (sort_key snd (map (\<lambda>c. (car_code c,
       dadd (dmul (or_default (car_cost_per_kg c) 1) (weight_of sh)) BASE_SHIPPING_COST)) cs))))"

definition add_totals :: "(uuid \<Rightarrow> CostBreakdown task) \<Rightarrow> uuid list \<Rightarrow> decimal task" where
  "add_totals analyze is = for_loop (\<lambda>i t. bind (analyze i) (\<lambda>b. ret (dadd t (breakdown_total b)))) is 0"

text \<open>The totals are returned as numbers; the code returns their \<open>str\<close>.\<close>

record CostSummary =
  cs_pending_orders :: nat
  cs_planned_shipments :: nat
  cs_order_cost :: decimal
  cs_shipping_cost :: decimal

definition network_cost_summary :: "CostSummary task" where
  "network_cost_summary = bind (list_shipments_by_status ''planned'' 100) (\<lambda>shs.
     bind (add_totals analyze_shipment_cost (map sh_id shs)) (\<lambda>shipping.
     bind (list_pending_allocation 100) (\<lambda>pending.
     bind (add_totals analyze_order_cost (map ord_id pending)) (\<lambda>order_cost.
     ret \<lparr>cs_pending_orders = length pending, cs_planned_shipments = length shs,
          cs_order_cost = order_cost, cs_shipping_cost = shipping\<rparr>))))"

section \<open>CapacityPlanner\<close>

record WarehouseCapacity =
  wc_warehouse :: uuid
  wc_code :: string
  wc_total :: int
  wc_used :: int
  wc_inbound :: int
  wc_outbound :: int

definition true_div :: "int \<Rightarrow> int \<Rightarrow> pyfloat" where
  "true_div a b = fl (of_int a / of_int b)"

definition utilization_pct :: "WarehouseCapacity \<Rightarrow> pyfloat" where
  "utilization_pct c = (if wc_total c = 0 then 0 else fmul (true_div (wc_used c) (wc_total c)) 100)"

definition available_capacity :: "WarehouseCapacity \<Rightarrow> int" where
  "available_capacity c = max 0 (wc_total c - wc_used c)"

record NetworkCapacitySnapshot =
  nc_timestamp :: instant
  nc_warehouses :: "WarehouseCapacity list"
  nc_total_utilization :: pyfloat
  nc_bottlenecks :: "string list"
  nc_recommendations :: "string list"

record CapacityForecast =
  cf_warehouse :: uuid
  cf_date :: instant
  cf_utilization :: pyfloat
  cf_inbound :: int
  cf_outbound :: int
  cf_overflow_risk :: bool

definition OVERFLOW_THRESHOLD_PCT :: pyfloat where "OVERFLOW_THRESHOLD_PCT = 90"

definition warehouse_capacity :: "Warehouse \<Rightarrow> WarehouseCapacity task" where
  "warehouse_capacity wh = bind (list_by_warehouse (wh_id wh)) (\<lambda>bs.
     bind (list_shipments_by_status ''planned'' 100) (\<lambda>planned.
     bind (list_pending_allocation 50) (\<lambda>pending.
     ret \<lparr>wc_warehouse = wh_id wh, wc_code = wh_code wh, wc_total = or_default (wh_capacity_units wh) 10000,
          wc_used = sum_list (map (\<lambda>b. on_hand b + in_transit b) bs),
          wc_inbound = int (length pending),
          wc_outbound = int (length (filter (\<lambda>sh. sh_warehouse sh = wh_id wh) planned))\<rparr>)))"

definition capacity_recommendations :: "WarehouseCapacity list \<Rightarrow> string list \<Rightarrow> string list" where
  "capacity_recommendations caps bottlenecks =
     (let recs = concat (map (\<lambda>c.
        (if wc_code c \<in> set bottlenecks
         then [''Transfer excess inventory from '' @ wc_code c @ '' to lower-utilization warehouses''] else []) @
        (if wc_inbound c * 2 < wc_outbound c
         then [''Increase inbound receiving capacity at '' @ wc_code c] else [])) caps)
      in if recs = [] then [''Network capacity within normal operating parameters''] else recs)"

definition capacity_snapshot :: "NetworkCapacitySnapshot task" where
  "capacity_snapshot = bind list_active_warehouses (\<lambda>whs.
     bind (for_loop (\<lambda>wh caps. bind (warehouse_capacity wh) (\<lambda>c. ret (caps @ [c]))) whs []) (\<lambda>caps.
     bind get_now (\<lambda>n.
     let total_cap = sum_list (map wc_total caps); total_used = sum_list (map wc_used caps);
         bottlenecks = map wc_code (filter (\<lambda>c. OVERFLOW_THRESHOLD_PCT < utilization_pct c) caps)
     in ret \<lparr>nc_timestamp = n, nc_warehouses = caps,
          nc_total_utilization = (if 0 < total_cap then fmul (true_div total_used total_cap) 100 else 0),
          nc_bottlenecks = bottlenecks,
          nc_recommendations = capacity_recommendations caps bottlenecks\<rparr>)))"

definition day_forecast :: "uuid \<Rightarrow> instant \<Rightarrow> int \<Rightarrow> int \<Rightarrow> int \<Rightarrow> CapacityForecast" where
  "day_forecast w n used cap day =
     (let inbound = 50 + day * 5; outbound = 45 + day * 3;
          projected = used + (inbound - outbound) * day;
          util = (if 0 < cap then fmul (true_div projected cap) 100 else 0)
      in \<lparr>cf_warehouse = w, cf_date = n + days day, cf_utilization = min util 150, cf_inbound = inbound,
          cf_outbound = outbound, cf_overflow_risk = (OVERFLOW_THRESHOLD_PCT < util)\<rparr>)"

definition capacity_forecast :: "uuid \<Rightarrow> int \<Rightarrow> CapacityForecast list task" where
  "capacity_forecast w horizon_days = bind (get_by_id_or_raise wh_id warehouses w) (\<lambda>wh.
     bind (list_by_warehouse w) (\<lambda>bs. bind get_now (\<lambda>n.
     ret (map (day_forecast w n (sum_list (map on_hand bs)) (or_default (wh_capacity_units wh) 10000))
            [1..horizon_days]))))"

record TransferCandidate =
  tc_source :: string
  tc_destination :: string
  tc_units :: int
  tc_utilization :: pyfloat

definition find_transfer_candidates :: "uuid \<Rightarrow> pyfloat \<Rightarrow> TransferCandidate list task" where
  "find_transfer_candidates w target = bind capacity_snapshot (\<lambda>snap.
     case find (\<lambda>c. wc_warehouse c = w) (nc_warehouses snap) of
       None \<Rightarrow> ret []
     | Some source \<Rightarrow>
         ret (map (\<lambda>c. \<lparr>tc_source = wc_code source, tc_destination = wc_code c,
             tc_units = max 0 (wc_used source - py_int (fmul (fl (of_int (wc_total source))) (fl (8 / 10)))),
             tc_utilization = utilization_pct c\<rparr>)
           (filter (\<lambda>c. wc_warehouse c \<noteq> w \<and> utilization_pct c < target \<and> 85 < utilization_pct source)
             (nc_warehouses snap))))"

section \<open>The snapshot\<close>

text \<open>A snapshot is a function of the session, and its bottlenecks are the codes of the warehouses over the
  threshold.\<close>

definition capacity_of :: "session \<Rightarrow> Warehouse \<Rightarrow> WarehouseCapacity" where
  "capacity_of s wh = \<lparr>wc_warehouse = wh_id wh, wc_code = wh_code wh, wc_total = or_default (wh_capacity_units wh) 10000,
     wc_used = sum_list (map (\<lambda>b. on_hand b + in_transit b) (select_where (\<lambda>b. bal_warehouse b = wh_id wh) (balances s))),
     wc_inbound = int (length (take 50 (select_ordered (\<lambda>ord. (ord_priority ord, ord_created_at ord))
       (\<lambda>ord. ord_status ord \<in> {''received'', ''validating'', ''allocating''}) (orders s)))),
     wc_outbound = int (length (filter (\<lambda>sh. sh_warehouse sh = wh_id wh)
       (case list_shipments_by_status ''planned'' 100 s of (Inr shs, t) \<Rightarrow> shs | _ \<Rightarrow> [])))\<rparr>"

lemma capacity_of_app: "warehouse_capacity wh s = (Inr (capacity_of s wh), s)"
  by (simp add: warehouse_capacity_def capacity_of_def list_by_warehouse_def list_shipments_by_status_def
      list_pending_allocation_def)

lemma capacity_snapshot_app:
  "\<exists>snap. capacity_snapshot s = (Inr snap, s) \<and>
     nc_warehouses snap = map (capacity_of s) (select_ordered wh_priority wh_is_active (warehouses s))"
proof -
  have "for_loop (\<lambda>wh caps. bind (warehouse_capacity wh) (\<lambda>c. ret (caps @ [c]))) whs [] s = (Inr ([] @ map (capacity_of s) whs), s)" for whs
    by (rule for_loop_collect) (rule capacity_of_app)
  then show ?thesis by (simp add: capacity_snapshot_def list_active_warehouses_def bind_def Let_def)
qed

lemma bottleneck_recommended:
  assumes "c \<in> set caps" and "OVERFLOW_THRESHOLD_PCT < utilization_pct c"
  shows "''Transfer excess inventory from '' @ wc_code c @ '' to lower-utilization warehouses''
    \<in> set (capacity_recommendations caps (map wc_code (filter (\<lambda>c. OVERFLOW_THRESHOLD_PCT < utilization_pct c) caps)))"
  using assms by (auto simp: capacity_recommendations_def Let_def)

end
