(* ===== verification/OptimizationEngine.thy ===== *)
theory OptimizationEngine
  imports Repositories
begin

text \<open>
  \<open>domain/optimization/engine.py\<close>: the unified optimizer.  Its parameters are dynamic values, so the
  arithmetic on them is Python's on integers and floats; numpy's random weights, standard deviation
  and sum, the elapsed time and \<open>uuid.UUID\<close> on a foreign string are parameters.
\<close>

section \<open>Arithmetic on dynamic numbers\<close>

definition num_value :: "json \<Rightarrow> rat option" where
  "num_value v = (case v of JInt n \<Rightarrow> Some (of_int n) | JBool b \<Rightarrow> Some (of_bool b) | JFloat x \<Rightarrow> Some x | _ \<Rightarrow> None)"

fun is_float :: "json \<Rightarrow> bool" where
  "is_float (JFloat x) = True"
| "is_float _ = False"

text \<open>Two integers give an integer; otherwise both become floats.\<close>

definition num_arith :: "(int \<Rightarrow> int \<Rightarrow> int) \<Rightarrow> (rat \<Rightarrow> rat \<Rightarrow> rat) \<Rightarrow> json \<Rightarrow> json \<Rightarrow> exn + json" where
  "num_arith f g a b = (case (num_value a, num_value b) of
     (Some x, Some y) \<Rightarrow> Inr (if is_float a \<or> is_float b then JFloat (g (fl x) (fl y))
                              else JInt (f \<lfloor>x\<rfloor> \<lfloor>y\<rfloor>))
   | _ \<Rightarrow> Inl PyTypeError)"

definition num_less :: "json \<Rightarrow> json \<Rightarrow> exn + bool" where
  "num_less a b = (case (num_value a, num_value b) of (Some x, Some y) \<Rightarrow> Inr (x < y) | _ \<Rightarrow> Inl PyTypeError)"

text \<open>\<open>min(a, b)\<close> and \<open>max(a, b)\<close> return the first argument unless the second is better.\<close>

definition num_min :: "json \<Rightarrow> json \<Rightarrow> exn + json" where
  "num_min a b = map_sum id (\<lambda>less. if less then b else a) (num_less b a)"

definition num_max :: "json \<Rightarrow> json \<Rightarrow> exn + json" where
  "num_max a b = map_sum id (\<lambda>less. if less then b else a) (num_less a b)"

definition num_div :: "json \<Rightarrow> json \<Rightarrow> exn + pyfloat" where
  "num_div a b = (case (num_value a, num_value b) of
     (Some x, Some y) \<Rightarrow> if y = 0 then Inl PyZeroDivisionError
        else Inr (if is_float a \<or> is_float b then fdiv (fl x) (fl y) else fl (x / y))
   | _ \<Rightarrow> Inl PyTypeError)"

section \<open>OptimizationEngine\<close>

record OptimizationInput =
  oi_reference_type :: string
  oi_reference_id :: uuid
  oi_objective :: string
  oi_constraints :: pydict
  oi_parameters :: pydict

record OptimizationResult =
  or_run :: uuid
  or_objective :: pyfloat
  or_solution :: pydict
  or_alternatives :: int
  or_time_ms :: int
  or_feasible :: bool
  or_metadata :: pydict

text \<open>What is not part of the program.\<close>

record numeric_env =
  ne_weights :: "nat \<Rightarrow> pyfloat list"
  ne_std :: "int list \<Rightarrow> pyfloat"
  ne_sum :: "pyfloat list list \<Rightarrow> pyfloat"
  ne_elapsed_ms :: int
  ne_uuid :: "json \<Rightarrow> exn + uuid"

text \<open>A dictionary whose keys are \<open>str\<close> of UUIDs, as the list of its items.\<close>

definition uuid_dict :: "(uuid \<times> json) list \<Rightarrow> json" where
  "uuid_dict d = JArr (map (\<lambda>(k, v). JArr [JUuid k, v]) d)"

definition value_or_raise :: "exn + 'a \<Rightarrow> 'a task" where
  "value_or_raise r = fetch (\<lambda>_. r)"

definition new_result :: "pyfloat \<Rightarrow> pydict \<Rightarrow> int \<Rightarrow> bool \<Rightarrow> pydict \<Rightarrow> OptimizationResult task" where
  "new_result objective solution alternatives feasible md = bind fresh_uuid (\<lambda>i.
     ret \<lparr>or_run = i, or_objective = objective, or_solution = solution, or_alternatives = alternatives,
          or_time_ms = 0, or_feasible = feasible, or_metadata = md\<rparr>)"

definition optimize_cost :: "OptimizationResult task" where
  "optimize_cost = bind list_active_warehouses (\<lambda>whs.
     let costs = map (\<lambda>w. (wh_id w, wh_priority w * 10 + 50)) whs in
     case py_min_by snd costs of
       None \<Rightarrow> raise OptimizationInfeasibleError
     | Some (w, cost) \<Rightarrow> new_result (fl (of_int cost)) [(''selected_warehouse'', JUuid w)] (int (length costs)) True [])"

text \<open>The guard \<open>remaining <= 0\<close> is the \<open>break\<close>: it stays true once it is.\<close>

definition give_out :: "uuid \<times> int \<times> int \<times> int \<Rightarrow> (uuid \<times> json) list \<times> json \<Rightarrow> ((uuid \<times> json) list \<times> json) task" where
  "give_out = (\<lambda>(w, h, r, available) (allocation, remaining).
     bind (value_or_raise (num_less (JInt 0) remaining)) (\<lambda>more.
     if \<not> more then ret (allocation, remaining)
     else bind (value_or_raise (num_min remaining (JInt available))) (\<lambda>alloc.
          bind (value_or_raise (num_arith (-) fsub remaining alloc)) (\<lambda>rest.
          ret (allocation @ [(w, alloc)], rest)))))"

definition uuid_of :: "numeric_env \<Rightarrow> json \<Rightarrow> exn + uuid" where
  "uuid_of env v = (case v of JUuid i \<Rightarrow> Inr i | _ \<Rightarrow> ne_uuid env v)"

definition fill_rate_of :: "int \<Rightarrow> json \<Rightarrow> exn + pyfloat" where
  "fill_rate_of total_available demand = (case num_max demand (JInt 1) of Inl e \<Rightarrow> Inl e
     | Inr d \<Rightarrow> map_sum id (min 1) (num_div (JInt total_available) d))"

definition optimize_fill_rate :: "numeric_env \<Rightarrow> OptimizationInput \<Rightarrow> OptimizationResult task" where
  "optimize_fill_rate env inp =
     (let k = dict_get (oi_parameters inp) ''sku_id'' JNull in
      bind (raise_if (\<not> truthy k) OptimizationInfeasibleError) (\<lambda>_.
      bind (value_or_raise (uuid_of env k)) (\<lambda>sku.
      bind (get_network_visibility sku) (\<lambda>visibility.
      let total_available = sum_list (map (\<lambda>(w, h, r, av). av) visibility);
          demand = dict_get (oi_parameters inp) ''demand'' (JInt total_available) in
      bind (value_or_raise (fill_rate_of total_available demand)) (\<lambda>fill_rate.
      bind (for_loop give_out (sort_key (\<lambda>(w, h, r, av). - av) visibility) ([], demand)) (\<lambda>(allocation, remaining).
      new_result fill_rate [(''allocation'', uuid_dict allocation), (''fill_rate'', JFloat fill_rate)]
        (int (length visibility)) (0 < fill_rate) []))))))"

definition scaled_units :: "json \<Rightarrow> pyfloat \<Rightarrow> exn + int" where
  "scaled_units units weight = (case num_value units of None \<Rightarrow> Inl PyTypeError | Some x \<Rightarrow> Inr (py_int (fmul (fl x) weight)))"

definition optimize_inventory_placement :: "numeric_env \<Rightarrow> OptimizationInput \<Rightarrow> OptimizationResult task" where
  "optimize_inventory_placement env inp = bind list_active_warehouses (\<lambda>whs.
     bind (raise_if (length whs = 0) OptimizationInfeasibleError) (\<lambda>_.
     let units = dict_get (oi_parameters inp) ''total_units'' (JInt 1000) in
     bind (for_loop (\<lambda>(w, weight) placement. bind (value_or_raise (scaled_units units weight)) (\<lambda>n. ret (placement @ [(wh_id w, n)])))
        (zip whs (ne_weights env (length whs))) []) (\<lambda>placement.
     new_result (ne_std env (map snd placement)) [(''placement'', uuid_dict (map (map_prod id JInt) placement))]
       (int (length whs)) True [(''algorithm'', JStr ''demand_weighted_distribution'')])))"

text \<open>\<open>len(stops)\<close> and \<open>stops[i].get(key, 0)\<close>.\<close>

definition json_len :: "json \<Rightarrow> exn + nat" where
  "json_len v = (case v of JArr xs \<Rightarrow> Inr (length xs) | JObj d \<Rightarrow> Inr (length d) | JStr x \<Rightarrow> Inr (length x)
     | JUuid _ \<Rightarrow> Inr 36 | _ \<Rightarrow> Inl PyTypeError)"

definition stop_get :: "json \<Rightarrow> nat \<Rightarrow> string \<Rightarrow> exn + json" where
  "stop_get stop_list i key = (case stop_list of
     JArr xs \<Rightarrow> (case xs ! i of JObj d \<Rightarrow> Inr (dict_get d key (JInt 0)) | _ \<Rightarrow> Inl PyAttributeError)
   | JObj d \<Rightarrow> Inl PyKeyError | _ \<Rightarrow> Inl PyAttributeError)"

definition num_abs :: "json \<Rightarrow> json" where
  "num_abs v = (case v of JInt n \<Rightarrow> JInt \<bar>n\<bar> | JFloat x \<Rightarrow> JFloat \<bar>x\<bar> | _ \<Rightarrow> v)"

definition axis_distance :: "json \<Rightarrow> nat \<Rightarrow> nat \<Rightarrow> string \<Rightarrow> exn + json" where
  "axis_distance stop_list i j key =
     (case stop_get stop_list i key of Inl e \<Rightarrow> Inl e | Inr a \<Rightarrow>
      case stop_get stop_list j key of Inl e \<Rightarrow> Inl e | Inr b \<Rightarrow> map_sum id num_abs (num_arith (-) fsub a b))"

definition stops_apart :: "json \<Rightarrow> nat \<Rightarrow> nat \<Rightarrow> exn + pyfloat" where
  "stops_apart stop_list i j =
     (case axis_distance stop_list i j ''lat'' of Inl e \<Rightarrow> Inl e | Inr a \<Rightarrow>
      case axis_distance stop_list i j ''lng'' of Inl e \<Rightarrow> Inl e | Inr b \<Rightarrow>
      case num_arith (+) fadd a b of Inl e \<Rightarrow> Inl e | Inr d \<Rightarrow>
      Inr (case num_value d of None \<Rightarrow> 0 | Some x \<Rightarrow> fl x))"

definition put_distance :: "json \<Rightarrow> nat \<times> nat \<Rightarrow> pyfloat list list \<Rightarrow> pyfloat list list task" where
  "put_distance stop_list = (\<lambda>(i, j) m. bind (value_or_raise (stops_apart stop_list i j)) (\<lambda>d.
     let m1 = m[i := (m ! i)[j := d]] in ret (m1[j := (m1 ! j)[i := d]])))"

definition pairs_below :: "nat \<Rightarrow> (nat \<times> nat) list" where
  "pairs_below n = concat (map (\<lambda>i. map (Pair i) [i + 1..<n]) [0..<n])"

definition optimize_transportation :: "numeric_env \<Rightarrow> OptimizationInput \<Rightarrow> OptimizationResult task" where
  "optimize_transportation env inp =
     (let stop_list = dict_get (oi_parameters inp) ''stops'' (JArr []) in
      bind (value_or_raise (json_len stop_list)) (\<lambda>n.
      if n < 2 then new_result 0 [(''route'', stop_list)] 1 True []
      else bind (for_loop (put_distance stop_list) (pairs_below n) (replicate n (replicate n 0))) (\<lambda>m.
        new_result (ne_sum env m)
          [(''distance_matrix'', JArr (map (\<lambda>row. JArr (map JFloat row)) m)), (''stop_count'', JInt (int n))]
          (int (n * (n - 1) div 2)) True [])))"

definition new_decision :: "OptimizationInput \<Rightarrow> OptimizationResult \<Rightarrow> uuid \<Rightarrow> instant \<Rightarrow> PlanningDecision" where
  "new_decision inp r i n = \<lparr>pd_id = i, pd_type = ''optimization_'' @ oi_objective inp, pd_ref_type = oi_reference_type inp,
     pd_ref_id = oi_reference_id inp, pd_algorithm = ''unified_optimizer'', pd_algorithm_version = ''2.1'',
     pd_input = [(''objective'', JStr (oi_objective inp)), (''constraints'', JObj (oi_constraints inp)),
       (''parameters'', JObj (oi_parameters inp))],
     pd_output = or_solution r, pd_score = Some (or_objective r), pd_alternatives = or_alternatives r,
     pd_correlation = None, pd_execution_time_ms = Some (or_time_ms r), pd_created_at = n\<rparr>"

definition record_decision :: "OptimizationInput \<Rightarrow> OptimizationResult \<Rightarrow> unit task" where
  "record_decision inp r = bind fresh_uuid (\<lambda>i. bind get_now (\<lambda>n.
     bind (add decisions_update (new_decision inp r i n)) (\<lambda>_. ret ())))"

definition optimize :: "numeric_env \<Rightarrow> OptimizationInput \<Rightarrow> OptimizationResult task" where
  "optimize env inp = bind fresh_uuid (\<lambda>run.
     bind (if oi_objective inp = ''minimize_cost'' then optimize_cost
           else if oi_objective inp = ''maximize_fill_rate'' then optimize_fill_rate env inp
           else if oi_objective inp = ''balance_inventory'' then optimize_inventory_placement env inp
           else if oi_objective inp = ''minimize_transit'' then optimize_transportation env inp
           else raise OptimizationInfeasibleError) (\<lambda>r0.
     let r = r0\<lparr>or_run := run, or_time_ms := ne_elapsed_ms env\<rparr> in
     bind (record_decision inp r) (\<lambda>_. ret r)))"

section \<open>The allocation of a fill rate\<close>

fun served :: "int \<Rightarrow> (uuid \<times> int \<times> int \<times> int) list \<Rightarrow> (uuid \<times> int) list" where
  "served d [] = []"
| "served d ((w, h, r, av) # vs) = (if d \<le> 0 then [] else (w, min d av) # served (d - min d av) vs)"

fun unserved :: "int \<Rightarrow> (uuid \<times> int \<times> int \<times> int) list \<Rightarrow> int" where
  "unserved d [] = d"
| "unserved d ((w, h, r, av) # vs) = (if d \<le> 0 then d else unserved (d - min d av) vs)"

lemma give_out_app:
  "for_loop give_out vs (al, JInt d) s = (Inr (al @ map (map_prod id JInt) (served d vs), JInt (unserved d vs)), s)"
proof (induction vs arbitrary: al d)
  case (Cons v vs)
  obtain w h r av where v: "v = (w, h, r, av)" by (metis prod.collapse)
  have stop: "for_loop give_out vs (al, JInt d) s = (Inr (al, JInt d), s)" if "d \<le> 0"
    using Cons [of al d] that by (cases vs) auto
  have "give_out v (al, JInt d) s =
      (Inr (if d \<le> 0 then (al, JInt d) else (al @ [(w, JInt (min d av))], JInt (d - min d av))), s)"
    by (auto simp: v give_out_def value_or_raise_def num_less_def num_min_def num_arith_def num_value_def bind_def min_def)
  with Cons stop show ?case by (simp add: bind_def v)
qed simp

lemma served_sum:
  "0 \<le> d \<Longrightarrow> list_all (\<lambda>(w, h, r, av). 0 \<le> av) vs \<Longrightarrow>
   sum_list (map snd (served d vs)) = min d (sum_list (map (\<lambda>(w, h, r, av). av) vs)) \<and>
   unserved d vs = d - sum_list (map snd (served d vs))"
proof (induction d vs rule: served.induct)
  case (2 d w h r av vs)
  have "0 \<le> sum_list (map (\<lambda>(w, h, r, av). av) vs)"
    using 2(3) by (auto simp: list_all_iff intro!: sum_list_nonneg)
  with 2 show ?case by auto
qed simp

lemma served_within: "(w, q) \<in> set (served d vs) \<Longrightarrow> \<exists>h r av. (w, h, r, av) \<in> set vs \<and> q \<le> av"
proof (induction d vs rule: served.induct)
  case (2 d w' h r av vs)
  then consider "w = w'" "q = min d av" | "(w, q) \<in> set (served (d - min d av) vs)" "\<not> d \<le> 0" by (auto split: if_splits)
  then show ?case using 2(1) by cases (auto intro: min.cobounded2)
qed simp

end
