(* ===== verification/Auth.thy ===== *)
theory Auth
  imports Repositories
begin

text \<open>
  \<open>models/auth.py\<close>, \<open>api/auth.py\<close> and the bootstrap of \<open>main.py\<close>: users, roles and grants, passwords and
  tokens, the current user of a request and the role check.  Only the bootstrap writes these three
  tables, so they are a record of their own, which the requests read.  PyJWT, the key derivation
  and \<open>uuid.UUID\<close> are parameters.
\<close>

section \<open>Tables\<close>

record Role =
  role_id :: uuid
  role_name :: string
  role_description :: "string option"

record User =
  user_id :: uuid
  username :: string
  display_name :: string
  password_hash :: string
  is_active :: bool

record UserRole =
  ur_id :: uuid
  ur_user :: uuid
  ur_role :: uuid
  granted_at :: instant

record auth_db =
  auth_roles :: "Role table"
  auth_users :: "User table"
  auth_grants :: "UserRole table"
  auth_next :: uuid
  auth_now :: instant

section \<open>Passwords and tokens\<close>

text \<open>
  \<open>ae_pbkdf2 password salt\<close>: the key derivation, in hexadecimal.  \<open>ae_str\<close>: \<open>str\<close> of a UUID.
  \<open>ae_bearer\<close>: \<open>OAuth2PasswordBearer\<close> on the \<open>Authorization\<close> header.
  \<open>ae_encode\<close> and \<open>ae_decode\<close>: PyJWT with HS256 and the secret of the settings; decoding checks the
  signature and the expiry against the clock and raises otherwise (\<open>None\<close>).  \<open>ae_uuid\<close>: \<open>uuid.UUID(str(x))\<close>
  of a value which is not a UUID.
\<close>

record auth_env =
  ae_pbkdf2 :: "string \<Rightarrow> string \<Rightarrow> string"
  ae_str :: "uuid \<Rightarrow> string"
  ae_bearer :: "string option \<Rightarrow> exn + string"
  ae_encode :: "pydict \<Rightarrow> string"
  ae_decode :: "instant \<Rightarrow> string \<Rightarrow> pydict option"
  ae_uuid :: "json \<Rightarrow> exn + uuid"

definition hash_password :: "auth_env \<Rightarrow> string \<Rightarrow> string \<Rightarrow> string" where
  "hash_password env password salt = ae_pbkdf2 env password salt"

definition verify_password :: "auth_env \<Rightarrow> string \<Rightarrow> string \<Rightarrow> string \<Rightarrow> bool" where
  "verify_password env password h salt \<longleftrightarrow> hash_password env password salt = h"

text \<open>\<open>int(now.timestamp())\<close>, which truncates.\<close>

definition seconds_of :: "instant \<Rightarrow> int" where
  "seconds_of n = (if 0 \<le> n then n div 1000000 else - ((- n) div 1000000))"

definition token_payload :: "instant \<Rightarrow> uuid \<Rightarrow> string \<Rightarrow> string list \<Rightarrow> pydict" where
  "token_payload n i name rs = [(''sub'', JUuid i), (''username'', JStr name), (''roles'', JArr (map JStr rs)),
     (''iat'', JInt (seconds_of n)), (''exp'', JInt (seconds_of (n + minutes 60)))]"

definition create_access_token :: "auth_env \<Rightarrow> uuid \<Rightarrow> string \<Rightarrow> string list \<Rightarrow> string task" where
  "create_access_token env i name rs = bind get_now (\<lambda>n. ret (ae_encode env (token_payload n i name rs)))"

section \<open>The current user\<close>

record MeResponse =
  me_user_id :: uuid
  me_username :: string
  me_roles :: "string list"

record TokenRequest =
  tk_username :: string
  tk_password :: string

record TokenResponse =
  tr_access_token :: string
  tr_token_type :: string
  tr_user_id :: uuid
  tr_username :: string
  tr_roles :: "string list"

definition roles_of :: "auth_db \<Rightarrow> uuid \<Rightarrow> string list" where
  "roles_of db i = concat (map (\<lambda>g. map role_name (select_where (\<lambda>r. role_id r = ur_role g) (auth_roles db)))
     (select_where (\<lambda>g. ur_user g = i) (auth_grants db)))"

definition active_user :: "auth_db \<Rightarrow> (User \<Rightarrow> bool) \<Rightarrow> User task" where
  "active_user db P = bind (fetch (\<lambda>_. scalar_one_or_none (select_where P (auth_users db)))) (\<lambda>u. case u of
     None \<Rightarrow> raise (HTTPException 401)
   | Some u \<Rightarrow> if is_active u then ret u else raise (HTTPException 401))"

definition load_user_and_roles :: "auth_db \<Rightarrow> uuid \<Rightarrow> (User \<times> string list) task" where
  "load_user_and_roles db i = bind (active_user db (\<lambda>u. user_id u = i)) (\<lambda>u. ret (u, roles_of db i))"

definition oauth2_scheme :: "auth_env \<Rightarrow> string option \<Rightarrow> string task" where
  "oauth2_scheme env header = fetch (\<lambda>_. ae_bearer env header)"

definition decode_sub :: "auth_env \<Rightarrow> instant \<Rightarrow> string \<Rightarrow> exn + json" where
  "decode_sub env n token = (case ae_decode env n token of
     None \<Rightarrow> Inl (HTTPException 401)
   | Some payload \<Rightarrow> let sub = dict_get payload ''sub'' JNull in
       if truthy sub then Inr sub else Inl (HTTPException 401))"

definition sub_uuid :: "auth_env \<Rightarrow> json \<Rightarrow> exn + uuid" where
  "sub_uuid env sub = (case sub of JUuid u \<Rightarrow> Inr u | _ \<Rightarrow> ae_uuid env sub)"

definition set_actor_id :: "string \<Rightarrow> unit task" where
  "set_actor_id a = modify (\<lambda>s. s\<lparr>ctx_actor := Some a\<rparr>)"

definition get_current_user :: "auth_env \<Rightarrow> auth_db \<Rightarrow> string option \<Rightarrow> MeResponse task" where
  "get_current_user env db header = bind (oauth2_scheme env header) (\<lambda>t. bind get_now (\<lambda>n.
     bind (fetch (\<lambda>_. decode_sub env n t)) (\<lambda>sub.
     bind (fetch (\<lambda>_. sub_uuid env sub)) (\<lambda>i.
     bind (load_user_and_roles db i) (\<lambda>(u, rs).
     bind (set_actor_id (username u)) (\<lambda>_.
     ret \<lparr>me_user_id = user_id u, me_username = username u, me_roles = rs\<rparr>))))))"

definition require_roles :: "auth_env \<Rightarrow> auth_db \<Rightarrow> string list \<Rightarrow> string option \<Rightarrow> MeResponse task" where
  "require_roles env db required header = bind (get_current_user env db header) (\<lambda>me.
     if required = [] then ret me
     else if set (me_roles me) \<inter> set required = {} then raise (HTTPException 403)
     else ret me)"

definition issue_token :: "auth_env \<Rightarrow> auth_db \<Rightarrow> TokenRequest \<Rightarrow> TokenResponse task" where
  "issue_token env db body = bind (active_user db (\<lambda>u. username u = tk_username body)) (\<lambda>u.
     if \<not> verify_password env (tk_password body) (password_hash u) (ae_str env (user_id u))
     then raise (HTTPException 401)
     else let rs = roles_of db (user_id u) in
       bind (create_access_token env (user_id u) (username u) rs) (\<lambda>token.
       ret \<lparr>tr_access_token = token, tr_token_type = ''bearer'', tr_user_id = user_id u,
            tr_username = username u, tr_roles = rs\<rparr>))"

section \<open>The bootstrap\<close>

type_synonym 'a auth_task = "(auth_db, exn, 'a) op"

definition auth_uuid :: "uuid auth_task" where
  "auth_uuid = bind (reads auth_next) (\<lambda>i. bind (modify (\<lambda>db. db\<lparr>auth_next := Suc i\<rparr>)) (\<lambda>_. ret i))"

definition auth_flush :: "auth_db \<Rightarrow> auth_db" where
  "auth_flush db = db\<lparr>auth_roles := flush_table (auth_roles db), auth_users := flush_table (auth_users db),
     auth_grants := flush_table (auth_grants db)\<rparr>"

definition ROLE_NAMES :: "string list" where
  "ROLE_NAMES = [''admin'', ''warehouse_operator'', ''auditor'']"

definition bootstrap_role :: "string list \<Rightarrow> string \<Rightarrow> unit auth_task" where
  "bootstrap_role existing name = (if name \<in> set existing then ret ()
     else bind auth_uuid (\<lambda>i. modify (auth_roles_update (add_row \<lparr>role_id = i, role_name = name, role_description = None\<rparr>))))"

definition bootstrap_user :: "auth_env \<Rightarrow> string list \<Rightarrow> string \<Rightarrow> string \<Rightarrow> string \<Rightarrow> unit auth_task" where
  "bootstrap_user env existing name display password = (if name \<in> set existing then ret ()
     else bind auth_uuid (\<lambda>i. modify (auth_users_update (add_row
       \<lparr>user_id = i, username = name, display_name = display,
        password_hash = hash_password env password (ae_str env i), is_active = True\<rparr>))))"

definition scalar_one :: "'r list \<Rightarrow> exn + 'r" where
  "scalar_one rs = (case rs of [] \<Rightarrow> Inl NoResultFound | [r] \<Rightarrow> Inr r | _ \<Rightarrow> Inl MultipleResultsFound)"

text \<open>\<open>roles_by_name\<close>: the last row of a name wins.\<close>

definition ensure_user_role :: "(string \<times> uuid) list \<Rightarrow> string \<Rightarrow> string \<Rightarrow> unit auth_task" where
  "ensure_user_role roles_by_name user role =
     bind (fetch (\<lambda>db. scalar_one (select_where (\<lambda>u. username u = user) (auth_users db)))) (\<lambda>u.
     bind (fetch (\<lambda>_. case map_of (rev roles_by_name) role of None \<Rightarrow> Inl PyKeyError | Some r \<Rightarrow> Inr r)) (\<lambda>r.
     bind (fetch (\<lambda>db. scalar_one_or_none (select_where (\<lambda>g. ur_user g = user_id u \<and> ur_role g = r) (auth_grants db)))) (\<lambda>g.
     if g \<noteq> None then ret ()
     else bind auth_uuid (\<lambda>i. bind (reads auth_now) (\<lambda>n. modify (auth_grants_update (add_row
       \<lparr>ur_id = i, ur_user = user_id u, ur_role = r, granted_at = n\<rparr>)))))))"

definition bootstrap :: "auth_env \<Rightarrow> unit auth_task" where
  "bootstrap env =
     bind (reads (\<lambda>db. map role_name (select_where (\<lambda>_. True) (auth_roles db)))) (\<lambda>existing_roles.
     bind (for_loop (\<lambda>name _. bootstrap_role existing_roles name) ROLE_NAMES ()) (\<lambda>_.
     bind (modify auth_flush) (\<lambda>_.
     bind (reads (\<lambda>db. map username (select_where (\<lambda>_. True) (auth_users db)))) (\<lambda>existing_users.
     bind (bootstrap_user env existing_users ''admin'' ''Admin'' ''admin123'') (\<lambda>_.
     bind (bootstrap_user env existing_users ''operator'' ''Warehouse Operator'' ''operator123'') (\<lambda>_.
     bind (modify auth_flush) (\<lambda>_.
     bind (reads (\<lambda>db. map (\<lambda>r. (role_name r, role_id r)) (select_where (\<lambda>_. True) (auth_roles db)))) (\<lambda>roles_by_name.
     bind (if ''admin'' \<in> set existing_users
           then bind (ensure_user_role roles_by_name ''admin'' ''admin'') (\<lambda>_.
                ensure_user_role roles_by_name ''admin'' ''auditor'')
           else ret ()) (\<lambda>_.
     bind (if ''operator'' \<in> set existing_users
           then ensure_user_role roles_by_name ''operator'' ''warehouse_operator'' else ret ()) (\<lambda>_.
     modify auth_flush))))))))))"

text \<open>\<open>lifespan\<close>: an exception is logged, and the session is closed without a commit.\<close>

definition lifespan :: "auth_env \<Rightarrow> auth_db \<Rightarrow> auth_db" where
  "lifespan env db = (case bootstrap env db of (Inr _, t) \<Rightarrow> t | (Inl _, _) \<Rightarrow> db)"

section \<open>Who is let in\<close>

text \<open>The id a token carries and the active user of that id.\<close>

definition authenticated :: "auth_env \<Rightarrow> auth_db \<Rightarrow> instant \<Rightarrow> string option \<Rightarrow> (uuid \<times> User) option" where
  "authenticated env db n header = (case ae_bearer env header of Inl _ \<Rightarrow> None | Inr t \<Rightarrow>
     (case decode_sub env n t of Inl _ \<Rightarrow> None | Inr sub \<Rightarrow>
     (case sub_uuid env sub of Inl _ \<Rightarrow> None | Inr i \<Rightarrow>
     (case select_where (\<lambda>u. user_id u = i) (auth_users db) of [u] \<Rightarrow> if is_active u then Some (i, u) else None | _ \<Rightarrow> None))))"

lemma active_user_one:
  "select_where P (auth_users db) = [u] \<Longrightarrow> is_active u \<Longrightarrow> active_user db P s = (Inr u, s)"
  by (simp add: active_user_def bind_def fetch_def scalar_one_or_none_def ret_def)

lemma active_user_none:
  "(case select_where P (auth_users db) of [u] \<Rightarrow> if is_active u then Some (i, u) else None | _ \<Rightarrow> None) = None \<Longrightarrow>
     \<exists>e. active_user db P s = (Inl e, s)"
  by (auto simp: active_user_def bind_def fetch_def scalar_one_or_none_def raise_def ret_def split: list.splits if_splits)

definition me_of :: "auth_db \<Rightarrow> uuid \<Rightarrow> User \<Rightarrow> MeResponse" where
  "me_of db i u = \<lparr>me_user_id = user_id u, me_username = username u, me_roles = roles_of db i\<rparr>"

lemma get_current_user_ok:
  assumes "authenticated env db (now s) header = Some (i, u)"
  shows "get_current_user env db header s = (Inr (me_of db i u), s\<lparr>ctx_actor := Some (username u)\<rparr>)"
proof -
  obtain t sub where t: "ae_bearer env header = Inr t" "decode_sub env (now s) t = Inr sub" "sub_uuid env sub = Inr i"
    and u: "select_where (\<lambda>u. user_id u = i) (auth_users db) = [u]" "is_active u"
    using assms by (auto simp: authenticated_def split: option.splits sum.splits list.splits if_splits)
  show ?thesis
    by (simp add: get_current_user_def oauth2_scheme_def load_user_and_roles_def set_actor_id_def me_of_def bind_def
        fetch_def ret_def modify_def t active_user_one [OF u])
qed

lemma get_current_user_fails:
  assumes "authenticated env db (now s) header = None"
  shows "\<exists>e. get_current_user env db header s = (Inl e, s)"
proof (cases "ae_bearer env header")
  case bearer: (Inr t)
  show ?thesis
  proof (cases "decode_sub env (now s) t")
    case sub: (Inr sub)
    show ?thesis
    proof (cases "sub_uuid env sub")
      case (Inr i)
      then obtain e where "active_user db (\<lambda>u. user_id u = i) s = (Inl e, s)"
        using assms sub bearer active_user_none [where P = "\<lambda>u. user_id u = i" and db = db and i = i and s = s] by (auto simp: authenticated_def)
      then show ?thesis using bearer sub Inr
        by (simp add: get_current_user_def oauth2_scheme_def load_user_and_roles_def bind_def fetch_def ret_def)
    qed (simp add: get_current_user_def oauth2_scheme_def bind_def fetch_def ret_def bearer sub)
  qed (simp add: get_current_user_def oauth2_scheme_def bind_def fetch_def ret_def bearer)
qed (simp add: get_current_user_def oauth2_scheme_def bind_def fetch_def)

definition permitted :: "auth_db \<Rightarrow> string list \<Rightarrow> uuid \<Rightarrow> bool" where
  "permitted db required i = (required = [] \<or> list_ex (\<lambda>r. r \<in> set required) (roles_of db i))"

text \<open>C7: A request to an endpoint that requires roles runs its handler exactly when the bearer token
  decodes to the id of an active user who has been granted one of the roles; the handler then
  runs as that user.  Any other request ends in an error and leaves the database as it was, and a
  known user without the role is told 403.\<close>

theorem requests_need_a_role:
  "case authenticated env db (now s) header of
     None \<Rightarrow> \<exists>e. run_request (bind (require_roles env db required header) (\<lambda>_. m)) s = (Inl e, s)
   | Some (i, u) \<Rightarrow> run_request (bind (require_roles env db required header) (\<lambda>_. m)) s =
       (if permitted db required i then run_request (bind (set_actor_id (username u)) (\<lambda>_. m)) s
        else (Inl (HTTPException 403), s))"
proof (cases "authenticated env db (now s) header")
  case None
  then obtain e where "get_current_user env db header s = (Inl e, s)" using get_current_user_fails by blast
  then show ?thesis using None by (simp add: require_roles_def bind_def run_request_def)
next
  case (Some iu)
  obtain i u where iu: "iu = (i, u)" by (cases iu)
  have "set (me_roles (me_of db i u)) \<inter> set required = {} \<longleftrightarrow> \<not> list_ex (\<lambda>r. r \<in> set required) (roles_of db i)"
    by (auto simp: me_of_def list_ex_iff)
  then show ?thesis using get_current_user_ok [OF Some [unfolded iu]] Some iu
    by (simp add: require_roles_def bind_def run_request_def permitted_def set_actor_id_def ret_def raise_def modify_def)
qed

section \<open>Logging in\<close>

lemma issue_token_run:
  assumes "issue_token env db body s = (Inr r, t)"
  obtains u where "select_where (\<lambda>u. username u = tk_username body) (auth_users db) = [u]" and "is_active u"
    and "tr_user_id r = user_id u" and "tr_username r = username u" and "tr_roles r = roles_of db (user_id u)"
    and "tr_access_token r = ae_encode env (token_payload (now s) (user_id u) (username u) (roles_of db (user_id u)))"
    and "verify_password env (tk_password body) (password_hash u) (ae_str env (user_id u))" and "t = s"
proof -
  from assms obtain u where u: "select_where (\<lambda>u. username u = tk_username body) (auth_users db) = [u]" "is_active u"
    using active_user_none [where P = "\<lambda>u. username u = tk_username body" and db = db and i = 0 and s = s]
    by (fastforce simp: issue_token_def bind_def split: list.splits if_splits)
  let ?rs = "roles_of db (user_id u)" and ?ok = "verify_password env (tk_password body) (password_hash u) (ae_str env (user_id u))"
  let ?r = "\<lparr>tr_access_token = ae_encode env (token_payload (now s) (user_id u) (username u) ?rs), tr_token_type = ''bearer'',
    tr_user_id = user_id u, tr_username = username u, tr_roles = ?rs\<rparr>"
  have "issue_token env db body s = (if ?ok then (Inr ?r, s) else (Inl (HTTPException 401), s))"
    using active_user_one [OF u] by (simp add: issue_token_def bind_def create_access_token_def Let_def ret_def raise_def)
  then have "?ok" "r = ?r" "t = s" using assms by (simp_all split: if_splits)
  then show ?thesis using that [OF u] by simp
qed

lemma unique_user:
  assumes "clean (auth_users db)" and "distinct (map user_id (lives (auth_users db)))" and "u \<in> set (lives (auth_users db))"
  shows "select_where (\<lambda>x. user_id x = user_id u) (auth_users db) = [u]"
proof -
  have "filter (\<lambda>x. user_id x = user_id u) xs = [u]" if "distinct (map user_id xs)" "u \<in> set xs" for xs
    using that
  proof (induction xs)
    case (Cons a xs)
    have other: "user_id x \<noteq> user_id a" if "x \<in> set xs" for x
      using Cons.prems(1) imageI [OF that, of user_id] by auto
    show ?case
    proof (cases "a = u")
      case True
      have "filter (\<lambda>x. user_id x = user_id u) xs = []" using other True by (simp add: filter_empty_conv)
      then show ?thesis using True by simp
    next
      case False
      then show ?thesis using Cons other [of u] by auto
    qed
  qed simp
  with assms show ?thesis by (simp add: clean_select_where)
qed


definition demo_auth_env :: auth_env where
  "demo_auth_env = \<lparr>ae_pbkdf2 = (\<lambda>p salt. p @ salt), ae_str = (\<lambda>_. ''id''),
     ae_bearer = (\<lambda>h. case h of None \<Rightarrow> Inl (HTTPException 401) | Some x \<Rightarrow> Inr x), ae_encode = (\<lambda>_. ''T''),
     ae_decode = (\<lambda>n x. if x = ''T'' then Some (token_payload 0 1 ''admin'' [''admin'']) else None),
     ae_uuid = (\<lambda>_. Inl PyValueError)\<rparr>"

definition demo_auth_db :: auth_db where
  "demo_auth_db = (let r = \<lparr>role_id = 2, role_name = ''admin'', role_description = None\<rparr>;
      u = \<lparr>user_id = 1, username = ''admin'', display_name = ''Admin'', password_hash = ''adminid'', is_active = True\<rparr>;
      g = \<lparr>ur_id = 3, ur_user = 1, ur_role = 2, granted_at = 0\<rparr> in
     \<lparr>auth_roles = [Cell (Some r) r], auth_users = [Cell (Some u) u], auth_grants = [Cell (Some g) g], auth_next = 4, auth_now = 0\<rparr>)"


section \<open>The bootstrap needs two starts\<close>

text \<open>The grants are guarded by the users found before the bootstrap users were added.\<close>

definition empty_auth :: auth_db where
  "empty_auth = \<lparr>auth_roles = [], auth_users = [], auth_grants = [], auth_next = 1, auth_now = 0\<rparr>"

definition usernames_roles :: "auth_db \<Rightarrow> (string \<times> string list) list" where
  "usernames_roles db = map (\<lambda>u. (username u, roles_of db (user_id u))) (lives (auth_users db))"

lemma first_start_grants_nothing:
  "usernames_roles (lifespan env empty_auth) = [(''admin'', []), (''operator'', [])]"
  by code_simp

lemma second_start_grants:
  "usernames_roles (lifespan env (lifespan env empty_auth)) =
     [(''admin'', [''admin'', ''auditor'']), (''operator'', [''warehouse_operator''])]"
  by code_simp

end
