(* ===== verification/Schemas.thy ===== *)
theory Schemas
  imports Auth FulfillmentFlow OptimizationEngine InventoryServices Receiving
begin

text \<open>
  \<open>schemas/api.py\<close>: the bodies of the requests, with the constraints of their fields, and the responses.  A
  body that violates a constraint is answered with 422 before its handler runs.
\<close>

section \<open>Requests\<close>

record AddressSchema =
  ad_street :: string
  ad_city :: string
  ad_state :: string
  ad_postal_code :: string
  ad_country :: string
  ad_latitude :: "pyfloat option"
  ad_longitude :: "pyfloat option"

record OrderLineCreate =
  olc_sku :: uuid
  olc_quantity :: int
  olc_unit_price :: decimal

record OrderCreate =
  oc_external_id :: string
  oc_customer :: string
  oc_address :: AddressSchema
  oc_lines :: "OrderLineCreate list"
  oc_priority :: int
  oc_allow_partial :: bool
  oc_strategy :: string

definition OrderLineCreate_valid :: "OrderLineCreate \<Rightarrow> bool" where
  "OrderLineCreate_valid l \<longleftrightarrow> 0 < olc_quantity l"

definition OrderCreate_valid :: "OrderCreate \<Rightarrow> bool" where
  "OrderCreate_valid b \<longleftrightarrow> 1 \<le> length (oc_lines b) \<and> list_all OrderLineCreate_valid (oc_lines b) \<and>
     1 \<le> oc_priority b \<and> oc_priority b \<le> 10"

record AllocationRequestSchema =
  ars_order :: uuid
  ars_order_line :: uuid
  ars_sku :: uuid
  ars_quantity :: int
  ars_preferred :: "uuid option"
  ars_allow_split :: bool

definition AllocationRequestSchema_valid :: "AllocationRequestSchema \<Rightarrow> bool" where
  "AllocationRequestSchema_valid b \<longleftrightarrow> 0 < ars_quantity b"

record PurchaseOrderCreate =
  poc_supplier :: uuid
  poc_warehouse :: uuid
  poc_lines :: "pydict list"

record ReceivingLineSchema =
  rls_sku :: uuid
  rls_expected :: int
  rls_received :: int
  rls_damage :: int

record ReceivingRequest =
  rq_po :: uuid
  rq_wh :: uuid
  rq_receiving_lines :: "ReceivingLineSchema list"

record TransferRequestSchema =
  trs_source :: uuid
  trs_destination :: uuid
  trs_sku :: uuid
  trs_quantity :: int

definition TransferRequestSchema_valid :: "TransferRequestSchema \<Rightarrow> bool" where
  "TransferRequestSchema_valid b \<longleftrightarrow> 0 < trs_quantity b"

record OptimizationRequest =
  opr_reference_type :: string
  opr_reference_id :: uuid
  opr_objective :: string
  opr_constraints :: pydict
  opr_parameters :: pydict

record InventoryAdjustRequest =
  iar_on_hand :: int
  iar_reason :: string

section \<open>Responses\<close>

record OrderResponse =
  orr_id :: uuid
  orr_external_id :: string
  orr_customer :: string
  orr_status :: string
  orr_priority :: int
  orr_allow_partial :: bool
  orr_created_at :: instant

definition OrderResponse_of :: "Order \<Rightarrow> OrderResponse" where
  "OrderResponse_of ord = \<lparr>orr_id = ord_id ord, orr_external_id = ord_external_id ord, orr_customer = ord_customer ord,
     orr_status = ord_status ord, orr_priority = ord_priority ord, orr_allow_partial = ord_allow_partial ord,
     orr_created_at = ord_created_at ord\<rparr>"

record NetworkVisibilityResponse =
  nvr_sku :: uuid
  nvr_warehouses :: json

record AuditEntryResponse =
  aer_id :: uuid
  aer_entity_type :: string
  aer_entity_id :: uuid
  aer_action :: string
  aer_timestamp :: instant
  aer_is_override :: bool

definition AuditEntryResponse_of :: "AuditEntry \<Rightarrow> AuditEntryResponse" where
  "AuditEntryResponse_of e = \<lparr>aer_id = au_id e, aer_entity_type = au_entity_type e, aer_entity_id = au_entity_id e,
     aer_action = au_action e, aer_timestamp = au_timestamp e, aer_is_override = au_is_override e\<rparr>"

record HealthResponse =
  hr_status :: string
  hr_version :: string
  hr_environment :: string

record WarehouseResponse =
  wr_id :: uuid
  wr_code :: string
  wr_name :: string

record InventoryBalanceRow =
  ibr_warehouse :: uuid
  ibr_sku :: uuid
  ibr_sku_code :: string
  ibr_description :: string
  ibr_uom :: string
  ibr_on_hand :: int
  ibr_reserved :: int
  ibr_allocated :: int
  ibr_available :: int

record StockMovementRow =
  smr_timestamp :: instant
  smr_action :: string
  smr_before :: "int option"
  smr_after :: "int option"
  smr_is_override :: bool

record ActivityRow =
  act_id :: uuid
  act_entity_type :: string
  act_entity_id :: uuid
  act_action :: string
  act_timestamp :: instant
  act_actor :: "string option"
  act_is_override :: bool

record DashboardKpisResponse =
  kpi_on_hand :: int
  kpi_active_orders :: int
  kpi_low_stock :: int
  kpi_activity :: "ActivityRow list"

record PurchaseOrderResponse =
  por_id :: uuid
  por_number :: uuid
  por_supplier :: uuid
  por_warehouse :: uuid
  por_status :: string
  por_order_date :: instant
  por_expected_delivery :: "instant option"
  por_total_amount :: decimal
  por_currency :: string

definition PurchaseOrderResponse_of :: "PurchaseOrder \<Rightarrow> PurchaseOrderResponse" where
  "PurchaseOrderResponse_of po = \<lparr>por_id = po_id po, por_number = po_number po, por_supplier = po_supplier po,
     por_warehouse = po_warehouse po, por_status = po_status po, por_order_date = po_order_date po,
     por_expected_delivery = po_expected_delivery po, por_total_amount = po_total_amount po,
     por_currency = po_currency po\<rparr>"

text \<open>The responses of the handlers that return a dictionary, one field per key.\<close>

record FulfillResponse =
  ful_order :: uuid
  ful_status :: string
  ful_is_partial :: bool
  ful_shipments :: int
  ful_workflow :: "uuid option"

record AllocateResponse =
  alr_total :: int
  alr_backorder :: int
  alr_allocations :: "(uuid \<times> int) list"

record ReconcileResponse =
  rcr_is_balanced :: bool
  rcr_count :: int
  rcr_details :: "(uuid \<times> string \<times> string) list"

record RouteResponse =
  rtr_shipment :: uuid
  rtr_options :: int
  rtr_selected_cost :: "decimal option"

record ReceiveResponse =
  rvr_total :: int
  rvr_tasks :: int
  rvr_discrepancies :: "receiving_discrepancy list"

record OptimizationResponse =
  opt_run :: uuid
  opt_objective :: pyfloat
  opt_feasible :: bool
  opt_solution :: pydict

record TransferRow =
  txr_number :: uuid
  txr_status :: string
  txr_source :: uuid
  txr_destination :: uuid
  txr_sku :: uuid
  txr_quantity :: int

end
