(* ===== verification/Replenishment.thy ===== *)
theory Replenishment
  imports SupplierWork
begin

text \<open>
  \<open>domain/inventory/safety_stock.py\<close> and \<open>domain/procurement/replenishment.py\<close>: how much stock to
  keep, and the purchase orders that restore it.  \<open>math.sqrt\<close> and \<open>Decimal(str(x))\<close> of a float are
  parameters.
\<close>

section \<open>SafetyStockCalculator\<close>

record math_env =
  me_sqrt :: "pyfloat \<Rightarrow> pyfloat"
  me_repr :: "pyfloat \<Rightarrow> decimal"

definition py_sqrt :: "math_env \<Rightarrow> pyfloat \<Rightarrow> exn + pyfloat" where
  "py_sqrt env x = (if x < 0 then Inl PyValueError else Inr (me_sqrt env x))"

definition Z_SCORES :: "(pyfloat \<times> pyfloat) list" where
  "Z_SCORES = [(fl (90 / 100), fl (1282 / 1000)), (fl (95 / 100), fl (1645 / 1000)),
     (fl (97 / 100), fl (1881 / 1000)), (fl (99 / 100), fl (2326 / 1000))]"

record SafetyStockResult =
  ss_warehouse :: uuid
  ss_sku :: uuid
  ss_qty :: int
  ss_reorder_point :: int
  ss_avg_demand :: pyfloat
  ss_std_dev :: pyfloat
  ss_lead_time :: int
  ss_service_level :: pyfloat

record DemandStats =
  ds_mean :: pyfloat
  ds_std :: pyfloat

definition z_score :: "pyfloat \<Rightarrow> pyfloat" where
  "z_score level = (case py_min_by (\<lambda>(k, z). \<bar>fsub k level\<bar>) Z_SCORES of None \<Rightarrow> 0 | Some (k, z) \<Rightarrow> z)"

definition demand_stats :: "math_env \<Rightarrow> int list \<Rightarrow> exn + DemandStats" where
  "demand_stats env ds = (if ds = [] then Inr \<lparr>ds_mean = 1, ds_std = 1 / 2\<rparr>
     else let n = length ds; mean = fl (of_int (sum_list ds) / of_nat n);
              variance = fdiv (py_float_sum (map (\<lambda>d. let x = fsub (fl (of_int d)) mean in fmul x x) ds))
                              (fl (of_nat (max (n - 1) 1)))
          in map_sum id (\<lambda>sd. \<lparr>ds_mean = mean, ds_std = sd\<rparr>) (py_sqrt env variance))"

definition compute_demand_statistics :: "math_env \<Rightarrow> uuid \<Rightarrow> uuid \<Rightarrow> DemandStats task" where
  "compute_demand_statistics env w k = bind get_now (\<lambda>n.
     bind (get_forecast_series w k (n - days 90) n) (\<lambda>fs.
     fetch (\<lambda>_. demand_stats env (map fc_predicted fs))))"

definition set_policy :: "uuid \<Rightarrow> (SafetyStockPolicy \<Rightarrow> SafetyStockPolicy) \<Rightarrow> unit task" where
  "set_policy = set_obj policies_update pol_id"

definition persist_policy :: "math_env \<Rightarrow> SafetyStockResult \<Rightarrow> SafetyStockPolicy option \<Rightarrow> unit task" where
  "persist_policy env r existing = (case existing of
     Some p \<Rightarrow> set_policy (pol_id p) (\<lambda>x. x\<lparr>pol_safety_stock_qty := ss_qty r, pol_reorder_point := ss_reorder_point r,
       pol_service_level := me_repr env (ss_service_level r), pol_demand_std_dev := Some (me_repr env (ss_std_dev r)),
       pol_lead_time_days := ss_lead_time r\<rparr>)
   | None \<Rightarrow> bind fresh_uuid (\<lambda>i. bind (add policies_update
       \<lparr>pol_id = i, pol_warehouse = ss_warehouse r, pol_sku = ss_sku r, pol_service_level = me_repr env (ss_service_level r),
        pol_safety_stock_qty = ss_qty r, pol_reorder_point = ss_reorder_point r, pol_max_stock = None,
        pol_demand_std_dev = Some (me_repr env (ss_std_dev r)), pol_lead_time_days = ss_lead_time r\<rparr>) (\<lambda>_. ret ())))"

text \<open>\<open>ceil(z * std * sqrt(lt))\<close> and \<open>ceil(mean * lt + safety_stock)\<close>.\<close>

definition stock_levels :: "math_env \<Rightarrow> pyfloat \<Rightarrow> DemandStats \<Rightarrow> int \<Rightarrow> exn + int \<times> int" where
  "stock_levels env level stats lt = (case py_sqrt env (fl (of_int lt)) of Inl e \<Rightarrow> Inl e
     | Inr rt \<Rightarrow> let safety = \<lceil>fmul (fmul (z_score level) (ds_std stats)) rt\<rceil>
        in Inr (safety, \<lceil>fadd (fmul (ds_mean stats) (fl (of_int lt))) (fl (of_int safety))\<rceil>))"

definition calculate :: "Settings \<Rightarrow> math_env \<Rightarrow> uuid \<Rightarrow> uuid \<Rightarrow> pyfloat option \<Rightarrow> int option \<Rightarrow> SafetyStockResult task" where
  "calculate cfg env w k service_level lead_time =
     (let level = or_default service_level (safety_stock_service_level cfg) in
      bind (get_policy w k) (\<lambda>policy.
      let lt = or_default lead_time (case policy of None \<Rightarrow> 7 | Some p \<Rightarrow> pol_lead_time_days p) in
      bind (compute_demand_statistics env w k) (\<lambda>stats.
      bind (fetch (\<lambda>_. stock_levels env level stats lt)) (\<lambda>(safety, reorder).
      let r = \<lparr>ss_warehouse = w, ss_sku = k, ss_qty = safety, ss_reorder_point = reorder,
               ss_avg_demand = ds_mean stats, ss_std_dev = ds_std stats, ss_lead_time = lt, ss_service_level = level\<rparr> in
      bind (persist_policy env r policy) (\<lambda>_. ret r)))))"

definition recalculate_all :: "Settings \<Rightarrow> math_env \<Rightarrow> SafetyStockResult list task" where
  "recalculate_all cfg env = bind list_below_reorder_point (\<lambda>below.
     for_loop (\<lambda>(p, av) rs. bind (calculate cfg env (pol_warehouse p) (pol_sku p) None None) (\<lambda>r. ret (rs @ [r]))) below [])"

section \<open>ReplenishmentPlanner\<close>

record ReplenishmentLine =
  rl_sku :: uuid
  rl_warehouse :: uuid
  rl_available :: int
  rl_reorder_point :: int
  rl_safety_stock :: int
  rl_order_qty :: int
  rl_supplier :: "uuid option"
  rl_unit_cost :: decimal

record ReplenishmentPlan =
  rq_warehouse :: uuid
  rq_lines :: "ReplenishmentLine list"
  rq_run :: uuid
  rq_created_at :: instant

definition select_supplier :: "Supplier option task" where
  "select_supplier = bind list_preferred (\<lambda>ps. ret (case ps of [] \<Rightarrow> None | p # _ \<Rightarrow> Some p))"

definition replenish_line :: "Settings \<Rightarrow> math_env \<Rightarrow> uuid \<Rightarrow> SafetyStockPolicy \<times> int \<Rightarrow> ReplenishmentLine list \<Rightarrow> ReplenishmentLine list task" where
  "replenish_line cfg env w = (\<lambda>(p, available) ls.
     if pol_warehouse p \<noteq> w then ret ls
     else bind (calculate cfg env (pol_warehouse p) (pol_sku p) None None) (\<lambda>r.
          bind select_supplier (\<lambda>supplier.
          ret (ls @ [\<lparr>rl_sku = pol_sku p, rl_warehouse = w, rl_available = available,
            rl_reorder_point = ss_reorder_point r, rl_safety_stock = ss_qty r,
            rl_order_qty = max (ss_reorder_point r - available + ss_qty r) (ss_qty r),
            rl_supplier = map_option sup_id supplier, rl_unit_cost = 10\<rparr>]))))"

definition generate_plan :: "Settings \<Rightarrow> math_env \<Rightarrow> uuid \<Rightarrow> ReplenishmentPlan task" where
  "generate_plan cfg env w = bind fresh_uuid (\<lambda>run. bind get_now (\<lambda>n.
     bind list_below_reorder_point (\<lambda>below.
     bind (for_loop (replenish_line cfg env w) below []) (\<lambda>ls.
     ret \<lparr>rq_warehouse = w, rq_lines = ls, rq_run = run, rq_created_at = n\<rparr>))))"

text \<open>A line without a supplier gets a random supplier id, hence an order of its own.\<close>

definition line_supplier :: "ReplenishmentLine \<Rightarrow> uuid task" where
  "line_supplier l = (case rl_supplier l of Some i \<Rightarrow> ret i | None \<Rightarrow> fresh_uuid)"

definition order_total :: "ReplenishmentLine list \<Rightarrow> decimal" where
  "order_total ls = fold (\<lambda>l t. dadd t (dmul (of_int (rl_order_qty l)) (rl_unit_cost l))) ls 0"

definition order_group :: "ReplenishmentPlan \<Rightarrow> uuid \<times> ReplenishmentLine list \<Rightarrow> uuid list \<Rightarrow> uuid list task" where
  "order_group plan = (\<lambda>(supplier, ls) po_ids.
     bind fresh_uuid (\<lambda>number. bind fresh_uuid (\<lambda>i. bind get_now (\<lambda>n.
     bind (add pos_update
       \<lparr>po_id = i, po_number = number, po_supplier = supplier, po_warehouse = rq_warehouse plan, po_status = ''draft'',
        po_order_date = n, po_expected_delivery = Some (n + days 14), po_total_amount = order_total ls,
        po_currency = ''USD'', po_run = Some (rq_run plan), po_notes = None, po_version = 1\<rparr>) (\<lambda>po.
     bind (for_loop (\<lambda>l _. bind fresh_uuid (\<lambda>j. session_add po_lines_update
       \<lparr>pol_line_id = j, pl_po = po_id po, pl_sku = rl_sku l, pl_ordered = rl_order_qty l, pl_received = 0,
        pl_unit_cost = rl_unit_cost l, pl_status = ''open''\<rparr>)) ls ()) (\<lambda>_.
     ret (po_ids @ [po_id po])))))))"

definition create_purchase_orders :: "ReplenishmentPlan \<Rightarrow> uuid list task" where
  "create_purchase_orders plan = (if rq_lines plan = [] then ret []
     else bind (for_loop (\<lambda>l acc. bind (line_supplier l) (\<lambda>i. ret (acc @ [(i, l)]))) (rq_lines plan) []) (\<lambda>keyed.
          for_loop (order_group plan) (map (\<lambda>(i, ls). (i, map snd ls)) (group_by fst keyed)) []))"

section \<open>ProcurementService\<close>

definition generate_replenishment :: "Settings \<Rightarrow> math_env \<Rightarrow> uuid \<Rightarrow> ReplenishmentPlan task" where
  "generate_replenishment cfg env w = bind (generate_plan cfg env w) (\<lambda>plan.
     bind (if rq_lines plan \<noteq> [] then bind (create_purchase_orders plan) (\<lambda>_. ret ()) else ret ()) (\<lambda>_. ret plan))"

definition get_vendor_performance ::
  "(instant \<Rightarrow> string) \<Rightarrow> (json \<Rightarrow> exn + decimal) \<Rightarrow> int \<Rightarrow> PerformanceReport task" where
  "get_vendor_performance = generate_report"

end
