(* ===== verification/Forecasting.thy ===== *)
theory Forecasting
  imports Replenishment Placement Reconciliation InventoryServices
begin

text \<open>
  \<open>domain/inventory/forecasting.py\<close>, \<open>domain/inventory/network_coordinator.py\<close> and the methods of
  \<open>services/inventory_service.py\<close> that need them.  numpy's mean, standard deviation and line fit are
  parameters.
\<close>

section \<open>ForecastEngine\<close>

record numpy_env =
  np_mean :: "int list \<Rightarrow> pyfloat"
  np_std :: "int list \<Rightarrow> pyfloat"
  np_slope :: "int list \<Rightarrow> pyfloat"
  np_mean_float :: "pyfloat list \<Rightarrow> pyfloat"

definition DRIFT_THRESHOLD :: pyfloat where "DRIFT_THRESHOLD = fl (25 / 100)"
definition MODEL_VERSION :: string where "MODEL_VERSION = ''v2.1''"

record ForecastPoint =
  fp_date :: instant
  fp_predicted :: int
  fp_lower :: int
  fp_upper :: int

record ForecastSeries =
  fs_warehouse :: uuid
  fs_sku :: uuid
  fs_points :: "ForecastPoint list"
  fs_model_version :: string
  fs_drift_detected :: bool
  fs_drift_score :: pyfloat

definition load_historical_demand :: "uuid \<Rightarrow> uuid \<Rightarrow> int list task" where
  "load_historical_demand w k = bind get_now (\<lambda>n.
     bind (get_forecast_series w k (n - days 180) n) (\<lambda>fs. ret (map fc_predicted fs)))"

definition pad_history :: "int list \<Rightarrow> int list" where
  "pad_history h = (if length h < 7
     then h @ replicate (7 - length h) (case h of [] \<Rightarrow> 1 | x # xs \<Rightarrow> fold max xs x) else h)"

definition last_month :: "int list \<Rightarrow> int list" where
  "last_month h = (if 30 \<le> length h then drop (length h - 30) h else h)"

definition compute_trend :: "numpy_env \<Rightarrow> int list \<Rightarrow> pyfloat" where
  "compute_trend np h = (if length h < 2 then 0 else np_slope np h)"

text \<open>\<open>history[dow::7]\<close>.\<close>

definition day_values :: "int list \<Rightarrow> nat \<Rightarrow> int list" where
  "day_values h dow = map (\<lambda>i. h ! i) (filter (\<lambda>i. i mod 7 = dow) [0..<length h])"

definition compute_seasonality :: "numpy_env \<Rightarrow> int list \<Rightarrow> pyfloat list" where
  "compute_seasonality np h = (if length h < 14 then replicate 7 1
     else let weekly = map (\<lambda>dow. let vs = day_values h dow in if vs = [] then 1 else np_mean np vs) [0..<7];
              avg = fdiv (py_float_sum weekly) 7
          in map (\<lambda>w. if 0 < avg then fdiv w avg else 1) weekly)"

definition forecast_point :: "pyfloat \<Rightarrow> pyfloat \<Rightarrow> pyfloat \<Rightarrow> pyfloat list \<Rightarrow> instant \<Rightarrow> nat \<Rightarrow> ForecastPoint" where
  "forecast_point baseline std trend seasonality n day =
     (let predicted = max 0 (py_int (fadd (fmul baseline (seasonality ! (day mod 7))) (fmul trend (fl (of_nat day)))));
          margin = fmul (fl (196 / 100)) std
      in \<lparr>fp_date = n + days (int day), fp_predicted = predicted,
          fp_lower = max 0 (py_int (fsub (fl (of_int predicted)) margin)),
          fp_upper = py_int (fadd (fl (of_int predicted)) margin)\<rparr>)"

definition check_drift :: "uuid \<Rightarrow> uuid \<Rightarrow> pyfloat \<Rightarrow> pyfloat task" where
  "check_drift w k baseline = bind (get_latest w k) (\<lambda>latest. ret (case latest of
     None \<Rightarrow> 0
   | Some f \<Rightarrow> let old = fl (of_int (fc_predicted f)) in if old = 0 then 0 else fdiv \<bar>fsub baseline old\<bar> old))"

definition persist_forecast :: "ForecastSeries \<Rightarrow> unit task" where
  "persist_forecast series = for_loop (\<lambda>p _. bind fresh_uuid (\<lambda>i. bind (add forecasts_update
     \<lparr>fc_id = i, fc_warehouse = fs_warehouse series, fc_sku = fs_sku series, fc_date = fp_date p,
      fc_predicted = fp_predicted p, fc_lower = Some (fp_lower p), fc_upper = Some (fp_upper p),
      fc_model_version = fs_model_version series, fc_drift_score = Some (round4 (fs_drift_score series))\<rparr>)
     (\<lambda>_. ret ()))) (fs_points series) ()"

definition generate_forecast :: "numpy_env \<Rightarrow> nat \<Rightarrow> uuid \<Rightarrow> uuid \<Rightarrow> int list option \<Rightarrow> ForecastSeries task" where
  "generate_forecast np horizon w k historical =
     bind (case historical of Some (x # xs) \<Rightarrow> ret (x # xs) | _ \<Rightarrow> load_historical_demand w k) (\<lambda>h0.
     let h = pad_history h0; baseline = np_mean np (last_month h); std = np_std np (last_month h);
         trend = compute_trend np h; seasonality = compute_seasonality np h in
     bind get_now (\<lambda>n.
     let points = map (forecast_point baseline std trend seasonality n) [1..<horizon + 1] in
     bind (check_drift w k baseline) (\<lambda>score.
     let series = \<lparr>fs_warehouse = w, fs_sku = k, fs_points = points, fs_model_version = MODEL_VERSION,
                   fs_drift_detected = (DRIFT_THRESHOLD < score), fs_drift_score = score\<rparr> in
     bind (persist_forecast series) (\<lambda>_. ret series))))"

definition interval_error :: "InventoryForecast \<Rightarrow> pyfloat list" where
  "interval_error f = (case (fc_lower f, fc_upper f) of
     (Some l, Some u) \<Rightarrow> if 0 < u - l
       then [fdiv \<bar>fsub (fl (of_int (fc_predicted f))) (fl (of_int (l + u) / 2))\<bar> (fl (of_int (u - l)))] else []
   | _ \<Rightarrow> [])"

definition validate_forecast_accuracy :: "numpy_env \<Rightarrow> uuid \<Rightarrow> uuid \<Rightarrow> pyfloat task" where
  "validate_forecast_accuracy np w k = bind get_now (\<lambda>n.
     bind (get_forecast_series w k (n - days 30) n) (\<lambda>fs.
     let errors = concat (map interval_error fs) in ret (if errors = [] then 0 else np_mean_float np errors)))"

section \<open>InventoryService\<close>

definition service_generate_forecast ::
  "numpy_env \<Rightarrow> 'r redis option \<Rightarrow> uuid \<Rightarrow> uuid \<Rightarrow> ('r, ForecastSeries) cached_task" where
  "service_generate_forecast np cache w k = bind (on_session (generate_forecast np 90 w k None)) (\<lambda>series.
     bind (with_cache cache (\<lambda>rd. invalidate_forecast rd (JUuid w) (JUuid k))) (\<lambda>_. ret series))"

definition service_safety_stock :: "Settings \<Rightarrow> math_env \<Rightarrow> uuid \<Rightarrow> uuid \<Rightarrow> SafetyStockResult task" where
  "service_safety_stock cfg env w k = calculate cfg env w k None None"

definition service_reconcile :: "(uuid list \<Rightarrow> uuid list) \<Rightarrow> uuid \<Rightarrow> ReconciliationReport task" where
  "service_reconcile so w = reconcile_warehouse so w"

section \<open>NetworkCoordinator\<close>

record WarehouseData =
  wd_warehouse :: uuid
  wd_code :: string
  wd_on_hand :: int
  wd_available :: int
  wd_reserved :: int
  wd_utilization :: pyfloat

text \<open>An alert is the code of the warehouse and its utilisation in whole percent.\<close>

record NetworkSnapshot =
  ns_timestamp :: instant
  ns_warehouse_count :: nat
  ns_sku_count :: nat
  ns_on_hand :: int
  ns_available :: int
  ns_reserved :: int
  ns_warehouses :: "WarehouseData list"
  ns_alerts :: "(string \<times> int) list"

record NetworkHealthReport =
  nh_snapshot :: NetworkSnapshot
  nh_issues :: nat
  nh_recommendations :: nat
  nh_drift_count :: nat
  nh_overall :: string

definition round1 :: "pyfloat \<Rightarrow> pyfloat" where
  "round1 x = fl (of_int (rhe (x * 10)) / 10)"

definition warehouse_utilization :: "Warehouse \<Rightarrow> int \<Rightarrow> pyfloat" where
  "warehouse_utilization wh n = (case wh_capacity_units wh of None \<Rightarrow> 0
     | Some c \<Rightarrow> if c = 0 then 0 else fmul (fl (of_int n / of_int c)) 100)"

definition warehouse_data :: "Warehouse \<Rightarrow> InventoryBalance list \<Rightarrow> WarehouseData" where
  "warehouse_data wh bs = (let h = sum_list (map on_hand bs) in
     \<lparr>wd_warehouse = wh_id wh, wd_code = wh_code wh, wd_on_hand = h, wd_available = sum_list (map available bs),
      wd_reserved = sum_list (map reserved bs), wd_utilization = round1 (warehouse_utilization wh h)\<rparr>)"

definition snapshot_warehouse :: "Warehouse \<Rightarrow> (NetworkSnapshot \<times> uuid list) \<Rightarrow> (NetworkSnapshot \<times> uuid list) task" where
  "snapshot_warehouse wh = (\<lambda>(snap, sku_ids). bind (list_by_warehouse (wh_id wh)) (\<lambda>bs.
     let d = warehouse_data wh bs; util = warehouse_utilization wh (wd_on_hand d) in
     ret (snap\<lparr>ns_on_hand := ns_on_hand snap + wd_on_hand d, ns_available := ns_available snap + wd_available d,
               ns_reserved := ns_reserved snap + wd_reserved d, ns_warehouses := ns_warehouses snap @ [d],
               ns_alerts := ns_alerts snap @ (if 90 < util then [(wh_code wh, rhe util)] else [])\<rparr>,
          sku_ids @ map bal_sku bs)))"

definition capture_snapshot :: "NetworkSnapshot task" where
  "capture_snapshot = bind list_active_warehouses (\<lambda>whs.
     bind (for_loop snapshot_warehouse whs
       (\<lparr>ns_timestamp = 0, ns_warehouse_count = length whs, ns_sku_count = 0, ns_on_hand = 0, ns_available = 0,
         ns_reserved = 0, ns_warehouses = [], ns_alerts = []\<rparr>, [])) (\<lambda>(snap, sku_ids).
     bind get_now (\<lambda>n. ret (snap\<lparr>ns_timestamp := n, ns_sku_count := card (set sku_ids)\<rparr>))))"

definition overall_health :: "nat \<Rightarrow> nat \<Rightarrow> string" where
  "overall_health issues alerts = (if 10 < issues \<or> 3 < alerts then ''critical''
     else if 0 < issues then ''degraded'' else ''healthy'')"

definition health_check ::
  "(uuid list \<Rightarrow> uuid list) \<Rightarrow> (uuid list \<Rightarrow> uuid list) \<Rightarrow> NetworkHealthReport task" where
  "health_check so distinct_rows = bind capture_snapshot (\<lambda>snap.
     bind (for_loop (\<lambda>d issues. bind (reconcile_warehouse so (wd_warehouse d)) (\<lambda>rep.
        ret (issues + length (rr_discrepancies rep)))) (ns_warehouses snap) 0) (\<lambda>issues.
     bind (reads (\<lambda>s. take 10 (distinct_rows (map bal_sku (stored_rows (balances s)))))) (\<lambda>ks.
     bind (for_loop (\<lambda>k n. bind (analyze_network k) (\<lambda>plan. ret (n + length (pp_recommendations plan)))) ks 0) (\<lambda>recs.
     ret \<lparr>nh_snapshot = snap, nh_issues = issues, nh_recommendations = recs, nh_drift_count = 0,
          nh_overall = overall_health issues (length (ns_alerts snap))\<rparr>))))"

record NetworkFulfillment =
  nf_allocated :: int
  nf_backorder :: int
  nf_warehouses :: "(uuid \<times> int) list"

definition fulfill_from_network :: "uuid \<Rightarrow> uuid \<Rightarrow> uuid \<Rightarrow> int \<Rightarrow> NetworkFulfillment task" where
  "fulfill_from_network order line k q =
     bind (allocate \<lparr>ar_order = order, ar_order_line = line, ar_sku = k, ar_quantity = q, ar_preferred = None,
       ar_allow_split = True\<rparr>) (\<lambda>r.
     ret \<lparr>nf_allocated = al_total r, nf_backorder = al_backorder r, nf_warehouses = al_allocations r\<rparr>)"

definition refresh_safety_stock_all :: "Settings \<Rightarrow> math_env \<Rightarrow> int task" where
  "refresh_safety_stock_all cfg env = bind (reads (\<lambda>s. map (\<lambda>p. (pol_warehouse p, pol_sku p)) (stored_rows (policies s)))) (\<lambda>pairs.
     for_loop (\<lambda>(w, k) count. bind (calculate cfg env w k None None) (\<lambda>_. ret (count + 1))) pairs 0)"

section \<open>The snapshot adds up\<close>

lemma snapshot_loop:
  "\<exists>snap' ids'. for_loop snapshot_warehouse whs (snap, ids) s = (Inr (snap', ids'), s) \<and>
     ns_on_hand snap' = ns_on_hand snap + sum_list (map (\<lambda>wh. sum_list (map on_hand (select_where (\<lambda>b. bal_warehouse b = wh_id wh) (balances s)))) whs) \<and>
     length (ns_warehouses snap') = length (ns_warehouses snap) + length whs"
proof (induction whs arbitrary: snap ids)
  case (Cons wh whs)
  obtain snap1 ids1 where 1: "snapshot_warehouse wh (snap, ids) s = (Inr (snap1, ids1), s)"
    "ns_on_hand snap1 = ns_on_hand snap + sum_list (map on_hand (select_where (\<lambda>b. bal_warehouse b = wh_id wh) (balances s)))"
    "length (ns_warehouses snap1) = length (ns_warehouses snap) + 1"
    by (simp add: snapshot_warehouse_def list_by_warehouse_def Let_def warehouse_data_def)
  from Cons.IH [of snap1 ids1] 1 show ?case by (auto simp: bind_def)
qed simp

end
