(* ===== verification/Workers.thy ===== *)
theory Workers
  imports Forecasting Planning
begin

text \<open>
  \<open>workers/\<close>: batches over orders and warehouses, the scheduled jobs and the background worker.  The loop
  of the worker is a partial function, and it is proved to end exactly when a shutdown is requested.
\<close>

section \<open>Batches\<close>

datatype BatchStatus = PENDING | RUNNING | COMPLETED | PARTIALLY_FAILED | FAILED

record BatchItemResult =
  bi_item :: uuid
  bi_success :: bool
  bi_error :: "exn option"
  bi_metadata :: pydict

record BatchResult =
  br_batch :: uuid
  br_type :: string
  br_status :: BatchStatus
  br_total :: int
  br_succeeded :: int
  br_failed :: int
  br_results :: "BatchItemResult list"
  br_started_at :: "instant option"
  br_completed_at :: "instant option"

definition success_rate :: "BatchResult \<Rightarrow> pyfloat" where
  "success_rate r = (if br_total r = 0 then 0 else fl (of_int (br_succeeded r) / of_int (br_total r)))"

definition new_batch :: "string \<Rightarrow> nat \<Rightarrow> uuid \<Rightarrow> instant \<Rightarrow> BatchResult" where
  "new_batch ty n i started = \<lparr>br_batch = i, br_type = ty, br_status = RUNNING, br_total = int n, br_succeeded = 0,
     br_failed = 0, br_results = [], br_started_at = Some started, br_completed_at = None\<rparr>"

definition item_ok :: "uuid \<Rightarrow> bool \<Rightarrow> pydict \<Rightarrow> BatchResult \<Rightarrow> BatchResult" where
  "item_ok i ok md r = r\<lparr>br_results := br_results r @ [\<lparr>bi_item = i, bi_success = ok, bi_error = None, bi_metadata = md\<rparr>],
     br_succeeded := br_succeeded r + (if ok then 1 else 0), br_failed := br_failed r + (if ok then 0 else 1)\<rparr>"

definition item_error :: "uuid \<Rightarrow> exn \<Rightarrow> BatchResult \<Rightarrow> BatchResult" where
  "item_error i e r = r\<lparr>br_results := br_results r @ [\<lparr>bi_item = i, bi_success = False, bi_error = Some e, bi_metadata = []\<rparr>],
     br_failed := br_failed r + 1\<rparr>"

definition close_batch :: "instant \<Rightarrow> BatchResult \<Rightarrow> BatchResult" where
  "close_batch n r = r\<lparr>br_completed_at := Some n, br_status :=
     (if br_failed r = 0 then COMPLETED else if br_succeeded r = 0 then FAILED else PARTIALLY_FAILED)\<rparr>"

definition plan_item :: "uuid \<Rightarrow> BatchResult \<Rightarrow> BatchResult task" where
  "plan_item i r = try_except (bind (plan_fulfillment i) (\<lambda>p.
       ret (item_ok i True [(''status'', JStr (fr_status p)), (''is_partial'', JBool (fr_is_partial p))] r)))
     (\<lambda>e. ret (item_error i e r))"

definition run_allocation_batch :: "nat \<Rightarrow> BatchResult task" where
  "run_allocation_batch batch_size = bind fresh_uuid (\<lambda>i. bind get_now (\<lambda>n.
     bind (list_pending_allocation batch_size) (\<lambda>pending.
     bind (for_loop plan_item (map ord_id pending) (new_batch ''order_allocation'' (length pending) i n)) (\<lambda>r.
     bind get_now (\<lambda>n. ret (close_batch n r))))))"

definition reconcile_item :: "(uuid list \<Rightarrow> uuid list) \<Rightarrow> uuid \<Rightarrow> BatchResult \<Rightarrow> BatchResult task" where
  "reconcile_item so w r = try_except (bind (reconcile_warehouse so w) (\<lambda>rep.
       ret (item_ok w (rr_is_balanced rep) [(''discrepancies'', JInt (int (length (rr_discrepancies rep)))),
          (''skus_checked'', JInt (rr_skus_checked rep))] r)))
     (\<lambda>e. ret (item_error w e r))"

definition run_reconciliation_batch :: "(uuid list \<Rightarrow> uuid list) \<Rightarrow> uuid list \<Rightarrow> BatchResult task" where
  "run_reconciliation_batch so ws = bind fresh_uuid (\<lambda>i. bind get_now (\<lambda>n.
     bind (for_loop (reconcile_item so) ws (new_batch ''reconciliation'' (length ws) i n)) (\<lambda>r.
     bind get_now (\<lambda>n. ret (close_batch n r)))))"

definition run_nightly_jobs :: "(uuid list \<Rightarrow> uuid list) \<Rightarrow> nat \<Rightarrow> uuid list \<Rightarrow> (BatchResult \<times> BatchResult) task" where
  "run_nightly_jobs so batch_size ws = bind (run_reconciliation_batch so ws) (\<lambda>reconciliation.
     bind (run_allocation_batch batch_size) (\<lambda>allocation. ret (reconciliation, allocation)))"

section \<open>Jobs\<close>

record ScheduledJob =
  job_name :: string
  job_hour :: "nat option"
  job_minute :: "nat option"
  job_handler :: "unit task"
  job_last_run :: "instant option"

definition nightly_reconciliation :: "(uuid list \<Rightarrow> uuid list) \<Rightarrow> unit task" where
  "nightly_reconciliation so = bind list_active_warehouses (\<lambda>whs.
     for_loop (\<lambda>wh _. bind (reconcile_warehouse so (wh_id wh)) (\<lambda>_. ret ())) whs ())"

definition hourly_replenishment_check :: "Settings \<Rightarrow> math_env \<Rightarrow> unit task" where
  "hourly_replenishment_check cfg env = bind list_active_warehouses (\<lambda>whs.
     for_loop (\<lambda>wh _. bind (generate_plan cfg env (wh_id wh)) (\<lambda>plan.
       if rq_lines plan \<noteq> [] then bind (create_purchase_orders plan) (\<lambda>_. ret ()) else ret ())) whs ())"

definition JOBS :: "(uuid list \<Rightarrow> uuid list) \<Rightarrow> Settings \<Rightarrow> math_env \<Rightarrow> ScheduledJob list" where
  "JOBS so cfg env =
    [\<lparr>job_name = ''nightly_reconciliation'', job_hour = Some 2, job_minute = Some 0,
      job_handler = nightly_reconciliation so, job_last_run = None\<rparr>,
     \<lparr>job_name = ''hourly_replenishment'', job_hour = None, job_minute = Some 0,
      job_handler = hourly_replenishment_check cfg env, job_last_run = None\<rparr>]"

section \<open>WorkerRunner\<close>

text \<open>Each cycle makes an event bus of its own, on which nothing is subscribed.\<close>

definition minute_of :: "instant \<Rightarrow> int" where
  "minute_of n = n div 60000000 mod 60"

definition expire_reservations :: "unit task" where
  "expire_reservations = bind (get_expired None) (\<lambda>rs. for_loop (\<lambda>r _. release_single_reservation r) rs ())"

definition run_scheduled_jobs :: "(instant \<Rightarrow> string) \<Rightarrow> (json \<Rightarrow> exn + decimal) \<Rightarrow> unit task" where
  "run_scheduled_jobs isof dec = bind get_now (\<lambda>n.
     if minute_of n = 0 then bind (update_supplier_scores isof dec) (\<lambda>_. ret ()) else ret ())"

definition with_new_bus :: "'a bus_task \<Rightarrow> 'a task" where
  "with_new_bus m = (\<lambda>s. case m ((\<lambda>_. None), s) of (r, (b, t)) \<Rightarrow> (r, t))"

definition process_cycle :: "Settings \<Rightarrow> (instant \<Rightarrow> string) \<Rightarrow> (json \<Rightarrow> exn + decimal) \<Rightarrow> unit task" where
  "process_cycle cfg isof dec = bind (with_new_bus (process_pending (worker_batch_size cfg))) (\<lambda>_.
     bind expire_reservations (\<lambda>_. run_scheduled_jobs isof dec))"

text \<open>
  \<open>shutdown n\<close>: a signal arrives during cycle \<open>n\<close> or the sleep after it.  \<open>between n\<close> is what the rest of
  the system does to the database, and the clock, until the next cycle.  The result is the number
  of cycles and the database.
\<close>

partial_function (option) worker_loop ::
  "(session \<Rightarrow> session) \<Rightarrow> (nat \<Rightarrow> bool) \<Rightarrow> (nat \<Rightarrow> session \<Rightarrow> session) \<Rightarrow> bool \<Rightarrow> nat \<Rightarrow> session \<Rightarrow> (nat \<times> session) option" where
  [code]: "worker_loop cycle shutdown between running n s = (if \<not> running then Some (n, s)
     else worker_loop cycle shutdown between (\<not> shutdown n) (Suc n) (between n (cycle s)))"

definition worker_run ::
  "Settings \<Rightarrow> (instant \<Rightarrow> string) \<Rightarrow> (json \<Rightarrow> exn + decimal) \<Rightarrow> (nat \<Rightarrow> bool) \<Rightarrow> (nat \<Rightarrow> session \<Rightarrow> session) \<Rightarrow> session \<Rightarrow>
   (nat \<times> session) option" where
  "worker_run cfg isof dec shutdown between s =
     worker_loop (\<lambda>s. snd (run_request (process_cycle cfg isof dec) s)) shutdown between True 0 s"

section \<open>The loop ends when it is told to\<close>

fun after_cycles :: "(session \<Rightarrow> session) \<Rightarrow> (nat \<Rightarrow> session \<Rightarrow> session) \<Rightarrow> nat \<Rightarrow> nat \<Rightarrow> session \<Rightarrow> session" where
  "after_cycles cycle between n 0 s = s"
| "after_cycles cycle between n (Suc k) s = after_cycles cycle between (Suc n) k (between n (cycle s))"

lemma worker_loop_stops:
  assumes "shutdown (n + k)" and "\<And>j. j < k \<Longrightarrow> \<not> shutdown (n + j)"
  shows "worker_loop cycle shutdown between True n s = Some (n + k + 1, after_cycles cycle between n (Suc k) s)"
  using assms
proof (induction k arbitrary: n s)
  case 0
  then show ?case
    by (simp add: worker_loop.simps [of cycle shutdown between True] worker_loop.simps [of cycle shutdown between False])
next
  case (Suc k)
  have "\<not> shutdown n" using Suc.prems(2) [of 0] by simp
  moreover have "shutdown (Suc n + k)" using Suc.prems(1) by simp
  moreover have "\<not> shutdown (Suc n + j)" if "j < k" for j using Suc.prems(2) [of "Suc j"] that by simp
  ultimately show ?case using Suc.IH [of "Suc n" "between n (cycle s)"]
    by (subst worker_loop.simps) simp
qed

lemma worker_loop_needs_shutdown:
  assumes "worker_loop cycle shutdown between running n s = Some r"
  shows "running \<longrightarrow> (\<exists>m. shutdown m)"
proof (rule worker_loop.raw_induct [where P = "\<lambda>c sh b run n s y. run \<longrightarrow> (\<exists>m. sh m)", OF _ assms], rule impI)
  fix loop c sh b run n s y
  assume IH: "\<And>c sh b run n s y. loop c sh b run n s = Some y \<Longrightarrow> run \<longrightarrow> (\<exists>m. sh m)"
    and body: "(if \<not> run then Some (n, s) else loop c sh b (\<not> sh n) (Suc n) (b n (c s))) = Some y" and run
  then have "loop c sh b (\<not> sh n) (Suc n) (b n (c s)) = Some y" by simp
  from IH [OF this] show "\<exists>m. sh m" by blast
qed

section \<open>A batch accounts for every item\<close>

definition batch_ok :: "uuid list \<Rightarrow> BatchResult \<Rightarrow> bool" where
  "batch_ok done r \<longleftrightarrow> map bi_item (br_results r) = done \<and> br_succeeded r + br_failed r = int (length done) \<and>
     br_succeeded r = int (length (filter bi_success (br_results r)))"

lemma batch_ok_new: "batch_ok [] (new_batch ty n i t)"
  by (simp add: batch_ok_def new_batch_def)

lemma batch_ok_item:
  "batch_ok done r \<Longrightarrow> batch_ok (done @ [i]) (item_ok i ok md r)"
  "batch_ok done r \<Longrightarrow> batch_ok (done @ [i]) (item_error i e r)"
  by (simp_all add: batch_ok_def item_ok_def item_error_def)

lemma batch_loop:
  assumes "\<And>i done r s. batch_ok done r \<Longrightarrow> \<exists>r' t. item i r s = (Inr r', t) \<and> batch_ok (done @ [i]) r' \<and> br_total r' = br_total r"
  shows "batch_ok done r \<Longrightarrow> \<exists>r' t. for_loop item is r s = (Inr r', t) \<and> batch_ok (done @ is) r' \<and> br_total r' = br_total r"
proof (induction "is" arbitrary: "done" r s)
  case (Cons i "is")
  obtain r1 u where u: "item i r s = (Inr r1, u)" "batch_ok (done @ [i]) r1" "br_total r1 = br_total r"
    using assms [OF Cons.prems] by blast
  from Cons.IH [OF u(2), of u] u show ?case by (auto simp: bind_def)
qed simp

lemma try_item:
  assumes "batch_ok done r"
  shows "\<exists>r' t. try_except (bind m (\<lambda>x. ret (item_ok i (ok x) (md x) r))) (\<lambda>e. ret (item_error i e r)) s = (Inr r', t) \<and>
    batch_ok (done @ [i]) r' \<and> br_total r' = br_total r"
proof (cases "m s")
  case (Pair v t)
  then show ?thesis using batch_ok_item [OF assms]
    by (cases v) (simp_all add: try_except_def bind_def item_ok_def item_error_def)
qed

text \<open>A batch never fails: it returns with one result per item, in order, and counts that add up.\<close>

lemma plan_item_app:
  "batch_ok done r \<Longrightarrow> \<exists>r' t. plan_item i r s = (Inr r', t) \<and> batch_ok (done @ [i]) r' \<and> br_total r' = br_total r"
  unfolding plan_item_def by (rule try_item)

lemma reconcile_item_app:
  "batch_ok done r \<Longrightarrow> \<exists>r' t. reconcile_item so i r s = (Inr r', t) \<and> batch_ok (done @ [i]) r' \<and> br_total r' = br_total r"
  unfolding reconcile_item_def by (rule try_item)

lemma run_reconciliation_batch_app:
  "\<exists>r t. run_reconciliation_batch so ws s = (Inr r, t) \<and> batch_ok ws r \<and> br_total r = int (length ws)"
proof -
  let ?t = "s\<lparr>next_uuid := Suc (next_uuid s)\<rparr>" and ?new = "new_batch ''reconciliation'' (length ws) (next_uuid s) (now s)"
  obtain r u where "for_loop (reconcile_item so) ws ?new ?t = (Inr r, u)" "batch_ok ws r" "br_total r = int (length ws)"
    using batch_loop [where item = "reconcile_item so" and s = ?t and r = ?new, OF reconcile_item_app batch_ok_new]
    by (fastforce simp: new_batch_def)
  then show ?thesis by (simp add: run_reconciliation_batch_def bind_def batch_ok_def close_batch_def)
qed

section \<open>Properties\<close>

text \<open>C39: The worker ends exactly when a shutdown is requested, and then right after the cycle in which
  the first request arrives: what the cycles do, and the exceptions they raise, neither end the
  loop nor keep it going.  Without a request it never returns.\<close>

theorem worker_ends_on_shutdown:
  "worker_run cfg isof dec shutdown between s =
    (if \<exists>n. shutdown n
     then let k = Suc (LEAST n. shutdown n) in
       Some (k, after_cycles (\<lambda>s. snd (run_request (process_cycle cfg isof dec) s)) between 0 k s)
     else None)"
proof (cases "\<exists>n. shutdown n")
  case True
  have at: "shutdown (0 + (LEAST n. shutdown n))" using True by (simp add: LeastI_ex)
  have before: "\<not> shutdown (0 + j)" if "j < (LEAST n. shutdown n)" for j using not_less_Least [OF that] by simp
  show ?thesis using True by (simp only: worker_run_def worker_loop_stops [of shutdown 0, OF at before] Let_def if_True) simp
next
  case False
  then have "\<And>r. worker_loop (\<lambda>s. snd (run_request (process_cycle cfg isof dec) s)) shutdown between True 0 s \<noteq> Some r"
    using worker_loop_needs_shutdown by blast
  then show ?thesis using False by (simp only: worker_run_def if_False not_Some_eq) blast
qed

end
