(* ===== verification/Routes.thy ===== *)
theory Routes
  imports Schemas RoutePlanning Workers
begin

text \<open>
  \<open>api/routes.py\<close> and \<open>api/middleware.py\<close>: every endpoint, with its dependencies in their order, as an
  operation on the session of the request.  A handler creates its services without a cache and
  without an event bus.  FastAPI resolves the dependencies, then rejects an invalid body, then
  runs the handler; an exception that leaves the endpoint rolls the session back.
\<close>

section \<open>What is not part of the program\<close>

text \<open>
  Besides the parameters of the components: \<open>uuid.UUID\<close> and \<open>Decimal\<close> of a string, \<open>str\<close> of a decimal,
  PostgreSQL's \<open>ILIKE\<close> and its order of strings, and FastAPI's serialization of a value that a
  handler returns under \<open>response_model=PurchaseOrderResponse\<close>.
\<close>

record api_env =
  ap_auth :: auth_env
  ap_cfg :: Settings
  ap_environment :: string
  ap_distance :: distance
  ap_tour :: tour
  ap_parse :: "string \<Rightarrow> pyfloat option"
  ap_math :: math_env
  ap_num :: numeric_env
  ap_so :: "uuid list \<Rightarrow> uuid list"
  ap_uuid :: "json \<Rightarrow> exn + uuid"
  ap_dec :: "json \<Rightarrow> exn + decimal"
  ap_str_dec :: "decimal \<Rightarrow> string"
  ap_ilike :: "string \<Rightarrow> string \<Rightarrow> bool"
  ap_collation :: "string \<Rightarrow> int"
  ap_serialize :: "PurchaseOrderResponse option \<Rightarrow> exn + PurchaseOrderResponse"

section \<open>Middleware and dependencies\<close>

text \<open>\<open>header or str(uuid.uuid4())\<close>.\<close>

definition or_fresh_id :: "api_env \<Rightarrow> string option \<Rightarrow> string task" where
  "or_fresh_id env h = (case h of Some c \<Rightarrow> if c = [] then bind fresh_uuid (\<lambda>i. ret (ae_str (ap_auth env) i)) else ret c
     | None \<Rightarrow> bind fresh_uuid (\<lambda>i. ret (ae_str (ap_auth env) i)))"

definition set_correlation_id :: "string \<Rightarrow> unit task" where
  "set_correlation_id c = modify (\<lambda>s. s\<lparr>ctx_correlation := c\<rparr>)"

text \<open>\<open>CorrelationIdMiddleware.dispatch\<close>: the id it has chosen is the header of the response.\<close>

definition correlation_dispatch :: "api_env \<Rightarrow> string option \<Rightarrow> 'a task \<Rightarrow> ('a \<times> string) task" where
  "correlation_dispatch env h call_next = bind (or_fresh_id env h) (\<lambda>c. bind (set_correlation_id c) (\<lambda>_.
     bind call_next (\<lambda>r. ret (r, c))))"

definition correlation_id_middleware :: "api_env \<Rightarrow> string option \<Rightarrow> unit task" where
  "correlation_id_middleware env h = bind (or_fresh_id env h) set_correlation_id"

text \<open>The headers of a request.\<close>

record headers =
  hd_authorization :: "string option"
  hd_correlation :: "string option"

definition guarded :: "api_env \<Rightarrow> auth_db \<Rightarrow> headers \<Rightarrow> string list \<Rightarrow> 'a task \<Rightarrow> 'a task" where
  "guarded env db h roles m = bind (require_roles (ap_auth env) db roles (hd_authorization h)) (\<lambda>_. m)"

definition traced :: "api_env \<Rightarrow> headers \<Rightarrow> 'a task \<Rightarrow> 'a task" where
  "traced env h m = bind (correlation_id_middleware env (hd_correlation h)) (\<lambda>_. m)"

definition valid_body :: "bool \<Rightarrow> 'a task \<Rightarrow> 'a task" where
  "valid_body ok m = bind (raise_if (\<not> ok) (HTTPException 422)) (\<lambda>_. m)"

abbreviation "admin_only \<equiv> [''admin'']"
abbreviation "operators \<equiv> [''admin'', ''warehouse_operator'']"
abbreviation "everyone \<equiv> [''admin'', ''warehouse_operator'', ''auditor'']"

section \<open>Errors\<close>

definition with_domain_errors :: "'a task \<Rightarrow> 'a task" where
  "with_domain_errors m = try_except m (\<lambda>e. case handle_domain_error e of
     None \<Rightarrow> raise e | Some n \<Rightarrow> raise (HTTPException n))"

text \<open>The status of a request that ended in an exception: \<open>nexusops_error_handler\<close> answers 422 for every
  domain error that a handler has not translated.\<close>

definition error_status :: "exn \<Rightarrow> int" where
  "error_status e = (case e of HTTPException n \<Rightarrow> n | _ \<Rightarrow> if is_NexusOpsError e then 422 else 500)"

definition uncached :: "(unit, 'a) cached_task \<Rightarrow> 'a task" where
  "uncached m = (\<lambda>s. case m ((), s) of (r, (_, t)) \<Rightarrow> (r, t))"

section \<open>Orders\<close>

definition json_opt :: "pyfloat option \<Rightarrow> json" where
  "json_opt x = (case x of None \<Rightarrow> JNull | Some v \<Rightarrow> JFloat v)"

definition address_dump :: "AddressSchema \<Rightarrow> pydict" where
  "address_dump a = [(''street'', JStr (ad_street a)), (''city'', JStr (ad_city a)), (''state'', JStr (ad_state a)),
     (''postal_code'', JStr (ad_postal_code a)), (''country'', JStr (ad_country a)),
     (''latitude'', json_opt (ad_latitude a)), (''longitude'', json_opt (ad_longitude a))]"

definition line_dump :: "api_env \<Rightarrow> OrderLineCreate \<Rightarrow> pydict" where
  "line_dump env l = [(''sku_id'', JUuid (olc_sku l)), (''quantity'', JInt (olc_quantity l)),
     (''unit_price'', JStr (ap_str_dec env (olc_unit_price l)))]"

definition with_order :: "uuid \<Rightarrow> (Order \<Rightarrow> 'a task) \<Rightarrow> 'a task" where
  "with_order i f = bind (get_by_id_or_raise ord_id orders i) f"

definition create_order_route :: "api_env \<Rightarrow> auth_db \<Rightarrow> headers \<Rightarrow> OrderCreate \<Rightarrow> OrderResponse task" where
  "create_order_route env db h body = traced env h (guarded env db h operators (valid_body (OrderCreate_valid body)
     (with_domain_errors (bind (create_order (ap_uuid env) (ap_dec env) (oc_external_id body) (oc_customer body)
        (address_dump (oc_address body)) (map (line_dump env) (oc_lines body)) (oc_priority body)
        (oc_allow_partial body) (oc_strategy body)) (\<lambda>i.
      with_order i (\<lambda>ord. ret (OrderResponse_of ord)))))))"

definition fulfill_order_route :: "api_env \<Rightarrow> auth_db \<Rightarrow> headers \<Rightarrow> uuid \<Rightarrow> FulfillResponse task" where
  "fulfill_order_route env db h i = traced env h (guarded env db h operators (with_domain_errors
     (bind (process_order i) (\<lambda>result. bind (generate_shipments i) (\<lambda>shs.
      ret \<lparr>ful_order = i, ful_status = fr_status result, ful_is_partial = fr_is_partial result,
           ful_shipments = int (length shs), ful_workflow = fr_workflow_id result\<rparr>)))))"

definition page_of :: "int \<Rightarrow> int \<Rightarrow> 'a list \<Rightarrow> 'a list" where
  "page_of page page_size xs = (let p = (if page < 1 then 1 else page); n = (if page_size < 1 then 25 else page_size)
     in take (nat n) (drop (nat ((p - 1) * n)) xs))"

definition order_matches :: "api_env \<Rightarrow> string option \<Rightarrow> string option \<Rightarrow> Order \<Rightarrow> bool" where
  "order_matches env st search ord \<longleftrightarrow>
     (case st of None \<Rightarrow> True | Some x \<Rightarrow> x = [] \<or> ord_status ord = x) \<and>
     (case search of None \<Rightarrow> True | Some x \<Rightarrow> x = [] \<or>
        ap_ilike env (ord_external_id ord) (''%'' @ x @ ''%'') \<or> ap_ilike env (ord_customer ord) (''%'' @ x @ ''%''))"

definition list_orders_route ::
  "api_env \<Rightarrow> auth_db \<Rightarrow> headers \<Rightarrow> string option \<Rightarrow> string option \<Rightarrow> int \<Rightarrow> int \<Rightarrow> OrderResponse list task" where
  "list_orders_route env db h st search page page_size = guarded env db h everyone
     (bind (reads (\<lambda>s. page_of page page_size
        (select_ordered (\<lambda>ord. - ord_created_at ord) (order_matches env st search) (orders s)))) (\<lambda>os.
      ret (map OrderResponse_of os)))"

definition order_or_404 :: "uuid \<Rightarrow> (Order \<times> OrderLine list) task" where
  "order_or_404 i = bind (get_order_with_lines i) (\<lambda>r. case r of
     None \<Rightarrow> raise (HTTPException 404)
   | Some (ord, ls) \<Rightarrow> bind (raise_if (ord_status ord \<in> {''cancelled'', ''shipped'', ''delivered''}) (HTTPException 409))
       (\<lambda>_. ret (ord, ls)))"

definition reserve_line :: "Order \<Rightarrow> OrderLine \<Rightarrow> unit task" where
  "reserve_line ord l = (let needed = ol_quantity_ordered l - ol_quantity_allocated l in
     if needed \<le> 0 then ret ()
     else bind (allocate \<lparr>ar_order = ord_id ord, ar_order_line = ol_id l, ar_sku = ol_sku l, ar_quantity = needed,
            ar_preferred = None, ar_allow_split = ord_allow_partial ord\<rparr>) (\<lambda>r.
          put_line (ol_id l) (\<lambda>x. x\<lparr>ol_quantity_allocated := ol_quantity_allocated x + al_total r,
            ol_backorder_quantity := al_backorder r\<rparr>)))"

definition any_backorder :: "OrderLine list \<Rightarrow> session \<Rightarrow> bool" where
  "any_backorder ls s \<longleftrightarrow> list_ex (\<lambda>x. ol_id x \<in> set (map ol_id ls) \<and> 0 < ol_backorder_quantity x) (lives (order_lines s))"

definition reserve_order :: "uuid \<Rightarrow> (uuid \<times> string) task" where
  "reserve_order i = bind (order_or_404 i) (\<lambda>(ord, ls).
     bind (for_loop (\<lambda>l _. reserve_line ord l) ls ()) (\<lambda>_.
     bind (reads (any_backorder ls)) (\<lambda>backorder.
     let st = (if backorder then ''partially_allocated'' else ''allocating'') in
     bind (put_order (ord_id ord) (\<lambda>x. x\<lparr>ord_status := st\<rparr>)) (\<lambda>_.
     bind (audit_record ''order'' (ord_id ord) ''reserved'' None (Some [(''status'', JStr st)]) None) (\<lambda>_.
     ret (ord_id ord, st))))))"

definition reserve_order_route :: "api_env \<Rightarrow> auth_db \<Rightarrow> headers \<Rightarrow> uuid \<Rightarrow> (uuid \<times> string) task" where
  "reserve_order_route env db h i = guarded env db h operators (reserve_order i)"

definition cancel_order :: "uuid \<Rightarrow> (uuid \<times> string) task" where
  "cancel_order i = bind (order_or_404 i) (\<lambda>(ord, ls).
     bind (release_reservations i) (\<lambda>_.
     bind (put_order (ord_id ord) (\<lambda>x. x\<lparr>ord_status := ''cancelled''\<rparr>)) (\<lambda>_.
     bind (audit_record ''order'' (ord_id ord) ''cancelled'' (Some [(''status'', JStr (ord_status ord))])
       (Some [(''status'', JStr ''cancelled'')]) (Some [(''released_reservations_for_order'', JUuid i)])) (\<lambda>_.
     ret (ord_id ord, ''cancelled'')))))"

definition cancel_order_route :: "api_env \<Rightarrow> auth_db \<Rightarrow> headers \<Rightarrow> uuid \<Rightarrow> (uuid \<times> string) task" where
  "cancel_order_route env db h i = guarded env db h admin_only (cancel_order i)"

section \<open>Inventory\<close>

definition network_visibility_route :: "api_env \<Rightarrow> uuid \<Rightarrow> NetworkVisibilityResponse task" where
  "network_visibility_route env k = bind (uncached (service_network_visibility None (ap_cfg env) k True)) (\<lambda>vs.
     ret \<lparr>nvr_sku = k, nvr_warehouses = vs\<rparr>)"

definition allocate_inventory_route ::
  "api_env \<Rightarrow> auth_db \<Rightarrow> headers \<Rightarrow> AllocationRequestSchema \<Rightarrow> AllocateResponse task" where
  "allocate_inventory_route env db h body = traced env h (guarded env db h operators
     (valid_body (AllocationRequestSchema_valid body) (with_domain_errors
     (bind (uncached (allocate_for_order_line None None \<lparr>ar_order = ars_order body, ar_order_line = ars_order_line body,
        ar_sku = ars_sku body, ar_quantity = ars_quantity body, ar_preferred = ars_preferred body,
        ar_allow_split = ars_allow_split body\<rparr>)) (\<lambda>r.
      ret \<lparr>alr_total = al_total r, alr_backorder = al_backorder r, alr_allocations = al_allocations r\<rparr>)))))"

definition reconcile_inventory_route :: "api_env \<Rightarrow> auth_db \<Rightarrow> headers \<Rightarrow> uuid \<Rightarrow> ReconcileResponse task" where
  "reconcile_inventory_route env db h w = guarded env db h admin_only (bind (service_reconcile (ap_so env) w) (\<lambda>r.
     ret \<lparr>rcr_is_balanced = rr_is_balanced r, rcr_count = int (length (rr_discrepancies r)),
          rcr_details = map (\<lambda>d. (dc_sku d, dc_type d, dc_severity d)) (rr_discrepancies r)\<rparr>))"

definition list_warehouses_route :: "api_env \<Rightarrow> auth_db \<Rightarrow> headers \<Rightarrow> WarehouseResponse list task" where
  "list_warehouses_route env db h = guarded env db h everyone (bind list_active_warehouses (\<lambda>ws.
     ret (map (\<lambda>w. \<lparr>wr_id = wh_id w, wr_code = wh_code w, wr_name = wh_name w\<rparr>) ws)))"

text \<open>A join reads the stored values of both rows and returns the live objects.\<close>

definition join_on :: "('a \<Rightarrow> 'b \<Rightarrow> bool) \<Rightarrow> 'a table \<Rightarrow> 'b table \<Rightarrow> ('a cell \<times> 'b cell) list" where
  "join_on P t u = concat (map (\<lambda>c. map (Pair c) (filter (\<lambda>d. stored_sat (\<lambda>a. stored_sat (P a) d) c) u)) t)"

definition balance_matches :: "api_env \<Rightarrow> uuid option \<Rightarrow> string option \<Rightarrow> InventoryBalance \<Rightarrow> Sku \<Rightarrow> bool" where
  "balance_matches env w search b k \<longleftrightarrow> bal_sku b = sku_id k \<and>
     (case w of None \<Rightarrow> True | Some w \<Rightarrow> bal_warehouse b = w) \<and>
     (case search of None \<Rightarrow> True | Some x \<Rightarrow> x = [] \<or>
        ap_ilike env (sku_code k) (''%'' @ x @ ''%'') \<or> ap_ilike env (sku_description k) (''%'' @ x @ ''%''))"

definition ascii_lower :: "char \<Rightarrow> char" where
  "ascii_lower c = (let n = (of_char c :: nat) in if 65 \<le> n \<and> n \<le> 90 then char_of (n + 32) else c)"

definition balance_key :: "api_env \<Rightarrow> string \<Rightarrow> string \<Rightarrow> InventoryBalance \<Rightarrow> Sku \<Rightarrow> int" where
  "balance_key env sort_by sort_dir b k = (let dir = map ascii_lower sort_dir in
     if sort_by = ''available'' then (if dir = ''desc'' then - uncommitted b else uncommitted b)
     else if sort_by = ''on_hand'' then (if dir = ''desc'' then - on_hand b else on_hand b)
     else (if dir = ''asc'' then ap_collation env (sku_code k) else - ap_collation env (sku_code k)))"

definition balance_row :: "InventoryBalance \<Rightarrow> Sku \<Rightarrow> InventoryBalanceRow" where
  "balance_row b k = \<lparr>ibr_warehouse = bal_warehouse b, ibr_sku = bal_sku b, ibr_sku_code = sku_code k,
     ibr_description = sku_description k, ibr_uom = sku_uom k, ibr_on_hand = on_hand b, ibr_reserved = reserved b,
     ibr_allocated = allocated b, ibr_available = max 0 (uncommitted b)\<rparr>"

definition list_inventory_balances_route ::
  "api_env \<Rightarrow> auth_db \<Rightarrow> headers \<Rightarrow> uuid option \<Rightarrow> string option \<Rightarrow> string \<Rightarrow> string \<Rightarrow> int \<Rightarrow> int \<Rightarrow>
   InventoryBalanceRow list task" where
  "list_inventory_balances_route env db h w search sort_by sort_dir page page_size = guarded env db h everyone
     (bind (reads (\<lambda>s. page_of page page_size
        (sort_key (\<lambda>(c, d). balance_key env sort_by sort_dir (stored_key id c) (stored_key id d))
          (join_on (balance_matches env w search) (balances s) (skus s))))) (\<lambda>rows.
      ret (map (\<lambda>(c, d). balance_row (live c) (live d)) rows)))"

definition balance_of :: "uuid \<Rightarrow> uuid \<Rightarrow> InventoryBalance option task" where
  "balance_of w k = fetch (\<lambda>s. scalar_one_or_none (select_where (\<lambda>b. bal_warehouse b = w \<and> bal_sku b = k) (balances s)))"

definition adjust_inventory_balance_route ::
  "api_env \<Rightarrow> auth_db \<Rightarrow> headers \<Rightarrow> uuid \<Rightarrow> uuid \<Rightarrow> InventoryAdjustRequest \<Rightarrow> InventoryBalanceRow task" where
  "adjust_inventory_balance_route env db h w k body = guarded env db h operators
     (bind (balance_of w k) (\<lambda>b.
      bind (uncached (adjust_inventory None w k (iar_on_hand body - (case b of None \<Rightarrow> 0 | Some b \<Rightarrow> on_hand b)))) (\<lambda>_.
      bind (fetch (\<lambda>s. scalar_one (select_where (\<lambda>x. sku_id x = k) (skus s)))) (\<lambda>sku.
      bind (balance_of w k) (\<lambda>new_balance. case new_balance of
        None \<Rightarrow> raise (HTTPException 404) | Some b \<Rightarrow> ret (balance_row b sku))))))"

text \<open>\<open>state.get("on_hand") if state else None\<close>, and \<open>int\<close> of a value that is not \<open>None\<close>.\<close>

definition state_on_hand :: "pydict option \<Rightarrow> exn + int option" where
  "state_on_hand st = (let v = (case st of None \<Rightarrow> JNull | Some d \<Rightarrow> dict_get d ''on_hand'' JNull) in
     if v = JNull then Inr None else map_sum id Some (json_int v))"

definition movement_row :: "AuditEntry \<Rightarrow> StockMovementRow task" where
  "movement_row e = bind (fetch (\<lambda>_. state_on_hand (au_before e))) (\<lambda>before.
     bind (fetch (\<lambda>_. state_on_hand (au_after e))) (\<lambda>after.
     ret \<lparr>smr_timestamp = au_timestamp e, smr_action = au_action e, smr_before = before, smr_after = after,
          smr_is_override = au_is_override e\<rparr>))"

definition movement_matches :: "uuid \<Rightarrow> uuid \<Rightarrow> instant option \<Rightarrow> instant option \<Rightarrow> AuditEntry \<Rightarrow> bool" where
  "movement_matches w k t0 t1 e \<longleftrightarrow> au_entity_type e = ''inventory_balance'' \<and> au_entity_id e = k \<and>
     dict_get (au_metadata e) ''warehouse_id'' JNull = JUuid w \<and>
     (case t0 of None \<Rightarrow> True | Some t \<Rightarrow> t \<le> au_timestamp e) \<and>
     (case t1 of None \<Rightarrow> True | Some t \<Rightarrow> au_timestamp e \<le> t)"

definition inventory_movements :: "uuid \<Rightarrow> uuid \<Rightarrow> instant option \<Rightarrow> instant option \<Rightarrow> StockMovementRow list task" where
  "inventory_movements w k t0 t1 =
     bind (reads (\<lambda>s. take 200 (select_ordered (\<lambda>e. - au_timestamp e) (movement_matches w k t0 t1) (audits s)))) (\<lambda>es.
     for_loop (\<lambda>e rows. bind (movement_row e) (\<lambda>r. ret (rows @ [r]))) es [])"

definition inventory_movements_route ::
  "api_env \<Rightarrow> auth_db \<Rightarrow> headers \<Rightarrow> uuid \<Rightarrow> uuid \<Rightarrow> instant option \<Rightarrow> instant option \<Rightarrow> StockMovementRow list task" where
  "inventory_movements_route env db h w k t0 t1 = guarded env db h everyone (inventory_movements w k t0 t1)"

section \<open>Transportation, procurement and warehouse\<close>

definition plan_shipment_routes_route :: "api_env \<Rightarrow> uuid \<Rightarrow> RouteResponse task" where
  "plan_shipment_routes_route env i = bind (service_plan_routes (ap_cfg env) (ap_distance env) (ap_tour env) (ap_parse env) i) (\<lambda>r.
     ret \<lparr>rtr_shipment = i, rtr_options = int (length (rr_options r)), rtr_selected_cost = map_option ro_cost (rr_selected r)\<rparr>)"

definition assign_carrier_route :: "api_env \<Rightarrow> auth_db \<Rightarrow> headers \<Rightarrow> uuid \<Rightarrow> (string \<times> decimal \<times> pyfloat) task" where
  "assign_carrier_route env db h i = guarded env db h admin_only (bind (assign_carrier i) (\<lambda>a.
     ret (ca_code a, ca_cost a, ca_score a)))"

definition trigger_replenishment_route :: "api_env \<Rightarrow> auth_db \<Rightarrow> headers \<Rightarrow> uuid \<Rightarrow> (int \<times> uuid) task" where
  "trigger_replenishment_route env db h w = guarded env db h admin_only
     (bind (generate_replenishment (ap_cfg env) (ap_math env) w) (\<lambda>plan.
      ret (int (length (rq_lines plan)), rq_run plan)))"

definition receiving_line :: "ReceivingLineSchema \<Rightarrow> ReceivingLine" where
  "receiving_line l = \<lparr>ReceivingLine.rl_sku = rls_sku l, rl_expected = rls_expected l, rl_received = rls_received l, rl_po_line = None,
     rl_damage = rls_damage l\<rparr>"

definition receive_response :: "ReceivingResult \<Rightarrow> ReceiveResponse" where
  "receive_response r = \<lparr>rvr_total = rcv_total r, rvr_tasks = int (length (rcv_tasks r)), rvr_discrepancies = rcv_discrepancies r\<rparr>"

definition receive_inventory_route :: "api_env \<Rightarrow> auth_db \<Rightarrow> headers \<Rightarrow> ReceivingRequest \<Rightarrow> ReceiveResponse task" where
  "receive_inventory_route env db h body = guarded env db h operators
     (bind (service_receive_po (rq_po body) (rq_wh body) (map receiving_line (rq_receiving_lines body))) (\<lambda>r.
      ret (receive_response r)))"

definition create_transfer_route :: "api_env \<Rightarrow> auth_db \<Rightarrow> headers \<Rightarrow> TransferRequestSchema \<Rightarrow> (uuid \<times> string) task" where
  "create_transfer_route env db h body = guarded env db h operators (valid_body (TransferRequestSchema_valid body)
     (with_domain_errors (bind (service_initiate_transfer \<lparr>xr_source = trs_source body,
        xr_destination = trs_destination body, xr_sku = trs_sku body, xr_quantity = trs_quantity body,
        xr_scheduled = None\<rparr>) (\<lambda>tr. ret (tr_number tr, tr_status tr)))))"

definition transfer_row :: "WarehouseTransfer \<Rightarrow> TransferRow" where
  "transfer_row tr = \<lparr>txr_number = tr_number tr, txr_status = tr_status tr, txr_source = tr_source tr,
     txr_destination = tr_destination tr, txr_sku = tr_sku tr, txr_quantity = tr_quantity tr\<rparr>"

definition list_transfers_route :: "api_env \<Rightarrow> auth_db \<Rightarrow> headers \<Rightarrow> string option \<Rightarrow> TransferRow list task" where
  "list_transfers_route env db h st = guarded env db h everyone
     (bind (reads (\<lambda>s. take 100 (select_ordered (\<lambda>tr. - tr_created_at tr)
        (\<lambda>tr. case st of None \<Rightarrow> True | Some x \<Rightarrow> x = [] \<or> tr_status tr = x) (transfers s)))) (\<lambda>trs.
      ret (map transfer_row trs)))"

text \<open>
  A line of \<open>PurchaseOrderCreate\<close> is any JSON object.  The lines are read before \<open>create_po\<close> runs: a line
  that cannot be read ends the request with status 500 and without a trace either way.
\<close>

definition po_line_of :: "api_env \<Rightarrow> pydict \<Rightarrow> exn + po_line_data" where
  "po_line_of env d =
     (case required_key d ''quantity'' of Inl e \<Rightarrow> Inl e | Inr q \<Rightarrow>
      case json_int q of Inl e \<Rightarrow> Inl e | Inr n \<Rightarrow>
      case ap_dec env (dict_get d ''unit_cost'' (JStr ''0'')) of Inl e \<Rightarrow> Inl e | Inr cost \<Rightarrow>
      case required_key d ''sku_id'' of Inl e \<Rightarrow> Inl e | Inr v \<Rightarrow>
      case (case v of JUuid u \<Rightarrow> Inr u | _ \<Rightarrow> ap_uuid env v) of Inl e \<Rightarrow> Inl e | Inr k \<Rightarrow>
      Inr \<lparr>pd_line_sku = k, pd_line_quantity = n, pd_line_unit_cost = Some cost\<rparr>)"

text \<open>The handler has no \<open>return\<close>: its value is \<open>None\<close>.  FastAPI then serializes the value as a
  \<open>PurchaseOrderResponse\<close>, while the session is open.\<close>

definition create_purchase_order :: "api_env \<Rightarrow> PurchaseOrderCreate \<Rightarrow> PurchaseOrderResponse option task" where
  "create_purchase_order env body =
     bind (for_loop (\<lambda>d acc. bind (fetch (\<lambda>_. po_line_of env d)) (\<lambda>l. ret (acc @ [l]))) (poc_lines body) []) (\<lambda>ls.
     bind (create_po (poc_supplier body) (poc_warehouse body) ls) (\<lambda>_. ret None))"

definition create_purchase_order_route ::
  "api_env \<Rightarrow> auth_db \<Rightarrow> headers \<Rightarrow> PurchaseOrderCreate \<Rightarrow> PurchaseOrderResponse task" where
  "create_purchase_order_route env db h body = guarded env db h operators
     (bind (create_purchase_order env body) (\<lambda>r. fetch (\<lambda>_. ap_serialize env r)))"

definition list_purchase_orders_route :: "api_env \<Rightarrow> auth_db \<Rightarrow> headers \<Rightarrow> uuid option \<Rightarrow> PurchaseOrderResponse list task" where
  "list_purchase_orders_route env db h w = guarded env db h everyone
     (bind (case w of Some w \<Rightarrow> bind (list_open_for_warehouse w) (\<lambda>ps. ret (map fst ps)) | None \<Rightarrow> list_pending_receipt 50) (\<lambda>ps.
      ret (map PurchaseOrderResponse_of ps)))"

definition submit_purchase_order_route :: "api_env \<Rightarrow> auth_db \<Rightarrow> headers \<Rightarrow> uuid \<Rightarrow> (uuid \<times> uuid \<times> string) task" where
  "submit_purchase_order_route env db h i = guarded env db h admin_only
     (bind (submit_purchase_order i) (\<lambda>i. bind (get_by_id_or_raise po_id pos i) (\<lambda>po.
      ret (po_id po, po_number po, po_status po))))"

definition receive_purchase_order_route :: "api_env \<Rightarrow> auth_db \<Rightarrow> headers \<Rightarrow> uuid \<Rightarrow> ReceivingRequest \<Rightarrow> ReceiveResponse task" where
  "receive_purchase_order_route env db h i body = guarded env db h operators
     (bind (raise_if (rq_po body \<noteq> i) (HTTPException 409)) (\<lambda>_.
      bind (service_receive_po i (rq_wh body) (map receiving_line (rq_receiving_lines body))) (\<lambda>r.
      ret (receive_response r))))"

section \<open>Optimization, audit, users and the dashboard\<close>

definition run_optimization_route :: "api_env \<Rightarrow> auth_db \<Rightarrow> headers \<Rightarrow> OptimizationRequest \<Rightarrow> OptimizationResponse task" where
  "run_optimization_route env db h body = guarded env db h admin_only (with_domain_errors
     (bind (optimize (ap_num env) \<lparr>oi_reference_type = opr_reference_type body, oi_reference_id = opr_reference_id body,
        oi_objective = opr_objective body, oi_constraints = opr_constraints body, oi_parameters = opr_parameters body\<rparr>) (\<lambda>r.
      ret \<lparr>opt_run = or_run r, opt_objective = or_objective r, opt_feasible = or_feasible r, opt_solution = or_solution r\<rparr>)))"

definition get_audit_trail_route :: "api_env \<Rightarrow> auth_db \<Rightarrow> headers \<Rightarrow> string \<Rightarrow> uuid \<Rightarrow> AuditEntryResponse list task" where
  "get_audit_trail_route env db h ty i = guarded env db h [''admin'', ''auditor'']
     (bind (get_entity_history ty i 100) (\<lambda>es. ret (map AuditEntryResponse_of es)))"

definition token_route :: "api_env \<Rightarrow> auth_db \<Rightarrow> TokenRequest \<Rightarrow> TokenResponse task" where
  "token_route env db body = issue_token (ap_auth env) db body"

definition me_route :: "api_env \<Rightarrow> auth_db \<Rightarrow> headers \<Rightarrow> MeResponse task" where
  "me_route env db h = guarded env db h everyone (get_current_user (ap_auth env) db (hd_authorization h))"

definition health_route :: "api_env \<Rightarrow> HealthResponse task" where
  "health_route env = ret \<lparr>hr_status = ''healthy'', hr_version = ''2.14.3'', hr_environment = ap_environment env\<rparr>"

definition activity_row :: "AuditEntry \<Rightarrow> ActivityRow" where
  "activity_row e = \<lparr>act_id = au_id e, act_entity_type = au_entity_type e, act_entity_id = au_entity_id e,
     act_action = au_action e, act_timestamp = au_timestamp e, act_actor = au_actor e, act_is_override = au_is_override e\<rparr>"

definition dashboard_kpis :: "DashboardKpisResponse task" where
  "dashboard_kpis = bind (reads (\<lambda>s. select_sum on_hand (\<lambda>_. True) (balances s))) (\<lambda>total.
     bind (reads (\<lambda>s. length (select_where (\<lambda>ord. ord_status ord \<notin> {''delivered'', ''cancelled''}) (orders s)))) (\<lambda>active.
     bind list_below_reorder_point (\<lambda>low.
     bind (reads (\<lambda>s. take 10 (select_ordered (\<lambda>e. - au_timestamp e) (\<lambda>_. True) (audits s)))) (\<lambda>recent.
     ret \<lparr>kpi_on_hand = total, kpi_active_orders = int active, kpi_low_stock = int (length low),
          kpi_activity = map activity_row recent\<rparr>))))"

definition dashboard_kpis_route :: "api_env \<Rightarrow> auth_db \<Rightarrow> headers \<Rightarrow> DashboardKpisResponse task" where
  "dashboard_kpis_route env db h = guarded env db h everyone dashboard_kpis"

section \<open>The event stream of the dashboard\<close>

text \<open>
  The outcome of opening the web socket: closed with 1008, ended by an exception, or accepted.
  \<open>set_actor_id\<close> is not imported by \<open>routes.py\<close>: calling it raises a \<open>NameError\<close>.
\<close>

datatype stream_outcome = Policy_violation | Name_error | Type_error | Accepted

fun remove_all :: "nat \<Rightarrow> string \<Rightarrow> string \<Rightarrow> string" where
  "remove_all 0 p s = s"
| "remove_all (Suc n) p [] = []"
| "remove_all (Suc n) p (c # s) = (if take (length p) (c # s) = p then remove_all n p (drop (length p) (c # s))
     else c # remove_all n p s)"

definition stream_token :: "string option \<Rightarrow> string option \<Rightarrow> string" where
  "stream_token query auth = (let a = (case auth of None \<Rightarrow> [] | Some x \<Rightarrow> remove_all (length x) ''Bearer '' x) in
     case query of None \<Rightarrow> a | Some q \<Rightarrow> if q = [] then a else q)"

text \<open>\<open>set(payload.get("roles") or [])\<close> as the strings in it; \<open>None\<close> when the value cannot be iterated or
  holds an unhashable one.\<close>

definition unhashable :: "json \<Rightarrow> bool" where
  "unhashable v = (case v of JArr _ \<Rightarrow> True | JObj _ \<Rightarrow> True | _ \<Rightarrow> False)"

definition claimed_roles :: "json \<Rightarrow> string list option" where
  "claimed_roles v = (if \<not> truthy v then Some [] else case v of
     JArr xs \<Rightarrow> if list_ex unhashable xs then None else Some (List.map_filter (\<lambda>x. case x of JStr r \<Rightarrow> Some r | _ \<Rightarrow> None) xs)
   | JObj d \<Rightarrow> Some (map fst d) | JStr r \<Rightarrow> Some (map (\<lambda>c. [c]) r) | JUuid _ \<Rightarrow> Some [] | _ \<Rightarrow> None)"

definition dashboard_stream :: "api_env \<Rightarrow> instant \<Rightarrow> string option \<Rightarrow> string option \<Rightarrow> stream_outcome" where
  "dashboard_stream env n query auth = (let token = stream_token query auth in
     if token = [] then Policy_violation
     else case ae_decode (ap_auth env) n token of None \<Rightarrow> Policy_violation | Some payload \<Rightarrow>
       if \<not> truthy (dict_get payload ''sub'' JNull) then Policy_violation
       else if truthy (dict_get payload ''username'' JNull) then Name_error
       else case claimed_roles (dict_get payload ''roles'' JNull) of None \<Rightarrow> Type_error
         | Some rs \<Rightarrow> if list_ex (\<lambda>r. r \<in> set everyone) rs then Accepted else Policy_violation)"

text \<open>One answer of \<open>xread\<close>: the id to read from next and the events sent.  \<open>loads\<close> is \<open>json.loads\<close>
  on a document the event bus has written.\<close>

definition forward_entries ::
  "(string \<Rightarrow> json) \<Rightarrow> string \<Rightarrow> (string \<times> (string \<times> string) list) list \<Rightarrow> string \<times> json list" where
  "forward_entries loads last_id entries = fold (\<lambda>(entry_id, entry) (_, sent).
     (entry_id, case map_of entry ''data'' of None \<Rightarrow> sent | Some raw \<Rightarrow> if raw = [] then sent
        else sent @ [JObj [(''type'', JStr ''event''), (''event'', loads raw)]])) entries (last_id, [])"

section \<open>Cancelling an order\<close>

lemma filter_map_same:
  "(\<And>x. x \<in> set xs \<Longrightarrow> P (h x) = P x \<and> (P x \<longrightarrow> h x = x)) \<Longrightarrow> filter P (map h xs) = filter P xs"
  by (induction xs) auto

text \<open>What the release leaves alone: the reservations of other orders and the confirmed ones.\<close>

definition kept :: "uuid \<Rightarrow> session \<Rightarrow> InventoryReservation list" where
  "kept i s = filter (\<lambda>r. res_order r \<noteq> i \<or> res_status r = ''confirmed'') (lives (reservations s))"

definition holds :: "uuid \<Rightarrow> InventoryReservation \<Rightarrow> bool" where
  "holds i r \<longleftrightarrow> res_order r = i \<and> res_status r = ''active''"

definition releasing :: "uuid \<Rightarrow> InventoryReservation list \<Rightarrow> InventoryReservation list \<Rightarrow> session \<Rightarrow> bool" where
  "releasing i ks rs s \<longleftrightarrow> pending_release rs s \<and> list_all (holds i) rs \<and> kept i s = ks \<and>
     (\<forall>r \<in> set (lives (reservations s)). holds i r \<longrightarrow> r \<in> set rs)"

lemma release_single_releasing:
  assumes "releasing i ks (r # rs) s"
  obtains t where "release_single_reservation r s = (Inr (), t)" and "releasing i ks rs t"
proof -
  from assms have P: "pending_release (r # rs) s" and r: "holds i r" by (simp_all add: releasing_def)
  from release_single_pending_app [OF P] obtain t where t: "release_single_reservation r s = (Inr (), t)"
    "pending_release rs t" "reservations t = upd_row res_id (res_id r) (\<lambda>r. r\<lparr>res_status := ''released''\<rparr>) (reservations s)" .
  have same: "x = r" if "x \<in> set (lives (reservations s))" "res_id x = res_id r" for x
    using that P by (auto simp: pending_release_def ledger_def tables_ok_def distinct_map inj_on_def)
  have "kept i t = kept i s"
    using r unfolding kept_def t(3) lives_simps upd_list_def
    by (intro filter_map_same) (auto simp: holds_def dest: same)
  then have "releasing i ks rs t"
    using assms t by (auto simp: releasing_def holds_def elim!: in_upd_listE)
  with t(1) show ?thesis using that by blast
qed

lemma release_loop_releasing:
  "releasing i ks rs s \<Longrightarrow> \<exists>n t. for_loop (\<lambda>r released. bind (release_single_reservation r) (\<lambda>_. ret (released + res_quantity r)))
     rs m s = (Inr n, t) \<and> releasing i ks [] t"
proof (induction rs arbitrary: m s)
  case (Cons r rs)
  from release_single_releasing [OF Cons.prems] obtain t where
    "release_single_reservation r s = (Inr (), t)" and t: "releasing i ks rs t" .
  moreover note Cons.IH [OF t, of "m + res_quantity r"]
  ultimately show ?case by (simp add: bind_def)
qed simp

lemma release_reservations_releasing:
  assumes "ledger s" and "clean (reservations s)"
  shows "\<exists>n t. release_reservations i s = (Inr n, t) \<and> releasing i (kept i s) [] t"
proof -
  let ?P = "\<lambda>r. res_order r = i \<and> res_status r = ''active''"
  have "pending_release (select_where ?P (reservations s)) s" by (rule select_active_pending [OF assms]) simp
  then have "releasing i (kept i s) (select_where ?P (reservations s)) s"
    by (auto simp: releasing_def holds_def clean_select_where [OF assms(2)] list_all_iff)
  from release_loop_releasing [OF this] show ?thesis
    by (simp add: release_reservations_def get_active_for_order_def)
qed

text \<open>The status and the audit entry do not touch the stock.\<close>

lemma releasing_frame:
  "releasing i ks [] s \<Longrightarrow> reservations t = reservations s \<Longrightarrow> balances t = balances s \<Longrightarrow> next_uuid s \<le> next_uuid t \<Longrightarrow>
     releasing i ks [] t"
  by (force simp: releasing_def pending_release_def kept_def ledger_def tables_ok_def bins_synced_def active_qty_def reserved_qty_def)

lemma releasing_flush: "releasing i ks [] s \<Longrightarrow> releasing i ks [] (flush s)"
  by (simp add: releasing_def pending_release_def kept_def ledger_def tables_ok_def active_qty_def reserved_qty_def)

lemma release_reservations_orders: "preserves (\<lambda>s. orders s = X) (release_reservations i)"
  unfolding release_reservations_def get_active_for_order_def release_single_reservation_def get_balance_def set_obj_def
  by (intro hoare_rules preserves_modify) (auto intro: hoare_rules preserves_modify split: option.split)

definition set_cancelled :: "uuid \<Rightarrow> session \<Rightarrow> session" where
  "set_cancelled i s = orders_update (upd_row ord_id i (\<lambda>x. x\<lparr>ord_status := ''cancelled''\<rparr>)) s"

lemma audit_record_frame:
  "\<exists>e t. audit_record ty i a b f m s = (Inr e, t) \<and> reservations t = flush_table (reservations s) \<and>
     balances t = flush_table (balances s) \<and> lives (orders t) = lives (orders s) \<and> next_uuid s \<le> next_uuid t"
  by (auto simp: audit_record_def add_def session_add_def op_defs)

lemma cancel_order_app:
  assumes "ledger s" and C: "clean_session s" and f: "filter (\<lambda>ord. ord_id ord = i) (lives (orders s)) = [ord]"
    and st: "ord_status ord \<notin> {''cancelled'', ''shipped'', ''delivered''}"
  shows "\<exists>t. cancel_order i s = (Inr (i, ''cancelled''), t) \<and> releasing i (kept i s) [] t \<and>
    lives (orders t) = upd_list ord_id i (\<lambda>x. x\<lparr>ord_status := ''cancelled''\<rparr>) (lives (orders s))"
proof -
  have i: "ord_id ord = i" using f by (auto simp: filter_eq_Cons_iff)
  obtain ls where g: "order_or_404 i s = (Inr (ord, ls), s)"
    using f st by (simp add: order_or_404_def get_order_with_lines_def fetch_def bind_def clean_select_where
        clean_tables [OF C] scalar_one_or_none_def raise_if_def ret_def)
  obtain n u where r: "release_reservations i s = (Inr n, u)" "releasing i (kept i s) [] u"
    using release_reservations_releasing [OF assms(1)] clean_tables [OF C] by blast
  have os: "orders u = orders s" using preserves_ok [OF release_reservations_orders _ r(1)] by simp
  define v where "v = set_cancelled i u"
  obtain e t where a: "audit_record ''order'' i ''cancelled'' (Some [(''status'', JStr (ord_status ord))])
      (Some [(''status'', JStr ''cancelled'')]) (Some [(''released_reservations_for_order'', JUuid i)]) v = (Inr e, t)"
    and t: "reservations t = flush_table (reservations v)" "balances t = flush_table (balances v)"
      "lives (orders t) = lives (orders v)" "next_uuid v \<le> next_uuid t"
    using audit_record_frame by blast
  have "releasing i (kept i s) [] (flush v)"
    by (rule releasing_flush, rule releasing_frame [OF r(2)]) (simp_all add: v_def set_cancelled_def)
  then have "releasing i (kept i s) [] t"
    by (rule releasing_frame) (use t in simp_all)
  moreover have "cancel_order i s = (Inr (i, ''cancelled''), t)"
    using g r(1) a by (simp add: cancel_order_def bind_def put_order_def set_obj_def modify_def i v_def set_cancelled_def ret_def)
  ultimately show ?thesis using t(3) os by (simp add: v_def set_cancelled_def)
qed

text \<open>C9: Cancelling an order of a consistent committed database: an unknown order is answered with
  404, one already cancelled, shipped or delivered with 409, and neither changes anything.  Any
  other order ends up cancelled with none of its reservations active and with reservations and
  balances in agreement, while the reservations of other orders, and its own confirmed ones, stay
  as they were.\<close>

theorem cancel_order_outcome:
  assumes "ledger s" and "clean_session s"
  shows "case filter (\<lambda>ord. ord_id ord = i) (lives (orders s)) of
      [] \<Rightarrow> run_request (cancel_order i) s = (Inl (HTTPException 404), s)
    | [ord] \<Rightarrow> if ord_status ord \<in> {''cancelled'', ''shipped'', ''delivered''}
        then run_request (cancel_order i) s = (Inl (HTTPException 409), s)
        else \<exists>t. run_request (cancel_order i) s = (Inr (i, ''cancelled''), t) \<and> ledger t \<and>
          \<not> list_ex (holds i) (lives (reservations t)) \<and> kept i t = kept i s \<and>
          lives (orders t) = upd_list ord_id i (\<lambda>x. x\<lparr>ord_status := ''cancelled''\<rparr>) (lives (orders s))
    | _ \<Rightarrow> run_request (cancel_order i) s = (Inl MultipleResultsFound, s)"
proof -
  have c: "clean (orders s)" by (rule clean_tables [OF assms(2)])
  note early = cancel_order_def order_or_404_def get_order_with_lines_def fetch_def bind_def clean_select_where [OF c]
    scalar_one_or_none_def raise_if_def raise_def run_request_def
  show ?thesis
  proof (cases "filter (\<lambda>ord. ord_id ord = i) (lives (orders s))")
    case Nil
    then show ?thesis by (simp add: early)
  next
    case (Cons ord rest)
    show ?thesis
    proof (cases rest)
      case Nil
      show ?thesis
      proof (cases "ord_status ord \<in> {''cancelled'', ''shipped'', ''delivered''}")
        case True
        with Cons Nil show ?thesis by (simp add: early)
      next
        case False
        from cancel_order_app [OF assms Cons [unfolded Nil] False] obtain t where
          t: "cancel_order i s = (Inr (i, ''cancelled''), t)" "releasing i (kept i s) [] t"
          "lives (orders t) = upd_list ord_id i (\<lambda>x. x\<lparr>ord_status := ''cancelled''\<rparr>) (lives (orders s))" by blast
        from releasing_flush [OF t(2)] have "ledger (flush t) \<and> \<not> list_ex (holds i) (lives (reservations (flush t))) \<and>
            kept i (flush t) = kept i s"
          by (auto simp: releasing_def pending_release_def list_ex_iff)
        with t(1,3) False Cons Nil show ?thesis by (simp add: run_request_def)
      qed
    next
      case (Cons a list)
      with \<open>filter _ _ = ord # rest\<close> show ?thesis by (simp add: early)
    qed
  qed
qed

definition demo_cancel :: session where
  "demo_cancel = demo_reserved\<lparr>orders := [Cell (Some (demo_order\<lparr>ord_id := 20\<rparr>)) (demo_order\<lparr>ord_id := 20\<rparr>)]\<rparr>"

lemma demo_cancel_ok: "ledger demo_cancel" "clean_session demo_cancel"
  by (simp_all add: demo_cancel_def ledger_def tables_ok_def bins_synced_def active_qty_def reserved_qty_def
      active_at_def demo_reserved_def demo_session_def demo_balance_def empty_session_def lives_def
      bin_key_def clean_session_def flush_def flush_table_def)

theorem cancel_order_outcome_witness:
  "\<exists>t. run_request (cancel_order 20) demo_cancel = (Inr (20, ''cancelled''), t) \<and> ledger t \<and>
     \<not> list_ex (holds 20) (lives (reservations t)) \<and> map res_id (kept 20 t) = [7]"
proof -
  have f: "filter (\<lambda>ord. ord_id ord = 20) (lives (orders demo_cancel)) = [demo_order\<lparr>ord_id := 20\<rparr>]"
    by (simp add: demo_cancel_def lives_def)
  have k: "map res_id (kept 20 demo_cancel) = [7]" by code_simp
  show ?thesis using cancel_order_outcome [OF demo_cancel_ok, of 20] k
    by (auto simp: f demo_order_def)
qed

section \<open>Endpoints that never succeed\<close>

lemma create_purchase_order_returns_nothing:
  "create_purchase_order env body s = (Inr r, t) \<Longrightarrow> r = None"
  unfolding create_purchase_order_def by (auto elim!: bind_InrE simp: ret_def)

text \<open>C40: No client can create a purchase order: the handler returns nothing, so every request, whoever
  sends it and whatever it carries, ends in an error and leaves the database as it was.  The
  hypothesis is what FastAPI documents: a value that is not a response of the declared model raises.\<close>

theorem purchase_order_never_created:
  assumes "\<exists>e. ap_serialize env None = Inl e"
  shows "\<exists>e. run_request (create_purchase_order_route env db h body) s = (Inl e, s)"
proof -
  have "create_purchase_order_route env db h body s \<noteq> (Inr r, t)" for r t
    unfolding create_purchase_order_route_def guarded_def
    using assms by (auto elim!: bind_InrE dest!: create_purchase_order_returns_nothing simp: fetch_def)
  then show ?thesis
    by (cases "create_purchase_order_route env db h body s"; cases "fst (create_purchase_order_route env db h body s)")
      (auto simp: run_request_def)
qed

definition demo_api_env :: "auth_env \<Rightarrow> api_env" where
  "demo_api_env auth = \<lparr>ap_auth = auth, ap_cfg = default_settings, ap_environment = ''development'',
     ap_distance = (\<lambda>_ _ _ _. 0), ap_tour = (\<lambda>_ _. None), ap_parse = (\<lambda>_. None), ap_math = \<lparr>me_sqrt = id, me_repr = id\<rparr>,
     ap_num = \<lparr>ne_weights = (\<lambda>_. []), ne_std = (\<lambda>_. 0), ne_sum = (\<lambda>_. 0), ne_elapsed_ms = 0, ne_uuid = (\<lambda>_. Inl PyValueError)\<rparr>,
     ap_so = id, ap_uuid = (\<lambda>_. Inl PyValueError), ap_dec = (\<lambda>_. Inr 0), ap_str_dec = (\<lambda>_. ''0''), ap_ilike = (\<lambda>_ _. True),
     ap_collation = (\<lambda>_. 0), ap_serialize = (\<lambda>r. case r of None \<Rightarrow> Inl PyValueError | Some x \<Rightarrow> Inr x)\<rparr>"

text \<open>The administrator's request passes the role check, creates the order in the session, and fails.\<close>

definition demo_headers :: headers where
  "demo_headers = \<lparr>hd_authorization = Some ''T'', hd_correlation = None\<rparr>"

lemma demo_create_order:
  "fst (create_purchase_order (demo_api_env demo_auth_env) \<lparr>poc_supplier = 1, poc_warehouse = 1, poc_lines = []\<rparr> empty_session) = Inr None"
  "permitted demo_auth_db operators 1"
  by code_simp+

theorem purchase_order_never_created_witness:
  "\<exists>e. run_request (create_purchase_order_route (demo_api_env demo_auth_env) demo_auth_db demo_headers
     \<lparr>poc_supplier = 1, poc_warehouse = 1, poc_lines = []\<rparr>) empty_session = (Inl e, empty_session)"
  by (rule purchase_order_never_created) (simp add: demo_api_env_def)

text \<open>The event stream accepts no token that \<open>issue_token\<close> issues to a user with a name.\<close>

lemma issued_token_crashes_stream:
  assumes "ae_decode (ap_auth env) n token = Some (token_payload m i name rs)" and "name \<noteq> []" and "token \<noteq> []"
  shows "dashboard_stream env n (Some token) auth = Name_error"
  using assms by (simp add: dashboard_stream_def stream_token_def token_payload_def dict_get_def)

end
