(* ===== verification/ApiStock.thy ===== *)
theory ApiStock
  imports Routes
begin

text \<open>
  The stock invariant over the API: whatever sequence of requests reaches the endpoints that
  allocate, reserve, cancel and reconcile, from whomever, reservations and balances agree.
\<close>

section \<open>Handlers that keep the stock consistent when they return\<close>

definition stock_safe :: "'a task \<Rightarrow> bool" where
  "stock_safe m \<longleftrightarrow> (\<forall>s x t. stock_inv s \<and> clean_session s \<and> m s = (Inr x, t) \<longrightarrow> stock_inv t)"

lemma stock_safeI: "(\<And>s x t. stock_inv s \<Longrightarrow> clean_session s \<Longrightarrow> m s = (Inr x, t) \<Longrightarrow> stock_inv t) \<Longrightarrow> stock_safe m"
  by (auto simp: stock_safe_def)

lemma stock_safeD: "stock_safe m \<Longrightarrow> stock_inv s \<Longrightarrow> clean_session s \<Longrightarrow> m s = (Inr x, t) \<Longrightarrow> stock_inv t"
  by (auto simp: stock_safe_def)

lemma stock_inv_frame:
  "stock_inv s \<Longrightarrow> lives (balances t) = lives (balances s) \<Longrightarrow> lives (reservations t) = lives (reservations s) \<Longrightarrow>
     bins_synced t \<Longrightarrow> next_uuid s \<le> next_uuid t \<Longrightarrow> stock_inv t"
  by (force simp: stock_inv_def ledger_def tables_ok_def active_qty_def reserved_qty_def stock_ok_def all_bal_ok_def
      distinct_balances_def)

lemma stock_inv_synced: "stock_inv s \<Longrightarrow> bins_synced s"
  by (simp add: stock_inv_def ledger_def tables_ok_def)

lemma stock_inv_untouched:
  "stock_inv s \<Longrightarrow> balances t = balances s \<Longrightarrow> reservations t = reservations s \<Longrightarrow> next_uuid s \<le> next_uuid t \<Longrightarrow> stock_inv t"
  using stock_inv_synced [of s] by (auto intro: stock_inv_frame simp: bins_synced_def)

text \<open>The dependencies change the context and draw UUIDs.\<close>

lemma clean_session_context:
  "clean_session s \<Longrightarrow> clean_session (s\<lparr>ctx_actor := a\<rparr>)"
  "clean_session s \<Longrightarrow> clean_session (s\<lparr>ctx_correlation := c\<rparr>)"
  "clean_session s \<Longrightarrow> clean_session (s\<lparr>next_uuid := i\<rparr>)"
  unfolding clean_session_def flush_def by (cases s; simp)+

lemma stock_inv_context':
  "stock_inv s \<Longrightarrow> stock_inv (s\<lparr>ctx_actor := a\<rparr>)"
  "stock_inv s \<Longrightarrow> stock_inv (s\<lparr>ctx_correlation := c\<rparr>)"
  "stock_inv s \<Longrightarrow> stock_inv (s\<lparr>next_uuid := Suc (next_uuid s)\<rparr>)"
  by (erule stock_inv_untouched; simp)+

lemma require_roles_run:
  assumes "require_roles env db roles h s = (Inr me, t)"
  shows "\<exists>a. t = s\<lparr>ctx_actor := Some a\<rparr>"
proof (cases "authenticated env db (now s) h")
  case None
  with get_current_user_fails [OF None] assms show ?thesis by (auto simp: require_roles_def bind_def)
next
  case (Some iu)
  then obtain i u where "authenticated env db (now s) h = Some (i, u)" by (cases iu) auto
  from get_current_user_ok [OF this] assms show ?thesis
    by (auto simp: require_roles_def bind_def ret_def raise_def split: if_splits)
qed

lemma stock_safe_guarded: "stock_safe m \<Longrightarrow> stock_safe (guarded env db h roles m)"
  unfolding guarded_def
  by (rule stock_safeI, elim bind_InrE)
    (auto dest!: require_roles_run intro: stock_safeD stock_inv_context'(1) clean_session_context(1))

lemma correlation_run:
  assumes "correlation_id_middleware env h s = (Inr x, t)"
  obtains c u where "t = u\<lparr>ctx_correlation := c\<rparr>" and "u = s \<or> u = s\<lparr>next_uuid := Suc (next_uuid s)\<rparr>"
  using assms by (auto simp: correlation_id_middleware_def or_fresh_id_def set_correlation_id_def bind_def ret_def modify_def
      split: option.splits if_splits)

lemma stock_safe_traced:
  assumes "stock_safe m"
  shows "stock_safe (traced env h m)"
proof (rule stock_safeI)
  fix s x t assume s: "stock_inv s" "clean_session s" and "traced env h m s = (Inr x, t)"
  then obtain v y where v: "correlation_id_middleware env (hd_correlation h) s = (Inr y, v)" and m: "m v = (Inr x, t)"
    unfolding traced_def by (auto elim!: bind_InrE)
  from v obtain c u where "v = u\<lparr>ctx_correlation := c\<rparr>" and "u = s \<or> u = s\<lparr>next_uuid := Suc (next_uuid s)\<rparr>"
    by (rule correlation_run)
  moreover from this have "stock_inv u \<and> clean_session u"
    using s stock_inv_context'(3) clean_session_context(3) by blast
  ultimately have "stock_inv v" and "clean_session v"
    using stock_inv_context'(2) clean_session_context(2) by blast+
  with assms m show "stock_inv t" by (blast intro: stock_safeD)
qed

lemma stock_safe_valid_body: "stock_safe m \<Longrightarrow> stock_safe (valid_body ok m)"
  by (auto simp: stock_safe_def valid_body_def raise_if_def bind_def ret_def raise_def split: if_splits)

lemma stock_safe_with_domain_errors: "stock_safe m \<Longrightarrow> stock_safe (with_domain_errors m)"
  by (fastforce simp: stock_safe_def with_domain_errors_def try_except_def raise_def split: prod.splits sum.splits option.splits)

lemma stock_safe_map: "stock_safe m \<Longrightarrow> stock_safe (bind m (\<lambda>x. ret (f x)))"
  by (auto simp: stock_safe_def bind_def ret_def split: prod.splits sum.splits)

section \<open>The handlers\<close>

lemma allocate_stock_inv: "stock_inv s \<Longrightarrow> allocate req s = (Inr r, t) \<Longrightarrow> stock_inv t"
  using hoare_ok [OF allocate_ledger] preserves_ok [OF allocate_stock_ok] by (auto simp: stock_inv_def)

lemma for_loop_ret: "for_loop (\<lambda>x _. ret ()) xs () = ret ()"
  by (induction xs) (auto simp: bind_def ret_def)

lemma stock_safe_allocate: "stock_safe (uncached (allocate_for_order_line None None req))"
proof -
  have "uncached (allocate_for_order_line None None req) s = allocate req s" for s :: session
    by (cases "allocate req s"; cases "fst (allocate req s)")
      (simp_all add: uncached_def allocate_for_order_line_def on_session_def with_cache_def bind_def ret_def
        case_prod_unfold for_loop_ret [unfolded ret_def])
  then show ?thesis by (auto simp: stock_safe_def intro: allocate_stock_inv)
qed

lemma stock_safe_reconcile: "stock_safe (service_reconcile so w)"
  by (auto simp: stock_safe_def service_reconcile_def reconcile_warehouse_app Let_def)

lemma put_line_stock: "preserves stock_inv (put_line i f)"
  unfolding put_line_def set_obj_def
  by (intro preserves_modify) (erule stock_inv_untouched; simp)

lemma put_order_stock: "preserves stock_inv (put_order i f)"
  unfolding put_order_def set_obj_def
  by (intro preserves_modify) (erule stock_inv_untouched; simp)

lemma audit_stock: "preserves stock_inv (audit_record ty i a b f m)"
  by (rule preserves_audit_record)
    (erule stock_inv_untouched stock_inv_flush; simp)+

lemma reserve_line_stock: "hoare stock_inv (reserve_line ord l) (\<lambda>_. stock_inv) (\<lambda>_ _. True)"
proof (rule hoareI)
  fix s x t assume "stock_inv s" and "reserve_line ord l s = (Inr x, t)"
  then show "stock_inv t"
    by (auto simp: reserve_line_def Let_def split: if_splits elim!: bind_InrE
        dest: allocate_stock_inv intro: preserves_ok [OF put_line_stock])
qed simp

lemma reserve_order_stock: "stock_safe (reserve_order i)"
proof (rule stock_safeI)
  fix s x t assume I: "stock_inv s" and run: "reserve_order i s = (Inr x, t)"
  have loop: "hoare stock_inv (for_loop (\<lambda>l _. reserve_line ord l) ls ()) (\<lambda>_. stock_inv) (\<lambda>_ _. True)" for ord ls
    by (rule hoare_for_loop) (rule reserve_line_stock)
  have "order_or_404 i s = (Inr r, u) \<Longrightarrow> u = s" for r u
    by (auto simp: order_or_404_def get_order_with_lines_def raise_if_def ret_def raise_def fetch_def elim!: bind_InrE
        split: option.splits if_splits)
  with run obtain ord ls u st v e w where "for_loop (\<lambda>l _. reserve_line ord l) ls () s = (Inr (), u)"
    and v: "put_order (ord_id ord) (\<lambda>x. x\<lparr>ord_status := st\<rparr>) u = (Inr (), v)"
    and w: "audit_record ''order'' (ord_id ord) ''reserved'' None (Some [(''status'', JStr st)]) None v = (Inr e, t)"
    by (fastforce simp: reserve_order_def Let_def ret_def elim!: bind_InrE)
  from hoare_ok [OF loop I this(1)] have "stock_inv u" .
  from preserves_ok [OF put_order_stock this v] have "stock_inv v" .
  from preserves_ok [OF audit_stock this w] show "stock_inv t" .
qed

lemma release_reservations_stock:
  assumes "stock_inv s" and "release_reservations i s = (Inr n, t)"
  shows "stock_ok t"
proof -
  have pos: "\<forall>r \<in> set (select_where P (reservations s)). 0 < res_quantity r" for P
    using assms(1) in_select_where [of _ P "reservations s"]
    by (auto simp: stock_inv_def ledger_def tables_ok_def)
  have "stock_ok s" using assms(1) by (simp add: stock_inv_def)
  with assms(2) preserves_ok [OF stock_ok_release_loop(1) [OF pos]] show ?thesis
    by (simp add: release_reservations_def get_active_for_order_def)
qed

lemma order_or_404_same: "order_or_404 i s = (Inr r, u) \<Longrightarrow> u = s"
  by (auto simp: order_or_404_def get_order_with_lines_def raise_if_def ret_def raise_def fetch_def elim!: bind_InrE
      split: option.splits if_splits)

lemma cancel_order_stock: "stock_safe (cancel_order i)"
proof (rule stock_safeI)
  fix s x t assume I: "stock_inv s" and C: "clean_session s" and run: "cancel_order i s = (Inr x, t)"
  obtain ord ls where "order_or_404 i s = (Inr (ord, ls), s)"
    using run order_or_404_same unfolding cancel_order_def by (elim bind_InrE) (metis prod.exhaust)
  with run obtain n u v e where u: "release_reservations i s = (Inr n, u)"
    and v: "put_order (ord_id ord) (\<lambda>x. x\<lparr>ord_status := ''cancelled''\<rparr>) u = (Inr (), v)"
    and w: "audit_record ''order'' (ord_id ord) ''cancelled'' (Some [(''status'', JStr (ord_status ord))])
      (Some [(''status'', JStr ''cancelled'')]) (Some [(''released_reservations_for_order'', JUuid i)]) v = (Inr e, t)"
    unfolding cancel_order_def by (auto simp: ret_def elim!: bind_InrE)
  have "ledger s" using I by (simp add: stock_inv_def)
  from release_reservations_ledger [OF this clean_tables(2) [OF C], of i] u
  have "stock_inv u" using release_reservations_stock [OF I u] by (auto simp: stock_inv_def)
  from preserves_ok [OF put_order_stock this v] have "stock_inv v" .
  from preserves_ok [OF audit_stock this w] show "stock_inv t" .
qed

section \<open>Sequences of requests\<close>

datatype api_stock_call =
    Post_allocate headers AllocationRequestSchema
  | Post_reserve headers uuid
  | Post_cancel headers uuid
  | Post_reconcile headers uuid

primrec api_perform :: "api_env \<Rightarrow> auth_db \<Rightarrow> api_stock_call \<Rightarrow> unit task" where
  "api_perform env db (Post_allocate h body) = as_request (allocate_inventory_route env db h body)"
| "api_perform env db (Post_reserve h i) = as_request (reserve_order_route env db h i)"
| "api_perform env db (Post_cancel h i) = as_request (cancel_order_route env db h i)"
| "api_perform env db (Post_reconcile h w) = as_request (reconcile_inventory_route env db h w)"

definition api_stock_requests :: "api_env \<Rightarrow> auth_db \<Rightarrow> unit task set" where
  "api_stock_requests env db = {api_perform env db c |c. True}"

lemma stock_safe_as_request: "stock_safe m \<Longrightarrow> stock_safe (as_request m)"
  unfolding as_request_def by (rule stock_safe_map)

lemma api_perform_safe: "stock_safe (api_perform env db c)"
  by (cases c) (simp_all add: allocate_inventory_route_def reserve_order_route_def cancel_order_route_def
      reconcile_inventory_route_def stock_safe_as_request stock_safe_guarded stock_safe_traced stock_safe_valid_body
      stock_safe_with_domain_errors stock_safe_map stock_safe_allocate reserve_order_stock cancel_order_stock
      stock_safe_reconcile)

interpretation api_stock: transactional stock_inv "api_stock_requests env db" for env db
  by unfold_locales
    (auto simp: api_stock_requests_def intro: stock_inv_flush stock_inv_context stock_safeD [OF api_perform_safe])

text \<open>C2: The stock promise holds over the API: after any sequence of requests to the endpoints that
  allocate, reserve an order, cancel an order and reconcile, by whatever clients, admitted or not,
  with whatever bodies, failed requests included, the active reservations of a warehouse and SKU add
  up to the reserved amount of its bin-less balance, and no balance is committed beyond what is on
  hand.\<close>

theorem api_never_oversells:
  assumes "clean_session s0" and "stock_inv s0" and "reachable (api_stock_requests env db) s0 s"
  shows "(\<forall>w k. active_qty w k s = reserved_qty w k s) \<and>
    (\<forall>b \<in> set (lives (balances s)). 0 \<le> reserved b \<and> 0 \<le> allocated b \<and>
       reserved b + allocated b + damaged b + quarantine b \<le> on_hand b)"
  using api_stock.reachable_inv [OF assms(3,1,2)]
  by (auto simp: stock_inv_def ledger_def stock_ok_def all_bal_ok_def bal_ok_def)

definition demo_cancelled_state :: session where
  "demo_cancelled_state =
     snd (run_request (api_perform (demo_api_env demo_auth_env) demo_auth_db (Post_cancel demo_headers 20)) demo_cancel)"

lemma demo_cancel_stock: "stock_inv demo_cancel"
  using demo_cancel_ok(1)
  by (simp add: stock_inv_def stock_ok_def all_bal_ok_def distinct_balances_def demo_cancel_def demo_reserved_def
      demo_session_def demo_balance_def empty_session_def lives_def bal_ok_def)

theorem api_never_oversells_witness:
  "(\<forall>w k. active_qty w k demo_cancelled_state = reserved_qty w k demo_cancelled_state) \<and>
   active_qty 1 3 demo_cancel = 7 \<and> active_qty 1 3 demo_cancelled_state = 3"
proof -
  have "reachable (api_stock_requests (demo_api_env demo_auth_env) demo_auth_db) demo_cancel demo_cancelled_state"
    unfolding demo_cancelled_state_def api_stock_requests_def by (intro reachable.intros) blast
  from api_never_oversells [OF demo_cancel_ok(2) demo_cancel_stock this]
  have "\<forall>w k. active_qty w k demo_cancelled_state = reserved_qty w k demo_cancelled_state" by blast
  moreover have "active_qty 1 3 demo_cancel = 7" "active_qty 1 3 demo_cancelled_state = 3" by code_simp+
  ultimately show ?thesis by blast
qed

end
