(* ===== verification/StockRoundtrip.thy ===== *)
theory StockRoundtrip
  imports ApiStock
begin

text \<open>
  Reserving and letting go.  \<open>shelf\<close> is what the balances say apart from the reserved amounts (and
  the version counters), \<open>kept i\<close> the reservations that a release of order \<open>i\<close> leaves alone.  Neither
  \<open>allocate\<close> nor a release changes them, and the ledger ties the reserved amounts to the
  reservations, so a release after an allocation, or a cancellation after a reservation, gives the
  stock back.
\<close>

section \<open>What stays\<close>

definition shelf :: "session \<Rightarrow> InventoryBalance list" where
  "shelf s = map (\<lambda>b. b\<lparr>reserved := 0, bal_version := 0\<rparr>) (lives (balances s))"

definition beside :: "uuid \<Rightarrow> InventoryReservation list \<Rightarrow> InventoryBalance list \<Rightarrow> session \<Rightarrow> bool" where
  "beside i ks sh s \<longleftrightarrow> kept i s = ks \<and> shelf s = sh"

text \<open>The quantity an order holds in active reservations, in all and of one SKU in one warehouse.\<close>

definition held :: "uuid \<Rightarrow> session \<Rightarrow> int" where
  "held i s = sum_list (map (\<lambda>r. if holds i r then res_quantity r else 0) (lives (reservations s)))"

definition held_at :: "uuid \<Rightarrow> uuid \<Rightarrow> uuid \<Rightarrow> session \<Rightarrow> int" where
  "held_at i w k s = sum_list (map (\<lambda>r. if holds i r \<and> active_at w k r then res_quantity r else 0) (lives (reservations s)))"

definition kept_at :: "uuid \<Rightarrow> uuid \<Rightarrow> InventoryReservation list \<Rightarrow> int" where
  "kept_at w k rs = sum_list (map (\<lambda>r. if active_at w k r then res_quantity r else 0) rs)"

lemma active_qty_split: "active_qty w k s = kept_at w k (kept i s) + held_at i w k s"
proof -
  have "sum_list (map (\<lambda>r. if active_at w k r then res_quantity r else 0) rs) =
      kept_at w k (filter (\<lambda>r. res_order r \<noteq> i \<or> res_status r = ''confirmed'') rs)
      + sum_list (map (\<lambda>r. if holds i r \<and> active_at w k r then res_quantity r else 0) rs)" for rs
    by (induction rs) (auto simp: kept_at_def holds_def active_at_def)
  then show ?thesis by (simp add: active_qty_def kept_def held_at_def)
qed

lemma held_at_none: "\<not> list_ex (holds i) (lives (reservations s)) \<Longrightarrow> held_at i w k s = 0"
proof -
  have "\<forall>r\<in>set rs. \<not> holds i r \<Longrightarrow> sum_list (map (\<lambda>r. if holds i r \<and> active_at w k r then res_quantity r else 0) rs) = 0"
    for rs :: "InventoryReservation list"
    by (induction rs) auto
  then show "\<not> list_ex (holds i) (lives (reservations s)) \<Longrightarrow> held_at i w k s = 0"
    by (simp add: held_at_def list_ex_iff)
qed

lemma beside_frame:
  "lives (reservations t) = lives (reservations s) \<Longrightarrow> lives (balances t) = lives (balances s) \<Longrightarrow>
     beside i ks sh t = beside i ks sh s"
  by (simp add: beside_def kept_def shelf_def)

lemma beside_flush [simp]: "beside i ks sh (flush s) = beside i ks sh s"
  by (rule beside_frame) simp_all

lemma held_frame: "lives (reservations t) = lives (reservations s) \<Longrightarrow> held i t = held i s"
  by (simp add: held_def)

section \<open>Allocation\<close>

lemma create_reservation_beside: "preserves (beside (ar_order req) ks sh) (create_reservation req w q)"
  by (rule preservesI) (simp add: create_reservation_app Let_def beside_def kept_def shelf_def)

lemma shelf_upd: "(\<And>b. (f b)\<lparr>reserved := 0, bal_version := 0\<rparr> = b\<lparr>reserved := 0, bal_version := 0\<rparr>) \<Longrightarrow>
  shelf (balances_update (upd_row bal_id i f) s) = shelf s"
  by (simp add: shelf_def upd_list_def)

lemma apply_allocation_beside: "preserves (beside i ks sh) (apply_allocation w k q)"
  unfolding apply_allocation_def set_obj_def
  by (intro hoare_rules preserves_modify)
    (auto simp: beside_def kept_def shelf_upd get_balance_def intro!: hoare_rules preserves_modify split: option.split)

lemma allocate_step_beside: "preserves (beside (ar_order req) ks sh) (allocate_step req sc acc)"
  unfolding allocate_step_def Let_def
  by (intro hoare_rules create_reservation_beside apply_allocation_beside | simp split: prod.split)+

lemma allocate_beside: "preserves (beside (ar_order req) ks sh) (allocate req)"
  unfolding allocate_def Let_def by (intro hoare_rules allocate_step_beside)

lemma apply_allocation_held: "preserves (\<lambda>s. held i s = n) (apply_allocation w k q)"
  unfolding apply_allocation_def set_obj_def
  by (intro hoare_rules preserves_modify)
    (auto simp: held_def get_balance_def intro!: hoare_rules preserves_modify split: option.split)

lemma allocate_step_held:
  "hoare (\<lambda>s. held (ar_order req) s = n + al_total (fst acc)) (allocate_step req sc acc)
     (\<lambda>acc' s. held (ar_order req) s = n + al_total (fst acc')) (\<lambda>_ _. True)"
proof (rule hoareI)
  fix s x t
  assume h: "held (ar_order req) s = n + al_total (fst acc)" and run: "allocate_step req sc acc s = (Inr x, t)"
  obtain r m where acc: "acc = (r, m)" by (cases acc)
  show "held (ar_order req) t = n + al_total (fst x)"
  proof (cases "m \<le> 0 \<or> ws_available sc \<le> 0 \<or> (\<not> ar_allow_split req \<and> min m (ws_available sc) < m)")
    case True
    with h run acc show ?thesis by (auto simp: allocate_step_def Let_def split: if_splits)
  next
    case False
    let ?q = "min m (ws_available sc)"
    from False run obtain v u where v: "create_reservation req (ws_warehouse sc) ?q s = (Inr v, u)"
      and a: "apply_allocation (ws_warehouse sc) (ar_sku req) ?q u = (Inr (), t)"
      and x: "al_total (fst x) = al_total r + ?q"
      by (auto simp: allocate_step_def Let_def acc not_less elim!: bind_InrE)
    have "held (ar_order req) u = held (ar_order req) s + ?q"
      using v by (auto simp: create_reservation_app Let_def held_def holds_def)
    then show ?thesis
      using preserves_ok [OF apply_allocation_held _ a, of "ar_order req" "held (ar_order req) u"] h x acc by simp
  qed
qed simp

lemma allocate_held:
  assumes "allocate req s = (Inr r, t)" shows "held (ar_order req) t = held (ar_order req) s + al_total r"
proof -
  define scores where "scores = prefer_warehouse (ar_preferred req)
    (sort_key (\<lambda>w. - composite_score w) (scores_of (ar_sku req) s))"
  from assms obtain r' m where
    loop: "for_loop (allocate_step req) scores (empty_result req, ar_quantity req) s = (Inr (r', m), t)"
    and r: "r = r'\<lparr>al_backorder := m\<rparr>"
    by (auto simp: allocate_def bind_Inr_iff rank_warehouses_app scores_def Let_def split: if_splits)
  have "hoare (\<lambda>u. held (ar_order req) u = held (ar_order req) s + al_total (fst (empty_result req, ar_quantity req)))
      (for_loop (allocate_step req) scores (empty_result req, ar_quantity req))
      (\<lambda>a u. held (ar_order req) u = held (ar_order req) s + al_total (fst a)) (\<lambda>_ _. True)"
    by (rule hoare_for_loop [where I = "\<lambda>a u. held (ar_order req) u = held (ar_order req) s + al_total (fst a)"])
      (rule allocate_step_held)
  from hoare_ok [OF this _ loop] show ?thesis by (simp add: r empty_result_def)
qed

section \<open>Release\<close>

lemma shelf_reservations: "shelf (reservations_update f s) = shelf s"
  by (simp add: shelf_def)

lemma release_single_shelf:
  "res_status r \<noteq> ''confirmed'' \<Longrightarrow> preserves (\<lambda>s. shelf s = sh) (release_single_reservation r)"
  unfolding release_single_reservation_def set_obj_def get_balance_def
  by (intro hoare_rules preserves_modify)
    (auto simp: shelf_upd shelf_reservations intro!: hoare_rules preserves_modify split: option.split)

lemma release_loop_total:
  "for_loop (\<lambda>r released. bind (release_single_reservation r) (\<lambda>_. ret (released + res_quantity r))) rs m s = (Inr n, t)
    \<Longrightarrow> n = m + sum_list (map res_quantity rs)"
  by (induction rs arbitrary: m s) (fastforce elim!: bind_InrE)+

lemma release_gives_back:
  assumes L: "ledger s" and C: "clean (reservations s)"
  shows "\<exists>u. release_reservations i s = (Inr (held i s), u) \<and> releasing i (kept i s) [] u \<and> shelf u = shelf s"
proof -
  let ?body = "\<lambda>r released. bind (release_single_reservation r) (\<lambda>_. ret (released + res_quantity r))"
  let ?rs = "filter (holds i) (lives (reservations s))"
  have P: "(\<lambda>r. res_order r = i \<and> res_status r = ''active'') = holds i" by (auto simp: holds_def)
  obtain n u where r: "release_reservations i s = (Inr n, u)" "releasing i (kept i s) [] u"
    using release_reservations_releasing [OF assms] by blast
  have loop: "for_loop ?body ?rs 0 s = (Inr n, u)"
    using r(1) by (simp add: release_reservations_def get_active_for_order_def clean_select_where [OF C] P)
  have "preserves (\<lambda>v. shelf v = shelf s) (for_loop ?body ?rs 0)"
    by (intro hoare_rules release_single_shelf) (simp add: holds_def)
  from preserves_ok [OF this refl loop] have "shelf u = shelf s" .
  moreover have "n = held i s"
    using release_loop_total [OF loop] by (simp add: held_def sum_list_map_filter' [symmetric])
  ultimately show ?thesis using r by blast
qed

lemma released_qty:
  assumes "releasing i ks [] u" and "ledger s" and "ks = kept i s"
  shows "reserved_qty w k u = reserved_qty w k s - held_at i w k s"
proof -
  have "ledger u" "kept i u = ks" "held_at i w k u = 0"
    using assms(1) by (auto simp: releasing_def pending_release_def list_ex_iff intro: held_at_none)
  then show ?thesis
    using assms(2,3) active_qty_split [of w k u i] active_qty_split [of w k s i] by (simp add: ledger_def)
qed

section \<open>The endpoints\<close>

text \<open>C6: On a consistent committed database, releasing an order right after an allocation for it was
  committed returns the allocated total plus what the order held before, and takes exactly that
  back: every balance is what it was apart from the order's own earlier reservations, and no other
  reservation has changed.\<close>

theorem allocate_release_roundtrip:
  assumes "ledger s" and "clean_session s" and "run_request (allocate req) s = (Inr r, t)"
  shows "\<exists>u. run_request (release_reservations (ar_order req)) t = (Inr (held (ar_order req) s + al_total r), u)
    \<and> ledger u \<and> shelf u = shelf s \<and> kept (ar_order req) u = kept (ar_order req) s
    \<and> (\<forall>w k. reserved_qty w k u = reserved_qty w k s - held_at (ar_order req) w k s)"
proof -
  let ?i = "ar_order req"
  from assms(3) obtain v where v: "allocate req s = (Inr r, v)" and t: "t = flush v"
    by (auto simp: run_request_def split: prod.splits sum.splits)
  have L: "ledger t" using hoare_ok [OF allocate_ledger assms(1) v] by (simp add: t ledger_def)
  have K: "kept ?i t = kept ?i s" "shelf t = shelf s"
    using preserves_ok [OF allocate_beside _ v, of "kept ?i s" "shelf s"] beside_flush [of ?i "kept ?i s" "shelf s" v]
    by (auto simp: beside_def t)
  have H: "held ?i t = held ?i s + al_total r"
    using allocate_held [OF v] held_frame [of t v ?i] by (simp add: t)
  from release_gives_back [OF L, of ?i] obtain u where
    u: "release_reservations ?i t = (Inr (held ?i t), u)" "releasing ?i (kept ?i t) [] u" "shelf u = shelf t"
    by (auto simp: t)
  have f: "shelf (flush u) = shelf u" using beside_flush [of ?i "kept ?i u" "shelf u" u] by (simp add: beside_def)
  from releasing_flush [OF u(2)] have R: "releasing ?i (kept ?i t) [] (flush u)" .
  then have "ledger (flush u)" "kept ?i (flush u) = kept ?i s" by (simp_all add: releasing_def pending_release_def K)
  moreover have "reserved_qty w k (flush u) = reserved_qty w k s - held_at ?i w k s" for w k
    using released_qty [OF R assms(1) K(1)] .
  ultimately show ?thesis using u f by (simp add: run_request_def H K)
qed

lemma demo_ledger: "ledger demo_session"
proof -
  have "active_qty w k demo_session = reserved_qty w k demo_session" for w k
    by (simp add: active_qty_def reserved_qty_def demo_session_def demo_balance_def empty_session_def lives_def)
  with demo_tables_ok show ?thesis by (simp add: ledger_def)
qed

theorem allocate_release_roundtrip_witness:
  "\<exists>r t u. run_request (allocate (demo_request 12)) demo_session = (Inr r, t)
    \<and> run_request (release_reservations 6) t = (Inr 12, u)
    \<and> shelf u = shelf demo_session \<and> reserved_qty 1 3 u = 0"
proof -
  have "fst (allocate (demo_request 12) demo_session) = Inr \<lparr>al_order_line = 7,
      al_allocations = [(1, 10), (2, 2)], al_total = 12, al_backorder = 0, al_reservation_ids = [10, 11]\<rparr>"
    unfolding demo_allocate by code_simp
  then obtain r t where r: "run_request (allocate (demo_request 12)) demo_session = (Inr r, t)" "al_total r = 12"
    by (cases "allocate (demo_request 12) demo_session") (auto simp: run_request_def)
  have "held 6 demo_session = 0" "held_at 6 1 3 demo_session = 0" "reserved_qty 1 3 demo_session = 0" by code_simp+
  with allocate_release_roundtrip [OF demo_ledger demo_clean r(1)] r show ?thesis
    by (fastforce simp: demo_request_def)
qed

text \<open>Reserving an order through the API changes only the order's own reservations.\<close>

lemma order_or_404_cases:
  assumes "order_or_404 i s = (Inr (ord, ls), u)" and C: "clean (orders s)"
  shows "u = s" and "filter (\<lambda>x. ord_id x = i) (lives (orders s)) = [ord]"
    and "ord_status ord \<notin> {''cancelled'', ''shipped'', ''delivered''}" and "ord_id ord = i"
proof -
  show f: "filter (\<lambda>x. ord_id x = i) (lives (orders s)) = [ord]" and "u = s"
    and "ord_status ord \<notin> {''cancelled'', ''shipped'', ''delivered''}"
    using assms(1)
    by (auto simp: order_or_404_def get_order_with_lines_def raise_if_def ret_def raise_def fetch_def
        clean_select_where [OF C] scalar_one_or_none_def elim!: bind_InrE
        split: option.splits if_splits sum.splits list.splits)
  show "ord_id ord = i" using f by (auto simp: filter_eq_Cons_iff)
qed

lemma put_line_beside: "preserves (beside i ks sh) (put_line j f)"
  unfolding put_line_def set_obj_def by (intro preserves_modify) (simp add: beside_def kept_def shelf_def)

lemma put_order_beside: "preserves (beside i ks sh) (put_order j f)"
  unfolding put_order_def set_obj_def by (intro preserves_modify) (simp add: beside_def kept_def shelf_def)

lemma audit_beside: "preserves (beside i ks sh) (audit_record ty j a b f m)"
  by (rule preserves_audit_record) (simp_all add: beside_def kept_def shelf_def)

lemma reserve_line_beside: "ord_id ord = i \<Longrightarrow> preserves (beside i ks sh) (reserve_line ord l)"
  unfolding reserve_line_def Let_def
  using allocate_beside [of "\<lparr>ar_order = i, ar_order_line = ol_id l, ar_sku = ol_sku l,
      ar_quantity = ol_quantity_ordered l - ol_quantity_allocated l, ar_preferred = None,
      ar_allow_split = ord_allow_partial ord\<rparr>" ks sh]
  by (intro hoare_rules put_line_beside) simp

lemma allocate_orders: "preserves (\<lambda>s. lives (orders s) = X) (allocate req)"
proof -
  have "preserves (\<lambda>s. lives (orders s) = X) (create_reservation req w q)" for w q
    by (rule preservesI) (simp add: create_reservation_app Let_def)
  moreover have "preserves (\<lambda>s. lives (orders s) = X) (apply_allocation w k q)" for w k q
    unfolding apply_allocation_def set_obj_def get_balance_def
    by (intro hoare_rules preserves_modify) (auto intro!: hoare_rules preserves_modify split: option.split)
  ultimately have "preserves (\<lambda>s. lives (orders s) = X) (allocate_step req sc acc)" for sc acc
    unfolding allocate_step_def Let_def by (intro hoare_rules)
  then show ?thesis unfolding allocate_def Let_def by (intro hoare_rules)
qed

lemma reserve_line_orders: "preserves (\<lambda>s. lives (orders s) = X) (reserve_line ord l)"
  unfolding reserve_line_def Let_def put_line_def set_obj_def
  by (intro hoare_rules allocate_orders preserves_modify) simp

lemma filter_upd_list:
  "(\<And>x. key (f x) = key x) \<Longrightarrow> filter (\<lambda>x. key x = i) (upd_list key i f xs) = map f (filter (\<lambda>x. key x = i) xs)"
  by (induction xs) auto

text \<open>After a reservation the order is open and single, and only its own reservations are new.\<close>

lemma reserve_order_effect:
  assumes C: "clean_session s" and run: "reserve_order i s = (Inr x, t)"
  shows "beside i (kept i s) (shelf s) t"
    and "\<exists>ord. filter (\<lambda>x. ord_id x = i) (lives (orders t)) = [ord] \<and> ord_status ord \<notin> {''cancelled'', ''shipped'', ''delivered''}"
proof -
  from run obtain ord ls u st v w e where o: "order_or_404 i s = (Inr (ord, ls), u)"
    and loop: "for_loop (\<lambda>l _. reserve_line ord l) ls () u = (Inr (), v)"
    and st: "st \<in> {''partially_allocated'', ''allocating''}"
    and put: "put_order (ord_id ord) (\<lambda>x. x\<lparr>ord_status := st\<rparr>) v = (Inr (), w)"
    and a: "audit_record ''order'' (ord_id ord) ''reserved'' None (Some [(''status'', JStr st)]) None w = (Inr e, t)"
    by (fastforce simp: reserve_order_def Let_def ret_def split: if_splits elim!: bind_InrE)
  note o' = order_or_404_cases [OF o clean_tables(8) [OF C]]
  have "preserves (beside i (kept i s) (shelf s)) (for_loop (\<lambda>l _. reserve_line ord l) ls ())"
    by (intro hoare_rules reserve_line_beside o'(4))
  from preserves_ok [OF this _ loop] have "beside i (kept i s) (shelf s) v" by (simp add: beside_def o'(1))
  from preserves_ok [OF put_order_beside this put] have "beside i (kept i s) (shelf s) w" .
  from preserves_ok [OF audit_beside this a] show "beside i (kept i s) (shelf s) t" .
  have "preserves (\<lambda>z. lives (orders z) = lives (orders s)) (for_loop (\<lambda>l _. reserve_line ord l) ls ())"
    by (intro hoare_rules reserve_line_orders)
  from preserves_ok [OF this _ loop] have "lives (orders v) = lives (orders s)" by (simp add: o'(1))
  moreover have "lives (orders t) = lives (orders w)"
    using audit_record_frame [of "''order''" "ord_id ord" "''reserved''" None "Some [(''status'', JStr st)]" None w] a by auto
  ultimately have "lives (orders t) = upd_list ord_id i (\<lambda>x. x\<lparr>ord_status := st\<rparr>) (lives (orders s))"
    using put by (auto simp: put_order_def set_obj_def modify_def o'(4))
  then have "filter (\<lambda>x. ord_id x = i) (lives (orders t)) = [ord\<lparr>ord_status := st\<rparr>]"
    using o'(2) by (simp add: filter_upd_list)
  then show "\<exists>ord. filter (\<lambda>x. ord_id x = i) (lives (orders t)) = [ord] \<and> ord_status ord \<notin> {''cancelled'', ''shipped'', ''delivered''}"
    using st by auto
qed

lemma cancel_gives_back:
  assumes L: "ledger s" and C: "clean_session s" and f: "filter (\<lambda>ord. ord_id ord = i) (lives (orders s)) = [ord]"
    and st: "ord_status ord \<notin> {''cancelled'', ''shipped'', ''delivered''}"
  shows "\<exists>t. cancel_order i s = (Inr (i, ''cancelled''), t) \<and> releasing i (kept i s) [] t \<and> shelf t = shelf s"
proof -
  obtain t where t: "cancel_order i s = (Inr (i, ''cancelled''), t)" "releasing i (kept i s) [] t"
    using cancel_order_app [OF L C f st] by blast
  obtain u where u: "release_reservations i s = (Inr (held i s), u)" "shelf u = shelf s"
    using release_gives_back [OF L clean_tables(2) [OF C]] by blast
  obtain ord' ls where "order_or_404 i s = (Inr (ord', ls), s)"
    using t(1) order_or_404_same unfolding cancel_order_def by (elim bind_InrE) (metis prod.exhaust)
  with t(1) u(1) obtain v e where v: "put_order (ord_id ord') (\<lambda>x. x\<lparr>ord_status := ''cancelled''\<rparr>) u = (Inr (), v)"
    and a: "audit_record ''order'' (ord_id ord') ''cancelled'' (Some [(''status'', JStr (ord_status ord'))])
      (Some [(''status'', JStr ''cancelled'')]) (Some [(''released_reservations_for_order'', JUuid i)]) v = (Inr e, t)"
    unfolding cancel_order_def by (auto simp: ret_def elim!: bind_InrE)
  from preserves_ok [OF audit_beside preserves_ok [OF put_order_beside _ v] a, of i "kept i u" "shelf u"]
  have "shelf t = shelf u" by (simp add: beside_def)
  with t u show ?thesis by auto
qed

text \<open>C3: Reserving an order through the API and cancelling it afterwards gives the stock back.  From a
  committed database in which stock and reservations agree, once the reservation request has
  returned the cancellation succeeds, no reservation of the order is active any more, every balance
  has the on-hand, allocated, damaged and quarantine amounts it had before both requests, and every
  reserved amount is what it was, less what the order had already held.\<close>

theorem reserve_cancel_roundtrip:
  assumes "stock_inv s" and "clean_session s" and "run_request (reserve_order i) s = (Inr x, t)"
  shows "\<exists>u. run_request (cancel_order i) t = (Inr (i, ''cancelled''), u)
    \<and> stock_inv u \<and> shelf u = shelf s \<and> kept i u = kept i s \<and> \<not> list_ex (holds i) (lives (reservations u))
    \<and> (\<forall>w k. reserved_qty w k u = reserved_qty w k s - held_at i w k s)"
proof -
  from assms(3) obtain v where v: "reserve_order i s = (Inr x, v)" and t: "t = flush v"
    by (auto simp: run_request_def split: prod.splits sum.splits)
  have "stock_inv v" by (rule stock_safeD [OF reserve_order_stock assms(1,2) v])
  then have I: "stock_inv t" by (simp add: t stock_inv_flush)
  then have L: "ledger t" by (simp add: stock_inv_def)
  have Ct: "clean_session t" by (simp add: t clean_session_flush)
  note eff = reserve_order_effect [OF assms(2) v]
  have K: "kept i t = kept i s" "shelf t = shelf s"
    using eff(1) beside_flush [of i "kept i s" "shelf s" v] by (auto simp: t beside_def)
  obtain ord where "filter (\<lambda>x. ord_id x = i) (lives (orders t)) = [ord]"
    "ord_status ord \<notin> {''cancelled'', ''shipped'', ''delivered''}"
    using eff(2) by (auto simp: t)
  from cancel_gives_back [OF L Ct this] obtain w where
    w: "cancel_order i t = (Inr (i, ''cancelled''), w)" "releasing i (kept i t) [] w" "shelf w = shelf t" by blast
  from releasing_flush [OF w(2)] have R: "releasing i (kept i t) [] (flush w)" .
  then have "kept i (flush w) = kept i s" "\<not> list_ex (holds i) (lives (reservations (flush w)))"
    by (auto simp: releasing_def pending_release_def K list_ex_iff)
  moreover have "shelf (flush w) = shelf s"
    using w(3) K beside_flush [of i "kept i w" "shelf w" w] by (simp add: beside_def)
  moreover have "stock_inv (flush w)"
    using stock_safeD [OF cancel_order_stock I Ct w(1)] by (simp add: stock_inv_flush)
  moreover have "reserved_qty a k (flush w) = reserved_qty a k s - held_at i a k s" for a k
    using released_qty [OF R _ K(1)] assms(1) by (simp add: stock_inv_def)
  ultimately show ?thesis using w(1) by (simp add: run_request_def)
qed

text \<open>An order for two more units in a network with one warehouse, seven of whose ten units are reserved.\<close>

definition demo_open :: session where
  "demo_open = demo_cancel\<lparr>warehouses := [Cell (Some (demo_warehouse 1 1)) (demo_warehouse 1 1)],
     order_lines := map (\<lambda>l. Cell (Some l) l) [demo_line\<lparr>ol_order := 20, ol_quantity_ordered := 2\<rparr>]\<rparr>"

lemma demo_open_ok: "clean_session demo_open" "stock_inv demo_open"
proof -
  show "clean_session demo_open"
    by (simp add: clean_session_def demo_open_def demo_cancel_def demo_reserved_def demo_session_def
        empty_session_def flush_def flush_table_def)
  show "stock_inv demo_open"
    by (rule stock_inv_frame [OF demo_cancel_stock]) 
      (use stock_inv_synced [OF demo_cancel_stock] in \<open>simp_all add: demo_open_def bins_synced_def\<close>)
qed

lemma demo_open_allocate:
  "\<exists>r t. allocate ((demo_request 2)\<lparr>ar_order := 20\<rparr>) demo_open = (Inr r, t)"
proof -
  let ?req = "(demo_request 2)\<lparr>ar_order := 20\<rparr>"
  have rank: "rank_warehouses ?req demo_open = (Inr [score_of 3 demo_open (demo_warehouse 1 1)], demo_open)"
    by (simp add: rank_warehouses_app scores_of_def demo_open_def demo_request_def demo_warehouse_def
        select_ordered_def stored_sat_def)
  have eq: "allocate ?req demo_open = bind (for_loop (allocate_step ?req) [score_of 3 demo_open (demo_warehouse 1 1)]
      (empty_result ?req, 2)) (\<lambda>(result, remaining).
       bind (raise_if (al_total result = 0) (InsufficientInventoryError 3 2
         (sum_list (map ws_available [score_of 3 demo_open (demo_warehouse 1 1)])) None)) (\<lambda>_.
       ret (result\<lparr>al_backorder := remaining\<rparr>))) demo_open"
    unfolding allocate_def bind_def [of "rank_warehouses ?req"] rank
    by (simp add: Let_def prefer_warehouse_def demo_request_def)
  have "map_sum (\<lambda>_. ()) al_total (fst (allocate ?req demo_open)) = Inr 2"
    unfolding eq by code_simp
  then show ?thesis
    by (cases "allocate ?req demo_open"; cases "fst (allocate ?req demo_open)") auto
qed

lemma reserve_single_line:
  assumes "order_or_404 i s = (Inr (ord, [l]), s)" and "ol_quantity_allocated l < ol_quantity_ordered l"
    and "allocate \<lparr>ar_order = ord_id ord, ar_order_line = ol_id l, ar_sku = ol_sku l,
      ar_quantity = ol_quantity_ordered l - ol_quantity_allocated l, ar_preferred = None,
      ar_allow_split = ord_allow_partial ord\<rparr> s = (Inr r, t)"
  shows "\<exists>x u. reserve_order i s = (Inr x, u)"
proof -
  from assms obtain u where u: "reserve_line ord l s = (Inr (), u)"
    by (auto simp: reserve_line_def bind_def put_line_def set_obj_def modify_def)
  define st where "st = (if any_backorder [l] u then ''partially_allocated'' else ''allocating'')"
  obtain w where w: "put_order (ord_id ord) (\<lambda>x. x\<lparr>ord_status := st\<rparr>) u = (Inr (), w)"
    by (simp add: put_order_def set_obj_def modify_def)
  obtain e v where "audit_record ''order'' (ord_id ord) ''reserved'' None (Some [(''status'', JStr st)]) None w = (Inr e, v)"
    using audit_record_frame by blast
  with assms(1) u w show ?thesis
    by (simp add: reserve_order_def bind_def ret_def reads_def Let_def st_def [symmetric])
qed

theorem reserve_cancel_roundtrip_witness:
  "\<exists>x t u. run_request (reserve_order 20) demo_open = (Inr x, t)
    \<and> run_request (cancel_order 20) t = (Inr (20, ''cancelled''), u)
    \<and> reserved_qty 1 3 demo_open = 7 \<and> reserved_qty 1 3 u = 3"
proof -
  have o: "order_or_404 20 demo_open = (Inr (demo_order\<lparr>ord_id := 20\<rparr>, [demo_line\<lparr>ol_order := 20, ol_quantity_ordered := 2\<rparr>]), demo_open)"
    by code_simp
  obtain r v where "allocate ((demo_request 2)\<lparr>ar_order := 20\<rparr>) demo_open = (Inr r, v)"
    using demo_open_allocate by blast
  then obtain x t where x: "run_request (reserve_order 20) demo_open = (Inr x, t)"
    using reserve_single_line [OF o] by (auto simp: demo_request_def demo_order_def demo_line_def run_request_def)
  have "reserved_qty 1 3 demo_open = 7" "held_at 20 1 3 demo_open = 4" by code_simp+
  with reserve_cancel_roundtrip [OF demo_open_ok(2,1) x] x show ?thesis by fastforce
qed

end
