(* ===== verification/Interleaving.thy ===== *)
theory Interleaving
  imports StockRoundtrip
begin

text \<open>
  Two requests at the same time.  Each works on the rows it has read; at its flush SQLAlchemy inserts
  the new objects and updates, in each changed row, the columns whose values it has changed, and
  nothing compares a version: \<open>BaseRepository.update_with_version\<close>, which would, has no caller.
  \<open>commit_stock s t cur\<close> is the stock after the commit of a request that read \<open>s\<close> and has made \<open>t\<close> of
  it, when others have made \<open>cur\<close> of the database in the meantime.  It covers the requests that do not
  take a write of their own back.
\<close>

section \<open>Committing over other commits\<close>

definition changed :: "('r \<Rightarrow> 'a) \<Rightarrow> 'r \<Rightarrow> 'r \<Rightarrow> 'r \<Rightarrow> 'a" where
  "changed f old new cur = (if f new = f old then f cur else f new)"

definition merge_balance :: "InventoryBalance \<Rightarrow> InventoryBalance \<Rightarrow> InventoryBalance \<Rightarrow> InventoryBalance" where
  "merge_balance old new cur = cur\<lparr>
     on_hand := changed on_hand old new cur, reserved := changed reserved old new cur,
     allocated := changed allocated old new cur, in_transit := changed in_transit old new cur,
     damaged := changed damaged old new cur, quarantine := changed quarantine old new cur,
     bal_version := changed bal_version old new cur\<rparr>"

definition merge_reservation :: "InventoryReservation \<Rightarrow> InventoryReservation \<Rightarrow> InventoryReservation \<Rightarrow> InventoryReservation" where
  "merge_reservation old new cur = cur\<lparr>
     res_status := changed res_status old new cur, res_expires_at := changed res_expires_at old new cur\<rparr>"

definition write_rows :: "('r \<Rightarrow> uuid) \<Rightarrow> ('r \<Rightarrow> 'r \<Rightarrow> 'r \<Rightarrow> 'r) \<Rightarrow> 'r list \<Rightarrow> 'r list \<Rightarrow> 'r list \<Rightarrow> 'r list" where
  "write_rows key merge olds news curs =
     map (\<lambda>c. case find (\<lambda>r. key r = key c) olds of None \<Rightarrow> c
       | Some old \<Rightarrow> (case find (\<lambda>r. key r = key c) news of None \<Rightarrow> c | Some new \<Rightarrow> merge old new c)) curs
     @ filter (\<lambda>n. \<not> list_ex (\<lambda>r. key r = key n) olds) news"

definition commit_stock :: "session \<Rightarrow> session \<Rightarrow> session \<Rightarrow> session" where
  "commit_stock s t cur = cur\<lparr>
     balances := map (\<lambda>b. Cell (Some b) b)
       (write_rows bal_id merge_balance (lives (balances s)) (lives (balances t)) (lives (balances cur))),
     reservations := map (\<lambda>r. Cell (Some r) r)
       (write_rows res_id merge_reservation (lives (reservations s)) (lives (reservations t)) (lives (reservations cur))),
     next_uuid := max (next_uuid t) (next_uuid cur)\<rparr>"

section \<open>What an allocation writes\<close>

text \<open>Reserved amounts and versions of balances of its SKU, and new reservations of it.\<close>

definition rewritten :: "uuid \<Rightarrow> InventoryBalance \<Rightarrow> InventoryBalance \<Rightarrow> bool" where
  "rewritten k b b' \<longleftrightarrow> b'\<lparr>reserved := 0, bal_version := 0\<rparr> = b\<lparr>reserved := 0, bal_version := 0\<rparr>
     \<and> (bal_sku b \<noteq> k \<longrightarrow> b' = b)"

definition new_reservation :: "uuid \<Rightarrow> nat \<Rightarrow> InventoryReservation \<Rightarrow> bool" where
  "new_reservation k n r \<longleftrightarrow> res_sku r = k \<and> n \<le> res_id r"

definition allocates :: "uuid \<Rightarrow> session \<Rightarrow> session \<Rightarrow> bool" where
  "allocates k s t \<longleftrightarrow> bins_synced t \<and> distinct (map bal_id (lives (balances t)))
    \<and> list_all2 (rewritten k) (lives (balances s)) (lives (balances t))
    \<and> (\<exists>new. lives (reservations t) = lives (reservations s) @ new \<and> list_all (new_reservation k (next_uuid s)) new)
    \<and> next_uuid s \<le> next_uuid t"

lemma allocates_refl: "tables_ok s \<Longrightarrow> allocates k s s"
  by (auto simp: allocates_def tables_ok_def rewritten_def list_all2_refl intro!: exI [of _ "[]"])

lemma rewritten_same: "rewritten k b b' \<Longrightarrow> bal_id b' = bal_id b \<and> bin_key b' = bin_key b \<and> bal_sku b' = bal_sku b"
  by (cases b; cases b') (simp add: rewritten_def bin_key_def)

lemma create_reservation_allocates: "ar_sku req = k \<Longrightarrow> preserves (allocates k s) (create_reservation req w q)"
  by (rule preservesI) (auto simp: create_reservation_app Let_def allocates_def new_reservation_def)

lemma apply_allocation_allocates: "preserves (allocates k s) (apply_allocation w k q)"
  unfolding preserves_def
proof (rule hoareI)
  fix u x t
  assume A: "allocates k s u" and run: "apply_allocation w k q u = (Inr x, t)"
  let ?f = "\<lambda>b. b\<lparr>reserved := reserved b + q, bal_version := bal_version b + 1\<rparr>"
  have S: "bins_synced u" and D: "distinct (map bal_id (lives (balances u)))" using A by (simp_all add: allocates_def)
  from run obtain b where b: "filter (\<lambda>b. bin_key b = (w, k, None)) (lives (balances u)) = [b]"
    and t: "t = balances_update (upd_row bal_id (bal_id b) ?f) u"
    by (auto simp: apply_allocation_def bind_Inr_iff set_obj_def get_balance_synced [OF S] scalar_one_or_none_Some
        split: option.splits if_splits)
  then have bin: "b \<in> set (lives (balances u))" and k: "bal_sku b = k" by (auto simp: filter_eq_Cons_iff bin_key_def)
  have step: "rewritten k c (if bal_id c' = bal_id b then ?f c' else c')"
    if c: "rewritten k c c'" "c' \<in> set (lives (balances u))" for c c'
  proof (cases "bal_id c' = bal_id b")
    case True
    with c(2) D bin have "c' = b" by (simp add: distinct_map inj_on_def)
    with c(1) k rewritten_same [OF c(1)] show ?thesis by (simp add: rewritten_def)
  qed (use c in simp)
  have "list_all2 (rewritten k) (lives (balances s)) (lives (balances u))" using A by (simp add: allocates_def)
  then have "list_all2 (rewritten k) (lives (balances s)) (upd_list bal_id (bal_id b) ?f (lives (balances u)))"
    unfolding upd_list_def list_all2_map2 by (rule list.rel_mono_strong) (rule step)
  then show "allocates k s t"
    using A D by (simp add: t allocates_def bins_synced_upd bin_key_def map_upd_list_same)
next
  fix u e t assume "allocates k s u" and "apply_allocation w k q u = (Inl e, t)"
  then show "allocates k s t"
    by (auto simp: apply_allocation_def bind_def get_balance_app set_obj_def split: option.splits if_splits sum.splits)
qed

lemma allocate_allocates: "preserves (allocates (ar_sku req) s) (allocate req)"
proof -
  have "preserves (allocates (ar_sku req) s) (allocate_step req sc acc)" for sc acc
    unfolding allocate_step_def Let_def
    by (intro hoare_rules create_reservation_allocates apply_allocation_allocates refl)
  then show ?thesis unfolding allocate_def Let_def by (intro hoare_rules)
qed

section \<open>Two allocations of different SKUs\<close>

lemma find_key:
  assumes "distinct (map key xs)" and "x \<in> set xs"
  shows "find (\<lambda>r. key r = key x) xs = Some x"
  using assms by (induction xs) (auto simp: rev_image_eqI)

lemma merge_balance_same [simp]: "merge_balance b b c = c"
  by (simp add: merge_balance_def changed_def)

lemma merge_balance_rewritten: "rewritten k b n \<Longrightarrow> merge_balance b n b = n"
  by (cases b; cases n) (simp add: rewritten_def merge_balance_def changed_def)

lemma merge_reservation_same [simp]: "merge_reservation r r c = c"
  by (simp add: merge_reservation_def changed_def)

lemma write_balances:
  assumes D: "distinct (map bal_id olds)" and C: "list_all2 (rewritten k1) olds curs"
    and N: "list_all2 (rewritten k2) olds news" and k: "k1 \<noteq> k2"
  shows "write_rows bal_id merge_balance olds news curs =
    map (\<lambda>i. if bal_sku (olds ! i) = k2 then news ! i else curs ! i) [0..<length olds]"
proof -
  have len: "length curs = length olds" "length news = length olds"
    using list_all2_lengthD [OF C] list_all2_lengthD [OF N] by simp_all
  have same: "bal_id (curs ! i) = bal_id (olds ! i)" "bal_id (news ! i) = bal_id (olds ! i)"
    "rewritten k1 (olds ! i) (curs ! i)" "rewritten k2 (olds ! i) (news ! i)" if "i < length olds" for i
    using that C N rewritten_same by (auto simp: list_all2_conv_all_nth)
  have "map bal_id news = map bal_id olds" using same len by (simp add: list_eq_iff_nth_eq)
  then have DN: "distinct (map bal_id news)" using D by simp
  have "\<forall>n\<in>set news. list_ex (\<lambda>r. bal_id r = bal_id n) olds"
    using \<open>map bal_id news = map bal_id olds\<close> by (metis (mono_tags, lifting) image_iff list.set_map list_ex_iff)
  then have "filter (\<lambda>n. \<not> list_ex (\<lambda>r. bal_id r = bal_id n) olds) news = []" by (simp add: filter_empty_conv)
  moreover have "(case find (\<lambda>r. bal_id r = bal_id (curs ! i)) olds of None \<Rightarrow> curs ! i
      | Some old \<Rightarrow> (case find (\<lambda>r. bal_id r = bal_id (curs ! i)) news of None \<Rightarrow> curs ! i
        | Some new \<Rightarrow> merge_balance old new (curs ! i))) =
      (if bal_sku (olds ! i) = k2 then news ! i else curs ! i)" if i: "i < length olds" for i
  proof -
    have f: "find (\<lambda>r. bal_id r = bal_id (curs ! i)) olds = Some (olds ! i)"
      "find (\<lambda>r. bal_id r = bal_id (curs ! i)) news = Some (news ! i)"
      using find_key [OF D, of "olds ! i"] find_key [OF DN, of "news ! i"] i len same(1,2) [OF i] by simp_all
    show ?thesis
    proof (cases "bal_sku (olds ! i) = k2")
      case True
      with k same(3) [OF i] have "curs ! i = olds ! i" by (simp add: rewritten_def)
      with True f merge_balance_rewritten [OF same(4) [OF i]] show ?thesis by simp
    next
      case False
      with same(4) [OF i] have "news ! i = olds ! i" by (simp add: rewritten_def)
      with False f show ?thesis by simp
    qed
  qed
  ultimately show ?thesis
    by (auto simp: write_rows_def len intro!: nth_equalityI)
qed

lemma write_reservations:
  assumes D: "distinct (map res_id olds)" and A: "\<And>r. r \<in> set (as @ bs) \<Longrightarrow> res_id r \<notin> res_id ` set olds"
  shows "write_rows res_id merge_reservation olds (olds @ bs) (olds @ as) = olds @ as @ bs"
proof -
  have f: "find (\<lambda>r. res_id r = res_id c) olds = Some c" if c: "c \<in> set olds" for c
    using find_key [OF D c] .
  have g: "find (\<lambda>r. res_id r = res_id c) olds = None" if c: "c \<in> set as" for c
    using A [of c] c by (auto simp: find_None_iff rev_image_eqI)
  have "find P (xs @ ys) = Some y" if "find P xs = Some y" for P :: "InventoryReservation \<Rightarrow> bool" and xs ys y
    using that by (induction xs) (auto split: if_splits)
  then have h: "find (\<lambda>r. res_id r = res_id c) (olds @ bs) = Some c" if c: "c \<in> set olds" for c
    using f [OF c] by blast
  have "filter (\<lambda>n. \<not> list_ex (\<lambda>r. res_id r = res_id n) olds) olds = []"
    by (auto simp: filter_empty_conv list_ex_iff)
  moreover have "\<not> list_ex (\<lambda>r. res_id r = res_id n) olds" if "n \<in> set bs" for n
    using A [of n] that by (auto simp: list_ex_iff image_iff)
  then have "filter (\<lambda>n. \<not> list_ex (\<lambda>r. res_id r = res_id n) olds) bs = bs" by (simp add: filter_id_conv)
  ultimately show ?thesis by (simp add: write_rows_def f g h map_idI)
qed

lemma committed_lives [simp]:
  "lives (map (\<lambda>b. Cell (Some b) b) xs) = xs"
  by (simp add: lives_def comp_def)

lemma sum_nth: "length xs = n \<Longrightarrow> sum_list (map f xs) = sum_list (map (\<lambda>i. f (xs ! i)) [0..<n])" for f :: "'r \<Rightarrow> int"
proof -
  assume "length xs = n"
  then have "map f xs = map (\<lambda>i. f (xs ! i)) [0..<n]" by (intro nth_equalityI) simp_all
  then show ?thesis by simp
qed

lemma commit_stock_lives:
  "lives (balances (commit_stock s t cur)) =
    write_rows bal_id merge_balance (lives (balances s)) (lives (balances t)) (lives (balances cur))"
  "lives (reservations (commit_stock s t cur)) =
    write_rows res_id merge_reservation (lives (reservations s)) (lives (reservations t)) (lives (reservations cur))"
  by (simp_all add: commit_stock_def)

text \<open>The balances of the two, put side by side: each row is that of the request for its SKU.\<close>

lemma balances_side_by_side:
  assumes ids: "distinct (map bal_id (lives (balances s)))" and k: "k1 \<noteq> k2"
    and LA: "list_all2 (rewritten k1) (lives (balances s)) (lives (balances t))"
    and LB: "list_all2 (rewritten k2) (lives (balances s)) (lives (balances u))"
  shows "map bal_id (lives (balances (commit_stock s u t))) = map bal_id (lives (balances s))"
    and "map bin_key (lives (balances (commit_stock s u t))) = map bin_key (lives (balances s))"
    and "set (lives (balances (commit_stock s u t))) \<subseteq> set (lives (balances t)) \<union> set (lives (balances u))"
    and "reserved_qty w k (commit_stock s u t) = (if k = k2 then reserved_qty w k u else reserved_qty w k t)"
proof -
  let ?c = "commit_stock s u t"
  let ?o = "lives (balances s)" and ?x = "lives (balances t)" and ?y = "lives (balances u)"
  define bal where "bal i = (if bal_sku (?o ! i) = k2 then ?y ! i else ?x ! i)" for i
  have C: "lives (balances ?c) = map bal [0..<length ?o]"
    unfolding commit_stock_lives bal_def by (rule write_balances [OF ids LA LB k])
  have len: "length ?x = length ?o" "length ?y = length ?o"
    using list_all2_lengthD [OF LA] list_all2_lengthD [OF LB] by simp_all
  have same: "bal_id (bal i) = bal_id (?o ! i) \<and> bin_key (bal i) = bin_key (?o ! i)
      \<and> bal_sku (?x ! i) = bal_sku (?o ! i) \<and> bal_sku (?y ! i) = bal_sku (?o ! i)" if "i < length ?o" for i
    using rewritten_same [OF list_all2_nthD [OF LA that]] rewritten_same [OF list_all2_nthD [OF LB that]]
    by (simp add: bal_def)
  show "map bal_id (lives (balances ?c)) = map bal_id ?o" "map bin_key (lives (balances ?c)) = map bin_key ?o"
    by (auto simp: C same intro!: nth_equalityI)
  show "set (lives (balances ?c)) \<subseteq> set ?x \<union> set ?y" by (auto simp: C bal_def len)
  have "(if bin_key (bal i) = (w, k, None) then reserved (bal i) else 0) =
      (if k = k2 then if bin_key (?y ! i) = (w, k, None) then reserved (?y ! i) else 0
       else if bin_key (?x ! i) = (w, k, None) then reserved (?x ! i) else 0)" if "i < length ?o" for i
    using same [OF that] by (auto simp: bal_def bin_key_def)
  then show "reserved_qty w k ?c = (if k = k2 then reserved_qty w k u else reserved_qty w k t)"
    unfolding reserved_qty_def C using len
    by (auto simp: sum_nth [OF len(1)] sum_nth [OF len(2)] comp_def intro!: arg_cong [where f = sum_list])
qed

text \<open>The reservations: those both have read, then the new ones of each.\<close>

lemma reservations_side_by_side:
  assumes T: "tables_ok s" "tables_ok t" "tables_ok u" and A: "allocates k1 s t"
    and B: "allocates k2 (s\<lparr>next_uuid := n\<rparr>) u" and k: "k1 \<noteq> k2" and n: "next_uuid t \<le> n"
  shows "distinct (map res_id (lives (reservations (commit_stock s u t))))"
    and "set (lives (reservations (commit_stock s u t))) \<subseteq> set (lives (reservations t)) \<union> set (lives (reservations u))"
    and "active_qty w k (commit_stock s u t) = (if k = k2 then active_qty w k u else active_qty w k t)"
proof -
  let ?c = "commit_stock s u t"
  obtain as where as: "lives (reservations t) = lives (reservations s) @ as" "list_all (new_reservation k1 (next_uuid s)) as"
    using A by (auto simp: allocates_def)
  obtain bs where bs: "lives (reservations u) = lives (reservations s) @ bs" "list_all (new_reservation k2 n) bs"
    using B by (auto simp: allocates_def)
  have le: "next_uuid s \<le> n" using A n by (simp add: allocates_def)
  have "next_uuid s \<le> res_id r" if "r \<in> set (as @ bs)" for r
    using that as(2) bs(2) le by (auto simp: list_all_iff new_reservation_def dest!: bspec)
  moreover have "res_id r < next_uuid s" if "r \<in> set (lives (reservations s))" for r
    using that T(1) by (simp add: tables_ok_def)
  ultimately have "res_id r \<notin> res_id ` set (lives (reservations s))" if "r \<in> set (as @ bs)" for r
    using that by (fastforce simp: image_iff dest: leD)
  then have R: "lives (reservations ?c) = lives (reservations s) @ as @ bs"
    using write_reservations [of "lives (reservations s)" as bs] T(1)
    by (simp add: commit_stock_lives as(1) bs(1) tables_ok_def)
  have "res_id r < n" if "r \<in> set as" for r
  proof -
    have "res_id r < next_uuid t" using that T(2) by (simp add: tables_ok_def as(1))
    with n show ?thesis by simp
  qed
  moreover have "n \<le> res_id r" if "r \<in> set bs" for r
    using that bs(2) by (simp add: list_all_iff new_reservation_def)
  ultimately have "res_id ` set as \<inter> res_id ` set bs = {}" by (fastforce dest: leD)
  then show "distinct (map res_id (lives (reservations ?c)))"
    using T(2,3) by (auto simp: R tables_ok_def as(1) bs(1))
  show "set (lives (reservations ?c)) \<subseteq> set (lives (reservations t)) \<union> set (lives (reservations u))"
    by (auto simp: R as(1) bs(1))
  have "\<forall>r\<in>set as. k \<noteq> k1 \<longrightarrow> \<not> active_at w k r" "\<forall>r\<in>set bs. k \<noteq> k2 \<longrightarrow> \<not> active_at w k r"
    using as bs by (auto simp: list_all_iff new_reservation_def active_at_def)
  moreover have "\<forall>r\<in>set rs. \<not> active_at w k r \<Longrightarrow> sum_list (map (\<lambda>r. if active_at w k r then res_quantity r else 0) rs) = 0" for rs
    by (induction rs) auto
  ultimately show "active_qty w k ?c = (if k = k2 then active_qty w k u else active_qty w k t)"
    using k by (cases "k = k2") (auto simp: active_qty_def R as(1) bs(1))
qed

lemma commit_side_by_side:
  assumes s: "tables_ok s" and A: "allocates k1 s t" and B: "allocates k2 (s\<lparr>next_uuid := n\<rparr>) u"
    and k: "k1 \<noteq> k2" and n: "next_uuid t \<le> n" and inv: "stock_inv t" "stock_inv u"
  shows "stock_inv (commit_stock s u t)
    \<and> reserved_qty w k (commit_stock s u t) = (if k = k2 then reserved_qty w k u else reserved_qty w k t)"
proof -
  let ?c = "commit_stock s u t"
  have T: "tables_ok t" "tables_ok u" and L: "ledger t" "ledger u" and OK: "stock_ok t" "stock_ok u"
    using inv by (auto simp: stock_inv_def ledger_def)
  have ids: "distinct (map bal_id (lives (balances s)))" using s by (simp add: tables_ok_def)
  note bal = balances_side_by_side [OF ids k, of t u]
  have LA: "list_all2 (rewritten k1) (lives (balances s)) (lives (balances t))"
    and LB: "list_all2 (rewritten k2) (lives (balances s)) (lives (balances u))"
    using A B by (auto simp: allocates_def)
  note bal = bal [OF LA LB] and res = reservations_side_by_side [OF s T A B k n]
  have "bins_synced ?c" by (auto simp: bins_synced_def commit_stock_def)
  moreover have "distinct (map bin_key (lives (balances ?c)))" using s by (simp add: bal(2) tables_ok_def)
  moreover have "bal_id b < next_uuid ?c" if "b \<in> set (lives (balances ?c))" for b
    using subsetD [OF bal(3) that] T by (auto simp: tables_ok_def commit_stock_def less_max_iff_disj)
  moreover have "res_id r < next_uuid ?c \<and> 0 < res_quantity r" if "r \<in> set (lives (reservations ?c))" for r
    using subsetD [OF res(2) that] T by (auto simp: tables_ok_def commit_stock_def less_max_iff_disj)
  ultimately have "tables_ok ?c" using ids res(1) by (simp add: tables_ok_def bal(1))
  moreover have "stock_ok ?c"
    using OK subsetD [OF bal(3)] ids by (auto simp: stock_ok_def all_bal_ok_def distinct_balances_def bal(1))
  ultimately show ?thesis using bal(4) res(3) L by (simp add: stock_inv_def ledger_def)
qed


text \<open>Alone, a request commits exactly what \<open>run_request\<close> says.\<close>

lemma commit_alone:
  assumes "tables_ok s" and "allocates k s t" 
  shows "lives (balances (commit_stock s t s)) = lives (balances t)"
    and "lives (reservations (commit_stock s t s)) = lives (reservations t)"
proof -
  obtain bs where bs: "lives (reservations t) = lives (reservations s) @ bs" "list_all (new_reservation k (next_uuid s)) bs"
    using assms(2) by (auto simp: allocates_def)
  have "res_id r \<notin> res_id ` set (lives (reservations s))" if "r \<in> set bs" for r
    using that bs(2) assms(1) by (fastforce simp: tables_ok_def list_all_iff new_reservation_def image_iff dest: leD)
  then show "lives (reservations (commit_stock s t s)) = lives (reservations t)"
    using write_reservations [of "lives (reservations s)" "[]" bs] assms(1)
    by (simp add: commit_stock_lives bs(1) tables_ok_def)
  have LB: "list_all2 (rewritten k) (lives (balances s)) (lives (balances t))" using assms(2) by (simp add: allocates_def)
  have "list_all2 (rewritten (Suc k)) (lives (balances s)) (lives (balances s))"
    by (simp add: list_all2_refl rewritten_def)
  from write_balances [OF _ this LB] assms(1)
  have "lives (balances (commit_stock s t s)) =
      map (\<lambda>i. if bal_sku (lives (balances s) ! i) = k then lives (balances t) ! i else lives (balances s) ! i) [0..<length (lives (balances s))]"
    by (simp add: commit_stock_lives tables_ok_def)
  also have "\<dots> = lives (balances t)"
    using LB list_all2_lengthD [OF LB] by (intro nth_equalityI) (auto simp: list_all2_conv_all_nth rewritten_def)
  finally show "lives (balances (commit_stock s t s)) = lives (balances t)" .
qed

text \<open>A warehouse with ten units of SKU 3 and ten of SKU 8.\<close>

definition demo_two :: session where
  "demo_two = demo_session\<lparr>
     balances := map (\<lambda>b. Cell (Some b) b) [demo_balance 4 1 10, (demo_balance 5 1 10)\<lparr>bal_sku := 8\<rparr>]\<rparr>"

definition demo_other :: AllocationRequest where
  "demo_other = (demo_request 8)\<lparr>ar_order := 66, ar_sku := 8\<rparr>"

lemma demo_two_ok: "stock_inv demo_two" "clean_session demo_two" "n \<ge> 10 \<Longrightarrow> clean_session (demo_two\<lparr>next_uuid := n\<rparr>)"
proof -
  have "tables_ok demo_two"
    by (simp add: tables_ok_def bins_synced_def demo_two_def demo_session_def demo_balance_def empty_session_def
        lives_def bin_key_def)
  moreover have "active_qty w k demo_two = reserved_qty w k demo_two" for w k
    by (simp add: active_qty_def reserved_qty_def demo_two_def demo_session_def demo_balance_def empty_session_def lives_def)
  moreover have "stock_ok demo_two"
    by (simp add: stock_ok_def all_bal_ok_def distinct_balances_def demo_two_def demo_session_def demo_balance_def
        empty_session_def lives_def bal_ok_def)
  ultimately show "stock_inv demo_two" by (simp add: stock_inv_def ledger_def)
  show c: "clean_session demo_two"
    by (simp add: clean_session_def demo_two_def demo_session_def empty_session_def flush_def flush_table_def)
  show "clean_session (demo_two\<lparr>next_uuid := n\<rparr>)" by (rule clean_session_context(3) [OF c])
qed

lemma demo_two_allocates:
  assumes "req \<in> {demo_request 8, demo_other}"
  shows "\<exists>r t. allocate req (demo_two\<lparr>next_uuid := 10 + n\<rparr>) = (Inr r, t) \<and> al_total r = 8"
proof -
  let ?s = "demo_two\<lparr>next_uuid := 10 + n\<rparr>"
  have "stock_inv ?s" by (rule stock_inv_untouched [OF demo_two_ok(1)]) (simp_all add: demo_two_def demo_session_def)
  then have "tables_ok ?s" by (simp add: stock_inv_def ledger_def)
  moreover have "single_bins (ar_sku req) ?s" "distinct (map wh_id (lives (warehouses ?s)))"
    by (simp_all add: single_bins_def demo_two_def demo_session_def demo_balance_def demo_warehouse_def
        empty_session_def lives_def)
  moreover have "network_available (ar_sku req) ?s = 10"
  proof -
    have "network_available k ?s = network_available k demo_two" for k
      by (simp add: network_available_def scores_of_def score_of_def comp_def)
    moreover have "network_available 3 demo_two = 10" "network_available 8 demo_two = 10" by code_simp+
    ultimately show ?thesis using assms by (auto simp: demo_request_def demo_other_def)
  qed
  ultimately show ?thesis
    using allocate_complete [of ?s req] demo_two_ok(3) [of "10 + n"] assms by (auto simp: demo_request_def demo_other_def)
qed


text \<open>For one SKU the second commit overwrites the first: of two requests for eight of the ten units in
  warehouse 1 both are granted, sixteen units are reserved there, and the balance says eight.\<close>

definition demo_rival :: AllocationRequest where
  "demo_rival = (demo_request 8)\<lparr>ar_order := 66\<rparr>"

text \<open>Both requests find ten units.\<close>

lemma demo_rival_rank:
  "allocate demo_rival (demo_session\<lparr>next_uuid := 11\<rparr>) =
   bind (for_loop (allocate_step demo_rival) demo_scores (empty_result demo_rival, 8))
     (\<lambda>(result, remaining).
       bind (raise_if (al_total result = 0) (InsufficientInventoryError 3 8
         (sum_list (map ws_available demo_scores)) None)) (\<lambda>_.
       ret (result\<lparr>al_backorder := remaining\<rparr>))) (demo_session\<lparr>next_uuid := 11\<rparr>)"
proof -
  have "scores_of 3 (demo_session\<lparr>next_uuid := 11\<rparr>) = scores_of 3 demo_session"
    by (simp add: scores_of_def score_of_def)
  then have rank: "rank_warehouses demo_rival (demo_session\<lparr>next_uuid := 11\<rparr>) = (Inr demo_scores, demo_session\<lparr>next_uuid := 11\<rparr>)"
    using demo_rank [of 8] by (simp add: rank_warehouses_app demo_rival_def demo_request_def)
  show ?thesis
    unfolding allocate_def bind_def [of "rank_warehouses demo_rival"] rank
    by (simp add: Let_def prefer_warehouse_def demo_rival_def demo_request_def)
qed

definition demo_first :: session where
  "demo_first = snd (run_request (allocate (demo_request 8)) demo_session)"

definition demo_second :: session where
  "demo_second = snd (allocate demo_rival (demo_session\<lparr>next_uuid := 11\<rparr>))"

lemma allocations_of_one_sku_oversell:
  "active_qty 1 3 (commit_stock demo_session demo_second demo_first) = 16"
  "reserved_qty 1 3 (commit_stock demo_session demo_second demo_first) = 8"
  unfolding demo_second_def demo_first_def run_request_def demo_rival_rank demo_allocate by code_simp+

end
