(* ===== verification/Metrics.thy ===== *)
theory Metrics
  imports SupplierWork "HOL-Library.List_Lexorder" "HOL-Library.Char_ord"
begin

text \<open>
  \<open>core/metrics.py\<close>: counters, histograms and gauges under keys that spell out the labels.  A dictionary is
  the association list of its items in insertion order, which the export follows.
\<close>

section \<open>MetricsRegistry\<close>

record MetricsRegistry =
  mr_counters :: "(string \<times> int) list"
  mr_histograms :: "(string \<times> pyfloat list) list"
  mr_gauges :: "(string \<times> pyfloat) list"

definition new_registry :: MetricsRegistry where
  "new_registry = \<lparr>mr_counters = [], mr_histograms = [], mr_gauges = []\<rparr>"

text \<open>\<open>d[k] = v\<close> keeps the place of a key that is there.\<close>

fun put :: "'k \<Rightarrow> 'v \<Rightarrow> ('k \<times> 'v) list \<Rightarrow> ('k \<times> 'v) list" where
  "put k v [] = [(k, v)]"
| "put k v ((k', w) # d) = (if k' = k then (k, v) # d else (k', w) # put k v d)"

definition or_else :: "'v option \<Rightarrow> 'v \<Rightarrow> 'v" where
  "or_else x v0 = (case x of None \<Rightarrow> v0 | Some v \<Rightarrow> v)"

fun join_comma :: "string list \<Rightarrow> string" where
  "join_comma [] = []"
| "join_comma [x] = x"
| "join_comma (x # xs) = x @ '','' @ join_comma xs"

definition metric_key :: "string \<Rightarrow> (string \<times> string) list \<Rightarrow> string" where
  "metric_key name labels = (if labels = [] then name
     else name @ ''{'' @ join_comma (map (\<lambda>(k, v). k @ ''=\"'' @ v @ ''\"'') (sort_key fst labels)) @ ''}'')"

definition increment :: "string \<Rightarrow> int \<Rightarrow> (string \<times> string) list \<Rightarrow> MetricsRegistry \<Rightarrow> MetricsRegistry" where
  "increment name n labels r = (let k = metric_key name labels in
     r\<lparr>mr_counters := put k (or_else (map_of (mr_counters r) k) 0 + n) (mr_counters r)\<rparr>)"

definition last_of :: "nat \<Rightarrow> 'a list \<Rightarrow> 'a list" where
  "last_of n xs = drop (length xs - n) xs"

definition observe :: "string \<Rightarrow> pyfloat \<Rightarrow> (string \<times> string) list \<Rightarrow> MetricsRegistry \<Rightarrow> MetricsRegistry" where
  "observe name x labels r = (let k = metric_key name labels;
       vs = or_else (map_of (mr_histograms r) k) [] @ [x];
       vs = (if 10000 < length vs then last_of 5000 vs else vs) in
     r\<lparr>mr_histograms := put k vs (mr_histograms r)\<rparr>)"

definition gauge :: "string \<Rightarrow> pyfloat \<Rightarrow> (string \<times> string) list \<Rightarrow> MetricsRegistry \<Rightarrow> MetricsRegistry" where
  "gauge name x labels r = r\<lparr>mr_gauges := put (metric_key name labels) x (mr_gauges r)\<rparr>"

definition get_counter :: "string \<Rightarrow> (string \<times> string) list \<Rightarrow> MetricsRegistry \<Rightarrow> int" where
  "get_counter name labels r = or_else (map_of (mr_counters r) (metric_key name labels)) 0"

record histogram_stats =
  hs_count :: nat
  hs_avg :: pyfloat
  hs_p95 :: pyfloat
  hs_max :: pyfloat

text \<open>\<open>int(len(sorted_vals) * 0.95)\<close> in binary64, and the statistics of the values.\<close>

definition p95_index :: "nat \<Rightarrow> nat" where
  "p95_index n = nat \<lfloor>fmul (of_nat n) (fl (95 / 100))\<rfloor>"

definition stats_of :: "pyfloat list \<Rightarrow> histogram_stats" where
  "stats_of vs = (if vs = [] then \<lparr>hs_count = 0, hs_avg = 0, hs_p95 = 0, hs_max = 0\<rparr>
     else \<lparr>hs_count = length vs, hs_avg = fdiv (py_float_sum vs) (of_nat (length vs)),
       hs_p95 = sort vs ! min (p95_index (length vs)) (length vs - 1), hs_max = Max (set vs)\<rparr>)"

definition get_histogram_stats :: "string \<Rightarrow> (string \<times> string) list \<Rightarrow> MetricsRegistry \<Rightarrow> histogram_stats" where
  "get_histogram_stats name labels r = stats_of (or_else (map_of (mr_histograms r) (metric_key name labels)) [])"

text \<open>The lines of the export: a type line and a value line for each item.  \<open>str\<close> of a number stands for
  the number.\<close>

datatype metric_value = Counter_value int | Gauge_value pyfloat

definition base_name :: "string \<Rightarrow> string" where
  "base_name k = takeWhile (\<lambda>c. c \<noteq> CHR ''{'') k"

definition export_prometheus :: "MetricsRegistry \<Rightarrow> (string \<times> string \<times> metric_value) list" where
  "export_prometheus r = map (\<lambda>(k, v). (base_name k, k, Counter_value v)) (mr_counters r) @
     map (\<lambda>(k, v). (base_name k, k, Gauge_value v)) (mr_gauges r)"

text \<open>\<open>Timer\<close>: \<open>time.monotonic()\<close> at the entry and at the exit, in seconds.\<close>

definition timer_exit :: "string \<Rightarrow> (string \<times> string) list \<Rightarrow> pyfloat \<Rightarrow> pyfloat \<Rightarrow> MetricsRegistry \<Rightarrow> MetricsRegistry" where
  "timer_exit name labels start stop = observe name (fmul (fsub stop start) 1000) labels"

section \<open>Laws\<close>

lemma map_of_put [simp]: "map_of (put k v d) k' = (if k' = k then Some v else map_of d k')"
  by (induction k v d rule: put.induct) auto

lemma put_keys: "map fst (put k v d) = (if k \<in> fst ` set d then map fst d else map fst d @ [k])"
  by (induction k v d rule: put.induct) auto

lemma counter_counts:
  "get_counter name' labels' (increment name n labels r) =
     get_counter name' labels' r + (if metric_key name' labels' = metric_key name labels then n else 0)"
  by (simp add: get_counter_def increment_def Let_def or_else_def)

text \<open>A histogram never holds more than 10000 values, and what it holds are the latest ones.\<close>

definition histograms_bounded :: "MetricsRegistry \<Rightarrow> bool" where
  "histograms_bounded r \<longleftrightarrow> (\<forall>vs \<in> ran (map_of (mr_histograms r)). length vs \<le> 10000)"

lemma observe_bounded: "histograms_bounded r \<Longrightarrow> histograms_bounded (observe name x labels r)"
  by (auto simp: histograms_bounded_def observe_def Let_def ran_def or_else_def last_of_def split: option.splits if_splits)

lemma observed_is_latest:
  "\<exists>vs. map_of (mr_histograms (observe name x labels r)) (metric_key name labels) = Some (vs @ [x])"
proof -
  have "last_of 5000 (vs @ [x]) = last_of 4999 vs @ [x]" if "10000 \<le> length vs" for vs
    using that by (simp add: last_of_def)
  then show ?thesis by (simp add: observe_def Let_def)
qed

lemma stats_p95_observed:
  assumes "vs \<noteq> []"
  shows "hs_p95 (stats_of vs) \<in> set vs"
proof -
  have "min (p95_index (length vs)) (length vs - 1) < length (sort vs)" using assms by (simp add: min_less_iff_disj)
  from nth_mem [OF this] show ?thesis using assms by (simp add: stats_of_def)
qed

lemma p95_below_max: "vs \<noteq> [] \<Longrightarrow> hs_p95 (stats_of vs) \<le> hs_max (stats_of vs)"
  using stats_p95_observed [of vs] by (simp add: stats_of_def)

text \<open>Two sets of labels may share a key: the quotes in a value are not escaped.\<close>

lemma label_keys_collide:
  "metric_key ''m'' [(''a'', ''1\",b=\"2'')] = metric_key ''m'' [(''a'', ''1''), (''b'', ''2'')]"
  by code_simp

end
