(* ===== verification/DatabaseSchema.thy ===== *)
theory DatabaseSchema
  imports Prelude "HOL-Library.AList"
begin

text \<open>
  The data definition language of the migrations in \<open>alembic/versions/\<close> and the contract of the
  database server that runs them.  \<open>column\<close> and its modifiers are \<open>sa.Column\<close> and its keyword
  arguments, \<open>ddl\<close> is one \<open>op\<close> call of a migration.  The server (PostgreSQL) is not under the
  repository: the locale \<open>ddl_database\<close> states what it documents about the four statements, when
  they fail included.  \<open>schema_exec\<close> is a server that keeps its catalog in two association lists;
  it meets the contract, and \<open>framed_run\<close> transfers what it does with a script to every server,
  whatever else that server's catalog holds.
\<close>

section \<open>Tables and statements\<close>

datatype sql_type =
  Uuid | Varchar int | Text | Integer | BigInteger | Numeric int int | Boolean | Timestamptz | Jsonb | Float

record column =
  col_name :: string
  col_type :: sql_type
  col_primary :: bool
  col_unique :: bool
  col_nullable :: bool
  col_reference :: "(string \<times> string) option"
  col_default :: "string option"

definition col :: "string \<Rightarrow> sql_type \<Rightarrow> column" where
  "col n ty = \<lparr>col_name = n, col_type = ty, col_primary = False, col_unique = False, col_nullable = True,
    col_reference = None, col_default = None\<rparr>"

definition primary_key :: "column \<Rightarrow> column" where
  "primary_key c = c\<lparr>col_primary := True, col_nullable := False\<rparr>"

definition not_null :: "column \<Rightarrow> column" where
  "not_null c = c\<lparr>col_nullable := False\<rparr>"

definition unique_key :: "column \<Rightarrow> column" where
  "unique_key c = c\<lparr>col_unique := True\<rparr>"

definition references :: "string \<Rightarrow> string \<Rightarrow> column \<Rightarrow> column" where
  "references t k c = c\<lparr>col_reference := Some (t, k)\<rparr>"

definition server_default :: "string \<Rightarrow> column \<Rightarrow> column" where
  "server_default v c = c\<lparr>col_default := Some v\<rparr>"

text \<open>A table: its columns and its named unique constraints.\<close>

record table =
  tb_columns :: "column list"
  tb_uniques :: "(string \<times> string list) list"

datatype ddl =
  Create_table string "column list" "(string \<times> string list) list"
| Create_index string string "string list"
| Drop_index string string
| Drop_table string

definition column_names :: "table \<Rightarrow> string list" where
  "column_names t = map col_name (tb_columns t)"

text \<open>A foreign key must point to a primary or unique column.\<close>

definition key_column :: "table \<Rightarrow> string \<Rightarrow> bool" where
  "key_column t k = list_ex (\<lambda>c. col_name c = k \<and> (col_primary c \<or> col_unique c)) (tb_columns t)"

definition reference_resolves :: "(string \<rightharpoonup> table) \<Rightarrow> column \<Rightarrow> bool" where
  "reference_resolves cat c = (case col_reference c of None \<Rightarrow> True
    | Some (t, k) \<Rightarrow> (case cat t of None \<Rightarrow> False | Some tb \<Rightarrow> key_column tb k))"

definition well_formed_table :: "(string \<rightharpoonup> table) \<Rightarrow> table \<Rightarrow> bool" where
  "well_formed_table cat t = (distinct (column_names t) \<and> list_all (reference_resolves cat) (tb_columns t)
    \<and> list_all (\<lambda>u. set (snd u) \<subseteq> set (column_names t)) (tb_uniques t))"

definition refers_to :: "table \<Rightarrow> string \<Rightarrow> bool" where
  "refers_to t n = list_ex (\<lambda>c. map_option fst (col_reference c) = Some n) (tb_columns t)"

definition without_indexes_of :: "string \<Rightarrow> (string \<rightharpoonup> string \<times> string list) \<Rightarrow> (string \<rightharpoonup> string \<times> string list)" where
  "without_indexes_of n ix = (\<lambda>i. case ix i of None \<Rightarrow> None | Some d \<Rightarrow> if fst d = n then None else Some d)"

primrec run_ddl :: "(ddl \<Rightarrow> 'd \<Rightarrow> 'd option) \<Rightarrow> ddl list \<Rightarrow> 'd \<Rightarrow> 'd option" where
  "run_ddl exec [] d = Some d"
| "run_ddl exec (c # cs) d = (case exec c d of None \<Rightarrow> None | Some e \<Rightarrow> run_ddl exec cs e)"

lemma run_ddl_append:
  "run_ddl exec (xs @ ys) d = (case run_ddl exec xs d of None \<Rightarrow> None | Some e \<Rightarrow> run_ddl exec ys e)"
  by (induction xs arbitrary: d) (auto split: option.splits)

section \<open>The contract of the server\<close>

locale ddl_database =
  fixes exec :: "ddl \<Rightarrow> 'd \<Rightarrow> 'd option"
    and catalog :: "'d \<Rightarrow> string \<rightharpoonup> table"
    and indexes :: "'d \<Rightarrow> string \<rightharpoonup> string \<times> string list"
  assumes create_table: "\<lbrakk>t = \<lparr>tb_columns = cs, tb_uniques = us\<rparr>; n \<notin> dom (catalog d); n \<notin> dom (indexes d);
        well_formed_table ((catalog d)(n \<mapsto> t)) t\<rbrakk>
      \<Longrightarrow> \<exists>e. exec (Create_table n cs us) d = Some e \<and> catalog e = (catalog d)(n \<mapsto> t) \<and> indexes e = indexes d"
    and create_table_fails: "\<lbrakk>t = \<lparr>tb_columns = cs, tb_uniques = us\<rparr>; n \<in> dom (catalog d) \<or> n \<in> dom (indexes d)
        \<or> \<not> well_formed_table ((catalog d)(n \<mapsto> t)) t\<rbrakk> \<Longrightarrow> exec (Create_table n cs us) d = None"
    and drop_table: "\<lbrakk>n \<in> dom (catalog d); \<And>m t. m \<noteq> n \<Longrightarrow> catalog d m = Some t \<Longrightarrow> \<not> refers_to t n\<rbrakk>
      \<Longrightarrow> \<exists>e. exec (Drop_table n) d = Some e \<and> catalog e = (catalog d)(n := None)
          \<and> indexes e = without_indexes_of n (indexes d)"
    and drop_table_fails: "n \<notin> dom (catalog d) \<or> (\<exists>m t. m \<noteq> n \<and> catalog d m = Some t \<and> refers_to t n)
      \<Longrightarrow> exec (Drop_table n) d = None"
    and create_index: "\<lbrakk>i \<notin> dom (catalog d); i \<notin> dom (indexes d); catalog d n = Some t; set ks \<subseteq> set (column_names t)\<rbrakk>
      \<Longrightarrow> \<exists>e. exec (Create_index i n ks) d = Some e \<and> catalog e = catalog d \<and> indexes e = (indexes d)(i \<mapsto> (n, ks))"
    and create_index_fails: "i \<in> dom (catalog d) \<or> i \<in> dom (indexes d)
        \<or> (case catalog d n of None \<Rightarrow> True | Some t \<Rightarrow> \<not> set ks \<subseteq> set (column_names t))
      \<Longrightarrow> exec (Create_index i n ks) d = None"
    and drop_index: "i \<in> dom (indexes d)
      \<Longrightarrow> \<exists>e. exec (Drop_index i n) d = Some e \<and> catalog e = catalog d \<and> indexes e = (indexes d)(i := None)"
    and drop_index_fails: "i \<notin> dom (indexes d) \<Longrightarrow> exec (Drop_index i n) d = None"

section \<open>A server on association lists\<close>

record schema =
  sc_tables :: "(string \<times> table) list"
  sc_indexes :: "(string \<times> string \<times> string list) list"

definition empty_schema :: schema where
  "empty_schema = \<lparr>sc_tables = [], sc_indexes = []\<rparr>"

definition has_key :: "(string \<times> 'b) list \<Rightarrow> string \<Rightarrow> bool" where
  "has_key xs k = list_ex (\<lambda>p. fst p = k) xs"

definition still_referenced :: "(string \<times> table) list \<Rightarrow> string \<Rightarrow> bool" where
  "still_referenced ts n = list_ex (\<lambda>p. fst p \<noteq> n \<and> (case map_of ts (fst p) of None \<Rightarrow> False | Some t \<Rightarrow> refers_to t n)) ts"

fun schema_exec :: "ddl \<Rightarrow> schema \<Rightarrow> schema option" where
  "schema_exec (Create_table n cs us) s = (let t = \<lparr>tb_columns = cs, tb_uniques = us\<rparr> in
     if has_key (sc_tables s) n \<or> has_key (sc_indexes s) n
        \<or> \<not> well_formed_table (map_of ((n, t) # sc_tables s)) t then None
     else Some (s\<lparr>sc_tables := (n, t) # sc_tables s\<rparr>))"
| "schema_exec (Create_index i n cs) s =
     (if has_key (sc_tables s) i \<or> has_key (sc_indexes s) i then None
      else case map_of (sc_tables s) n of None \<Rightarrow> None
        | Some t \<Rightarrow> if set cs \<subseteq> set (column_names t)
            then Some (s\<lparr>sc_indexes := (i, n, cs) # sc_indexes s\<rparr>) else None)"
| "schema_exec (Drop_index i n) s =
     (if has_key (sc_indexes s) i then Some (s\<lparr>sc_indexes := filter (\<lambda>p. fst p \<noteq> i) (sc_indexes s)\<rparr>) else None)"
| "schema_exec (Drop_table n) s =
     (if has_key (sc_tables s) n \<and> \<not> still_referenced (sc_tables s) n
      then Some (s\<lparr>sc_tables := filter (\<lambda>p. fst p \<noteq> n) (sc_tables s),
          sc_indexes := filter (\<lambda>p. case map_of (sc_indexes s) (fst p) of None \<Rightarrow> False | Some d \<Rightarrow> fst d \<noteq> n)
            (sc_indexes s)\<rparr>) else None)"

lemma map_of_filter_key: "map_of (filter (\<lambda>p. P (fst p)) xs) k = (if P k then map_of xs k else None)"
  by (induction xs) auto

lemma has_key_iff [simp]: "has_key xs k \<longleftrightarrow> k \<in> dom (map_of xs)"
  by (induction xs) (auto simp: has_key_def)

lemma map_of_delete: "map_of (filter (\<lambda>p. fst p \<noteq> n) xs) = (map_of xs)(n := None)"
  by (rule ext) (simp add: map_of_filter_key [of "\<lambda>k. k \<noteq> n"])

lemma map_of_drop_indexes:
  "map_of (filter (\<lambda>p. case map_of xs (fst p) of None \<Rightarrow> False | Some d \<Rightarrow> fst d \<noteq> n) xs)
    = without_indexes_of n (map_of xs)"
  by (rule ext) (simp add: map_of_filter_key [of "\<lambda>k. case map_of xs k of None \<Rightarrow> False | Some d \<Rightarrow> fst d \<noteq> n"]
      without_indexes_of_def split: option.splits)

lemma still_referenced_iff:
  "still_referenced ts n \<longleftrightarrow> (\<exists>m t. m \<noteq> n \<and> map_of ts m = Some t \<and> refers_to t n)"
proof
  assume "still_referenced ts n"
  then show "\<exists>m t. m \<noteq> n \<and> map_of ts m = Some t \<and> refers_to t n"
    by (auto simp: still_referenced_def list_ex_iff split: option.splits)
next
  assume "\<exists>m t. m \<noteq> n \<and> map_of ts m = Some t \<and> refers_to t n"
  then obtain m t where m: "m \<noteq> n" "map_of ts m = Some t" "refers_to t n" by blast
  then have "(m, t) \<in> set ts" by (simp add: map_of_SomeD)
  with m show "still_referenced ts n" by (force simp: still_referenced_def list_ex_iff)
qed

interpretation lists: ddl_database schema_exec "\<lambda>s. map_of (sc_tables s)" "\<lambda>s. map_of (sc_indexes s)"
  by unfold_locales
    (auto simp: Let_def map_of_delete map_of_drop_indexes still_referenced_iff split: option.splits if_splits)

section \<open>Running a script beside other tables\<close>

text \<open>
  \<open>outside N cat ix\<close>: the names of \<open>N\<close> are free in a catalog, and nothing in the catalog mentions
  them.  \<open>extends_by\<close> relates a server's state with the state of \<open>schema_exec\<close> that holds exactly
  what a script has created.
\<close>

definition outside :: "string set \<Rightarrow> (string \<rightharpoonup> table) \<Rightarrow> (string \<rightharpoonup> string \<times> string list) \<Rightarrow> bool" where
  "outside N cat ix \<longleftrightarrow> dom cat \<inter> N = {} \<and> dom ix \<inter> N = {}
    \<and> (\<forall>m t. cat m = Some t \<longrightarrow> (\<forall>n\<in>N. \<not> refers_to t n))
    \<and> (\<forall>i d. ix i = Some d \<longrightarrow> fst d \<notin> N)"

definition extends_by :: "string set \<Rightarrow> (string \<rightharpoonup> table) \<Rightarrow> (string \<rightharpoonup> string \<times> string list) \<Rightarrow> schema
    \<Rightarrow> (string \<rightharpoonup> table) \<Rightarrow> (string \<rightharpoonup> string \<times> string list) \<Rightarrow> bool" where
  "extends_by N cat ix s cat' ix' \<longleftrightarrow> cat' = cat ++ map_of (sc_tables s) \<and> ix' = ix ++ map_of (sc_indexes s)
    \<and> dom (map_of (sc_tables s)) \<subseteq> N \<and> dom (map_of (sc_indexes s)) \<subseteq> N"

primrec created_name :: "ddl \<Rightarrow> string list" where
  "created_name (Create_table n cs us) = [n]"
| "created_name (Create_index i n ks) = [i]"
| "created_name (Drop_index i n) = []"
| "created_name (Drop_table n) = []"

lemma well_formed_extends:
  assumes "well_formed_table M t" shows "well_formed_table (cat ++ M) t"
proof -
  have "reference_resolves (cat ++ M) c" if "reference_resolves M c" for c
    using that by (auto simp: reference_resolves_def map_add_def split: option.splits)
  with assms show ?thesis by (auto simp: well_formed_table_def list_all_iff)
qed

lemma delete_extends: "n \<notin> dom cat \<Longrightarrow> (cat ++ M)(n := None) = cat ++ M(n := None)"
  by (rule ext) (auto simp: map_add_def split: option.splits)

lemma without_indexes_extends:
  assumes "\<And>i d. ix i = Some d \<Longrightarrow> fst d \<noteq> n" "dom ix \<inter> dom J = {}"
  shows "without_indexes_of n (ix ++ J) = ix ++ without_indexes_of n J"
proof (rule ext)
  fix i
  show "without_indexes_of n (ix ++ J) i = (ix ++ without_indexes_of n J) i"
    using assms(1) [of i] assms(2) domIff [of i ix]
    by (cases "J i"; cases "ix i") (auto simp: without_indexes_of_def map_add_def disjoint_iff)
qed

context ddl_database
begin

lemma framed_step:
  assumes out: "outside N cat ix" and ext: "extends_by N cat ix s (catalog d) (indexes d)"
    and run: "schema_exec c s = Some s'" and names: "set (created_name c) \<subseteq> N"
  shows "\<exists>e. exec c d = Some e \<and> extends_by N cat ix s' (catalog e) (indexes e)"
proof -
  have cat: "catalog d = cat ++ map_of (sc_tables s)" and ix: "indexes d = ix ++ map_of (sc_indexes s)"
    and sub: "dom (map_of (sc_tables s)) \<subseteq> N" "dom (map_of (sc_indexes s)) \<subseteq> N"
    using ext by (auto simp: extends_by_def)
  have free: "n \<notin> dom cat" "n \<notin> dom ix" if "n \<in> N" for n
    using out that by (auto simp: outside_def)
  show ?thesis
  proof (cases c)
    case (Create_table n cs us)
    let ?t = "\<lparr>tb_columns = cs, tb_uniques = us\<rparr>"
    have n: "n \<in> N" using names Create_table by simp
    have ok: "n \<notin> dom (map_of (sc_tables s))" "n \<notin> dom (map_of (sc_indexes s))"
        "well_formed_table (map_of ((n, ?t) # sc_tables s)) ?t" and s': "s' = s\<lparr>sc_tables := (n, ?t) # sc_tables s\<rparr>"
      using run Create_table by (auto simp: Let_def split: if_splits)
    have "well_formed_table ((catalog d)(n \<mapsto> ?t)) ?t"
      using well_formed_extends [OF ok(3), of cat] by (simp add: cat)
    then show ?thesis
      using create_table [OF refl, of n d cs us] ok free [OF n] n sub
      by (auto simp: extends_by_def s' cat ix Create_table)
  next
    case (Create_index i n ks)
    have i: "i \<in> N" using names Create_index by simp
    obtain t where t: "map_of (sc_tables s) n = Some t" "set ks \<subseteq> set (column_names t)"
      and ok: "i \<notin> dom (map_of (sc_tables s))" "i \<notin> dom (map_of (sc_indexes s))"
      and s': "s' = s\<lparr>sc_indexes := (i, n, ks) # sc_indexes s\<rparr>"
      using run Create_index by (auto split: if_splits option.splits)
    have "catalog d n = Some t" using t by (simp add: cat)
    then show ?thesis
      using create_index [of i d n t ks] ok free [OF i] i sub t
      by (auto simp: extends_by_def s' cat ix Create_index)
  next
    case (Drop_index i n)
    have i: "i \<in> dom (map_of (sc_indexes s))"
      and s': "s' = s\<lparr>sc_indexes := filter (\<lambda>p. fst p \<noteq> i) (sc_indexes s)\<rparr>"
      using run Drop_index by (auto split: if_splits)
    have "i \<in> N" using i sub by blast
    moreover have "dom ((map_of (sc_indexes s))(i := None)) \<subseteq> N" using sub(2) by auto
    ultimately show ?thesis
      using drop_index [of i d n] i sub(1) free [of i]
      by (auto simp: extends_by_def s' cat ix Drop_index map_of_delete delete_extends)
  next
    case (Drop_table n)
    have n: "n \<in> dom (map_of (sc_tables s))" and unref: "\<not> still_referenced (sc_tables s) n"
      and s': "sc_tables s' = filter (\<lambda>p. fst p \<noteq> n) (sc_tables s)"
        "map_of (sc_indexes s') = without_indexes_of n (map_of (sc_indexes s))"
      using run Drop_table by (auto simp: map_of_drop_indexes split: if_splits)
    have nN: "n \<in> N" using n sub by blast
    have "\<not> refers_to t n" if "m \<noteq> n" "catalog d m = Some t" for m t
      using that unref out nN by (auto simp: cat outside_def still_referenced_iff map_add_Some_iff)
    moreover have "without_indexes_of n (indexes d) = ix ++ without_indexes_of n (map_of (sc_indexes s))"
      unfolding ix using out nN sub(2) by (intro without_indexes_extends) (fastforce simp: outside_def)+
    moreover have "dom (without_indexes_of n (map_of (sc_indexes s))) \<subseteq> N"
      using sub(2) by (auto simp: without_indexes_of_def dom_def split: option.splits)
    moreover have "dom ((map_of (sc_tables s))(n := None)) \<subseteq> N" using sub(1) by auto
    ultimately show ?thesis
      using drop_table [of n d] n free [OF nN]
      by (auto simp: extends_by_def s' cat Drop_table map_of_delete delete_extends)
  qed
qed

lemma framed_run:
  assumes "outside N cat ix" "extends_by N cat ix s (catalog d) (indexes d)"
    "run_ddl schema_exec cs s = Some s'" "set (concat (map created_name cs)) \<subseteq> N"
  shows "\<exists>e. run_ddl exec cs d = Some e \<and> extends_by N cat ix s' (catalog e) (indexes e)"
  using assms(2-)
proof (induction cs arbitrary: s d)
  case (Cons c cs)
  obtain s1 where s1: "schema_exec c s = Some s1" "run_ddl schema_exec cs s1 = Some s'"
    using Cons.prems(2) by (auto split: option.splits)
  obtain e where e: "exec c d = Some e" "extends_by N cat ix s1 (catalog e) (indexes e)"
    using framed_step [OF assms(1) Cons.prems(1) s1(1)] Cons.prems(3) by auto
  show ?case using Cons.IH [OF e(2) s1(2)] Cons.prems(3) e(1) by simp
qed auto

end

lemma extends_by_empty: "extends_by N cat ix empty_schema cat' ix' \<longleftrightarrow> cat' = cat \<and> ix' = ix"
  by (auto simp: extends_by_def empty_schema_def)

end
