(* ===== verification/Migrations.thy ===== *)
theory Migrations
  imports DatabaseSchema
begin

text \<open>
  The migrations of \<open>alembic/versions/\<close>: one definition per \<open>op.create_table\<close>, the \<open>upgrade\<close> and
  \<open>downgrade\<close> functions as the statements they execute, and the revision links.  Alembic walks the
  links from \<open>base\<close> and runs the scripts in that order (backwards for a downgrade); \<open>upgrade_to\<close> and
  \<open>downgrade_to\<close> are the statements this amounts to.  The theorem says that on any server with room
  for the tables an upgrade creates exactly what the scripts name, and that a downgrade from any
  revision to any earlier one leaves the catalog that revision had.
\<close>

section \<open>001_initial: the network, its stock, orders, events and the audit trail\<close>

definition create_warehouses :: ddl where
  "create_warehouses = Create_table ''warehouses''
   [primary_key (col ''id'' Uuid),
    not_null (unique_key (col ''warehouse_code'' (Varchar 32))),
    not_null (col ''name'' (Varchar 256)),
    not_null (col ''address'' Jsonb),
    server_default ''UTC'' (col ''timezone'' (Varchar 64)),
    col ''capacity_units'' Integer,
    server_default ''true'' (col ''is_active'' Boolean),
    server_default ''5'' (col ''fulfillment_priority'' Integer),
    server_default ''{}'' (col ''operating_hours'' Jsonb),
    server_default ''now()'' (col ''created_at'' Timestamptz),
    server_default ''now()'' (col ''updated_at'' Timestamptz)]
   []"

definition create_skus :: ddl where
  "create_skus = Create_table ''skus''
   [primary_key (col ''id'' Uuid),
    not_null (unique_key (col ''sku_code'' (Varchar 64))),
    not_null (col ''description'' (Varchar 512)),
    server_default ''EA'' (col ''uom'' (Varchar 16)),
    col ''weight_kg'' (Numeric 12 4),
    server_default ''false'' (col ''is_hazmat'' Boolean),
    server_default ''true'' (col ''is_active'' Boolean),
    server_default ''7'' (col ''lead_time_days'' Integer),
    server_default ''now()'' (col ''created_at'' Timestamptz),
    server_default ''now()'' (col ''updated_at'' Timestamptz)]
   []"

definition create_suppliers :: ddl where
  "create_suppliers = Create_table ''suppliers''
   [primary_key (col ''id'' Uuid),
    not_null (unique_key (col ''supplier_code'' (Varchar 32))),
    not_null (col ''name'' (Varchar 256)),
    col ''contact_email'' (Varchar 256),
    server_default ''14'' (col ''lead_time_days'' Integer),
    col ''on_time_delivery_rate'' (Numeric 5 4),
    col ''quality_score'' (Numeric 5 4),
    server_default ''30'' (col ''payment_terms_days'' Integer),
    server_default ''false'' (col ''is_preferred'' Boolean),
    server_default ''true'' (col ''is_active'' Boolean),
    server_default ''{}'' (col ''performance_metrics'' Jsonb),
    server_default ''now()'' (col ''created_at'' Timestamptz),
    server_default ''now()'' (col ''updated_at'' Timestamptz)]
   []"

definition create_carriers :: ddl where
  "create_carriers = Create_table ''carriers''
   [primary_key (col ''id'' Uuid),
    not_null (unique_key (col ''carrier_code'' (Varchar 32))),
    not_null (col ''name'' (Varchar 256)),
    server_default ''[]'' (col ''service_levels'' Jsonb),
    col ''on_time_rate'' (Numeric 5 4),
    col ''cost_per_kg'' (Numeric 10 4),
    col ''max_weight_kg'' (Numeric 10 2),
    server_default ''true'' (col ''is_active'' Boolean),
    server_default ''now()'' (col ''created_at'' Timestamptz),
    server_default ''now()'' (col ''updated_at'' Timestamptz)]
   []"

definition create_warehouse_locations :: ddl where
  "create_warehouse_locations = Create_table ''warehouse_locations''
   [primary_key (col ''id'' Uuid),
    not_null (references ''warehouses'' ''id'' (col ''warehouse_id'' Uuid)),
    not_null (col ''location_code'' (Varchar 32)),
    not_null (col ''zone'' (Varchar 16)),
    col ''aisle'' (Varchar 8),
    col ''rack'' (Varchar 8),
    col ''level'' (Varchar 8),
    server_default ''storage'' (col ''location_type'' (Varchar 16)),
    col ''capacity_units'' Integer,
    server_default ''true'' (col ''is_pickable'' Boolean),
    server_default ''now()'' (col ''created_at'' Timestamptz),
    server_default ''now()'' (col ''updated_at'' Timestamptz)]
   []"

definition create_inventory_balances :: ddl where
  "create_inventory_balances = Create_table ''inventory_balances''
   [primary_key (col ''id'' Uuid),
    not_null (references ''warehouses'' ''id'' (col ''warehouse_id'' Uuid)),
    not_null (references ''skus'' ''id'' (col ''sku_id'' Uuid)),
    references ''warehouse_locations'' ''id'' (col ''location_id'' Uuid),
    not_null (server_default ''0'' (col ''on_hand'' Integer)),
    not_null (server_default ''0'' (col ''reserved'' Integer)),
    not_null (server_default ''0'' (col ''allocated'' Integer)),
    not_null (server_default ''0'' (col ''in_transit'' Integer)),
    not_null (server_default ''0'' (col ''damaged'' Integer)),
    not_null (server_default ''0'' (col ''quarantine'' Integer)),
    not_null (server_default ''1'' (col ''version'' Integer)),
    server_default ''now()'' (col ''created_at'' Timestamptz),
    server_default ''now()'' (col ''updated_at'' Timestamptz)]
   [(''uq_balance_location'', [''warehouse_id'', ''sku_id'', ''location_id''])]"

definition create_orders :: ddl where
  "create_orders = Create_table ''orders''
   [primary_key (col ''id'' Uuid),
    not_null (unique_key (col ''external_order_id'' (Varchar 128))),
    not_null (col ''customer_id'' (Varchar 64)),
    not_null (server_default ''received'' (col ''status'' (Varchar 32))),
    server_default ''5'' (col ''priority'' Integer),
    not_null (col ''ship_to_address'' Jsonb),
    col ''requested_ship_date'' Timestamptz,
    server_default ''cost_optimized'' (col ''routing_strategy'' (Varchar 32)),
    server_default ''true'' (col ''allow_partial_fulfillment'' Boolean),
    col ''correlation_id'' (Varchar 64),
    not_null (server_default ''1'' (col ''version'' Integer)),
    server_default ''now()'' (col ''created_at'' Timestamptz),
    server_default ''now()'' (col ''updated_at'' Timestamptz)]
   []"

definition create_domain_events :: ddl where
  "create_domain_events = Create_table ''domain_events''
   [primary_key (col ''id'' Uuid),
    not_null (col ''event_type'' (Varchar 128)),
    not_null (col ''aggregate_type'' (Varchar 64)),
    not_null (col ''aggregate_id'' Uuid),
    not_null (col ''sequence_number'' BigInteger),
    not_null (col ''correlation_id'' (Varchar 64)),
    col ''causation_id'' (Varchar 64),
    not_null (col ''payload'' Jsonb),
    server_default ''{}'' (col ''metadata'' Jsonb),
    not_null (col ''occurred_at'' Timestamptz),
    col ''processed_at'' Timestamptz,
    server_default ''pending'' (col ''processing_status'' (Varchar 32)),
    server_default ''0'' (col ''retry_count'' Integer),
    col ''error_message'' Text]
   []"

definition create_audit_entries :: ddl where
  "create_audit_entries = Create_table ''audit_entries''
   [primary_key (col ''id'' Uuid),
    not_null (col ''entity_type'' (Varchar 64)),
    not_null (col ''entity_id'' Uuid),
    not_null (col ''action'' (Varchar 64)),
    col ''actor_id'' (Varchar 64),
    col ''correlation_id'' (Varchar 64),
    not_null (col ''event_timestamp'' Timestamptz),
    col ''before_state'' Jsonb,
    col ''after_state'' Jsonb,
    server_default ''{}'' (col ''metadata'' Jsonb),
    server_default ''false'' (col ''is_manual_override'' Boolean),
    col ''override_reason'' Text,
    server_default ''now()'' (col ''created_at'' Timestamptz),
    server_default ''now()'' (col ''updated_at'' Timestamptz)]
   []"

definition upgrade_001 :: "ddl list" where
  "upgrade_001 =
   [create_warehouses,
    create_skus,
    create_suppliers,
    create_carriers,
    create_warehouse_locations,
    create_inventory_balances,
    Create_index ''ix_balance_warehouse_sku'' ''inventory_balances'' [''warehouse_id'', ''sku_id''],
    create_orders,
    Create_index ''ix_order_status_priority'' ''orders'' [''status'', ''priority''],
    create_domain_events,
    Create_index ''ix_domain_event_sequence'' ''domain_events'' [''sequence_number''],
    create_audit_entries]"

definition downgrade_001 :: "ddl list" where
  "downgrade_001 =
   [Drop_table ''audit_entries'',
    Drop_table ''domain_events'',
    Drop_table ''orders'',
    Drop_table ''inventory_balances'',
    Drop_table ''warehouse_locations'',
    Drop_table ''carriers'',
    Drop_table ''suppliers'',
    Drop_table ''skus'',
    Drop_table ''warehouses'']"

section \<open>002: order lines, plans, shipments, reservations, purchase orders, tasks\<close>

definition create_order_lines :: ddl where
  "create_order_lines = Create_table ''order_lines''
   [primary_key (col ''id'' Uuid),
    not_null (references ''orders'' ''id'' (col ''order_id'' Uuid)),
    not_null (references ''skus'' ''id'' (col ''sku_id'' Uuid)),
    not_null (col ''quantity_ordered'' Integer),
    server_default ''0'' (col ''quantity_allocated'' Integer),
    server_default ''0'' (col ''quantity_shipped'' Integer),
    not_null (col ''unit_price'' (Numeric 12 4)),
    server_default ''0'' (col ''backorder_quantity'' Integer),
    server_default ''now()'' (col ''created_at'' Timestamptz),
    server_default ''now()'' (col ''updated_at'' Timestamptz)]
   []"

definition create_fulfillment_plans_table :: ddl where
  "create_fulfillment_plans_table = Create_table ''fulfillment_plans''
   [primary_key (col ''id'' Uuid),
    not_null (references ''orders'' ''id'' (col ''order_id'' Uuid)),
    not_null (references ''warehouses'' ''id'' (col ''warehouse_id'' Uuid)),
    server_default ''planned'' (col ''status'' (Varchar 32)),
    col ''planned_ship_date'' Timestamptz,
    col ''estimated_cost'' (Numeric 12 4),
    col ''routing_score'' (Numeric 8 4),
    server_default ''{}'' (col ''plan_details'' Jsonb),
    server_default ''false'' (col ''is_partial'' Boolean),
    server_default ''now()'' (col ''created_at'' Timestamptz),
    server_default ''now()'' (col ''updated_at'' Timestamptz)]
   []"

definition create_shipments :: ddl where
  "create_shipments = Create_table ''shipments''
   [primary_key (col ''id'' Uuid),
    not_null (unique_key (col ''shipment_number'' (Varchar 64))),
    references ''orders'' ''id'' (col ''order_id'' Uuid),
    not_null (references ''warehouses'' ''id'' (col ''warehouse_id'' Uuid)),
    references ''carriers'' ''id'' (col ''carrier_id'' Uuid),
    not_null (server_default ''draft'' (col ''status'' (Varchar 32))),
    not_null (col ''origin_address'' Jsonb),
    not_null (col ''destination_address'' Jsonb),
    col ''total_weight_kg'' (Numeric 12 4),
    server_default ''1'' (col ''total_packages'' Integer),
    col ''scheduled_pickup'' Timestamptz,
    col ''scheduled_delivery'' Timestamptz,
    col ''actual_delivery'' Timestamptz,
    col ''tracking_number'' (Varchar 128),
    col ''consolidation_group_id'' Uuid,
    server_default ''[]'' (col ''state_history'' Jsonb),
    server_default ''1'' (col ''version'' Integer),
    server_default ''now()'' (col ''created_at'' Timestamptz),
    server_default ''now()'' (col ''updated_at'' Timestamptz)]
   []"

definition create_inventory_reservations :: ddl where
  "create_inventory_reservations = Create_table ''inventory_reservations''
   [primary_key (col ''id'' Uuid),
    not_null (col ''order_id'' Uuid),
    not_null (col ''order_line_id'' Uuid),
    not_null (references ''warehouses'' ''id'' (col ''warehouse_id'' Uuid)),
    not_null (references ''skus'' ''id'' (col ''sku_id'' Uuid)),
    not_null (col ''quantity'' Integer),
    server_default ''active'' (col ''status'' (Varchar 32)),
    not_null (col ''expires_at'' Timestamptz),
    col ''correlation_id'' (Varchar 64),
    server_default ''now()'' (col ''created_at'' Timestamptz),
    server_default ''now()'' (col ''updated_at'' Timestamptz)]
   []"

definition create_purchase_orders_table :: ddl where
  "create_purchase_orders_table = Create_table ''purchase_orders''
   [primary_key (col ''id'' Uuid),
    not_null (unique_key (col ''po_number'' (Varchar 64))),
    not_null (references ''suppliers'' ''id'' (col ''supplier_id'' Uuid)),
    not_null (references ''warehouses'' ''id'' (col ''warehouse_id'' Uuid)),
    not_null (server_default ''draft'' (col ''status'' (Varchar 32))),
    not_null (col ''order_date'' Timestamptz),
    col ''expected_delivery'' Timestamptz,
    server_default ''0'' (col ''total_amount'' (Numeric 14 4)),
    server_default ''USD'' (col ''currency'' (Varchar 3)),
    col ''replenishment_run_id'' Uuid,
    col ''notes'' (Varchar 1024),
    server_default ''1'' (col ''version'' Integer),
    server_default ''now()'' (col ''created_at'' Timestamptz),
    server_default ''now()'' (col ''updated_at'' Timestamptz)]
   []"

definition create_warehouse_tasks :: ddl where
  "create_warehouse_tasks = Create_table ''warehouse_tasks''
   [primary_key (col ''id'' Uuid),
    not_null (references ''warehouses'' ''id'' (col ''warehouse_id'' Uuid)),
    not_null (col ''task_type'' (Varchar 32)),
    not_null (server_default ''pending'' (col ''status'' (Varchar 32))),
    server_default ''5'' (col ''priority'' Integer),
    col ''assigned_to'' (Varchar 64),
    col ''source_location_id'' Uuid,
    col ''target_location_id'' Uuid,
    references ''skus'' ''id'' (col ''sku_id'' Uuid),
    col ''quantity'' Integer,
    col ''reference_type'' (Varchar 32),
    col ''reference_id'' Uuid,
    col ''started_at'' Timestamptz,
    col ''completed_at'' Timestamptz,
    server_default ''{}'' (col ''task_data'' Jsonb),
    server_default ''1'' (col ''version'' Integer),
    server_default ''now()'' (col ''created_at'' Timestamptz),
    server_default ''now()'' (col ''updated_at'' Timestamptz)]
   []"

definition create_planning_decisions :: ddl where
  "create_planning_decisions = Create_table ''planning_decisions''
   [primary_key (col ''id'' Uuid),
    not_null (col ''decision_type'' (Varchar 64)),
    not_null (col ''reference_type'' (Varchar 64)),
    not_null (col ''reference_id'' Uuid),
    not_null (col ''algorithm'' (Varchar 64)),
    server_default ''1.0'' (col ''algorithm_version'' (Varchar 32)),
    not_null (col ''input_snapshot'' Jsonb),
    not_null (col ''output_snapshot'' Jsonb),
    col ''score'' Float,
    server_default ''0'' (col ''alternatives_considered'' Integer),
    col ''correlation_id'' (Varchar 64),
    col ''execution_time_ms'' Integer,
    server_default ''now()'' (col ''created_at'' Timestamptz),
    server_default ''now()'' (col ''updated_at'' Timestamptz)]
   []"

definition upgrade_002 :: "ddl list" where
  "upgrade_002 =
   [create_order_lines,
    create_fulfillment_plans_table,
    create_shipments,
    create_inventory_reservations,
    create_purchase_orders_table,
    create_warehouse_tasks,
    create_planning_decisions]"

definition downgrade_002 :: "ddl list" where
  "downgrade_002 =
   [Drop_table ''planning_decisions'',
    Drop_table ''warehouse_tasks'',
    Drop_table ''purchase_orders'',
    Drop_table ''inventory_reservations'',
    Drop_table ''shipments'',
    Drop_table ''fulfillment_plans'',
    Drop_table ''order_lines'']"

section \<open>003: users and roles\<close>

definition create_roles :: ddl where
  "create_roles = Create_table ''roles''
   [primary_key (col ''id'' Uuid),
    server_default ''now()'' (col ''created_at'' Timestamptz),
    server_default ''now()'' (col ''updated_at'' Timestamptz),
    not_null (unique_key (col ''name'' (Varchar 64))),
    col ''description'' Text]
   []"

definition create_users :: ddl where
  "create_users = Create_table ''users''
   [primary_key (col ''id'' Uuid),
    server_default ''now()'' (col ''created_at'' Timestamptz),
    server_default ''now()'' (col ''updated_at'' Timestamptz),
    not_null (unique_key (col ''username'' (Varchar 64))),
    not_null (col ''display_name'' (Varchar 128)),
    not_null (col ''password_hash'' Text),
    not_null (server_default ''true'' (col ''is_active'' Boolean))]
   []"

definition create_user_roles :: ddl where
  "create_user_roles = Create_table ''user_roles''
   [primary_key (col ''id'' Uuid),
    server_default ''now()'' (col ''created_at'' Timestamptz),
    server_default ''now()'' (col ''updated_at'' Timestamptz),
    not_null (references ''users'' ''id'' (col ''user_id'' Uuid)),
    not_null (references ''roles'' ''id'' (col ''role_id'' Uuid)),
    not_null (col ''granted_at'' Timestamptz)]
   [(''uq_user_role'', [''user_id'', ''role_id''])]"

definition upgrade_003 :: "ddl list" where
  "upgrade_003 =
   [create_roles,
    Create_index ''ix_roles_name'' ''roles'' [''name''],
    create_users,
    Create_index ''ix_users_username'' ''users'' [''username''],
    create_user_roles,
    Create_index ''ix_user_roles_user_id'' ''user_roles'' [''user_id''],
    Create_index ''ix_user_roles_role_id'' ''user_roles'' [''role_id'']]"

definition downgrade_003 :: "ddl list" where
  "downgrade_003 =
   [Drop_index ''ix_user_roles_role_id'' ''user_roles'',
    Drop_index ''ix_user_roles_user_id'' ''user_roles'',
    Drop_table ''user_roles'',
    Drop_index ''ix_users_username'' ''users'',
    Drop_table ''users'',
    Drop_index ''ix_roles_name'' ''roles'',
    Drop_table ''roles'']"

section \<open>The revision chain\<close>

record migration =
  revision :: string
  down_revision :: "string option"
  upgrade :: "ddl list"
  downgrade :: "ddl list"

definition initial_schema :: migration where
  "initial_schema = \<lparr>revision = ''001_initial'', down_revision = None,
    upgrade = upgrade_001, downgrade = downgrade_001\<rparr>"

definition fulfillment_transport :: migration where
  "fulfillment_transport = \<lparr>revision = ''002_fulfillment_transport'', down_revision = Some ''001_initial'',
    upgrade = upgrade_002, downgrade = downgrade_002\<rparr>"

definition auth_rbac :: migration where
  "auth_rbac = \<lparr>revision = ''003_auth_rbac'', down_revision = Some ''002_fulfillment_transport'',
    upgrade = upgrade_003, downgrade = downgrade_003\<rparr>"

definition history :: "migration list" where
  "history = [initial_schema, fulfillment_transport, auth_rbac]"

text \<open>Each revision names its predecessor, and the first one none: the links give one order.\<close>

definition linear_history :: "migration list \<Rightarrow> bool" where
  "linear_history ms \<longleftrightarrow> distinct (map revision ms)
    \<and> map down_revision ms = take (length ms) (None # map (\<lambda>m. Some (revision m)) ms)"

lemma history_linear: "linear_history history"
  by code_simp

definition upgrade_to :: "nat \<Rightarrow> ddl list" where
  "upgrade_to n = concat (map upgrade (take n history))"

definition downgrade_to :: "nat \<Rightarrow> nat \<Rightarrow> ddl list" where
  "downgrade_to m n = concat (map downgrade (rev (drop m (take n history))))"

text \<open>The tables and indexes a script creates, as it writes them.\<close>

primrec created_table :: "ddl \<Rightarrow> (string \<times> table) list" where
  "created_table (Create_table n cs us) = [(n, \<lparr>tb_columns = cs, tb_uniques = us\<rparr>)]"
| "created_table (Create_index i n ks) = []"
| "created_table (Drop_index i n) = []"
| "created_table (Drop_table n) = []"

primrec created_index :: "ddl \<Rightarrow> (string \<times> string \<times> string list) list" where
  "created_index (Create_table n cs us) = []"
| "created_index (Create_index i n ks) = [(i, n, ks)]"
| "created_index (Drop_index i n) = []"
| "created_index (Drop_table n) = []"

definition created_tables :: "ddl list \<Rightarrow> (string \<times> table) list" where
  "created_tables cs = rev (concat (map created_table cs))"

definition created_indexes :: "ddl list \<Rightarrow> (string \<times> string \<times> string list) list" where
  "created_indexes cs = rev (concat (map created_index cs))"

definition created_schema :: "ddl list \<Rightarrow> schema" where
  "created_schema cs = \<lparr>sc_tables = created_tables cs, sc_indexes = created_indexes cs\<rparr>"

definition relation_names :: "string set" where
  "relation_names = set (concat (map created_name (upgrade_to (length history))))"

text \<open>Executed on a server that holds nothing else.\<close>

definition schema_at :: "nat \<Rightarrow> schema" where
  "schema_at n = created_schema (upgrade_to n)"

lemma schema_at_0: "schema_at 0 = empty_schema"
  by code_simp

lemma upgrade_steps:
  "run_ddl schema_exec upgrade_001 (schema_at 0) = Some (schema_at 1)"
  "run_ddl schema_exec upgrade_002 (schema_at 1) = Some (schema_at 2)"
  "run_ddl schema_exec upgrade_003 (schema_at 2) = Some (schema_at 3)"
  by code_simp+

lemma downgrade_steps:
  "run_ddl schema_exec downgrade_001 (schema_at 1) = Some (schema_at 0)"
  "run_ddl schema_exec downgrade_002 (schema_at 2) = Some (schema_at 1)"
  "run_ddl schema_exec downgrade_003 (schema_at 3) = Some (schema_at 2)"
  by code_simp+

lemma upto_3: "n \<le> length history \<Longrightarrow> n = 0 \<or> n = 1 \<or> n = 2 \<or> n = 3"
  by (simp add: history_def) arith

lemma upgrade_runs:
  "n \<le> length history \<Longrightarrow> run_ddl schema_exec (upgrade_to n) empty_schema = Some (schema_at n)"
  using upto_3 [of n] schema_at_0 upgrade_steps
  by (auto simp: upgrade_to_def history_def initial_schema_def fulfillment_transport_def auth_rbac_def
      run_ddl_append numeral_2_eq_2 numeral_3_eq_3)

lemma downgrade_runs:
  "m \<le> n \<Longrightarrow> n \<le> length history \<Longrightarrow> run_ddl schema_exec (downgrade_to m n) (schema_at n) = Some (schema_at m)"
  using upto_3 [of n] upto_3 [of m] downgrade_steps
  by (auto simp: downgrade_to_def history_def initial_schema_def fulfillment_transport_def auth_rbac_def
      run_ddl_append numeral_2_eq_2 numeral_3_eq_3)

lemma created_names: "set (concat (map created_name (upgrade_to n))) \<subseteq> relation_names"
  by (auto simp: relation_names_def upgrade_to_def dest: in_set_takeD)

lemma downgrade_creates_nothing: "set (concat (map created_name (downgrade_to m n))) = {}"
proof -
  have "list_all (\<lambda>c. created_name c = []) (concat (map downgrade history))" by code_simp
  then show ?thesis
    by (auto simp: downgrade_to_def list_all_iff dest: in_set_dropD in_set_takeD)
qed

text \<open>C20: For every server that keeps the contract of the four statements and on which the names the
  scripts use are free, whatever else its catalog holds, the revisions form one chain, an upgrade to
  revision \<open>n\<close> succeeds and adds exactly the tables and indexes the scripts up to \<open>n\<close> name, and a
  downgrade from there to any earlier revision \<open>m\<close> succeeds and leaves exactly what an upgrade to \<open>m\<close>
  would have: no foreign key blocks a drop, and no table or index is left behind.\<close>

theorem migrations_roundtrip:
  assumes server: "ddl_database exec catalog indexes"
    and room: "outside relation_names (catalog d) (indexes d)"
    and revs: "m \<le> n" "n \<le> length history"
  shows "linear_history history \<and>
    (\<exists>e f. run_ddl exec (upgrade_to n) d = Some e
      \<and> catalog e = catalog d ++ map_of (created_tables (upgrade_to n))
      \<and> indexes e = indexes d ++ map_of (created_indexes (upgrade_to n))
      \<and> run_ddl exec (downgrade_to m n) e = Some f
      \<and> catalog f = catalog d ++ map_of (created_tables (upgrade_to m))
      \<and> indexes f = indexes d ++ map_of (created_indexes (upgrade_to m)))"
proof -
  let ?ext = "extends_by relation_names (catalog d) (indexes d)"
  have "?ext empty_schema (catalog d) (indexes d)" by (simp add: extends_by_empty)
  from ddl_database.framed_run [OF server room this upgrade_runs [OF revs(2)] created_names]
  obtain e where e: "run_ddl exec (upgrade_to n) d = Some e" "?ext (schema_at n) (catalog e) (indexes e)" by blast
  from ddl_database.framed_run [OF server room e(2) downgrade_runs [OF revs]] downgrade_creates_nothing
  obtain f where f: "run_ddl exec (downgrade_to m n) e = Some f" "?ext (schema_at m) (catalog f) (indexes f)" by auto
  from e f show ?thesis
    by (auto simp: history_linear extends_by_def schema_at_def created_schema_def)
qed

text \<open>On a server that already holds Alembic's own version table.\<close>

definition stamped_schema :: schema where
  "stamped_schema = \<lparr>sc_tables = [(''alembic_version'',
      \<lparr>tb_columns = [primary_key (col ''version_num'' (Varchar 32))], tb_uniques = []\<rparr>)], sc_indexes = []\<rparr>"

lemma stamped_outside:
  "outside relation_names (map_of (sc_tables stamped_schema)) (map_of (sc_indexes stamped_schema))"
proof -
  have "\<not> list_ex (\<lambda>n. n = ''alembic_version'') (concat (map created_name (upgrade_to (length history))))"
    by code_simp
  then show ?thesis
    by (auto simp: outside_def stamped_schema_def relation_names_def list_ex_iff refers_to_def primary_key_def col_def)
qed

theorem migrations_roundtrip_witness:
  "\<exists>e f. run_ddl schema_exec (upgrade_to 3) stamped_schema = Some e
    \<and> map_of (sc_tables e) = map_of (sc_tables stamped_schema) ++ map_of (created_tables (upgrade_to 3))
    \<and> run_ddl schema_exec (downgrade_to 0 3) e = Some f
    \<and> map_of (sc_tables f) = map_of (sc_tables stamped_schema)"
proof -
  have none: "created_tables (upgrade_to 0) = []" by code_simp
  show ?thesis
    using migrations_roundtrip [OF lists.ddl_database_axioms stamped_outside, of 0 3]
    by (auto simp: history_def none)
qed

end
