(* ===== verification/MappedTables.thy ===== *)
theory MappedTables
  imports Migrations
begin

text \<open>
  The tables the ORM classes of \<open>models/\<close> declare, with the mixins of \<open>db/base.py\<close>: name, columns,
  unique constraints and indexes of each class.  (Their rows, as the code reads and writes them, are
  the records of the theory \<open>Models\<close>.)  A column annotated \<open>Mapped[X]\<close> is \<open>NOT NULL\<close> and one
  annotated \<open>Mapped[X | None]\<close> is not, unless \<open>nullable\<close> says otherwise; \<open>index=True\<close> names the index
  after table and column.  A Python \<open>default\<close> is filled in before a row is sent and is no part of the
  table.  The theorem compares these declarations with what the migrations create.
\<close>

section \<open>Declared classes\<close>

record mapped_class =
  mc_table :: string
  mc_columns :: "column list"
  mc_uniques :: "(string \<times> string list) list"
  mc_indexes :: "(string \<times> string list) list"

definition mapped :: "string \<Rightarrow> column list \<Rightarrow> (string \<times> string list) list \<Rightarrow> (string \<times> string list) list \<Rightarrow> mapped_class" where
  "mapped n cs us xs = \<lparr>mc_table = n, mc_columns = cs, mc_uniques = us, mc_indexes = xs\<rparr>"

definition declared_table :: "mapped_class \<Rightarrow> table" where
  "declared_table m = \<lparr>tb_columns = mc_columns m, tb_uniques = mc_uniques m\<rparr>"

definition UUIDMixin :: "column list" where
  "UUIDMixin = [primary_key (col ''id'' Uuid)]"

definition TimestampMixin :: "column list" where
  "TimestampMixin =
   [not_null (server_default ''now()'' (col ''created_at'' Timestamptz)),
    not_null (server_default ''now()'' (col ''updated_at'' Timestamptz))]"

definition VersionMixin :: "column list" where
  "VersionMixin = [not_null (col ''version'' Integer)]"

definition Sku_class :: mapped_class where
  "Sku_class = mapped ''skus''
   (UUIDMixin @ TimestampMixin @
    [not_null (unique_key (col ''sku_code'' (Varchar 64))),
     not_null (col ''description'' (Varchar 512)),
     not_null (col ''uom'' (Varchar 16)),
     col ''weight_kg'' (Numeric 12 4),
     not_null (col ''is_hazmat'' Boolean),
     not_null (col ''is_active'' Boolean),
     not_null (col ''lead_time_days'' Integer)])
   []
   [(''ix_skus_sku_code'', [''sku_code''])]"

definition InventoryBalance_class :: mapped_class where
  "InventoryBalance_class = mapped ''inventory_balances''
   (UUIDMixin @ TimestampMixin @ VersionMixin @
    [not_null (references ''warehouses'' ''id'' (col ''warehouse_id'' Uuid)),
     not_null (references ''skus'' ''id'' (col ''sku_id'' Uuid)),
     references ''warehouse_locations'' ''id'' (col ''location_id'' Uuid),
     not_null (col ''on_hand'' Integer),
     not_null (col ''reserved'' Integer),
     not_null (col ''allocated'' Integer),
     not_null (col ''in_transit'' Integer),
     not_null (col ''damaged'' Integer),
     not_null (col ''quarantine'' Integer)])
   [(''uq_balance_location'', [''warehouse_id'', ''sku_id'', ''location_id''])]
   [(''ix_balance_warehouse_sku'', [''warehouse_id'', ''sku_id''])]"

definition InventoryReservation_class :: mapped_class where
  "InventoryReservation_class = mapped ''inventory_reservations''
   (UUIDMixin @ TimestampMixin @
    [not_null (col ''order_id'' Uuid),
     not_null (col ''order_line_id'' Uuid),
     not_null (references ''warehouses'' ''id'' (col ''warehouse_id'' Uuid)),
     not_null (references ''skus'' ''id'' (col ''sku_id'' Uuid)),
     not_null (col ''quantity'' Integer),
     not_null (col ''status'' (Varchar 32)),
     not_null (col ''expires_at'' Timestamptz),
     col ''correlation_id'' (Varchar 64)])
   []
   [(''ix_reservation_order'', [''order_id''])]"

definition SafetyStockPolicy_class :: mapped_class where
  "SafetyStockPolicy_class = mapped ''safety_stock_policies''
   (UUIDMixin @ TimestampMixin @
    [not_null (references ''warehouses'' ''id'' (col ''warehouse_id'' Uuid)),
     not_null (references ''skus'' ''id'' (col ''sku_id'' Uuid)),
     not_null (col ''service_level'' (Numeric 5 4)),
     not_null (col ''safety_stock_qty'' Integer),
     not_null (col ''reorder_point'' Integer),
     col ''max_stock'' Integer,
     col ''demand_std_dev'' (Numeric 12 4),
     not_null (col ''lead_time_days'' Integer)])
   [(''uq_safety_stock'', [''warehouse_id'', ''sku_id''])]
   []"

definition InventoryForecast_class :: mapped_class where
  "InventoryForecast_class = mapped ''inventory_forecasts''
   (UUIDMixin @ TimestampMixin @
    [not_null (references ''warehouses'' ''id'' (col ''warehouse_id'' Uuid)),
     not_null (references ''skus'' ''id'' (col ''sku_id'' Uuid)),
     not_null (col ''forecast_date'' Timestamptz),
     not_null (col ''predicted_demand'' Integer),
     col ''confidence_lower'' Integer,
     col ''confidence_upper'' Integer,
     not_null (col ''model_version'' (Varchar 32)),
     col ''drift_score'' (Numeric 8 4)])
   []
   [(''ix_forecast_warehouse_sku_date'', [''warehouse_id'', ''sku_id'', ''forecast_date''])]"

definition Warehouse_class :: mapped_class where
  "Warehouse_class = mapped ''warehouses''
   (UUIDMixin @ TimestampMixin @
    [not_null (unique_key (col ''warehouse_code'' (Varchar 32))),
     not_null (col ''name'' (Varchar 256)),
     not_null (col ''address'' Jsonb),
     not_null (col ''timezone'' (Varchar 64)),
     col ''capacity_units'' Integer,
     not_null (col ''is_active'' Boolean),
     not_null (col ''fulfillment_priority'' Integer),
     not_null (col ''operating_hours'' Jsonb)])
   []
   []"

definition WarehouseLocation_class :: mapped_class where
  "WarehouseLocation_class = mapped ''warehouse_locations''
   (UUIDMixin @ TimestampMixin @
    [not_null (references ''warehouses'' ''id'' (col ''warehouse_id'' Uuid)),
     not_null (col ''location_code'' (Varchar 32)),
     not_null (col ''zone'' (Varchar 16)),
     col ''aisle'' (Varchar 8),
     col ''rack'' (Varchar 8),
     col ''level'' (Varchar 8),
     not_null (col ''location_type'' (Varchar 16)),
     col ''capacity_units'' Integer,
     not_null (col ''is_pickable'' Boolean)])
   []
   [(''ix_location_warehouse_zone'', [''warehouse_id'', ''zone''])]"

definition WarehouseTask_class :: mapped_class where
  "WarehouseTask_class = mapped ''warehouse_tasks''
   (UUIDMixin @ TimestampMixin @ VersionMixin @
    [not_null (references ''warehouses'' ''id'' (col ''warehouse_id'' Uuid)),
     not_null (col ''task_type'' (Varchar 32)),
     not_null (col ''status'' (Varchar 32)),
     not_null (col ''priority'' Integer),
     col ''assigned_to'' (Varchar 64),
     references ''warehouse_locations'' ''id'' (col ''source_location_id'' Uuid),
     references ''warehouse_locations'' ''id'' (col ''target_location_id'' Uuid),
     references ''skus'' ''id'' (col ''sku_id'' Uuid),
     col ''quantity'' Integer,
     col ''reference_type'' (Varchar 32),
     col ''reference_id'' Uuid,
     col ''started_at'' Timestamptz,
     col ''completed_at'' Timestamptz,
     not_null (col ''task_data'' Jsonb)])
   []
   [(''ix_task_warehouse_status'', [''warehouse_id'', ''status'']), (''ix_task_type_status'', [''task_type'', ''status''])]"

definition WarehouseTransfer_class :: mapped_class where
  "WarehouseTransfer_class = mapped ''warehouse_transfers''
   (UUIDMixin @ TimestampMixin @ VersionMixin @
    [not_null (unique_key (col ''transfer_number'' (Varchar 64))),
     not_null (references ''warehouses'' ''id'' (col ''source_warehouse_id'' Uuid)),
     not_null (references ''warehouses'' ''id'' (col ''destination_warehouse_id'' Uuid)),
     not_null (col ''status'' (Varchar 32)),
     not_null (references ''skus'' ''id'' (col ''sku_id'' Uuid)),
     not_null (col ''quantity'' Integer),
     not_null (col ''quantity_shipped'' Integer),
     not_null (col ''quantity_received'' Integer),
     col ''scheduled_ship_date'' Timestamptz,
     col ''correlation_id'' (Varchar 64)])
   []
   [(''ix_transfer_status'', [''status''])]"

definition Order_class :: mapped_class where
  "Order_class = mapped ''orders''
   (UUIDMixin @ TimestampMixin @ VersionMixin @
    [not_null (unique_key (col ''external_order_id'' (Varchar 128))),
     not_null (col ''customer_id'' (Varchar 64)),
     not_null (col ''status'' (Varchar 32)),
     not_null (col ''priority'' Integer),
     not_null (col ''ship_to_address'' Jsonb),
     col ''requested_ship_date'' Timestamptz,
     not_null (col ''routing_strategy'' (Varchar 32)),
     not_null (col ''allow_partial_fulfillment'' Boolean),
     col ''correlation_id'' (Varchar 64)])
   []
   [(''ix_orders_customer_id'', [''customer_id'']), (''ix_order_status_priority'', [''status'', ''priority''])]"

definition OrderLine_class :: mapped_class where
  "OrderLine_class = mapped ''order_lines''
   (UUIDMixin @ TimestampMixin @
    [not_null (references ''orders'' ''id'' (col ''order_id'' Uuid)),
     not_null (references ''skus'' ''id'' (col ''sku_id'' Uuid)),
     not_null (col ''quantity_ordered'' Integer),
     not_null (col ''quantity_allocated'' Integer),
     not_null (col ''quantity_shipped'' Integer),
     not_null (col ''unit_price'' (Numeric 12 4)),
     not_null (col ''backorder_quantity'' Integer)])
   []
   [(''ix_order_line_order'', [''order_id''])]"

definition FulfillmentPlan_class :: mapped_class where
  "FulfillmentPlan_class = mapped ''fulfillment_plans''
   (UUIDMixin @ TimestampMixin @
    [not_null (references ''orders'' ''id'' (col ''order_id'' Uuid)),
     not_null (references ''warehouses'' ''id'' (col ''warehouse_id'' Uuid)),
     not_null (col ''status'' (Varchar 32)),
     col ''planned_ship_date'' Timestamptz,
     col ''estimated_cost'' (Numeric 12 4),
     col ''routing_score'' (Numeric 8 4),
     not_null (col ''plan_details'' Jsonb),
     not_null (col ''is_partial'' Boolean)])
   []
   [(''ix_fulfillment_plan_order'', [''order_id''])]"

definition Supplier_class :: mapped_class where
  "Supplier_class = mapped ''suppliers''
   (UUIDMixin @ TimestampMixin @
    [not_null (unique_key (col ''supplier_code'' (Varchar 32))),
     not_null (col ''name'' (Varchar 256)),
     col ''contact_email'' (Varchar 256),
     not_null (col ''lead_time_days'' Integer),
     col ''on_time_delivery_rate'' (Numeric 5 4),
     col ''quality_score'' (Numeric 5 4),
     not_null (col ''payment_terms_days'' Integer),
     not_null (col ''is_preferred'' Boolean),
     not_null (col ''is_active'' Boolean),
     not_null (col ''performance_metrics'' Jsonb)])
   []
   []"

definition PurchaseOrder_class :: mapped_class where
  "PurchaseOrder_class = mapped ''purchase_orders''
   (UUIDMixin @ TimestampMixin @ VersionMixin @
    [not_null (unique_key (col ''po_number'' (Varchar 64))),
     not_null (references ''suppliers'' ''id'' (col ''supplier_id'' Uuid)),
     not_null (references ''warehouses'' ''id'' (col ''warehouse_id'' Uuid)),
     not_null (col ''status'' (Varchar 32)),
     not_null (col ''order_date'' Timestamptz),
     col ''expected_delivery'' Timestamptz,
     not_null (col ''total_amount'' (Numeric 14 4)),
     not_null (col ''currency'' (Varchar 3)),
     col ''replenishment_run_id'' Uuid,
     col ''notes'' (Varchar 1024)])
   []
   [(''ix_po_status'', [''status'']), (''ix_po_supplier'', [''supplier_id''])]"

definition PurchaseOrderLine_class :: mapped_class where
  "PurchaseOrderLine_class = mapped ''purchase_order_lines''
   (UUIDMixin @ TimestampMixin @
    [not_null (references ''purchase_orders'' ''id'' (col ''purchase_order_id'' Uuid)),
     not_null (references ''skus'' ''id'' (col ''sku_id'' Uuid)),
     not_null (col ''quantity_ordered'' Integer),
     not_null (col ''quantity_received'' Integer),
     not_null (col ''unit_cost'' (Numeric 12 4)),
     not_null (col ''line_status'' (Varchar 32))])
   []
   []"

definition Carrier_class :: mapped_class where
  "Carrier_class = mapped ''carriers''
   (UUIDMixin @ TimestampMixin @
    [not_null (unique_key (col ''carrier_code'' (Varchar 32))),
     not_null (col ''name'' (Varchar 256)),
     not_null (col ''service_levels'' Jsonb),
     col ''on_time_rate'' (Numeric 5 4),
     col ''cost_per_kg'' (Numeric 10 4),
     col ''max_weight_kg'' (Numeric 10 2),
     not_null (col ''is_active'' Boolean)])
   []
   []"

definition Shipment_class :: mapped_class where
  "Shipment_class = mapped ''shipments''
   (UUIDMixin @ TimestampMixin @ VersionMixin @
    [not_null (unique_key (col ''shipment_number'' (Varchar 64))),
     references ''orders'' ''id'' (col ''order_id'' Uuid),
     not_null (references ''warehouses'' ''id'' (col ''warehouse_id'' Uuid)),
     references ''carriers'' ''id'' (col ''carrier_id'' Uuid),
     not_null (col ''status'' (Varchar 32)),
     not_null (col ''origin_address'' Jsonb),
     not_null (col ''destination_address'' Jsonb),
     col ''total_weight_kg'' (Numeric 12 4),
     not_null (col ''total_packages'' Integer),
     col ''scheduled_pickup'' Timestamptz,
     col ''scheduled_delivery'' Timestamptz,
     col ''actual_delivery'' Timestamptz,
     col ''tracking_number'' (Varchar 128),
     col ''consolidation_group_id'' Uuid,
     not_null (col ''state_history'' Jsonb)])
   []
   [(''ix_shipment_status'', [''status'']), (''ix_shipment_carrier'', [''carrier_id''])]"

definition ShipmentStop_class :: mapped_class where
  "ShipmentStop_class = mapped ''shipment_stops''
   (UUIDMixin @ TimestampMixin @
    [not_null (references ''shipments'' ''id'' (col ''shipment_id'' Uuid)),
     not_null (col ''sequence'' Integer),
     not_null (col ''stop_type'' (Varchar 16)),
     not_null (col ''address'' Jsonb),
     col ''planned_arrival'' Timestamptz,
     col ''actual_arrival'' Timestamptz,
     not_null (col ''status'' (Varchar 32))])
   []
   []"

definition RoutePlan_class :: mapped_class where
  "RoutePlan_class = mapped ''route_plans''
   (UUIDMixin @ TimestampMixin @
    [not_null (references ''shipments'' ''id'' (col ''shipment_id'' Uuid)),
     not_null (references ''carriers'' ''id'' (col ''carrier_id'' Uuid)),
     col ''total_distance_km'' (Numeric 12 2),
     col ''total_duration_minutes'' Integer,
     col ''estimated_cost'' (Numeric 12 4),
     not_null (col ''route_geometry'' Jsonb),
     col ''optimization_run_id'' Uuid,
     not_null (col ''is_selected'' Boolean)])
   []
   []"

definition DomainEvent_class :: mapped_class where
  "DomainEvent_class = mapped ''domain_events''
   (UUIDMixin @
    [not_null (col ''event_type'' (Varchar 128)),
     not_null (col ''aggregate_type'' (Varchar 64)),
     not_null (col ''aggregate_id'' Uuid),
     not_null (col ''sequence_number'' BigInteger),
     not_null (col ''correlation_id'' (Varchar 64)),
     col ''causation_id'' (Varchar 64),
     not_null (col ''payload'' Jsonb),
     not_null (col ''metadata'' Jsonb),
     not_null (col ''occurred_at'' Timestamptz),
     col ''processed_at'' Timestamptz,
     not_null (col ''processing_status'' (Varchar 32)),
     not_null (col ''retry_count'' Integer),
     col ''error_message'' Text])
   []
   [(''ix_domain_event_type'', [''event_type'']), (''ix_domain_event_aggregate'', [''aggregate_type'', ''aggregate_id'']), (''ix_domain_event_sequence'', [''sequence_number''])]"

definition AuditEntry_class :: mapped_class where
  "AuditEntry_class = mapped ''audit_entries''
   (UUIDMixin @ TimestampMixin @
    [not_null (col ''entity_type'' (Varchar 64)),
     not_null (col ''entity_id'' Uuid),
     not_null (col ''action'' (Varchar 64)),
     col ''actor_id'' (Varchar 64),
     col ''correlation_id'' (Varchar 64),
     not_null (col ''event_timestamp'' Timestamptz),
     col ''before_state'' Jsonb,
     col ''after_state'' Jsonb,
     not_null (col ''metadata'' Jsonb),
     not_null (col ''is_manual_override'' Boolean),
     col ''override_reason'' Text])
   []
   [(''ix_audit_entity'', [''entity_type'', ''entity_id'']), (''ix_audit_correlation'', [''correlation_id'']), (''ix_audit_timestamp'', [''event_timestamp''])]"

definition PlanningDecision_class :: mapped_class where
  "PlanningDecision_class = mapped ''planning_decisions''
   (UUIDMixin @ TimestampMixin @
    [not_null (col ''decision_type'' (Varchar 64)),
     not_null (col ''reference_type'' (Varchar 64)),
     not_null (col ''reference_id'' Uuid),
     not_null (col ''algorithm'' (Varchar 64)),
     not_null (col ''algorithm_version'' (Varchar 32)),
     not_null (col ''input_snapshot'' Jsonb),
     not_null (col ''output_snapshot'' Jsonb),
     col ''score'' Float,
     not_null (col ''alternatives_considered'' Integer),
     col ''correlation_id'' (Varchar 64),
     col ''execution_time_ms'' Integer])
   []
   [(''ix_planning_decision_type'', [''decision_type''])]"

definition Role_class :: mapped_class where
  "Role_class = mapped ''roles''
   (UUIDMixin @ TimestampMixin @
    [not_null (unique_key (col ''name'' (Varchar 64))),
     col ''description'' Text])
   []
   [(''ix_roles_name'', [''name''])]"

definition User_class :: mapped_class where
  "User_class = mapped ''users''
   (UUIDMixin @ TimestampMixin @
    [not_null (unique_key (col ''username'' (Varchar 64))),
     not_null (col ''display_name'' (Varchar 128)),
     not_null (col ''password_hash'' Text),
     not_null (col ''is_active'' Boolean)])
   []
   [(''ix_users_username'', [''username''])]"

definition UserRole_class :: mapped_class where
  "UserRole_class = mapped ''user_roles''
   (UUIDMixin @ TimestampMixin @
    [not_null (references ''users'' ''id'' (col ''user_id'' Uuid)),
     not_null (references ''roles'' ''id'' (col ''role_id'' Uuid)),
     not_null (col ''granted_at'' Timestamptz)])
   [(''uq_user_role'', [''user_id'', ''role_id''])]
   [(''ix_user_roles_user_id'', [''user_id'']), (''ix_user_roles_role_id'', [''role_id''])]"

text \<open>The classes \<open>models/__init__.py\<close> exports, and the event log, which is imported beside them.\<close>

definition mapped_classes :: "mapped_class list" where
  "mapped_classes =
   [AuditEntry_class,
    PlanningDecision_class,
    FulfillmentPlan_class,
    Order_class,
    OrderLine_class,
    InventoryBalance_class,
    InventoryForecast_class,
    InventoryReservation_class,
    SafetyStockPolicy_class,
    Sku_class,
    PurchaseOrder_class,
    PurchaseOrderLine_class,
    Supplier_class,
    Carrier_class,
    RoutePlan_class,
    Shipment_class,
    ShipmentStop_class,
    Warehouse_class,
    WarehouseLocation_class,
    WarehouseTask_class,
    WarehouseTransfer_class,
    Role_class,
    User_class,
    UserRole_class,
    DomainEvent_class]"

section \<open>Rows a table accepts\<close>

text \<open>
  What an \<open>INSERT\<close> is checked against: the type of each value, \<open>NOT NULL\<close>, the foreign keys and the
  unique keys, over the rows already there.  \<open>admits\<close> says which values a type admits, \<open>stored\<close>
  which keys other tables hold; both are arbitrary.  A null is an absent value.
\<close>

definition unique_keys :: "table \<Rightarrow> string list list" where
  "unique_keys t = map (\<lambda>c. [col_name c]) (filter (\<lambda>c. col_primary c \<or> col_unique c) (tb_columns t))
    @ map snd (tb_uniques t)"

definition value_fits :: "(sql_type \<Rightarrow> 'v \<Rightarrow> bool) \<Rightarrow> (string \<Rightarrow> string \<Rightarrow> 'v \<Rightarrow> bool) \<Rightarrow> column \<Rightarrow> 'v option \<Rightarrow> bool" where
  "value_fits admits stored c x = (case x of None \<Rightarrow> col_nullable c
    | Some v \<Rightarrow> admits (col_type c) v
        \<and> (case col_reference c of None \<Rightarrow> True | Some (t, k) \<Rightarrow> stored t k v))"

definition clashes :: "string list \<Rightarrow> (string \<rightharpoonup> 'v) \<Rightarrow> (string \<rightharpoonup> 'v) \<Rightarrow> bool" where
  "clashes ks r q = list_all (\<lambda>k. r k \<noteq> None \<and> r k = q k) ks"

definition insert_accepted :: "(sql_type \<Rightarrow> 'v \<Rightarrow> bool) \<Rightarrow> (string \<Rightarrow> string \<Rightarrow> 'v \<Rightarrow> bool) \<Rightarrow> (string \<rightharpoonup> 'v) list
    \<Rightarrow> table \<Rightarrow> (string \<rightharpoonup> 'v) \<Rightarrow> bool" where
  "insert_accepted admits stored rows t r \<longleftrightarrow> dom r \<subseteq> set (column_names t)
    \<and> list_all (\<lambda>c. value_fits admits stored c (r (col_name c))) (tb_columns t)
    \<and> list_all (\<lambda>ks. list_all (\<lambda>q. \<not> clashes ks r q) rows) (unique_keys t)"

text \<open>When every row one table accepts is accepted by another, checked on the declarations.\<close>

definition column_weaker :: "column \<Rightarrow> column \<Rightarrow> bool" where
  "column_weaker c d \<longleftrightarrow> col_name c = col_name d \<and> col_type c = col_type d
    \<and> (col_nullable d \<longrightarrow> col_nullable c) \<and> (col_reference c = None \<or> col_reference c = col_reference d)"

definition table_weaker :: "table \<Rightarrow> table \<Rightarrow> bool" where
  "table_weaker t u \<longleftrightarrow> set (column_names u) \<subseteq> set (column_names t)
    \<and> list_all (\<lambda>c. list_ex (column_weaker c) (tb_columns u)) (tb_columns t)
    \<and> set (unique_keys t) \<subseteq> set (unique_keys u)"

lemma value_fits_weaker:
  "column_weaker c d \<Longrightarrow> value_fits admits stored d x \<Longrightarrow> value_fits admits stored c x"
  by (auto simp: value_fits_def column_weaker_def split: option.splits)

lemma insert_accepted_weaker:
  assumes "table_weaker t u" "insert_accepted admits stored rows u r"
  shows "insert_accepted admits stored rows t r"
proof -
  have "value_fits admits stored c (r (col_name c))" if c: "c \<in> set (tb_columns t)" for c
  proof -
    obtain d where d: "d \<in> set (tb_columns u)" "column_weaker c d"
      using assms(1) c by (auto simp: table_weaker_def list_all_iff list_ex_iff)
    then have "value_fits admits stored d (r (col_name d))"
      using assms(2) by (auto simp: insert_accepted_def list_all_iff)
    with d(2) show ?thesis by (metis value_fits_weaker column_weaker_def)
  qed
  with assms show ?thesis
    by (auto simp: insert_accepted_def table_weaker_def list_all_iff)
qed

section \<open>Declarations and migrations\<close>

definition migrated_tables :: "(string \<times> table) list" where
  "migrated_tables = created_tables (upgrade_to (length history))"

definition unmigrated_classes :: "string list" where
  "unmigrated_classes = filter (\<lambda>n. \<not> has_key migrated_tables n) (map mc_table mapped_classes)"

lemma unmigrated_list:
  "unmigrated_classes = [''inventory_forecasts'', ''safety_stock_policies'', ''purchase_order_lines'',
    ''route_plans'', ''shipment_stops'', ''warehouse_transfers'']"
  by code_simp

lemma migrated_weaker:
  "list_all (\<lambda>p. list_ex (\<lambda>m. mc_table m = fst p \<and> table_weaker (snd p) (declared_table m)) mapped_classes) migrated_tables"
  by code_simp

text \<open>Foreign keys a class declares and its migrated table does not have, and the same for indexes.\<close>

definition unenforced_references :: "(string \<times> string) list" where
  "unenforced_references = concat (map (\<lambda>m. case map_of migrated_tables (mc_table m) of None \<Rightarrow> []
    | Some t \<Rightarrow> map (\<lambda>c. (mc_table m, col_name c))
        (filter (\<lambda>c. col_reference c \<noteq> None
            \<and> \<not> list_ex (\<lambda>d. col_name d = col_name c \<and> col_reference d = col_reference c) (tb_columns t))
          (mc_columns m))) mapped_classes)"

lemma unenforced_list:
  "unenforced_references = [(''warehouse_tasks'', ''source_location_id''), (''warehouse_tasks'', ''target_location_id'')]"
  by code_simp

definition unbuilt_indexes :: "string list" where
  "unbuilt_indexes = concat (map (\<lambda>m. if has_key migrated_tables (mc_table m)
    then filter (\<lambda>i. \<not> has_key (created_indexes (upgrade_to (length history))) i) (map fst (mc_indexes m)) else [])
    mapped_classes)"

text \<open>C21: Every table the migrations create belongs to one mapped class, and whatever the column types
  admit, whatever the other tables hold and whatever rows are already there, each row that the class
  declares acceptable is accepted by the migrated table, so an \<open>INSERT\<close> of the ORM that fits the
  declarations is not refused by a migrated database.  The converse fails in two places only as far
  as foreign keys go: the two location columns of a warehouse task refer to nothing there.  And the
  tables of six classes are created by no migration at all, among them the lines of purchase orders,
  the safety stock policies and the transfers.\<close>

theorem mapped_rows_accepted:
  assumes "map_of migrated_tables n = Some t"
  shows "(\<exists>m\<in>set mapped_classes. mc_table m = n
      \<and> (\<forall>admits stored rows r. insert_accepted admits stored rows (declared_table m) r
          \<longrightarrow> insert_accepted admits stored rows t r))
    \<and> unenforced_references
        = [(''warehouse_tasks'', ''source_location_id''), (''warehouse_tasks'', ''target_location_id'')]
    \<and> unmigrated_classes = [''inventory_forecasts'', ''safety_stock_policies'', ''purchase_order_lines'',
        ''route_plans'', ''shipment_stops'', ''warehouse_transfers'']"
proof -
  have "(n, t) \<in> set migrated_tables" using assms by (rule map_of_SomeD)
  with migrated_weaker obtain m where "m \<in> set mapped_classes" "mc_table m = n" "table_weaker t (declared_table m)"
    by (fastforce simp: list_all_iff list_ex_iff)
  then show ?thesis
    using insert_accepted_weaker unenforced_list unmigrated_list by blast
qed

theorem mapped_rows_accepted_witness:
  "\<exists>t. map_of migrated_tables ''user_roles'' = Some t \<and> length (tb_columns t) = 6
    \<and> (\<exists>m\<in>set mapped_classes. mc_table m = ''user_roles'')"
proof -
  have *: "map_option (\<lambda>t. length (tb_columns t)) (map_of migrated_tables ''user_roles'') = Some 6" by code_simp
  then obtain t where t: "map_of migrated_tables ''user_roles'' = Some t" "length (tb_columns t) = 6" by auto
  from mapped_rows_accepted [OF t(1)] t show ?thesis by blast
qed

text \<open>The declared indexes no script builds, by name; the uniqueness of \<open>ix_skus_sku_code\<close> is there
  as a constraint.\<close>

lemma unbuilt_list:
  "unbuilt_indexes = [''ix_audit_entity'', ''ix_audit_correlation'', ''ix_audit_timestamp'',
    ''ix_planning_decision_type'', ''ix_fulfillment_plan_order'', ''ix_orders_customer_id'', ''ix_order_line_order'',
    ''ix_reservation_order'', ''ix_skus_sku_code'', ''ix_po_status'', ''ix_po_supplier'', ''ix_shipment_status'',
    ''ix_shipment_carrier'', ''ix_location_warehouse_zone'', ''ix_task_warehouse_status'', ''ix_task_type_status'',
    ''ix_domain_event_type'', ''ix_domain_event_aggregate'']"
  by code_simp

end
