(* ===== verification/Application.thy ===== *)
theory Application
  imports ApiStock "HOL-Library.AList"
begin

text \<open>
  How the parts are put together: \<open>main.create_app\<close> with the middleware of \<open>api/middleware.py\<close>, and
  the engine and session factory of \<open>db/session.py\<close>.  Starlette calls the middleware added last
  first, and runs the exception handlers inside all of them.  Logging is dropped.
\<close>

section \<open>Responses and middleware\<close>

record http_response =
  rs_status :: int
  rs_headers :: "(string \<times> string) list"
  rs_content :: json

definition set_header :: "string \<Rightarrow> string \<Rightarrow> http_response \<Rightarrow> http_response" where
  "set_header n v r = r\<lparr>rs_headers := AList.update n v (rs_headers r)\<rparr>"

definition header_of :: "http_response \<Rightarrow> string \<Rightarrow> string option" where
  "header_of r n = map_of (rs_headers r) n"

text \<open>\<open>CorrelationIdMiddleware\<close>: \<open>request\<close> looks a header of the request up.\<close>

definition correlation_layer :: "api_env \<Rightarrow> (string \<Rightarrow> string option) \<Rightarrow> http_response task \<Rightarrow> http_response task" where
  "correlation_layer env request call_next = (let header = correlation_id_header (ap_cfg env) in
     bind (correlation_dispatch env (request header) call_next) (\<lambda>(r, c). ret (set_header header c r)))"

text \<open>\<open>RequestTimingMiddleware\<close>: \<open>took\<close> is \<open>str(round(duration_ms, 2))\<close> of the request.\<close>

definition timing_layer :: "string \<Rightarrow> http_response task \<Rightarrow> http_response task" where
  "timing_layer took call_next = bind call_next (\<lambda>r. ret (set_header ''X-Response-Time-Ms'' took r))"

text \<open>The handler of domain errors, beside FastAPI's own handler of \<open>HTTPException\<close>; the message and
  the details in the content are left out.\<close>

definition nexusops_error_handler :: "exn \<Rightarrow> http_response" where
  "nexusops_error_handler e = \<lparr>rs_status = error_status e, rs_headers = [],
     rs_content = JObj [(''code'', case exn_code e of None \<Rightarrow> JNull | Some c \<Rightarrow> JStr c)]\<rparr>"

definition is_handled :: "exn \<Rightarrow> bool" where
  "is_handled e \<longleftrightarrow> is_NexusOpsError e \<or> (\<exists>n. e = HTTPException n)"

lemma is_handled_code [code]: "is_handled e = (is_NexusOpsError e \<or> (case e of HTTPException n \<Rightarrow> True | _ \<Rightarrow> False))"
  by (cases e) (auto simp: is_handled_def)

definition exception_layer :: "http_response task \<Rightarrow> http_response task" where
  "exception_layer call_next = try_except call_next
     (\<lambda>e. if is_handled e then ret (nexusops_error_handler e) else raise e)"

text \<open>The application for one request: \<open>endpoint\<close> runs in the unit of work of \<open>get_db_session\<close>.\<close>

definition create_app :: "api_env \<Rightarrow> string \<Rightarrow> (string \<Rightarrow> string option) \<Rightarrow> http_response task \<Rightarrow> http_response task" where
  "create_app env took request endpoint =
     correlation_layer env request (timing_layer took (exception_layer (run_request endpoint)))"

definition docs_url :: "Settings \<Rightarrow> string option" where
  "docs_url cfg = (if debug cfg then Some (api_prefix cfg @ ''/docs'') else None)"

lemma header_set [simp]: "header_of (set_header n v r) m = (if m = n then Some v else header_of r m)"
  by (simp add: header_of_def set_header_def update_conv')

lemma correlation_layer_app:
  assumes "request (correlation_id_header (ap_cfg env)) = Some c" and "c \<noteq> []"
  shows "correlation_layer env request call_next s =
    (case call_next (s\<lparr>ctx_correlation := c\<rparr>) of
       (Inr r, t) \<Rightarrow> (Inr (set_header (correlation_id_header (ap_cfg env)) c r), t) | (Inl e, t) \<Rightarrow> (Inl e, t))"
  using assms by (simp add: correlation_layer_def correlation_dispatch_def or_fresh_id_def set_correlation_id_def
      Let_def bind_def ret_def modify_def split: prod.split sum.split)

text \<open>A request whose endpoint raises: the client gets the status and the code of the error with its
  own correlation id, or the error leaves the application when no handler knows it; either way
  nothing of the session is kept.\<close>

lemma app_answers_errors:
  assumes "request (correlation_id_header (ap_cfg env)) = Some c" and "c \<noteq> []"
    and "endpoint (s\<lparr>ctx_correlation := c\<rparr>) = (Inl e, t)"
  shows "if is_handled e
    then \<exists>r. create_app env took request endpoint s = (Inr r, s\<lparr>ctx_correlation := c\<rparr>)
      \<and> rs_status r = error_status e \<and> header_of r (correlation_id_header (ap_cfg env)) = Some c
    else create_app env took request endpoint s = (Inl e, s\<lparr>ctx_correlation := c\<rparr>)"
  using assms by (auto simp: create_app_def correlation_layer_app timing_layer_def exception_layer_def
      run_request_def try_except_def bind_def ret_def raise_def nexusops_error_handler_def set_header_def
      header_of_def update_conv')

lemma app_returns_response:
  assumes "request (correlation_id_header (ap_cfg env)) = Some c" and "c \<noteq> []"
    and "endpoint (s\<lparr>ctx_correlation := c\<rparr>) = (Inr x, t)"
  shows "create_app env took request endpoint s =
    (Inr (set_header (correlation_id_header (ap_cfg env)) c (set_header ''X-Response-Time-Ms'' took x)), flush t)"
  using assms by (simp add: create_app_def correlation_layer_app timing_layer_def exception_layer_def
      run_request_def try_except_def bind_def ret_def)

text \<open>Without the header the middleware and the dependency of the routes each draw an id: the events
  and audit entries of the request carry the second, the response the first.\<close>

lemma correlation_ids_differ:
  assumes "request (correlation_id_header (ap_cfg env)) = None" and "hd_correlation h = None"
    and "inj (ae_str (ap_auth env))"
  shows "\<exists>r. correlation_layer env request (traced env h (bind (reads ctx_correlation)
        (\<lambda>c. ret \<lparr>rs_status = 200, rs_headers = [], rs_content = JStr c\<rparr>))) s = (Inr r, s\<lparr>next_uuid := Suc (Suc (next_uuid s)),
          ctx_correlation := ae_str (ap_auth env) (Suc (next_uuid s))\<rparr>)
    \<and> header_of r (correlation_id_header (ap_cfg env)) = Some (ae_str (ap_auth env) (next_uuid s))
    \<and> ae_str (ap_auth env) (next_uuid s) \<noteq> ae_str (ap_auth env) (Suc (next_uuid s))"
  using assms
  by (simp add: correlation_layer_def correlation_dispatch_def traced_def correlation_id_middleware_def or_fresh_id_def
      set_correlation_id_def Let_def bind_def ret_def modify_def reads_def fresh_uuid_app inj_eq)

section \<open>The engine and the session factory\<close>

text \<open>The arguments the code passes; the driver and the pool are SQLAlchemy's.\<close>

record engine_options =
  eo_url :: string
  eo_echo :: bool
  eo_pool_size :: nat
  eo_max_overflow :: nat
  eo_pool_pre_ping :: bool

record factory_options =
  fo_expire_on_commit :: bool
  fo_autoflush :: bool

text \<open>The two module variables of the process.\<close>

record ('e, 'f) db_globals =
  gl_engine :: "'e option"
  gl_session_factory :: "'f option"

definition get_engine :: "(engine_options \<Rightarrow> 'e) \<Rightarrow> Settings \<Rightarrow> (('e, 'f) db_globals, exn, 'e) op" where
  "get_engine create_async_engine cfg = bind (reads gl_engine) (\<lambda>g. case g of Some e \<Rightarrow> ret e
     | None \<Rightarrow> let e = create_async_engine \<lparr>eo_url = database_url cfg, eo_echo = debug cfg, eo_pool_size = 20,
           eo_max_overflow = 10, eo_pool_pre_ping = True\<rparr> in
         bind (modify (\<lambda>g. g\<lparr>gl_engine := Some e\<rparr>)) (\<lambda>_. ret e))"

definition get_session_factory ::
  "(engine_options \<Rightarrow> 'e) \<Rightarrow> ('e \<Rightarrow> factory_options \<Rightarrow> 'f) \<Rightarrow> Settings \<Rightarrow> (('e, 'f) db_globals, exn, 'f) op" where
  "get_session_factory create_async_engine async_sessionmaker cfg = bind (reads gl_session_factory) (\<lambda>g. case g of
       Some f \<Rightarrow> ret f
     | None \<Rightarrow> bind (get_engine create_async_engine cfg) (\<lambda>e.
         let f = async_sessionmaker e \<lparr>fo_expire_on_commit = False, fo_autoflush = False\<rparr> in
         bind (modify (\<lambda>g. g\<lparr>gl_session_factory := Some f\<rparr>)) (\<lambda>_. ret f)))"

text \<open>\<open>transaction_session\<close>: \<open>session.begin()\<close> commits on a normal exit and rolls back otherwise.\<close>

definition transaction_session :: "'a task \<Rightarrow> session \<Rightarrow> (exn + 'a) \<times> session" where
  "transaction_session body s = (case body s of (Inr x, t) \<Rightarrow> (Inr x, flush t) | (Inl e, t) \<Rightarrow> (Inl e, s))"

lemma transaction_session_is_request: "transaction_session = run_request"
  by (intro ext) (simp add: transaction_session_def run_request_def)

text \<open>Every call hands out the first engine and the first factory, and the factory is made on that
  engine: one pool per process.\<close>

lemma session_factory_once:
  assumes "get_session_factory ce sm cfg \<lparr>gl_engine = None, gl_session_factory = None\<rparr> = (Inr f, g)"
  shows "get_session_factory ce sm cfg' g = (Inr f, g)"
    and "\<exists>e. get_engine ce cfg' g = (Inr e, g) \<and> f = sm e \<lparr>fo_expire_on_commit = False, fo_autoflush = False\<rparr>"
  using assms
  by (auto simp: get_session_factory_def get_engine_def bind_def ret_def reads_def modify_def Let_def)

end
