(* ===== verification/Constants.thy ===== *)
theory Constants
  imports Application Validators PickPack CycleCount SupplierWork CostCapacity Forecasting
begin

text \<open>
  \<open>core/constants.py\<close>, a table of constants that no module imports: the components carry their own
  values.  The lemmas compare the two.
\<close>

section \<open>The table\<close>

definition DEFAULT_SAFETY_STOCK_SERVICE_LEVEL :: pyfloat where "DEFAULT_SAFETY_STOCK_SERVICE_LEVEL = fl (95 / 100)"

definition DEFAULT_FORECAST_HORIZON_DAYS :: int where "DEFAULT_FORECAST_HORIZON_DAYS = 90"

definition ALLOCATION_LOCK_TTL_SECONDS :: int where "ALLOCATION_LOCK_TTL_SECONDS = 300"

definition RESERVATION_TTL_MINUTES_const :: int where "RESERVATION_TTL_MINUTES_const = 30"

definition MAX_ALLOCATION_SPLIT_WAREHOUSES :: int where "MAX_ALLOCATION_SPLIT_WAREHOUSES = 5"

definition DEFAULT_ROUTING_STRATEGY :: string where "DEFAULT_ROUTING_STRATEGY = ''cost_optimized''"

definition MAX_ORDER_LINES :: int where "MAX_ORDER_LINES = 500"

definition MAX_QUANTITY_PER_LINE_const :: int where "MAX_QUANTITY_PER_LINE_const = 10000"

definition PARTIAL_FULFILLMENT_ENABLED_DEFAULT :: bool where "PARTIAL_FULFILLMENT_ENABLED_DEFAULT = True"

definition MAX_ROUTE_STOPS :: int where "MAX_ROUTE_STOPS = 25"

definition CONSOLIDATION_WINDOW_HOURS :: int where "CONSOLIDATION_WINDOW_HOURS = 4"

definition DEFAULT_SHIPPING_BASE_COST :: decimal where "DEFAULT_SHIPPING_BASE_COST = 15"

definition MAX_SHIPMENT_WEIGHT_KG :: decimal where "MAX_SHIPMENT_WEIGHT_KG = 1000"

definition DEFAULT_PICK_PRIORITY :: int where "DEFAULT_PICK_PRIORITY = 5"

definition PUTAWAY_VELOCITY_ZONES :: "(string \<times> string) list" where "PUTAWAY_VELOCITY_ZONES = [(''high'', ''A''), (''medium'', ''B''), (''low'', ''C'')]"

definition CYCLE_COUNT_VARIANCE_AUTO_ADJUST :: int where "CYCLE_COUNT_VARIANCE_AUTO_ADJUST = 5"

definition CYCLE_COUNT_VARIANCE_REVIEW :: int where "CYCLE_COUNT_VARIANCE_REVIEW = 50"

definition DEFAULT_PO_PAYMENT_TERMS_DAYS :: int where "DEFAULT_PO_PAYMENT_TERMS_DAYS = 30"

definition MIN_SUPPLIER_QUALIFICATION_SCORE :: pyfloat where "MIN_SUPPLIER_QUALIFICATION_SCORE = fl (75 / 100)"

definition PREFERRED_SUPPLIER_THRESHOLD :: pyfloat where "PREFERRED_SUPPLIER_THRESHOLD = fl (85 / 100)"

definition REPLENISHMENT_LEAD_TIME_BUFFER_DAYS :: int where "REPLENISHMENT_LEAD_TIME_BUFFER_DAYS = 3"

definition OVERFLOW_CAPACITY_THRESHOLD_PCT :: pyfloat where "OVERFLOW_CAPACITY_THRESHOLD_PCT = 90"

definition OPTIMIZATION_ALGORITHM_VERSION :: string where "OPTIMIZATION_ALGORITHM_VERSION = ''2.1''"

definition EVENT_STREAM_MAX_LENGTH :: int where "EVENT_STREAM_MAX_LENGTH = 100000"

definition MAX_EVENT_RETRY_COUNT :: int where "MAX_EVENT_RETRY_COUNT = 5"

definition EVENT_BATCH_SIZE :: int where "EVENT_BATCH_SIZE = 50"

definition CACHE_TTL_INVENTORY_SECONDS :: int where "CACHE_TTL_INVENTORY_SECONDS = 60"

definition CACHE_TTL_ROUTING_SECONDS :: int where "CACHE_TTL_ROUTING_SECONDS = 120"

definition CACHE_TTL_FORECAST_SECONDS :: int where "CACHE_TTL_FORECAST_SECONDS = 300"

definition AUDIT_RETENTION_DAYS :: int where "AUDIT_RETENTION_DAYS = 2555"

definition API_VERSION :: string where "API_VERSION = ''v2''"

definition CORRELATION_ID_HEADER :: string where "CORRELATION_ID_HEADER = ''X-Correlation-ID''"

definition WORKER_POLL_INTERVAL_MS :: int where "WORKER_POLL_INTERVAL_MS = 500"

definition BATCH_ALLOCATION_SIZE :: int where "BATCH_ALLOCATION_SIZE = 25"

definition BATCH_RECONCILIATION_PARALLEL :: int where "BATCH_RECONCILIATION_PARALLEL = 4"

definition NETWORK_HEALTH_DEGRADED_THRESHOLD :: int where "NETWORK_HEALTH_DEGRADED_THRESHOLD = 5"

definition NETWORK_HEALTH_CRITICAL_THRESHOLD :: int where "NETWORK_HEALTH_CRITICAL_THRESHOLD = 10"

definition MAX_DEPENDENCY_DEPTH :: int where "MAX_DEPENDENCY_DEPTH = 20"

definition CYCLE_DETECTION_ENABLED :: bool where "CYCLE_DETECTION_ENABLED = True"

section \<open>The table and the values in force\<close>

lemma constants_in_force:
  "RESERVATION_TTL_MINUTES_const = RESERVATION_TTL_MINUTES"
  "DEFAULT_SHIPPING_BASE_COST = BASE_SHIPPING_COST"
  "PUTAWAY_VELOCITY_ZONES = VELOCITY_ZONE_MAP"
  "CYCLE_COUNT_VARIANCE_REVIEW = VARIANCE_THRESHOLD_REVIEW"
  "MIN_SUPPLIER_QUALIFICATION_SCORE = MIN_QUALIFICATION_SCORE"
  "PREFERRED_SUPPLIER_THRESHOLD = QUALITY_THRESHOLD"
  "OVERFLOW_CAPACITY_THRESHOLD_PCT = OVERFLOW_THRESHOLD_PCT"
  "MAX_ORDER_LINES = int MAX_LINES"
  "MAX_QUANTITY_PER_LINE_const = MAX_QUANTITY_PER_LINE"
  by (simp_all add: RESERVATION_TTL_MINUTES_const_def RESERVATION_TTL_MINUTES_def DEFAULT_SHIPPING_BASE_COST_def
      BASE_SHIPPING_COST_def PUTAWAY_VELOCITY_ZONES_def VELOCITY_ZONE_MAP_def CYCLE_COUNT_VARIANCE_REVIEW_def
      VARIANCE_THRESHOLD_REVIEW_def MIN_SUPPLIER_QUALIFICATION_SCORE_def MIN_QUALIFICATION_SCORE_def
      PREFERRED_SUPPLIER_THRESHOLD_def QUALITY_THRESHOLD_def OVERFLOW_CAPACITY_THRESHOLD_PCT_def OVERFLOW_THRESHOLD_PCT_def
      MAX_ORDER_LINES_def MAX_LINES_def MAX_QUANTITY_PER_LINE_const_def MAX_QUANTITY_PER_LINE_def)

lemma constants_of_settings:
  "safety_stock_service_level default_settings = DEFAULT_SAFETY_STOCK_SERVICE_LEVEL"
  "int (forecast_horizon_days default_settings) = DEFAULT_FORECAST_HORIZON_DAYS"
  "allocation_lock_ttl_seconds default_settings = ALLOCATION_LOCK_TTL_SECONDS"
  "int (max_route_stops default_settings) = MAX_ROUTE_STOPS"
  "consolidation_window_hours default_settings = CONSOLIDATION_WINDOW_HOURS"
  "int (worker_batch_size default_settings) = EVENT_BATCH_SIZE"
  "worker_poll_interval_ms default_settings = WORKER_POLL_INTERVAL_MS"
  "cache_ttl_inventory_seconds default_settings = CACHE_TTL_INVENTORY_SECONDS"
  "cache_ttl_routing_seconds default_settings = CACHE_TTL_ROUTING_SECONDS"
  "audit_retention_days default_settings = AUDIT_RETENTION_DAYS"
  "correlation_id_header default_settings = CORRELATION_ID_HEADER"
  by (simp_all add: default_settings_def DEFAULT_SAFETY_STOCK_SERVICE_LEVEL_def DEFAULT_FORECAST_HORIZON_DAYS_def
      ALLOCATION_LOCK_TTL_SECONDS_def MAX_ROUTE_STOPS_def CONSOLIDATION_WINDOW_HOURS_def EVENT_BATCH_SIZE_def
      WORKER_POLL_INTERVAL_MS_def CACHE_TTL_INVENTORY_SECONDS_def CACHE_TTL_ROUTING_SECONDS_def
      AUDIT_RETENTION_DAYS_def CORRELATION_ID_HEADER_def)

text \<open>Where the code does something else: the network is degraded from the first discrepancy on, and the
  body of an order may have more lines than \<open>MAX_ORDER_LINES\<close>, and larger ones than
  \<open>MAX_QUANTITY_PER_LINE\<close>: \<open>OrderValidator\<close>, which checks both, is called by no endpoint.\<close>

lemma degraded_below_threshold:
  "overall_health 1 0 = ''degraded''" "1 < NETWORK_HEALTH_DEGRADED_THRESHOLD"
  by (simp_all add: overall_health_def NETWORK_HEALTH_DEGRADED_THRESHOLD_def)

lemma order_limits_unchecked:
  assumes "OrderCreate_valid b"
  shows "\<exists>d. OrderCreate_valid d \<and> MAX_ORDER_LINES < int (length (oc_lines d))
    \<and> (\<forall>l\<in>set (oc_lines d). MAX_QUANTITY_PER_LINE_const < olc_quantity l)"
proof -
  obtain l where "l \<in> set (oc_lines b)" using assms by (cases "oc_lines b") (auto simp: OrderCreate_valid_def)
  define d where "d = b\<lparr>oc_lines := replicate 501 (l\<lparr>olc_quantity := 10001\<rparr>)\<rparr>"
  have "OrderCreate_valid d"
    using assms by (simp add: d_def OrderCreate_valid_def OrderLineCreate_valid_def list_all_iff)
  moreover have "MAX_ORDER_LINES < int (length (oc_lines d))" "\<forall>l\<in>set (oc_lines d). MAX_QUANTITY_PER_LINE_const < olc_quantity l"
    by (simp_all add: d_def MAX_ORDER_LINES_def MAX_QUANTITY_PER_LINE_const_def)
  ultimately show ?thesis by blast
qed

end
