(* ===== verification/Spec2Isabelle.thy ===== *)
theory Spec2Isabelle
  imports Reconciliation RoutePlanning Receiving PickPack CycleCount InventoryServices Validators FulfillmentFlow Placement SupplierWork CostCapacity OptimizationEngine Interleaving Metrics MappedTables Constants
begin

text \<open>
  NexusOps, a supply chain execution service: warehouses and their stock, orders and their
  fulfillment, purchasing, transportation, and a REST API over a PostgreSQL database.  Paths below
  are relative to \<open>src/src/nexusops/\<close>.

  \<^bold>\<open>How the program runs.\<close>  A request (or a cycle of the worker) opens one SQLAlchemy session, calls a
  handler, which calls services, domain classes and repositories, and commits when the handler
  returns or rolls everything back when it raises.  Domain classes keep no state of their own; what
  they share is the session and the event bus.  The model follows that: an operation is a function
  from the session to an exception or a value \<^emph>\<open>and\<close> the session it leaves behind, since whoever catches
  the exception sees the mutations made before it.  \<open>run_request\<close> (Models) is \<open>get_db_session\<close>.

  \<^bold>\<open>The theories.\<close>
  \<^item> \<^theory_text>\<open>Prelude\<close>: the operations, their combinators, a program logic with one postcondition for a return
    and one for an exception, Python's sorting.  \<^theory_text>\<open>PyNumber\<close>: \<open>float\<close> and \<open>Decimal\<close> with exact rounding.
  \<^item> \<^theory_text>\<open>CoreTypes\<close> (\<open>core/types.py\<close>, \<open>core/exceptions.py\<close>, \<open>config/settings.py\<close>), \<^theory_text>\<open>Store\<close> (a table of a
    session: stored and live rows), \<^theory_text>\<open>Models\<close> (\<open>models/\<close>, the session, the transaction contract as the
    locale \<open>transactional\<close>), \<^theory_text>\<open>Repositories\<close> (\<open>repositories/\<close>).
  \<^item> Stock: \<^theory_text>\<open>Allocation\<close>, \<^theory_text>\<open>Ledger\<close>, \<^theory_text>\<open>Reservations\<close>, \<^theory_text>\<open>Reconciliation\<close>, \<^theory_text>\<open>Replenishment\<close>,
    \<^theory_text>\<open>Forecasting\<close> (\<open>domain/inventory/\<close> and \<open>domain/procurement/replenishment.py\<close>), \<^theory_text>\<open>InventoryServices\<close>
    (the services and the event handlers over them), \<^theory_text>\<open>Cache\<close> (\<open>cache/redis_cache.py\<close>).
  \<^item> Events and audit: \<^theory_text>\<open>Events\<close> (\<open>services/audit_service.py\<close>, \<open>events/\<close>).
  \<^item> Purchasing: \<^theory_text>\<open>PurchaseOrders\<close>, \<^theory_text>\<open>SupplierWork\<close> (\<open>domain/procurement/\<close>).
  \<^item> Warehouse: \<^theory_text>\<open>Transfers\<close>, \<^theory_text>\<open>Receiving\<close>, \<^theory_text>\<open>PickPack\<close>, \<^theory_text>\<open>CycleCount\<close> (\<open>domain/warehouse/\<close>).
  \<^item> Transportation: \<^theory_text>\<open>Shipments\<close>, \<^theory_text>\<open>Transport\<close>, \<^theory_text>\<open>RoutePlanning\<close> (\<open>domain/transportation/\<close>,
    \<open>domain/fulfillment/shipment_generation.py\<close>).
  \<^item> Fulfillment: \<^theory_text>\<open>Workflow\<close> (\<open>core/workflow.py\<close>), \<^theory_text>\<open>OrderRouting\<close>, \<^theory_text>\<open>Planning\<close>, \<^theory_text>\<open>FulfillmentFlow\<close>
    (\<open>domain/fulfillment/\<close>), \<^theory_text>\<open>DependencyGraph\<close> and \<^theory_text>\<open>Validators\<close> (\<open>core/\<close>).
  \<^item> Optimization: \<^theory_text>\<open>Placement\<close>, \<^theory_text>\<open>CostCapacity\<close>, \<^theory_text>\<open>OptimizationEngine\<close> (\<open>domain/optimization/\<close>).
  \<^item> The edges of the system: \<^theory_text>\<open>Workers\<close> (\<open>workers/\<close>), \<^theory_text>\<open>Auth\<close> (\<open>api/auth.py\<close>, the bootstrap of
    \<open>main.py\<close>), \<^theory_text>\<open>Schemas\<close> (\<open>schemas/api.py\<close>), \<^theory_text>\<open>Routes\<close> (\<open>api/routes.py\<close>) with
    \<^theory_text>\<open>ApiStock\<close> (sequences of its requests), \<^theory_text>\<open>StockRoundtrip\<close> (reserving and cancelling) and
    \<^theory_text>\<open>Interleaving\<close> (allocations at the same time), \<^theory_text>\<open>Application\<close> (\<open>create_app\<close>, \<open>api/middleware.py\<close>, the engine of \<open>db/session.py\<close>), \<^theory_text>\<open>Metrics\<close> (\<open>core/metrics.py\<close>) and
    \<^theory_text>\<open>Constants\<close> (\<open>core/constants.py\<close>).  \<^theory_text>\<open>Lifecycle\<close> is the contract of the status tables that several of
    them have.
  \<^item> The schema of the database: \<^theory_text>\<open>DatabaseSchema\<close> (the statements of a migration and, as the locale
    \<open>ddl_database\<close>, the server that runs them), \<^theory_text>\<open>Migrations\<close> (\<open>src/alembic/versions/\<close>), \<^theory_text>\<open>MappedTables\<close> (the
    tables that the classes of \<open>models/\<close> and the mixins of \<open>db/base.py\<close> declare).

  \<^bold>\<open>How state and operations correspond.\<close>
  \<^item> A row is a record; a cell of a table holds the value of the last flush and the live object.  The
    session factory sets \<open>autoflush=False\<close>, so a query filters and sorts what is stored, returns live
    objects, and misses rows that were added and not flushed.  \<open>BaseRepository.add\<close> flushes everything.
  \<^item> A query without an order returns the rows in table order; the theorems quantify over tables.
    The iteration order of a Python set and of \<open>SELECT DISTINCT\<close> is a parameter (\<open>so\<close>).
  \<^item> UUIDs come from a counter, which also stands for the numbers of orders, shipments and transfers
    that are made of a UUID; the clock is fixed while an operation runs.
  \<^item> JSON documents are the type \<open>json\<close>; \<open>JUuid u\<close> is \<open>str(u)\<close>.  A message text is dropped, the exception class
    and the fields the code reads are kept.
  \<^item> \<open>float\<close> and \<open>Decimal\<close> are rationals rounded after each operation (binary64, 28 digits); \<open>sum\<close> of floats
    is the compensated sum of CPython 3.12.  There are no infinities and no NaN.
  \<^item> Objects with state of their own (the bus and its handlers, a dock schedule, a counting session, a
    supplier qualification, a workflow context, the dependency graph) are paired with the session.

  \<^bold>\<open>What is a parameter.\<close>  Redis commands, the networkx graph (through the locale \<open>networkx_graph\<close>, which
  the adjacency list of \<^theory_text>\<open>DependencyGraph\<close> satisfies), numpy, \<open>math.sqrt\<close>, distances and tours, \<open>repr\<close> of a
  float, parsing of UUIDs and numbers from text, PyJWT, the password hash, FastAPI's bearer scheme and
  response serialization, PostgreSQL's \<open>ILIKE\<close> and collation, the elapsed time, signals.  The server's
  \<open>CREATE\<close> and \<open>DROP\<close> are the locale \<open>ddl_database\<close>, which the association lists of \<^theory_text>\<open>DatabaseSchema\<close> satisfy.

  \<^bold>\<open>What the lemmas show.\<close>
  \<^item> Stock: over any sequence of reservation requests reservations and balances agree and nothing is
    promised twice (\<^theory_text>\<open>Ledger\<close>, \<^theory_text>\<open>Reconciliation\<close>, over the API in \<^theory_text>\<open>ApiStock\<close>); the reconciler reports exactly the disagreements and
    repairs them; allocation accounts for every unit; expiry, cancelling and synchronisation do what
    they claim on every branch.  Reserving an order and cancelling it gives every unit back
    (\<^theory_text>\<open>StockRoundtrip\<close>), and allocations of different SKUs may interleave (\<^theory_text>\<open>Interleaving\<close>, which
    also shows two for one SKU that oversell it).  \<^theory_text>\<open>Placement\<close> moves as much as can be moved and starves nobody.
  \<^item> Status machines: purchase orders and shipments only follow their tables (\<^theory_text>\<open>Lifecycle\<close> proves once
    what a table gives, \<open>transactional\<close> lifts it to sequences of requests).
  \<^item> Events: the stored log has no gaps, the validator accepts exactly such logs, replay counts every
    event, and a batch settles every pending event.
  \<^item> Workflows: a workflow is atomic up to its compensations.  Planning books exactly what allocation
    gave, and loses track of it when a line fails.
  \<^item> The API: a guarded handler runs only for a user with a role; the worker ends when it is told to.
  \<^item> The schema: upgrading and downgrading between any two revisions is an inverse pair on any server
    with room for the tables, and a migrated table accepts every row its class declares acceptable.
  \<^item> Where the code does not do what it means to, the theorem says what it does (transfers and bins,
    damaged units, replanning, repeated picks, purchase orders over the API, declared tables that no
    migration creates).

  \<^bold>\<open>Termination.\<close>  Loops over rows are folds.  The only loop that may run forever is the worker's, a
  partial function whose result is \<open>None\<close> when it does; no fuel is used anywhere else than in
  \<open>remove_all\<close> (\<^theory_text>\<open>Routes\<close>), whose bound is the length of the text it consumes.

  \<^bold>\<open>Not modelled.\<close>  In the operations on rows: foreign keys, unique constraints, column overflow and
  rounding at a flush (\<^theory_text>\<open>MappedTables\<close> says which of them the two schemas declare), and interleaved
  transactions: apart from \<^theory_text>\<open>Interleaving\<close>, requests run one after the other.  \<open>core/logging.py\<close> configures structlog and
  \<open>alembic/env.py\<close> connects Alembic to the database; the Redis client is opened by its library.  The
  constructors that only store their session and create the objects they use have no definition of
  their own.  The frontend, scripts and tests are not part of the library.
\<close>

end
